(* ===== verification/Prelude.thy ===== *)
theory Prelude
  imports Main "HOL-Library.Sublist" "HOL-Library.AList"
begin

text \<open>
  Shared vocabulary of the development: Python texts and the string methods the code
  uses, JSON values, Python exceptions as values, the result type of a fallible call,
  and the generic lemmas on lists that the component theories share.

  A Python \<open>str\<close> is modelled by its UTF-8 bytes (\<open>string\<close>); substring search on UTF-8
  agrees with search on code points.  \<open>lower\<close> and the digit and space classes are the ASCII
  part of Python's; every pattern the code searches for after \<open>lower()\<close> is ASCII.
\<close>

section \<open>Names of the model's basic types\<close>

type_synonym str = string
type_synonym uuid = str        \<comment> \<open>the canonical str of a UUID\<close>
type_synonym timestamp = int      \<comment> \<open>seconds since the epoch\<close>

section \<open>JSON values\<close>

datatype json =
    JNull
  | JBool bool
  | JInt int
  | JStr str
  | JList "json list"
  | JObj "(str \<times> json) list"

text \<open>\<open>d.get(k)\<close> on a dict, and the text of a field that is a JSON string.\<close>

definition dict_get :: "(str \<times> 'v) list \<Rightarrow> str \<Rightarrow> 'v option" where
  "dict_get d k = map_of d k"

fun json_text :: "json option \<Rightarrow> str option" where
  "json_text (Some (JStr s)) = Some s"
| "json_text _ = None"

text \<open>
  A dict comprehension: a repeated key keeps its first position and takes the last value.
\<close>

definition dict_of :: "('k \<times> 'v) list \<Rightarrow> ('k \<times> 'v) list" where
  "dict_of kvs = foldl (\<lambda>d (k, v). AList.update k v d) [] kvs"

lemma dict_of_keys: "distinct (map fst (dict_of kvs)) \<and> fst ` set (dict_of kvs) = fst ` set kvs"
proof (induction kvs rule: rev_induct)
  case (snoc kv kvs)
  then show ?case
    by (cases kv) (simp add: dict_of_def distinct_update dom_update)
qed (simp add: dict_of_def)

lemmas dict_of_distinct = dict_of_keys [THEN conjunct1]
lemmas dict_of_domain = dict_of_keys [THEN conjunct2]

lemma dict_of_lookup: "map_of (dict_of kvs) k = map_of (rev kvs) k"
proof (induction kvs rule: rev_induct)
  case (snoc kv kvs)
  then show ?case
    by (cases kv) (simp add: dict_of_def update_conv)
qed (simp add: dict_of_def)

section \<open>String methods\<close>

definition is_space :: "char \<Rightarrow> bool" where
  "is_space c = (let n = (of_char c :: nat) in n = 32 \<or> (9 \<le> n \<and> n \<le> 13) \<or> (28 \<le> n \<and> n \<le> 31))"

definition is_digit :: "char \<Rightarrow> bool" where
  "is_digit c = (let n = (of_char c :: nat) in 48 \<le> n \<and> n \<le> 57)"

definition digit_val :: "char \<Rightarrow> int" where
  "digit_val c = int (of_char c) - 48"

definition lower_char :: "char \<Rightarrow> char" where
  "lower_char c = (let n = (of_char c :: nat) in if 65 \<le> n \<and> n \<le> 90 then char_of (n + 32) else c)"

definition lower :: "str \<Rightarrow> str" where
  "lower s = map lower_char s"

definition strip :: "str \<Rightarrow> str" where
  "strip s = rev (dropWhile is_space (rev (dropWhile is_space s)))"

text \<open>\<open>sub in s\<close> of Python.\<close>

fun contains :: "str \<Rightarrow> str \<Rightarrow> bool" where
  "contains sub [] = (sub = [])"
| "contains sub (c # cs) = (take (length sub) (c # cs) = sub \<or> contains sub cs)"

text \<open>\<open>str.isdigit()\<close>: false on the empty string.\<close>

definition isdigit :: "str \<Rightarrow> bool" where
  "isdigit s = (s \<noteq> [] \<and> list_all is_digit s)"

text \<open>Truth value of an optional string: \<open>None\<close> and \<open>""\<close> are false.\<close>

definition truthy :: "str option \<Rightarrow> bool" where
  "truthy x = (case x of None \<Rightarrow> False | Some s \<Rightarrow> s \<noteq> [])"

text \<open>\<open>x or d\<close> on optional strings.\<close>

definition or_text :: "str option \<Rightarrow> str \<Rightarrow> str" where
  "or_text x d = (case x of None \<Rightarrow> d | Some s \<Rightarrow> if s = [] then d else s)"

lemma contains_iff_sublist: "contains sub s \<longleftrightarrow> sublist sub s"
proof (induction s)
  case (Cons c cs)
  have "take (length sub) (c # cs) = sub \<longleftrightarrow> prefix sub (c # cs)"
    by (metis append_eq_conv_conj prefix_def append_take_drop_id)
  with Cons show ?case by (simp add: sublist_Cons_right)
qed simp

lemma truthy_simps [simp]:
  "\<not> truthy None" "truthy (Some s) \<longleftrightarrow> s \<noteq> []"
  by (simp_all add: truthy_def)

lemma or_text_simps [simp]:
  "or_text None d = d" "or_text (Some s) d = (if s = [] then d else s)"
  by (simp_all add: or_text_def)

section \<open>Decimal str of an integer\<close>

fun show_nat :: "nat \<Rightarrow> str" where
  "show_nat n = (if n < 10 then [char_of (48 + n)] else show_nat (n div 10) @ [char_of (48 + n mod 10)])"

declare show_nat.simps [simp del]

definition show_int :: "int \<Rightarrow> str" where
  "show_int i = (if i < 0 then CHR ''-'' # show_nat (nat (- i)) else show_nat (nat i))"

text \<open>The value of a run of digits, most significant first.\<close>

definition digits_val :: "str \<Rightarrow> int" where
  "digits_val ds = foldl (\<lambda>a c. 10 * a + digit_val c) 0 ds"

lemma digits_val_snoc [simp]: "digits_val (ds @ [c]) = 10 * digits_val ds + digit_val c"
  by (simp add: digits_val_def)

lemma digit_char [simp]:
  assumes "n < 10"
  shows "is_digit (char_of (48 + n))" "digit_val (char_of (48 + n)) = int n"
    "\<not> is_space (char_of (48 + n))"
  using assms by (simp_all add: is_digit_def digit_val_def is_space_def Let_def)

lemma show_nat_ne [simp]: "show_nat n \<noteq> []"
  by (subst show_nat.simps) simp

lemma show_nat_digits: "list_all is_digit (show_nat n)"
proof (induction n rule: show_nat.induct)
  case (1 n)
  then show ?case
    by (cases "n < 10") (simp_all add: show_nat.simps [of n])
qed

lemma digits_val_show_nat [simp]: "digits_val (show_nat n) = int n"
proof (induction n rule: show_nat.induct)
  case (1 n)
  show ?case
  proof (cases "n < 10")
    case True
    then show ?thesis by (simp add: show_nat.simps [of n] digits_val_def)
  next
    case False
    have "digits_val (show_nat n) = 10 * int (n div 10) + int (n mod 10)"
      using False 1 by (simp add: show_nat.simps [of n])
    then show ?thesis by presburger
  qed
qed

lemma digit_not_space: "is_digit c \<Longrightarrow> \<not> is_space c"
  by (auto simp: is_digit_def is_space_def Let_def)

lemma strip_no_space: "list_all (\<lambda>c. \<not> is_space c) s \<Longrightarrow> strip s = s"
  unfolding strip_def
  by (metis (no_types, lifting) dropWhile_eq_self_iff list.pred_set
      hd_in_set rev_rev_ident rev_is_Nil_conv set_rev)

section \<open>Exceptions and results\<close>

text \<open>
  \<^verbatim>\<open>app/core/exceptions.py\<close>: the fields of \<open>KISError\<close>; \<open>KISOrderError\<close>, \<open>KISAuthError\<close> and
  \<open>KISAccountError\<close> are its subclasses.  Other exceptions carry the str of \<open>str(e)\<close>; the Korean wording
  of the messages is replaced by an ASCII one (no message the code writes itself contains one
  of the substrings the retry rules look for).  \<open>LibError\<close> is an exception of a library:
  its class and its text.
\<close>

record kis_error =
  e_message :: str
  e_status_code :: "int option"
  e_error_code :: "str option"
  e_rt_cd :: "str option"
  e_msg_cd :: "str option"
  e_msg1 :: "str option"
  e_payload :: "json option"

datatype exn =
    KISOrderError kis_error
  | KISAuthError kis_error
  | KISAccountError kis_error
  | ValueError str
  | TypeError str
  | AttributeError str
  | LockAcquisitionError str
  | LibError str str

type_synonym 'a result = "exn + 'a"

fun exn_str :: "exn \<Rightarrow> str" where
  "exn_str (KISOrderError e) = e_message e"
| "exn_str (KISAuthError e) = e_message e"
| "exn_str (KISAccountError e) = e_message e"
| "exn_str (ValueError t) = t"
| "exn_str (TypeError t) = t"
| "exn_str (AttributeError t) = t"
| "exn_str (LockAcquisitionError t) = t"
| "exn_str (LibError c t) = t"

text \<open>
  Construction \<open>KISOrderError(message=..., ...)\<close>: \<open>message\<close> is a required parameter of
  \<open>KISError.__init__\<close>, so a call that does not pass it raises \<open>TypeError\<close> instead.
\<close>

definition new_KISOrderError ::
  "str option \<Rightarrow> int option \<Rightarrow> str option \<Rightarrow> str option \<Rightarrow> str option \<Rightarrow> str option \<Rightarrow> json option \<Rightarrow> exn"
where
  "new_KISOrderError message status_code error_code rt_cd msg_cd msg1 payload =
     (case message of
        None \<Rightarrow> TypeError ''KISError.__init__() missing 1 required positional argument: message''
      | Some m \<Rightarrow> KISOrderError
          \<lparr>e_message = m, e_status_code = status_code, e_error_code = error_code,
           e_rt_cd = rt_cd, e_msg_cd = msg_cd, e_msg1 = msg1, e_payload = payload\<rparr>)"

text \<open>Sequencing of fallible calls: the first exception ends the sequence.\<close>

definition bind_result :: "'a result \<Rightarrow> ('a \<Rightarrow> 'b result) \<Rightarrow> 'b result" where
  "bind_result r f = (case r of Inl e \<Rightarrow> Inl e | Inr x \<Rightarrow> f x)"

lemma bind_result_simps [simp]:
  "bind_result (Inl e) f = Inl e" "bind_result (Inr x) f = f x"
  by (simp_all add: bind_result_def)

lemma bind_result_Inr_iff:
  "bind_result r f = Inr y \<longleftrightarrow> (\<exists>x. r = Inr x \<and> f x = Inr y)"
  by (cases r) auto

fun is_ok :: "'a result \<Rightarrow> bool" where
  "is_ok (Inr _) = True"
| "is_ok (Inl _) = False"

text \<open>
  \<open>d.get(key)\<close> on a JSON value: only an object has \<open>get\<close>, any other value raises
  \<open>AttributeError\<close>.
\<close>

fun json_get :: "json \<Rightarrow> str \<Rightarrow> json option result" where
  "json_get (JObj d) key = Inr (dict_get d key)"
| "json_get _ key = Inl (AttributeError ''object has no attribute get'')"

text \<open>Collections of rewrite rules shared by the component theories.\<close>

named_theorems row_simps "what an UPDATE does to the rows and fields of a table"
named_theorems step_simps "one step of a worker"

section \<open>Lists\<close>

lemma sum_list_nonneg_int: "(\<And>x. x \<in> set xs \<Longrightarrow> 0 \<le> f x) \<Longrightarrow> 0 \<le> (\<Sum>x\<leftarrow>xs. (f x :: int))"
  by (induction xs) auto

lemma map_of_eq_find: "map_of (map (\<lambda>x. (f x, x)) xs) k = List.find (\<lambda>x. f x = k) xs"
  by (induction xs) auto

lemma find_append_Some: "List.find P xs = Some x \<Longrightarrow> List.find P (xs @ ys) = Some x"
  by (induction xs) auto

lemma find_append_None: "List.find P xs = None \<Longrightarrow> List.find P (xs @ ys) = List.find P ys"
  by (induction xs) (auto split: if_splits)

end
