(* ===== verification/Order_State.thy ===== *)
theory Order_State
  imports Prelude
begin

text \<open>
  The enumerations of \<^verbatim>\<open>app/core/enums.py\<close>, the tracking constants of
  \<^verbatim>\<open>app/core/constants.py\<close> and the order state machine of \<^verbatim>\<open>app/domain/order_state.py\<close>.
  An order's \<open>status\<close> column only ever holds a value of \<open>ORDER_STATUS\<close>, so it is modelled by
  the enumeration; \<open>status_value\<close> is its stored text.  \<open>order_pos\<close>, \<open>order_kind\<close> and
  \<open>order_type\<close> stay texts, because the workers have branches for unknown values.
\<close>

section \<open>Enumerations\<close>

datatype order_status =
    PENDING | PROCESSING | REQUESTED | FAILED | ACCEPTED | PARTIAL_FILLED | FILLED | CANCELED | TIMEOUT

fun status_value :: "order_status \<Rightarrow> str" where
  "status_value PENDING = ''PENDING''"
| "status_value PROCESSING = ''PROCESSING''"
| "status_value REQUESTED = ''REQUESTED''"
| "status_value FAILED = ''FAILED''"
| "status_value ACCEPTED = ''ACCEPTED''"
| "status_value PARTIAL_FILLED = ''PARTIAL_FILLED''"
| "status_value FILLED = ''FILLED''"
| "status_value CANCELED = ''CANCELED''"
| "status_value TIMEOUT = ''TIME_OUT''"

definition all_statuses :: "order_status list" where
  "all_statuses = [PENDING, PROCESSING, REQUESTED, FAILED, ACCEPTED, PARTIAL_FILLED, FILLED, CANCELED, TIMEOUT]"

text \<open>The constructor call \<open>ORDER_STATUS(value)\<close>.\<close>

definition ORDER_STATUS :: "str \<Rightarrow> order_status result" where
  "ORDER_STATUS v =
     (case List.find (\<lambda>s. status_value s = v) all_statuses of
        Some s \<Rightarrow> Inr s
      | None \<Rightarrow> Inl (ValueError (v @ '' is not a valid ORDER_STATUS'')))"

datatype rebalance_status = RB_RUNNING | RB_COMPLETED | RB_FAILED

definition ACTION_BUY :: str where "ACTION_BUY = ''buy''"
definition ACTION_SELL :: str where "ACTION_SELL = ''sell''"
definition KIND_NEW :: str where "KIND_NEW = ''new''"
definition KIND_MODIFY :: str where "KIND_MODIFY = ''modify''"
definition KIND_CANCEL :: str where "KIND_CANCEL = ''cancel''"

datatype order_type = MARKET | LIMIT | CONDITIONAL

fun order_type_value :: "order_type \<Rightarrow> str" where
  "order_type_value MARKET = ''market''"
| "order_type_value LIMIT = ''limit''"
| "order_type_value CONDITIONAL = ''conditional''"

definition ORDER_TYPE :: "str \<Rightarrow> order_type result" where
  "ORDER_TYPE v =
     (case List.find (\<lambda>t. order_type_value t = v) [MARKET, LIMIT, CONDITIONAL] of
        Some t \<Rightarrow> Inr t
      | None \<Rightarrow> Inl (ValueError (v @ '' is not a valid ORDER_TYPE'')))"

lemmas kind_defs = KIND_NEW_def KIND_MODIFY_def KIND_CANCEL_def ACTION_BUY_def ACTION_SELL_def

section \<open>Tracking constants\<close>

definition RETRACKING_INTERVAL_SECONDS :: int where "RETRACKING_INTERVAL_SECONDS = 1"
definition ORDER_TRACKING_FAST_WINDOW_SECONDS :: int where "ORDER_TRACKING_FAST_WINDOW_SECONDS = 90"
definition ORDER_TRACKING_MAX_WINDOW_SECONDS :: int where "ORDER_TRACKING_MAX_WINDOW_SECONDS = 1800"
definition ORDER_TRACKING_SLOW_INTERVAL_SECONDS :: int where "ORDER_TRACKING_SLOW_INTERVAL_SECONDS = 60"
definition HTTP_RETRY_COUNT :: nat where "HTTP_RETRY_COUNT = 3"
definition FILL_TIMEOUT_SECONDS :: int where "FILL_TIMEOUT_SECONDS = 180"
definition FILL_POLL_FAST_WINDOW :: int where "FILL_POLL_FAST_WINDOW = 90"
definition FILL_POLL_FAST_INTERVAL :: int where "FILL_POLL_FAST_INTERVAL = 3"
definition FILL_POLL_SLOW_INTERVAL :: int where "FILL_POLL_SLOW_INTERVAL = 15"

lemmas tracking_constants =
  RETRACKING_INTERVAL_SECONDS_def ORDER_TRACKING_FAST_WINDOW_SECONDS_def
  ORDER_TRACKING_MAX_WINDOW_SECONDS_def ORDER_TRACKING_SLOW_INTERVAL_SECONDS_def

lemmas fill_constants =
  FILL_TIMEOUT_SECONDS_def FILL_POLL_FAST_WINDOW_def FILL_POLL_FAST_INTERVAL_def
  FILL_POLL_SLOW_INTERVAL_def

section \<open>The state machine\<close>

fun ALLOWED_TRANSITIONS :: "order_status \<Rightarrow> order_status list option" where
  "ALLOWED_TRANSITIONS PENDING = Some [PROCESSING, FAILED]"
| "ALLOWED_TRANSITIONS PROCESSING = Some [REQUESTED, ACCEPTED, FAILED, PENDING]"
| "ALLOWED_TRANSITIONS REQUESTED =
     Some [REQUESTED, ACCEPTED, PARTIAL_FILLED, FILLED, CANCELED, FAILED, TIMEOUT]"
| "ALLOWED_TRANSITIONS ACCEPTED =
     Some [ACCEPTED, PARTIAL_FILLED, FILLED, CANCELED, FAILED, TIMEOUT]"
| "ALLOWED_TRANSITIONS PARTIAL_FILLED =
     Some [PARTIAL_FILLED, FILLED, CANCELED, FAILED, TIMEOUT]"
| "ALLOWED_TRANSITIONS _ = None"

definition TERMINAL_STATES :: "order_status list" where
  "TERMINAL_STATES = [FILLED, CANCELED, FAILED, TIMEOUT]"

definition can_transition :: "order_status \<Rightarrow> order_status \<Rightarrow> bool" where
  "can_transition current_status next_status =
     (if current_status \<in> set TERMINAL_STATES then False
      else if current_status = next_status then True
      else let allowed_next_statuses =
                 (case ALLOWED_TRANSITIONS current_status of None \<Rightarrow> [] | Some l \<Rightarrow> l)
           in next_status \<in> set allowed_next_statuses)"

abbreviation terminal :: "order_status \<Rightarrow> bool" where
  "terminal s \<equiv> s \<in> set TERMINAL_STATES"

text \<open>The statuses of an order the broker has: what worker 2 tracks.\<close>

definition TRACKING_TARGET_STATUSES :: "order_status list" where
  "TRACKING_TARGET_STATUSES = [REQUESTED, ACCEPTED, PARTIAL_FILLED]"

section \<open>Lifecycle order\<close>

text \<open>
  The position of a status in the lifecycle of an order: the order in which the state machine
  of the README draws them.
\<close>

fun stage :: "order_status \<Rightarrow> nat" where
  "stage PENDING = 0"
| "stage PROCESSING = 1"
| "stage REQUESTED = 2"
| "stage ACCEPTED = 3"
| "stage PARTIAL_FILLED = 4"
| "stage FILLED = 5"
| "stage CANCELED = 6"
| "stage FAILED = 7"
| "stage TIMEOUT = 8"

lemma stage_inject [simp]: "stage s = stage t \<longleftrightarrow> s = t"
  by (cases s; cases t) simp_all

instantiation order_status :: linorder
begin

definition less_eq_order_status :: "order_status \<Rightarrow> order_status \<Rightarrow> bool" where
  "less_eq_order_status s t = (stage s \<le> stage t)"

definition less_order_status :: "order_status \<Rightarrow> order_status \<Rightarrow> bool" where
  "less_order_status s t = (stage s < stage t)"

instance
  by standard (auto simp: less_eq_order_status_def less_order_status_def)

end

lemma all_statuses_complete [simp]: "s \<in> set all_statuses"
  by (cases s) (simp_all add: all_statuses_def)

lemma terminal_iff: "terminal s \<longleftrightarrow> FILLED \<le> s"
  by (cases s) (simp_all add: TERMINAL_STATES_def less_eq_order_status_def)

lemma tracked_iff: "s \<in> set TRACKING_TARGET_STATUSES \<longleftrightarrow> REQUESTED \<le> s \<and> \<not> terminal s"
  by (cases s) (simp_all add: TRACKING_TARGET_STATUSES_def TERMINAL_STATES_def less_eq_order_status_def)

lemma can_transition_terminal: "terminal s \<Longrightarrow> \<not> can_transition s t"
  by (simp add: can_transition_def)

lemma can_transition_refl: "can_transition s s \<longleftrightarrow> \<not> terminal s"
  by (simp add: can_transition_def)

text \<open>
  A transition moves forward in the lifecycle, except that a rate-limited order goes back
  from \<open>PROCESSING\<close> to \<open>PENDING\<close>.
\<close>

lemma can_transition_forward:
  "can_transition s t \<Longrightarrow> s \<le> t \<or> s = PROCESSING \<and> t = PENDING"
  by (cases s; cases t)
    (simp_all add: can_transition_def TERMINAL_STATES_def less_eq_order_status_def)

lemma can_transition_tracked:
  "REQUESTED \<le> s \<Longrightarrow> can_transition s t \<longleftrightarrow> \<not> terminal s \<and> s \<le> t"
  by (cases s; cases t)
    (simp_all add: can_transition_def TERMINAL_STATES_def less_eq_order_status_def)

lemma can_transition_from_PENDING:
  "can_transition PENDING t \<longleftrightarrow> t \<in> {PENDING, PROCESSING, FAILED}"
  by (cases t) (simp_all add: can_transition_def TERMINAL_STATES_def)

lemma can_transition_from_PROCESSING:
  "can_transition PROCESSING t \<longleftrightarrow> t \<in> {PROCESSING, PENDING, REQUESTED, ACCEPTED, FAILED}"
  by (cases t) (simp_all add: can_transition_def TERMINAL_STATES_def)

section \<open>Histories of an order\<close>

text \<open>A history: the statuses an order takes, each from the one before by an allowed transition.\<close>

inductive history :: "order_status \<Rightarrow> order_status \<Rightarrow> order_status list \<Rightarrow> bool" where
  start: "history s s [s]"
| move: "history s t h \<Longrightarrow> can_transition t u \<Longrightarrow> history s u (h @ [u])"

inductive_cases history_endE: "history s t h"

code_pred history .

lemma history_last: "history s t h \<Longrightarrow> h \<noteq> [] \<and> hd h = s \<and> last h = t"
  by (induction rule: history.induct) auto

text \<open>Once the broker has the order, its history is ascending.\<close>

lemma history_tracked_ge: "history s t h \<Longrightarrow> REQUESTED \<le> s \<Longrightarrow> REQUESTED \<le> t"
  by (induction rule: history.induct)
    (auto simp: can_transition_tracked intro: order_trans)

lemma history_tracked_sorted:
  "history s t h \<Longrightarrow> REQUESTED \<le> s \<Longrightarrow> sorted h \<and> (\<forall>x \<in> set h. x \<le> t)"
proof (induction rule: history.induct)
  case (move s t h u)
  then have "t \<le> u"
    using can_transition_tracked history_tracked_ge by blast
  with move show ?case
    by (auto simp: sorted_append intro: order_trans)
qed simp

text \<open>A terminal status ends the history: it occurs nowhere before the last element.\<close>

lemma history_butlast_live: "history s t h \<Longrightarrow> x \<in> set (butlast h) \<Longrightarrow> \<not> terminal x"
proof (induction rule: history.induct)
  case (move s t h u)
  have "h = butlast h @ [t]"
    using history_last [OF move.hyps(1)] by (metis append_butlast_last_id)
  moreover have "\<not> terminal t"
    using move.hyps(2) can_transition_terminal by blast
  ultimately show ?case
    using move.IH move.prems by (metis Un_iff butlast_snoc empty_iff empty_set set_append set_ConsD)
qed simp

text \<open>An order that was accepted, filled, cancelled by the broker or timed out was \<open>PROCESSING\<close> before.\<close>

lemma history_processing:
  "history PENDING t h \<Longrightarrow> REQUESTED \<le> t \<Longrightarrow> t \<noteq> FAILED \<Longrightarrow> PROCESSING \<in> set h"
proof -
  have "history s t h \<Longrightarrow> s = PENDING \<Longrightarrow>
      (t \<notin> {PENDING, FAILED} \<longrightarrow> PROCESSING \<in> set h)" for s
  proof (induction rule: history.induct)
    case (move s t h u)
    show ?case
    proof (cases "t = PENDING")
      case True
      with move.hyps(2) show ?thesis by (auto simp: can_transition_from_PENDING)
    next
      case False
      then have "t \<noteq> FAILED"
        using move.hyps(2) can_transition_terminal by (auto simp: TERMINAL_STATES_def)
      with False move show ?thesis by auto
    qed
  qed simp
  then show "history PENDING t h \<Longrightarrow> REQUESTED \<le> t \<Longrightarrow> t \<noteq> FAILED \<Longrightarrow> PROCESSING \<in> set h"
    by (auto simp: less_eq_order_status_def)
qed

section \<open>Properties\<close>

text \<open>
  C16. The order state machine is sound: in any history of an order built from transitions
  \<open>can_transition\<close> allows, a terminal status (\<open>FILLED\<close>, \<open>CANCELED\<close>, \<open>FAILED\<close>,
  \<open>TIMEOUT\<close>) is never left; once the broker has the order (\<open>REQUESTED\<close> or later) the statuses
  only advance in the lifecycle order; and from \<open>PENDING\<close> no status other than \<open>FAILED\<close> is reached
  without passing through \<open>PROCESSING\<close>.
\<close>

theorem order_history_sound:
  assumes "history s t h"
  shows "(\<forall>x \<in> set (butlast h). \<not> terminal x)
    \<and> (REQUESTED \<le> s \<longrightarrow> sorted h)
    \<and> (s = PENDING \<and> REQUESTED \<le> t \<and> t \<noteq> FAILED \<longrightarrow> PROCESSING \<in> set h)"
  using assms history_butlast_live history_tracked_sorted history_processing by blast

theorem order_history_sound_witness:
  "\<not> terminal ACCEPTED \<and> PROCESSING \<in> set [PENDING, PROCESSING, ACCEPTED, FILLED]"
proof -
  have "history PENDING PROCESSING ([PENDING] @ [PROCESSING])"
    by (rule history.move [OF history.start]) (simp add: can_transition_from_PENDING)
  then have "history PENDING ACCEPTED (([PENDING] @ [PROCESSING]) @ [ACCEPTED])"
    by (rule history.move) (simp add: can_transition_from_PROCESSING)
  then have h: "history PENDING FILLED ((([PENDING] @ [PROCESSING]) @ [ACCEPTED]) @ [FILLED])"
    by (rule history.move) (simp add: can_transition_def TERMINAL_STATES_def)
  from order_history_sound [OF h] show ?thesis
    by (simp add: less_eq_order_status_def)
qed

text \<open>
  The stored text of a status reads back as that status, and no other text does.
\<close>

lemma order_status_roundtrip:
  "ORDER_STATUS v = Inr s \<longleftrightarrow> v = status_value s"
proof
  assume "ORDER_STATUS v = Inr s"
  then show "v = status_value s"
    by (auto simp: ORDER_STATUS_def find_Some_iff split: option.splits)
next
  assume "v = status_value s"
  then show "ORDER_STATUS v = Inr s"
    by (cases s) (simp_all add: ORDER_STATUS_def all_statuses_def)
qed

end
