(* ===== verification/Py_Number.thy ===== *)
theory Py_Number
  imports Prelude
begin

text \<open>
  Numbers as the code reads them from broker texts: \<open>int(text)\<close>, \<open>Decimal(text)\<close>,
  \<open>int(Decimal)\<close>, and the helper \<open>to_decimal\<close> of \<^verbatim>\<open>app/utils/utils.py\<close>.  A finite
  \<open>Decimal\<close> is its coefficient and exponent, \<open>Dec c e\<close> standing for \<open>c * 10 ^ e\<close>, which is
  how Python stores it.  Only ASCII digits are digits here, and the limits of the C
  implementation on exponents (beyond 10 to the power 18) are left out.
\<close>

section \<open>Decimals\<close>

datatype decimal = Dec int int | DInf bool | DNaN

text \<open>Digits with single underscores between them, as \<open>int(text)\<close> allows.\<close>

fun underscored_digits :: "str \<Rightarrow> bool" where
  "underscored_digits [] = False"
| "underscored_digits [c] = is_digit c"
| "underscored_digits (c # d # cs) =
     (is_digit c \<and> (if d = CHR ''_'' then underscored_digits cs else underscored_digits (d # cs)))"

definition sign_split :: "str \<Rightarrow> int \<times> str" where
  "sign_split s =
     (case s of
        [] \<Rightarrow> (1, [])
      | c # cs \<Rightarrow> if c = CHR ''-'' then (-1, cs) else if c = CHR ''+'' then (1, cs) else (1, s))"

text \<open>\<open>int(text)\<close>.\<close>

definition py_int :: "str \<Rightarrow> int result" where
  "py_int s =
     (let (sg, ds) = sign_split (strip s)
      in if underscored_digits ds then Inr (sg * digits_val (filter (\<lambda>c. c \<noteq> CHR ''_'') ds))
         else Inl (ValueError (''invalid literal for int() with base 10: '' @ s)))"

text \<open>
  \<open>Decimal(text)\<close>: the text is stripped, underscores are dropped, and the rest is a
  numeric string, an infinity or a NaN, in either case of letters; anything else is
  \<open>InvalidOperation\<close>, here \<open>None\<close>.
\<close>

definition exp_part :: "str \<Rightarrow> int option" where
  "exp_part s =
     (case s of
        [] \<Rightarrow> Some 0
      | c # cs \<Rightarrow>
          if c = CHR ''e'' then
            (let (sg, ds) = sign_split cs in if isdigit ds then Some (sg * digits_val ds) else None)
          else None)"

definition numeric_part :: "str \<Rightarrow> (int \<times> int) option" where
  "numeric_part s =
     (let ip = takeWhile is_digit s; r = dropWhile is_digit s;
          (fp, r2) = (case r of c # cs \<Rightarrow> if c = CHR ''.'' then (takeWhile is_digit cs, dropWhile is_digit cs)
                                         else ([], r)
                      | [] \<Rightarrow> ([], []))
      in if ip = [] \<and> fp = [] then None
         else map_option (\<lambda>x. (digits_val (ip @ fp), x - int (length fp))) (exp_part r2))"

definition parse_decimal :: "str \<Rightarrow> decimal option" where
  "parse_decimal v =
     (let (sg, t) = sign_split (lower (filter (\<lambda>c. c \<noteq> CHR ''_'') (strip v)))
      in if t = ''inf'' \<or> t = ''infinity'' then Some (DInf (sg = -1))
         else if take 3 t = ''nan'' \<and> list_all is_digit (drop 3 t) then Some DNaN
         else if take 4 t = ''snan'' \<and> list_all is_digit (drop 4 t) then Some DNaN
         else map_option (\<lambda>(c, x). Dec (sg * c) x) (numeric_part t))"

text \<open>\<open>to_decimal\<close>: absent, empty and "None" texts, and texts that are no number, are \<open>None\<close>.\<close>

definition to_decimal :: "str option \<Rightarrow> decimal option" where
  "to_decimal value =
     (case value of
        None \<Rightarrow> None
      | Some s \<Rightarrow> if s = '''' \<or> s = ''None'' then None else parse_decimal s)"

text \<open>
  \<open>int(d)\<close> truncates towards zero and raises on NaN and infinities; a zero decimal is
  false, so \<open>d or Decimal("0")\<close> only replaces \<open>None\<close> (and zeros by zero).
\<close>

fun int_of_decimal :: "decimal \<Rightarrow> int result" where
  "int_of_decimal (Dec c x) =
     Inr (if 0 \<le> x then c * 10 ^ nat x else sgn c * (\<bar>c\<bar> div 10 ^ nat (- x)))"
| "int_of_decimal (DInf _) = Inl (LibError ''OverflowError'' ''cannot convert Infinity to integer'')"
| "int_of_decimal DNaN = Inl (ValueError ''cannot convert NaN to integer'')"

definition qty_of_field :: "str option \<Rightarrow> int result" where
  "qty_of_field value =
     (case to_decimal value of None \<Rightarrow> Inr 0 | Some d \<Rightarrow> int_of_decimal d)"

text \<open>
  \<open>str(d)\<close>: plain notation when the exponent is not positive and the leading digit is at most
  six places behind the point, scientific notation otherwise.
\<close>

definition plain_text :: "str \<Rightarrow> int \<Rightarrow> str" where
  "plain_text ds x =
     (let p = int (length ds) + x
      in if x = 0 then ds
         else if 0 < p then take (nat p) ds @ ''.'' @ drop (nat p) ds
         else ''0.'' @ replicate (nat (- p)) (CHR ''0'') @ ds)"

definition scientific_text :: "str \<Rightarrow> int \<Rightarrow> str" where
  "scientific_text ds x =
     (let a = int (length ds) + x - 1
      in (if length ds = 1 then ds else take 1 ds @ ''.'' @ drop 1 ds)
         @ ''E'' @ (if 0 \<le> a then ''+'' else '''') @ show_int a)"

fun show_decimal :: "decimal \<Rightarrow> str" where
  "show_decimal (Dec c x) =
     (let ds = show_nat (nat \<bar>c\<bar>)
      in (if c < 0 then ''-'' else '''')
         @ (if x \<le> 0 \<and> - 6 \<le> int (length ds) + x - 1 then plain_text ds x else scientific_text ds x))"
| "show_decimal (DInf neg) = (if neg then ''-Infinity'' else ''Infinity'')"
| "show_decimal DNaN = ''NaN''"

text \<open>\<open>str\<close> of an optional decimal.\<close>

definition show_price :: "decimal option \<Rightarrow> str" where
  "show_price p = (case p of None \<Rightarrow> ''None'' | Some d \<Rightarrow> show_decimal d)"

section \<open>Lemmas\<close>

lemma digit_bounds:
  assumes "is_digit c"
  shows "c \<noteq> CHR ''-''" "c \<noteq> CHR ''+''" "c \<noteq> CHR ''_''" "c \<noteq> CHR ''e''" "c \<noteq> CHR ''.''" "lower_char c = c"
  using assms by (auto simp: is_digit_def lower_char_def Let_def)

lemma sign_split_digits: "list_all is_digit s \<Longrightarrow> sign_split s = (1, s)"
  by (cases s) (auto simp: sign_split_def digit_bounds)

lemma sign_split_minus: "sign_split (CHR ''-'' # s) = (-1, s)"
  by (simp add: sign_split_def)

lemma filter_digits: "list_all is_digit s \<Longrightarrow> filter (\<lambda>c. c \<noteq> CHR ''_'') s = s"
  by (induction s) (auto simp: digit_bounds)

lemma lower_digits: "list_all is_digit s \<Longrightarrow> lower s = s"
  by (induction s) (auto simp: lower_def digit_bounds)

lemma underscored_digits_all: "list_all is_digit s \<Longrightarrow> s \<noteq> [] \<Longrightarrow> underscored_digits s"
  by (induction s rule: underscored_digits.induct) (auto simp: digit_bounds)

lemma strip_digits: "list_all is_digit s \<Longrightarrow> strip s = s"
  by (rule strip_no_space) (auto simp: list_all_iff digit_not_space)

lemma strip_minus_digits: "list_all is_digit s \<Longrightarrow> strip (CHR ''-'' # s) = CHR ''-'' # s"
proof (rule strip_no_space)
  assume "list_all is_digit s"
  moreover have "\<not> is_space (CHR ''-'')" by (simp add: is_space_def)
  ultimately show "list_all (\<lambda>c. \<not> is_space c) (CHR ''-'' # s)"
    by (auto simp: list_all_iff digit_not_space)
qed

lemma numeric_part_digits:
  "list_all is_digit s \<Longrightarrow> s \<noteq> [] \<Longrightarrow> numeric_part s = Some (digits_val s, 0)"
  by (simp add: numeric_part_def exp_part_def Let_def takeWhile_eq_all_conv [THEN iffD2]
      dropWhile_eq_Nil_conv [THEN iffD2] list_all_iff)

lemma not_special_digits:
  assumes "list_all is_digit s"
  shows "s \<noteq> ''inf''" "s \<noteq> ''infinity''" "take 3 s \<noteq> ''nan''" "take 4 s \<noteq> ''snan''" "s \<noteq> ''None''"
  using assms by (cases s; auto simp: is_digit_def Let_def)+

lemma parse_decimal_show_nat: "parse_decimal (show_nat n) = Some (Dec (int n) 0)"
  using show_nat_digits [of n]
  by (simp add: parse_decimal_def strip_digits filter_digits lower_digits sign_split_digits
      not_special_digits numeric_part_digits)

lemma to_decimal_show_nat: "to_decimal (Some (show_nat n)) = Some (Dec (int n) 0)"
  using show_nat_digits [of n]
  by (simp add: to_decimal_def parse_decimal_show_nat not_special_digits)

lemma parse_decimal_show_neg:
  "parse_decimal (CHR ''-'' # show_nat n) = Some (Dec (- int n) 0)"
proof -
  have d: "list_all is_digit (show_nat n)" by (rule show_nat_digits)
  then have "lower (filter (\<lambda>c. c \<noteq> CHR ''_'') (strip (CHR ''-'' # show_nat n))) = CHR ''-'' # show_nat n"
    using lower_digits [OF d] by (simp add: strip_minus_digits filter_digits lower_def lower_char_def)
  with d show ?thesis
    by (simp add: parse_decimal_def sign_split_minus not_special_digits numeric_part_digits)
qed

lemma qty_of_absent [simp]: "qty_of_field None = Inr 0"
  by (simp add: qty_of_field_def to_decimal_def)

lemma qty_of_show_nat [simp]: "qty_of_field (Some (show_nat n)) = Inr (int n)"
  by (simp add: qty_of_field_def to_decimal_show_nat)

lemma py_int_show_nat [simp]: "py_int (show_nat n) = Inr (int n)"
  using show_nat_digits [of n]
  by (simp add: py_int_def strip_digits sign_split_digits underscored_digits_all filter_digits)

section \<open>Round trips\<close>

text \<open>
  Python's round trip \<open>Decimal(str(d)) == d\<close>, exact in coefficient and exponent, for every finite
  decimal: the characters of such a text are digits, a point, an exponent letter and signs.
\<close>

lemma digits_val_append: "digits_val (a @ b) = digits_val a * 10 ^ length b + digits_val b"
proof (induction b rule: rev_induct)
  case (snoc c b)
  have "digits_val (a @ b @ [c]) = 10 * digits_val (a @ b) + digit_val c"
    using digits_val_snoc [of "a @ b" c] by simp
  with snoc show ?case by (simp add: algebra_simps)
qed (simp add: digits_val_def)

lemma digits_val_zeros: "digits_val (replicate k (CHR ''0'')) = 0"
  by (induction k) (simp_all add: digits_val_def digit_val_def)

lemma zeros_digits: "list_all is_digit (replicate k (CHR ''0''))"
  by (auto simp: list_all_iff is_digit_def)

lemma split_digits: "list_all is_digit a \<Longrightarrow> (e = [] \<or> \<not> is_digit (hd e)) \<Longrightarrow>
    takeWhile is_digit (a @ e) = a \<and> dropWhile is_digit (a @ e) = e"
  by (cases e) (auto simp: list_all_iff)

lemma numeric_part_plain:
  assumes "list_all is_digit a" and "a \<noteq> []" and "e = [] \<or> hd e = CHR ''e''"
  shows "numeric_part (a @ e) = map_option (\<lambda>x. (digits_val a, x)) (exp_part e)"
proof -
  have "e = [] \<or> \<not> is_digit (hd e)" using assms(3) by (auto simp: is_digit_def)
  from split_digits [OF assms(1) this] have sd: "takeWhile is_digit (a @ e) = a" "dropWhile is_digit (a @ e) = e" by simp_all
  show ?thesis unfolding numeric_part_def Let_def sd using assms(2,3) by (cases e) simp_all
qed

lemma numeric_part_point:
  assumes "list_all is_digit a" and "list_all is_digit b" and "a \<noteq> []" and "e = [] \<or> hd e = CHR ''e''"
  shows "numeric_part (a @ CHR ''.'' # b @ e) =
    map_option (\<lambda>x. (digits_val (a @ b), x - int (length b))) (exp_part e)"
proof -
  have e: "e = [] \<or> \<not> is_digit (hd e)" using assms(4) by (auto simp: is_digit_def)
  have "\<not> is_digit (CHR ''.'')" by (simp add: is_digit_def)
  with split_digits [OF assms(1), of "CHR ''.'' # b @ e"] split_digits [OF assms(2) e] assms(3) show ?thesis
    by (simp add: numeric_part_def Let_def)
qed

text \<open>The exponent \<open>str\<close> writes is read back.\<close>

lemma exp_part_show: "exp_part (CHR ''e'' # (if 0 \<le> a then ''+'' else '''') @ show_int a) = Some a"
proof -
  have "isdigit (show_nat n)" for n by (simp add: isdigit_def show_nat_digits)
  then show ?thesis by (auto simp: exp_part_def sign_split_def show_int_def)
qed

text \<open>A text of such characters that starts with a digit is read by its numeric part.\<close>

definition number_char :: "char \<Rightarrow> bool" where
  "number_char c = (is_digit c \<or> c \<in> set ''.E+-'')"

lemma number_char_plain:
  assumes "number_char c"
  shows "\<not> is_space c" "c \<noteq> CHR ''_''"
  using assms by (auto simp: number_char_def digit_not_space digit_bounds) (auto simp: is_space_def is_digit_def)

lemma parse_number:
  assumes "list_all number_char s" and "is_digit (hd s)" and "s \<noteq> []"
  shows "parse_decimal s = map_option (\<lambda>(c, x). Dec c x) (numeric_part (lower s))"
    "parse_decimal (CHR ''-'' # s) = map_option (\<lambda>(c, x). Dec (- c) x) (numeric_part (lower s))"
proof -
  have st: "strip t = t" "filter (\<lambda>c. c \<noteq> CHR ''_'') t = t" if "list_all number_char t" for t
    using that number_char_plain by (auto intro!: strip_no_space filter_True simp: list_all_iff)
  obtain d s' where s: "s = d # s'" "is_digit d" using assms(2,3) by (cases s) auto
  have l: "lower s = d # lower s'" using s by (simp add: lower_def digit_bounds)
  have sg: "sign_split (lower s) = (1, lower s)" using s(2) by (auto simp: l sign_split_def digit_bounds)
  have no: "lower s \<noteq> ''inf''" "lower s \<noteq> ''infinity''" "take 3 (lower s) \<noteq> ''nan''" "take 4 (lower s) \<noteq> ''snan''"
    using s(2) by (auto simp: l is_digit_def)
  have m: "list_all number_char (CHR ''-'' # s)" using assms(1) by (simp add: number_char_def)
  have lm: "lower (CHR ''-'' # s) = CHR ''-'' # lower s" by (simp add: lower_def lower_char_def)
  show "parse_decimal s = map_option (\<lambda>(c, x). Dec c x) (numeric_part (lower s))"
    using no by (simp add: parse_decimal_def st [OF assms(1)] sg)
  show "parse_decimal (CHR ''-'' # s) = map_option (\<lambda>(c, x). Dec (- c) x) (numeric_part (lower s))"
    using no by (simp only: parse_decimal_def st [OF m] lm sign_split_minus Let_def case_prod_conv) simp
qed

lemma lower_append [simp]: "lower (a @ b) = lower a @ lower b"
  by (simp add: lower_def)

text \<open>The unsigned text: what \<open>show_decimal\<close> writes after the sign.\<close>

lemma unsigned_text:
  fixes n :: nat and x :: int
  defines "ds \<equiv> show_nat n"
  defines "s \<equiv> (if x \<le> 0 \<and> - 6 \<le> int (length ds) + x - 1 then plain_text ds x else scientific_text ds x)"
  shows "list_all number_char s \<and> is_digit (hd s) \<and> s \<noteq> [] \<and> numeric_part (lower s) = Some (int n, x)"
proof -
  have ds: "list_all is_digit ds" "ds \<noteq> []" "digits_val ds = int n" by (simp_all add: ds_def show_nat_digits)
  have nc: "list_all number_char a" if "list_all is_digit a" for a using that by (auto simp: list_all_iff number_char_def)
  have hd: "is_digit (hd a)" if "list_all is_digit a" "a \<noteq> []" for a using that by (cases a) auto
  have td: "list_all is_digit (take k ds)" "list_all is_digit (drop k ds)" for k
    using ds(1) by (auto simp: list_all_iff dest: in_set_takeD in_set_dropD)
  have point: "number_char (CHR ''.'')" "lower (CHR ''.'' # b) = CHR ''.'' # lower b" for b
    by (simp_all add: number_char_def lower_def lower_char_def)
  have zero: "is_digit (CHR ''0'')" "list_all is_digit ''0''" by (simp_all add: is_digit_def)
  show ?thesis
  proof (cases "x \<le> 0 \<and> - 6 \<le> int (length ds) + x - 1")
    case plain: True
    then have s: "s = plain_text ds x" by (simp add: s_def)
    consider "x = 0" | "x < 0" "0 < int (length ds) + x" | "x < 0" "int (length ds) + x \<le> 0" using plain by linarith
    then show ?thesis
    proof cases
      case 1
      then have "s = ds" by (simp add: s plain_text_def)
      with ds nc hd show ?thesis using numeric_part_digits [OF ds(1,2)] 1 by (simp add: lower_digits)
    next
      case 2
      define k where "k = nat (int (length ds) + x)"
      have k: "0 < k" "int (length (drop k ds)) = - x" using 2 by (simp_all add: k_def)
      have "s = take k ds @ CHR ''.'' # drop k ds" using 2 by (simp add: s plain_text_def k_def Let_def)
      moreover have "take k ds \<noteq> []" using k(1) ds(2) by simp
      ultimately show ?thesis
        using td [of k] numeric_part_point [OF td(1) [of k] td(2) [of k], of "[]"] nc hd [OF td(1) [of k]] k(2) ds(3) point
        by (simp add: lower_digits exp_part_def)
    next
      case 3
      define z where "z = replicate (nat (- (int (length ds) + x))) (CHR ''0'')"
      have s': "s = ''0'' @ CHR ''.'' # (z @ ds)" using 3 by (simp add: s plain_text_def z_def Let_def)
      have z: "list_all is_digit (z @ ds)" using zeros_digits ds(1) by (simp add: z_def)
      have "digits_val (''0'' @ z @ ds) = int n"
        using digits_val_append [of "''0''" "z @ ds"] digits_val_append [of z ds] digits_val_zeros [of 1] ds(3)
        by (simp add: z_def digits_val_zeros)
      moreover have "int (length (z @ ds)) = - x" using 3 by (simp add: z_def)
      moreover have "lower s = s"
      proof -
        have "lower s = lower ''0'' @ lower (CHR ''.'' # (z @ ds))" unfolding s' by (rule lower_append)
        then show ?thesis using lower_digits [OF zero(2)] lower_digits [OF z] point(2) [of "z @ ds"] by (simp only: s')
      qed
      ultimately show ?thesis
        using numeric_part_point [OF zero(2) z, of "[]"] nc [OF z] zero point z
        by (simp add: s' lower_digits exp_part_def number_char_def)
    qed
  next
    case False
    define a where "a = int (length ds) + x - 1"
    define e where "e = (if 0 \<le> a then ''+'' else '''') @ show_int a"
    define m where "m = (if length ds = 1 then ds else take 1 ds @ ''.'' @ drop 1 ds)"
    have "s = scientific_text ds x" unfolding s_def by (rule if_not_P [OF False])
    also have "\<dots> = m @ CHR ''E'' # e" by (simp add: scientific_text_def Let_def a_def m_def e_def)
    finally have s': "s = m @ CHR ''E'' # e" .
    have low: "lower (CHR ''E'' # e) = CHR ''e'' # e"
    proof -
      have "lower (show_nat k) = show_nat k" for k by (simp add: lower_digits show_nat_digits)
      moreover have "lower ''E'' = ''e''" "lower ''+'' = ''+''" "lower ''-'' = ''-''" by code_simp+
      ultimately show ?thesis by (auto simp: e_def lower_def show_int_def)
    qed
    have ne: "list_all number_char (CHR ''E'' # e)"
      using nc [OF show_nat_digits] by (simp add: e_def show_int_def number_char_def)
    have ex: "exp_part (CHR ''e'' # e) = Some a" unfolding e_def by (rule exp_part_show)
    have tn: "take 1 ds \<noteq> []" using ds(2) by simp
    show ?thesis
    proof (cases "length ds = 1")
      case True
      then have m: "m = ds" "x = a" by (simp_all add: m_def a_def)
      with numeric_part_plain [OF ds(1,2), of "CHR ''e'' # e"] ex ds ne nc hd low show ?thesis
        by (simp add: s' lower_digits)
    next
      case False
      then have m: "m = take 1 ds @ CHR ''.'' # drop 1 ds" by (simp add: m_def)
      have l: "a - int (length (drop 1 ds)) = x" using ds(2) by (cases ds) (simp_all add: a_def)
      have "numeric_part (lower s) = Some (int n, x)"
        using numeric_part_point [OF td(1) [of 1] td(2) [of 1] tn, of "CHR ''e'' # e"] ex ds(3) l low td point
        by (simp add: s' m lower_digits)
      moreover have "list_all number_char s" using nc td ne point by (simp add: s' m)
      moreover have "is_digit (hd s)" using hd [OF td(1) tn] tn by (simp add: s' m hd_append)
      ultimately show ?thesis by (simp add: s')
    qed
  qed
qed

lemma decimal_text_roundtrip: "parse_decimal (show_decimal (Dec c x)) = Some (Dec c x)"
proof -
  let ?ds = "show_nat (nat \<bar>c\<bar>)"
  let ?s = "if x \<le> 0 \<and> - 6 \<le> int (length ?ds) + x - 1 then plain_text ?ds x else scientific_text ?ds x"
  note u = unsigned_text [of x "nat \<bar>c\<bar>"]
  have p: "parse_decimal ?s = Some (Dec \<bar>c\<bar> x)" "parse_decimal (CHR ''-'' # ?s) = Some (Dec (- \<bar>c\<bar>) x)"
    using u parse_number [of ?s] by simp_all
  have "show_decimal (Dec c x) = (if c < 0 then CHR ''-'' # ?s else ?s)" by (simp add: Let_def)
  moreover have "\<bar>c\<bar> = (if c < 0 then - c else c)" by simp
  ultimately show ?thesis using p by (cases "c < 0") (simp_all only: if_True if_False minus_minus)
qed

text \<open>
  A quantity written by the code (\<open>str(int)\<close>) reads back as the same quantity, through
  \<open>int(text)\<close> and through \<open>int(to_decimal(text) or Decimal("0"))\<close> alike, negative ones included.
\<close>

lemma quantity_text_roundtrip:
  "py_int (show_int i) = Inr i \<and> qty_of_field (Some (show_int i)) = Inr i"
proof (cases "i < 0")
  case True
  have d: "list_all is_digit (show_nat (nat (- i)))" by (rule show_nat_digits)
  have "py_int (show_int i) = Inr i"
    using True d
    by (simp add: show_int_def py_int_def strip_minus_digits sign_split_minus
        underscored_digits_all filter_digits)
  moreover have "qty_of_field (Some (show_int i)) = Inr i"
    using True parse_decimal_show_neg [of "nat (- i)"]
    by (simp add: show_int_def qty_of_field_def to_decimal_def)
  ultimately show ?thesis by blast
next
  case False
  then show ?thesis by (simp add: show_int_def)
qed

end
