(* ===== verification/Py_Float.thy ===== *)
theory Py_Float
  imports Complex_Main "HOL-Library.Log_Nat"
begin

text \<open>
  Python floats: a finite float is the rational number it stands for, and each operation rounds the
  exact result to a multiple with 53 significant bits, ties to even, as IEEE 754 prescribes for
  results in the normal range (no overflow or underflow occurs on amounts of money).  The
  locale \<open>rounding\<close> is what the callers use: a relative error of at most \<open>2 ^ -53\<close>.
\<close>

section \<open>Rounding\<close>

text \<open>Nearest integer, ties to even.\<close>

definition round_half_even :: "rat \<Rightarrow> int" where
  "round_half_even x =
     (let n = \<lfloor>x\<rfloor>; r = x - of_int n
      in if r < 1/2 then n else if 1/2 < r then n + 1 else if even n then n else n + 1)"

text \<open>\<open>2 ^ e\<close> for any integer exponent.\<close>

definition two_pow :: "int \<Rightarrow> rat" where
  "two_pow e = (if 0 \<le> e then 2 ^ nat e else 1 / 2 ^ nat (- e))"

text \<open>The exponent that gives a positive number 53 significant bits.\<close>

definition float_exponent :: "rat \<Rightarrow> int" where
  "float_exponent x =
     (let (a, b) = quotient_of x; k = bitlen a - bitlen b
      in if two_pow k \<le> x then k - 52 else k - 53)"

definition fl_pos :: "rat \<Rightarrow> rat" where
  "fl_pos x = (let e = float_exponent x in of_int (round_half_even (x / two_pow e)) * two_pow e)"

definition fl :: "rat \<Rightarrow> rat" where
  "fl x = (if x = 0 then 0 else if 0 < x then fl_pos x else - fl_pos (- x))"

text \<open>\<open>int(f)\<close> truncates towards zero.\<close>

definition int_of_float :: "rat \<Rightarrow> int" where
  "int_of_float x = (if 0 \<le> x then \<lfloor>x\<rfloor> else \<lceil>x\<rceil>)"

lemma round_half_even_error: "\<bar>of_int (round_half_even x) - x\<bar> \<le> 1/2"
proof -
  define n r where "n = \<lfloor>x\<rfloor>" and "r = x - of_int n"
  have "0 \<le> r" "r < 1" "x = of_int n + r"
    unfolding r_def n_def by (simp_all add: floor_less_iff) linarith+
  then show ?thesis
    unfolding round_half_even_def Let_def n_def [symmetric]
    by (auto simp: abs_if)
qed

lemma two_pow_pos [simp]: "0 < two_pow e"
  by (simp add: two_pow_def)

lemma two_pow_add: "two_pow (a + b) = two_pow a * two_pow b"
proof -
  have p: "two_pow e = 2 powi e" for e
    by (simp add: two_pow_def power_int_def field_simps)
  show ?thesis by (simp add: p power_int_add)
qed

lemma two_pow_int: "two_pow (int n) = 2 ^ n"
  by (simp add: two_pow_def)

lemma bitlen_range:
  assumes "0 < a"
  shows "two_pow (bitlen a - 1) \<le> of_int a" "of_int a < two_pow (bitlen a)"
proof -
  have b: "2 ^ nat (bitlen a - 1) \<le> a \<and> a < 2 ^ nat (bitlen a)" by (rule bitlen_bounds [OF assms])
  have p: "0 < bitlen a"
    using assms bitlen_eq_zero_iff [of a] bitlen_nonneg [of a] by linarith
  have "(of_int (2 ^ nat (bitlen a - 1)) :: rat) \<le> of_int a" "(of_int a :: rat) < of_int (2 ^ nat (bitlen a))"
    using b by (simp_all only: of_int_le_iff of_int_less_iff)
  then show "two_pow (bitlen a - 1) \<le> of_int a" "of_int a < two_pow (bitlen a)"
    using p by (simp_all add: two_pow_def)
qed

lemma float_exponent_range:
  assumes "0 < x"
  shows "2 ^ 52 \<le> x / two_pow (float_exponent x)"
proof -
  obtain a b where q: "quotient_of x = (a, b)" by (cases "quotient_of x")
  have b: "0 < b" using quotient_of_denom_pos [OF q] .
  have x: "x = of_int a / of_int b" using quotient_of_div [OF q] .
  have a: "0 < a" using assms b by (simp add: x zero_less_divide_iff)
  define k where "k = bitlen a - bitlen b"
  have "two_pow (bitlen a - 1) / two_pow (bitlen b) \<le> x"
    unfolding x using bitlen_range [OF a] bitlen_range [OF b] a b
    by (intro frac_le) (simp_all add: less_imp_le)
  moreover have "two_pow (bitlen a - 1) = two_pow (k - 1) * two_pow (bitlen b)"
    by (simp add: two_pow_add [symmetric] k_def)
  ultimately have low: "two_pow (k - 1) \<le> x"
    using two_pow_pos [of "bitlen b"] by simp
  have "two_pow (float_exponent x) * 2 ^ 52 \<le> x"
  proof (cases "two_pow k \<le> x")
    case True
    have "two_pow (k - 52) * 2 ^ 52 = two_pow k"
      using two_pow_add [of "k - 52" 52] two_pow_int [of 52] by simp
    with True show ?thesis by (simp add: float_exponent_def q k_def [symmetric])
  next
    case False
    have "two_pow (k - 53) * 2 ^ 52 = two_pow (k - 1)"
      using two_pow_add [of "k - 53" 52] two_pow_int [of 52] by simp
    with False low show ?thesis by (simp add: float_exponent_def q k_def [symmetric])
  qed
  then show ?thesis
    by (simp add: pos_le_divide_eq mult.commute)
qed

lemma fl_pos_error:
  assumes "0 < x"
  shows "\<bar>fl_pos x - x\<bar> \<le> x / 2 ^ 53"
proof -
  define e y where "e = float_exponent x" and "y = x / two_pow e"
  have "two_pow e \<noteq> 0" using two_pow_pos [of e] by (rule less_imp_neq [THEN not_sym])
  then have x: "x = y * two_pow e" by (simp add: y_def)
  have y: "2 ^ 52 \<le> y" using float_exponent_range [OF assms] by (simp add: y_def e_def)
  have "fl_pos x - x = (of_int (round_half_even y) - y) * two_pow e"
    unfolding fl_pos_def Let_def e_def [symmetric] y_def [symmetric] left_diff_distrib
    using x by simp
  then have "\<bar>fl_pos x - x\<bar> = \<bar>of_int (round_half_even y) - y\<bar> * two_pow e"
    using two_pow_pos [of e] by (simp add: abs_mult less_imp_le)
  also have "\<dots> \<le> 1/2 * two_pow e"
    using round_half_even_error by (rule mult_right_mono) (simp add: less_imp_le)
  also have "\<dots> \<le> y / 2 ^ 53 * two_pow e"
    using y by (intro mult_right_mono) (simp_all add: less_imp_le)
  finally show ?thesis by (simp add: x)
qed

section \<open>What callers rely on\<close>

locale rounding =
  fixes rnd :: "rat \<Rightarrow> rat" and u :: rat
  assumes error: "\<bar>rnd x - x\<bar> \<le> u * \<bar>x\<bar>"
    and u_range: "0 \<le> u" "u < 1"
begin

lemma nonneg: "0 \<le> x \<Longrightarrow> 0 \<le> rnd x"
proof -
  assume x: "0 \<le> x"
  have "u * x \<le> x" using mult_right_mono [of u 1 x] u_range x by simp
  with error [of x] x show ?thesis by simp
qed

lemma upper: "0 \<le> x \<Longrightarrow> rnd x \<le> (1 + u) * x"
  using error [of x] by (simp add: algebra_simps abs_if split: if_splits)

lemma floor_quotient:
  assumes "0 \<le> a" and "0 < p"
  shows "of_int \<lfloor>rnd (a / p)\<rfloor> * p \<le> (1 + u) * a"
proof -
  have "rnd (a / p) \<le> (1 + u) * (a / p)" using upper [of "a / p"] assms by simp
  with of_int_floor_le [of "rnd (a / p)"] have "of_int \<lfloor>rnd (a / p)\<rfloor> \<le> (1 + u) * (a / p)"
    by (rule order_trans)
  then have "of_int \<lfloor>rnd (a / p)\<rfloor> * p \<le> (1 + u) * (a / p) * p"
    using assms(2) by (intro mult_right_mono) simp_all
  moreover have "(1 + u) * (a / p) * p = (1 + u) * a" using assms(2) by simp
  ultimately show ?thesis by simp
qed

end

lemma fl_error: "\<bar>fl x - x\<bar> \<le> 1 / 2 ^ 53 * \<bar>x\<bar>"
  using fl_pos_error [of x] fl_pos_error [of "- x"]
  by (auto simp: fl_def abs_if split: if_splits)

interpretation binary64: rounding fl "1 / 2 ^ 53"
  by unfold_locales (rule fl_error, simp_all)

text \<open>Integers of at most 53 bits are floats.\<close>

lemma fl_zero [simp]: "fl 0 = 0"
  by (simp add: fl_def)

lemma round_half_even_int [simp]: "round_half_even (of_int n) = n"
  by (simp add: round_half_even_def Let_def)

lemma fl_pos_int:
  assumes "0 < n" "n < 2 ^ 53"
  shows "fl_pos (of_int n) = of_int n"
proof -
  have "bitlen n \<le> 53"
    using assms by (simp add: bitlen_le_iff_power)
  then obtain j where j: "bitlen n - 53 = - int j"
    by (metis add.inverse_inverse diff_le_0_iff_le neg_0_le_iff_le zero_le_imp_eq_int)
  have one: "bitlen 1 = 1" by (simp add: bitlen_alt_def)
  have e: "float_exponent (of_int n) = - int j"
    using bitlen_range(1) [OF assms(1)] j by (simp add: float_exponent_def Let_def one)
  have "of_int n / two_pow (- int j) = (of_int (n * 2 ^ j) :: rat)"
    by (simp add: two_pow_def)
  then show ?thesis
    by (simp add: fl_pos_def e Let_def del: of_int_mult) (simp add: two_pow_def)
qed

lemma fl_of_int [simp]:
  assumes "\<bar>n\<bar> < 2 ^ 53"
  shows "fl (of_int n) = of_int n"
  using assms fl_pos_int [of n] fl_pos_int [of "- n"] by (auto simp: fl_def)

section \<open>Rounding to decimals\<close>

text \<open>\<open>round(x, n)\<close> of a float: the exact value rounded to \<open>n\<close> digits, ties to even, as a float.\<close>

definition py_round :: "nat \<Rightarrow> rat \<Rightarrow> rat" where
  "py_round n x = fl (of_int (round_half_even (x * 10 ^ n)) / 10 ^ n)"

lemma round_half_even_nonneg: "0 \<le> x \<Longrightarrow> 0 \<le> round_half_even x"
  by (simp add: round_half_even_def Let_def)

lemma py_round_nonneg: "0 \<le> x \<Longrightarrow> 0 \<le> py_round n x"
  unfolding py_round_def by (rule binary64.nonneg) (simp add: round_half_even_nonneg)

end
