(* ===== verification/Py_Time.thy ===== *)
theory Py_Time
  imports Prelude
begin

text \<open>
  The part of Python's \<open>datetime\<close> the code uses: proleptic Gregorian dates as day numbers,
  \<open>strftime("%Y%m%d")\<close>, and \<open>strptime\<close> with the formats of the code.  A day number counts
  the days since 1970-01-01 (\<open>date.toordinal() - 719163\<close>); a timestamp counts seconds since then.
\<close>

section \<open>Dates\<close>

definition is_leap :: "int \<Rightarrow> bool" where
  "is_leap y = (y mod 4 = 0 \<and> (y mod 100 \<noteq> 0 \<or> y mod 400 = 0))"

definition days_before_year :: "int \<Rightarrow> int" where
  "days_before_year y = (let p = y - 1 in p * 365 + p div 4 - p div 100 + p div 400)"

definition days_in_month :: "int \<Rightarrow> int \<Rightarrow> int" where
  "days_in_month y m = (if m = 2 then (if is_leap y then 29 else 28)
                        else if m \<in> {4, 6, 9, 11} then 30 else 31)"

definition days_before_month :: "int \<Rightarrow> int \<Rightarrow> int" where
  "days_before_month y m = sum_list (map (days_in_month y) [1..m - 1])"

definition valid_date :: "int \<Rightarrow> int \<Rightarrow> int \<Rightarrow> bool" where
  "valid_date y m d = (1 \<le> y \<and> y \<le> 9999 \<and> 1 \<le> m \<and> m \<le> 12 \<and> 1 \<le> d \<and> d \<le> days_in_month y m)"

text \<open>\<open>date(y, m, d)\<close> as a day number.\<close>

definition day_of :: "int \<Rightarrow> int \<Rightarrow> int \<Rightarrow> int" where
  "day_of y m d = days_before_year y + days_before_month y m + d - 719163"

text \<open>The month and day of a zero-based day of the year, by walking over the months.\<close>

fun month_walk :: "int \<Rightarrow> int list \<Rightarrow> int \<Rightarrow> int \<times> int" where
  "month_walk y [] n = (12, n + 1)"
| "month_walk y [m] n = (m, n + 1)"
| "month_walk y (m # m' # ms) n =
     (if n < days_in_month y m then (m, n + 1) else month_walk y (m' # ms) (n - days_in_month y m))"

definition civil_of :: "int \<Rightarrow> int \<times> int \<times> int" where
  "civil_of day =
     (let n = day + 719162;
          n400 = n div 146097; r400 = n mod 146097;
          n100 = r400 div 36524; r100 = r400 mod 36524;
          n4 = r100 div 1461; r4 = r100 mod 1461;
          n1 = r4 div 365; r1 = r4 mod 365;
          year = n400 * 400 + n100 * 100 + n4 * 4 + n1 + 1
      in if n1 = 4 \<or> n100 = 4 then (year - 1, 12, 31)
         else (let (m, d) = month_walk year [1..12] r1 in (year, m, d)))"

definition year_of :: "int \<Rightarrow> int" where "year_of day = fst (civil_of day)"
definition month_of :: "int \<Rightarrow> int" where "month_of day = fst (snd (civil_of day))"

definition pad2 :: "int \<Rightarrow> str" where
  "pad2 n = (if n < 10 then CHR ''0'' # show_int n else show_int n)"

text \<open>\<open>strftime("%Y%m%d")\<close> of a UTC time, for the four-digit years.\<close>

definition strftime_ymd :: "timestamp \<Rightarrow> str" where
  "strftime_ymd t = (let (y, m, d) = civil_of (t div 86400) in show_int y @ pad2 m @ pad2 d)"

text \<open>A day is not before the first day of its year, and years have at least 364 days.\<close>

lemma days_before_year_split:
  fixes a b c e :: int
  assumes "0 \<le> b" "b \<le> 3" "0 \<le> c" "c \<le> 24" "0 \<le> e" "e \<le> 3"
  shows "days_before_year (a * 400 + b * 100 + c * 4 + e + 1) = a * 146097 + b * 36524 + c * 1461 + e * 365"
proof -
  have 1: "(a * 400 + b * 100 + c * 4 + e) div 4 = a * 100 + b * 25 + c"
    by (rule int_div_pos_eq [where r = e]) (use assms in simp_all)
  have 2: "(a * 400 + b * 100 + c * 4 + e) div 100 = a * 4 + b"
    by (rule int_div_pos_eq [where r = "c * 4 + e"]) (use assms in simp_all)
  have 3: "(a * 400 + b * 100 + c * 4 + e) div 400 = a"
    by (rule int_div_pos_eq [where r = "b * 100 + c * 4 + e"]) (use assms in simp_all)
  have s: "a * 400 + b * 100 + c * 4 + e + 1 - 1 = a * 400 + b * 100 + c * 4 + e" by simp
  show ?thesis unfolding days_before_year_def Let_def s 1 2 3 by (simp add: algebra_simps)
qed

lemma year_starts_before: "days_before_year (year_of d) \<le> d + 719162"
proof -
  define n where "n = d + 719162"
  define m where "m = n mod 146097"
  define k where "k = m mod 36524"
  define l where "l = k mod 1461"
  define a b c e where "a = n div 146097" and "b = m div 36524" and "c = k div 1461" and "e = l div 365"
  have n: "n = a * 146097 + m" "m = b * 36524 + k" "k = c * 1461 + l" "l = e * 365 + l mod 365"
    by (simp_all add: a_def b_def c_def e_def m_def k_def l_def)
  have r: "0 \<le> m" "m < 146097" "0 \<le> k" "k < 36524" "0 \<le> l" "l < 1461" "0 \<le> l mod 365"
    by (simp_all add: m_def k_def l_def)
  then have nn: "0 \<le> b" "0 \<le> c" "0 \<le> e" by (simp_all add: b_def c_def e_def pos_imp_zdiv_nonneg_iff)
  have le: "b \<le> 4" "c \<le> 24" "e \<le> 4" using n r by linarith+
  have y: "year_of d = (if e = 4 \<or> b = 4 then a * 400 + b * 100 + c * 4 + e else a * 400 + b * 100 + c * 4 + e + 1)"
    unfolding year_of_def civil_of_def Let_def n_def [symmetric] m_def [symmetric] k_def [symmetric] l_def [symmetric]
      a_def [symmetric] b_def [symmetric] c_def [symmetric] e_def [symmetric]
    by (simp add: case_prod_beta)
  consider "b = 4" | "b \<noteq> 4" "e = 4" | "b \<noteq> 4" "e \<noteq> 4" by blast
  then show ?thesis
  proof cases
    case 1
    then have "k = 0" using n r by linarith
    then have "c = 0" "e = 0" by (simp_all add: c_def e_def l_def)
    with 1 y have "year_of d = a * 400 + 3 * 100 + 24 * 4 + 3 + 1" by simp
    then have "days_before_year (year_of d) = a * 146097 + 3 * 36524 + 24 * 1461 + 3 * 365"
      using days_before_year_split [of 3 24 3 a] by simp
    with 1 n r show ?thesis by (simp add: n_def)
  next
    case 2
    then have "year_of d = a * 400 + b * 100 + c * 4 + 3 + 1" using y by simp
    then have "days_before_year (year_of d) = a * 146097 + b * 36524 + c * 1461 + 3 * 365"
      using days_before_year_split [of b c 3 a] nn le 2 by simp
    with 2 n r nn show ?thesis unfolding n_def [symmetric] by linarith
  next
    case 3
    then have "days_before_year (year_of d) = a * 146097 + b * 36524 + c * 1461 + e * 365"
      unfolding y using nn le days_before_year_split [of b c e a] by simp
    with n r nn show ?thesis unfolding n_def [symmetric] by linarith
  qed
qed

lemma days_before_year_step: "days_before_year (y - 1) + 364 \<le> days_before_year y"
proof -
  have "(y - 1) div 100 \<le> (y - 2 + 1 * 100) div 100" by (rule zdiv_mono1) simp_all
  then have "(y - 1) div 100 \<le> (y - 2) div 100 + 1" by simp
  moreover have "(y - 2) div 4 \<le> (y - 1) div 4" "(y - 2) div 400 \<le> (y - 1) div 400" by (simp_all add: zdiv_mono1)
  ultimately show ?thesis by (simp add: days_before_year_def Let_def)
qed

lemma days_before_month_april: "days_before_month y 4 \<le> 91"
  by (simp add: days_before_month_def days_in_month_def upto.simps)

section \<open>Parsing\<close>

text \<open>
  \<open>strptime\<close> compiles its format to a regular expression in which a two-digit field prefers two
  digits in range and else takes one.  A matcher returns its readings in that order.
\<close>

definition num2 :: "int \<Rightarrow> int \<Rightarrow> int \<Rightarrow> str \<Rightarrow> (int \<times> str) list" where
  "num2 lo hi lo1 s =
     (case s of
        c # d # cs \<Rightarrow>
          (let v = 10 * digit_val c + digit_val d
           in if is_digit c \<and> is_digit d \<and> lo \<le> v \<and> v \<le> hi then [(v, cs)] else [])
      | _ \<Rightarrow> [])
     @ (case s of
          c # cs \<Rightarrow> if is_digit c \<and> lo1 \<le> digit_val c then [(digit_val c, cs)] else []
        | [] \<Rightarrow> [])"

definition num4 :: "str \<Rightarrow> (int \<times> str) list" where
  "num4 s = (if 4 \<le> length s \<and> list_all is_digit (take 4 s) then [(digits_val (take 4 s), drop 4 s)] else [])"

definition lit :: "char \<Rightarrow> str \<Rightarrow> str list" where
  "lit c s = (case s of d # ds \<Rightarrow> if d = c then [ds] else [] | [] \<Rightarrow> [])"

definition lit_space :: "str \<Rightarrow> str list" where
  "lit_space s = (case s of d # ds \<Rightarrow> if is_space d then [dropWhile is_space ds] else [] | [] \<Rightarrow> [])"

text \<open>The first reading counts, and it must use up the text.\<close>

definition whole :: "('a \<times> str) list \<Rightarrow> 'a option" where
  "whole ms = (case ms of (x, []) # _ \<Rightarrow> Some x | _ \<Rightarrow> None)"

text \<open>Format \<open>%H%M%S\<close>: the second of the day; seconds 60 and 61 match but make no time.\<close>

definition strptime_hms :: "str \<Rightarrow> int option" where
  "strptime_hms s =
     (case whole [((h, m, sec), r3). (h, r1) \<leftarrow> num2 0 23 0 s, (m, r2) \<leftarrow> num2 0 59 0 r1,
                                     (sec, r3) \<leftarrow> num2 0 61 0 r2] of
        None \<Rightarrow> None
      | Some (h, m, sec) \<Rightarrow> if sec \<le> 59 then Some (3600 * h + 60 * m + sec) else None)"

text \<open>Format \<open>%Y%m%d\<close>: a day number.\<close>

definition strptime_ymd :: "str \<Rightarrow> int option" where
  "strptime_ymd s =
     (case whole [((y, m, d), r3). (y, r1) \<leftarrow> num4 s, (m, r2) \<leftarrow> num2 1 12 1 r1,
                                   (d, r3) \<leftarrow> num2 1 31 1 r2] of
        None \<Rightarrow> None
      | Some (y, m, d) \<Rightarrow> if valid_date y m d then Some (day_of y m d) else None)"

text \<open>Format \<open>%Y-%m-%d %H:%M:%S\<close>: seconds since 1970-01-01 00:00:00 of the same clock.\<close>

definition strptime_datetime :: "str \<Rightarrow> int option" where
  "strptime_datetime s =
     (case whole [((y, m, d, h, mi, sec), r6).
                    (y, a1) \<leftarrow> num4 s, b1 \<leftarrow> lit CHR ''-'' a1,
                    (m, a2) \<leftarrow> num2 1 12 1 b1, b2 \<leftarrow> lit CHR ''-'' a2,
                    (d, a3) \<leftarrow> num2 1 31 1 b2, b3 \<leftarrow> lit_space a3,
                    (h, a4) \<leftarrow> num2 0 23 0 b3, b4 \<leftarrow> lit CHR '':'' a4,
                    (mi, a5) \<leftarrow> num2 0 59 0 b4, b5 \<leftarrow> lit CHR '':'' a5,
                    (sec, r6) \<leftarrow> num2 0 61 0 b5] of
        None \<Rightarrow> None
      | Some (y, m, d, h, mi, sec) \<Rightarrow>
          if valid_date y m d \<and> sec \<le> 59
          then Some (86400 * day_of y m d + 3600 * h + 60 * mi + sec) else None)"

lemma time_examples:
  "day_of 1970 1 1 = 0" "day_of 2026 3 23 = 20535" "civil_of 20535 = (2026, 3, 23)"
  by (simp_all add: day_of_def days_before_year_def days_before_month_def days_in_month_def
      is_leap_def civil_of_def upto.simps Let_def)

lemma strptime_hms_examples:
  "strptime_hms ''111554'' = Some 40554" "strptime_hms ''251554'' = None"
  by (simp_all add: strptime_hms_def num2_def whole_def is_digit_def digit_val_def Let_def)

lemma strptime_hms_range: "strptime_hms s = Some v \<Longrightarrow> 0 \<le> v \<and> v < 86400"
proof -
  have num2_range: "(x, r) \<in> set (num2 0 hi 0 s) \<Longrightarrow> 9 \<le> hi \<Longrightarrow> 0 \<le> x \<and> x \<le> hi" for x r s hi
    by (auto simp: num2_def is_digit_def digit_val_def Let_def split: list.splits if_splits)
  assume a: "strptime_hms s = Some v"
  then obtain h m sec where w: "whole [((h, m, sec), r3). (h, r1) \<leftarrow> num2 0 23 0 s,
        (m, r2) \<leftarrow> num2 0 59 0 r1, (sec, r3) \<leftarrow> num2 0 61 0 r2] = Some (h, m, sec)"
    and v: "sec \<le> 59" "v = 3600 * h + 60 * m + sec"
    by (auto simp: strptime_hms_def split: option.splits prod.splits if_splits)
  have "whole ms = Some x \<Longrightarrow> (x, []) \<in> set ms" for ms and x :: "int \<times> int \<times> int"
    by (auto simp: whole_def split: list.splits)
  from this [OF w] obtain r1 r2 where
    "(h, r1) \<in> set (num2 0 23 0 s)" "(m, r2) \<in> set (num2 0 59 0 r1)" "(sec, []) \<in> set (num2 0 61 0 r2)"
    by auto
  then have "0 \<le> h \<and> h \<le> 23" "0 \<le> m \<and> m \<le> 59" "0 \<le> sec"
    using num2_range [of h r1 23 s] num2_range [of m r2 59 r1] num2_range [of sec "[]" 61 r2]
    by simp_all
  with v show ?thesis by simp
qed

end
