(* ===== verification/Order_Repository.thy ===== *)
theory Order_Repository
  imports Order_State Py_Number
begin

text \<open>
  The \<open>orders\<close> table (\<^verbatim>\<open>app/db/models/order.py\<close>) and the operations of
  \<^verbatim>\<open>app/repository/order_repository.py\<close>.  A table is the list of its rows; an UPDATE statement
  is its WHERE predicate and the assignment of its VALUES, executed on every matching row;
  \<open>func.now()\<close> is the time of the transaction, an argument.  Timestamps are seconds since
  the epoch; a JSON column holds a JSON value.
\<close>

section \<open>The table\<close>

record order =
  o_id :: uuid
  o_account_no :: str
  o_account_product_code :: str
  o_market :: str
  o_stock_code :: str
  o_order_pos :: str
  o_order_kind :: str
  o_order_type :: str
  o_order_price :: "decimal option"
  o_order_qty :: int
  o_status :: order_status
  o_requested_at :: timestamp
  o_submitted_at :: "timestamp option"
  o_original_order_id :: "uuid option"
  o_original_broker_order_no :: "str option"
  o_original_broker_org_no :: "str option"
  o_broker_order_no :: "str option"
  o_broker_org_no :: "str option"
  o_rt_cd :: "str option"
  o_msg_cd :: "str option"
  o_msg1 :: "str option"
  o_filled_qty :: int
  o_remaining_qty :: int
  o_avg_fill_price :: "decimal option"
  o_request_payload :: "json option"
  o_submit_response_payload :: "json option"
  o_error_message :: "str option"
  o_created_at :: timestamp
  o_updated_at :: timestamp
  o_rebalance_id :: "uuid option"

type_synonym orders = "order list"

text \<open>\<open>Order(id=..., ...)\<close>: a new row with the column defaults, the given columns still to set.\<close>

definition new_order :: "timestamp \<Rightarrow> uuid \<Rightarrow> order" where
  "new_order now oid =
     \<lparr>o_id = oid, o_account_no = '''', o_account_product_code = '''', o_market = ''KRX'',
      o_stock_code = '''', o_order_pos = '''', o_order_kind = ''NEW'', o_order_type = '''',
      o_order_price = None, o_order_qty = 0, o_status = PENDING, o_requested_at = now,
      o_submitted_at = None, o_original_order_id = None, o_original_broker_order_no = None,
      o_original_broker_org_no = None, o_broker_order_no = None, o_broker_org_no = None,
      o_rt_cd = None, o_msg_cd = None, o_msg1 = None, o_filled_qty = 0, o_remaining_qty = 0,
      o_avg_fill_price = None, o_request_payload = None, o_submit_response_payload = None,
      o_error_message = None, o_created_at = now, o_updated_at = now, o_rebalance_id = None\<rparr>"

text \<open>\<open>create_order\<close>: the row is added; a primary key that exists already is an integrity error.\<close>

definition create_order :: "orders \<Rightarrow> order \<Rightarrow> (order \<times> orders) result" where
  "create_order db row =
     (if o_id row \<in> o_id ` set db then Inl (LibError ''IntegrityError'' ''duplicate key value violates unique constraint'')
      else Inr (row, db @ [row]))"

section \<open>Queries\<close>

definition get_all_orders :: "orders \<Rightarrow> orders" where
  "get_all_orders db = sort_key (\<lambda>r. - o_created_at r) db"

definition get_orders_by_status :: "orders \<Rightarrow> order_status \<Rightarrow> orders" where
  "get_orders_by_status db status =
     sort_key (\<lambda>r. - o_created_at r) (filter (\<lambda>r. o_status r = status) db)"

definition get_orders_by_symbol :: "orders \<Rightarrow> str \<Rightarrow> orders" where
  "get_orders_by_symbol db stock_code =
     sort_key (\<lambda>r. - o_created_at r) (filter (\<lambda>r. o_stock_code r = stock_code) db)"

definition get_orders_by_order_action :: "orders \<Rightarrow> str \<Rightarrow> orders" where
  "get_orders_by_order_action db order_action =
     sort_key (\<lambda>r. - o_created_at r)
       (filter (\<lambda>r. o_order_pos r = order_action \<and> o_order_kind r = ''new'') db)"

definition get_order_by_id :: "orders \<Rightarrow> uuid \<Rightarrow> order option" where
  "get_order_by_id db order_id = List.find (\<lambda>r. o_id r = order_id) db"

text \<open>The calendar day (days since the epoch) of a time in Asia/Seoul, UTC+9.\<close>

definition kst_date :: "timestamp \<Rightarrow> int" where
  "kst_date t = (t + 9 * 3600) div 86400"

definition get_filled_orders_by_period ::
  "orders \<Rightarrow> str \<Rightarrow> str \<Rightarrow> int \<Rightarrow> int \<Rightarrow> (str \<times> int \<times> decimal option) list" where
  "get_filled_orders_by_period db account_no account_product_code start_date end_date =
     map (\<lambda>r. (o_order_pos r, o_filled_qty r, o_avg_fill_price r))
       (filter (\<lambda>r. o_account_no r = account_no \<and> o_account_product_code r = account_product_code
          \<and> o_order_kind r = ''new'' \<and> 0 < o_filled_qty r \<and> o_rebalance_id r \<noteq> None
          \<and> start_date \<le> kst_date (o_requested_at r) \<and> kst_date (o_requested_at r) \<le> end_date) db)"

definition exists_child_orders :: "orders \<Rightarrow> uuid \<Rightarrow> bool" where
  "exists_child_orders db parent_order_id =
     (filter (\<lambda>r. o_original_order_id r = Some parent_order_id) db \<noteq> [])"

definition get_recoverable_tracking_orders :: "orders \<Rightarrow> orders" where
  "get_recoverable_tracking_orders db =
     sort_key o_created_at
       (filter (\<lambda>r. o_status r \<in> set [REQUESTED, ACCEPTED, PARTIAL_FILLED]
                    \<and> o_broker_order_no r \<noteq> None) db)"

definition get_recoverable_submit_orders :: "orders \<Rightarrow> orders" where
  "get_recoverable_submit_orders db =
     sort_key o_created_at (filter (\<lambda>r. o_status r = PENDING) db)"

text \<open>\<open>ORDER BY submitted_at ASC\<close>: rows without a time come last, as in PostgreSQL.\<close>

definition get_orders_by_rebalance_id :: "orders \<Rightarrow> uuid \<Rightarrow> orders" where
  "get_orders_by_rebalance_id db rebalance_id =
     (let rows = filter (\<lambda>r. o_rebalance_id r = Some rebalance_id) db
      in sort_key (\<lambda>r. the (o_submitted_at r)) (filter (\<lambda>r. o_submitted_at r \<noteq> None) rows)
         @ filter (\<lambda>r. o_submitted_at r = None) rows)"

section \<open>Update statements\<close>

type_synonym update_stmt = "(order \<Rightarrow> bool) \<times> (order \<Rightarrow> order)"

text \<open>Executing a statement: whether \<open>rowcount > 0\<close>, and the table afterwards.\<close>

definition execute :: "update_stmt \<Rightarrow> orders \<Rightarrow> bool \<times> orders" where
  "execute stmt db =
     (filter (fst stmt) db \<noteq> [], map (\<lambda>r. if fst stmt r then snd stmt r else r) db)"

definition update_order_status ::
  "timestamp \<Rightarrow> uuid \<Rightarrow> order_status list \<Rightarrow> order_status \<Rightarrow> update_stmt" where
  "update_order_status now order_id expected_current_statuses new_status =
     (\<lambda>r. o_id r = order_id \<and> o_status r \<in> set expected_current_statuses,
      \<lambda>r. r\<lparr>o_status := new_status, o_updated_at := now\<rparr>)"

definition update_order_submit_result ::
  "timestamp \<Rightarrow> uuid \<Rightarrow> str option \<Rightarrow> str option \<Rightarrow> str option \<Rightarrow> str option \<Rightarrow> str option \<Rightarrow>
   timestamp option \<Rightarrow> json option \<Rightarrow> order_status \<Rightarrow> int option \<Rightarrow> update_stmt" where
  "update_order_submit_result now order_id rt_cd msg_cd msg1 broker_org_no broker_order_no
       submitted_at submit_response_payload next_status remaining_qty =
     (\<lambda>r. o_id r = order_id \<and> o_status r = PROCESSING,
      \<lambda>r. (case remaining_qty of None \<Rightarrow> r | Some q \<Rightarrow> r\<lparr>o_remaining_qty := q\<rparr>)
            \<lparr>o_rt_cd := rt_cd, o_msg_cd := msg_cd, o_msg1 := msg1, o_broker_org_no := broker_org_no,
             o_broker_order_no := broker_order_no, o_submitted_at := submitted_at,
             o_submit_response_payload := submit_response_payload, o_status := next_status,
             o_updated_at := now\<rparr>)"

definition update_order_tracking_result ::
  "timestamp \<Rightarrow> uuid \<Rightarrow> order_status list \<Rightarrow> str option \<Rightarrow> str option \<Rightarrow> str option \<Rightarrow>
   str option \<Rightarrow> str option \<Rightarrow> int \<Rightarrow> decimal option \<Rightarrow> int \<Rightarrow> order_status \<Rightarrow> json option \<Rightarrow> update_stmt"
where
  "update_order_tracking_result now order_id expected_current_statuses rt_cd msg_cd msg1
       broker_org_no broker_order_no filled_qty filled_avg_price remaining_qty next_status
       tracking_response_payload =
     (\<lambda>r. o_id r = order_id \<and> o_status r \<in> set expected_current_statuses,
      \<lambda>r. r\<lparr>o_rt_cd := rt_cd, o_msg_cd := msg_cd, o_msg1 := msg1, o_broker_org_no := broker_org_no,
            o_broker_order_no := broker_order_no, o_filled_qty := filled_qty,
            o_remaining_qty := remaining_qty, o_avg_fill_price := filled_avg_price,
            o_error_message := (if next_status = FAILED then msg1 else None),
            o_submit_response_payload := tracking_response_payload, o_status := next_status,
            o_updated_at := now\<rparr>)"

text \<open>
  \<open>update_order_failure_result\<close>: \<open>expected_current_statuses\<close> is a required parameter; a call
  that leaves it out (\<open>None\<close>) raises \<open>TypeError\<close> before any statement is built.  The columns
  of \<open>broker_org_no\<close>, \<open>broker_order_no\<close> and the payloads are written only when given.
\<close>

definition update_order_failure_result ::
  "timestamp \<Rightarrow> uuid \<Rightarrow> order_status list option \<Rightarrow> str option \<Rightarrow> str option \<Rightarrow> str option \<Rightarrow>
   order_status \<Rightarrow> str option \<Rightarrow> str option \<Rightarrow> json option \<Rightarrow> json option \<Rightarrow> update_stmt result"
where
  "update_order_failure_result now order_id expected_current_statuses rt_cd msg_cd msg1 next_status
       broker_org_no broker_order_no request_payload response_payload =
     (case expected_current_statuses of
        None \<Rightarrow> Inl (TypeError ''update_order_failure_result() missing 1 required positional argument: expected_current_statuses'')
      | Some expected \<Rightarrow> Inr
          (\<lambda>r. o_id r = order_id \<and> o_status r \<in> set expected,
           \<lambda>r. r\<lparr>o_rt_cd := rt_cd, o_msg_cd := msg_cd, o_msg1 := msg1, o_error_message := msg1,
                 o_status := next_status, o_updated_at := now,
                 o_broker_org_no := (if broker_org_no \<noteq> None then broker_org_no else o_broker_org_no r),
                 o_broker_order_no := (if broker_order_no \<noteq> None then broker_order_no else o_broker_order_no r),
                 o_request_payload := (if request_payload \<noteq> None then request_payload else o_request_payload r),
                 o_submit_response_payload :=
                   (if response_payload \<noteq> None then response_payload else o_submit_response_payload r)\<rparr>))"

text \<open>
  \<open>update_parent_order_after_child\<close>: no condition on the status.  \<open>extra_kwargs\<close> are the names
  of keyword arguments of the call that the signature does not have: any makes the call a \<open>TypeError\<close>.
\<close>

definition update_parent_order_after_child ::
  "timestamp \<Rightarrow> uuid \<Rightarrow> int \<Rightarrow> int \<Rightarrow> order_status \<Rightarrow> str list \<Rightarrow> update_stmt result" where
  "update_parent_order_after_child now order_id filled_qty remaining_qty next_status extra_kwargs =
     (case extra_kwargs of
        k # _ \<Rightarrow> Inl (TypeError (''update_parent_order_after_child() got an unexpected keyword argument '' @ k))
      | [] \<Rightarrow> Inr
          (\<lambda>r. o_id r = order_id,
           \<lambda>r. r\<lparr>o_filled_qty := filled_qty, o_remaining_qty := remaining_qty,
                 o_status := next_status, o_updated_at := now\<rparr>))"

section \<open>Lookups\<close>

lemma lookup_id: "get_order_by_id db k = Some r \<Longrightarrow> o_id r = k"
  unfolding get_order_by_id_def by (metis (mono_tags) find_Some_iff)

lemma lookup_in: "get_order_by_id db k = Some r \<Longrightarrow> r \<in> set db"
  unfolding get_order_by_id_def by (metis find_Some_iff nth_mem)

lemma lookup_unique:
  "distinct (map o_id db) \<Longrightarrow> r \<in> set db \<Longrightarrow> get_order_by_id db (o_id r) = Some r"
  unfolding get_order_by_id_def by (induction db) (simp, fastforce)

section \<open>Contracts\<close>

text \<open>
  What every update statement of the repository promises: it touches one order only, and it
  never changes what the order is (its id, kind, side, quantity, parent, account, cycle and
  creation time).
\<close>

definition same_identity :: "order \<Rightarrow> order \<Rightarrow> bool" where
  "same_identity a b \<longleftrightarrow>
     o_id a = o_id b \<and> o_order_kind a = o_order_kind b \<and> o_order_pos a = o_order_pos b
     \<and> o_order_type a = o_order_type b \<and> o_order_price a = o_order_price b
     \<and> o_order_qty a = o_order_qty b \<and> o_original_order_id a = o_original_order_id b
     \<and> o_stock_code a = o_stock_code b \<and> o_account_no a = o_account_no b
     \<and> o_created_at a = o_created_at b \<and> o_rebalance_id a = o_rebalance_id b"

lemma same_identity_refl [simp]: "same_identity a a"
  by (simp add: same_identity_def)

lemma same_identity_trans: "same_identity a b \<Longrightarrow> same_identity b c \<Longrightarrow> same_identity a c"
  by (simp add: same_identity_def)

lemma same_identity_id: "same_identity a b \<Longrightarrow> o_id a = o_id b"
  by (simp add: same_identity_def)

locale row_update =
  fixes stmt :: update_stmt and oid :: uuid
  assumes only_row: "fst stmt r \<Longrightarrow> o_id r = oid"
    and keeps_identity: "same_identity (snd stmt r) r"
begin

lemma keeps_id [simp]: "o_id (snd stmt r) = o_id r"
  using keeps_identity same_identity_id by blast

lemma execute_ids: "map o_id (snd (execute stmt db)) = map o_id db"
  by (simp add: execute_def)

lemma execute_length: "length (snd (execute stmt db)) = length db"
  by (simp add: execute_def)

lemma lookup_hit:
  "get_order_by_id (snd (execute stmt db)) k =
     map_option (\<lambda>r. if fst stmt r then snd stmt r else r) (get_order_by_id db k)"
  unfolding get_order_by_id_def execute_def
  by (induction db) simp_all

lemma lookup_other: "k \<noteq> oid \<Longrightarrow> get_order_by_id (snd (execute stmt db)) k = get_order_by_id db k"
  by (cases "get_order_by_id db k") (use lookup_id only_row in \<open>fastforce simp: lookup_hit\<close>)+

lemma execute_identity:
  "list_all2 same_identity (snd (execute stmt db)) db"
  by (simp add: execute_def list.rel_map list.rel_refl_strong keeps_identity)

lemma execute_none: "\<not> fst (execute stmt db) \<Longrightarrow> snd (execute stmt db) = db"
  by (simp add: execute_def filter_empty_conv map_idI)

lemma rowcount_lookup:
  assumes "distinct (map o_id db)"
  shows "fst (execute stmt db) \<longleftrightarrow> (\<exists>r. get_order_by_id db oid = Some r \<and> fst stmt r)"
proof
  assume "fst (execute stmt db)"
  then obtain r where "r \<in> set db" "fst stmt r"
    by (simp add: execute_def filter_empty_conv) blast
  then show "\<exists>r. get_order_by_id db oid = Some r \<and> fst stmt r"
    using lookup_unique [OF assms] only_row by metis
next
  assume "\<exists>r. get_order_by_id db oid = Some r \<and> fst stmt r"
  then show "fst (execute stmt db)"
    using lookup_in by (simp add: execute_def filter_empty_conv) blast
qed

end

text \<open>A compare-and-set on the status: only when the status is an expected one, and then to the target.\<close>

locale guarded_update = row_update +
  fixes expected :: "order_status list" and target :: order_status
  assumes where_iff: "fst stmt r \<longleftrightarrow> o_id r = oid \<and> o_status r \<in> set expected"
    and sets_status: "o_status (snd stmt r) = target"
begin

lemma none_expected_after:
  "target \<notin> set expected \<Longrightarrow>
   \<forall>r \<in> set (snd (execute stmt db)). o_id r = oid \<longrightarrow> o_status r \<notin> set expected"
  by (simp add: execute_def where_iff sets_status ball_Un)

lemma rowcount_none:
  "\<forall>r \<in> set db. o_id r = oid \<longrightarrow> o_status r \<notin> set expected \<Longrightarrow> \<not> fst (execute stmt db)"
  by (simp add: execute_def filter_empty_conv where_iff)

lemma status_after:
  "get_order_by_id db oid = Some r \<Longrightarrow>
   map_option o_status (get_order_by_id (snd (execute stmt db)) oid) =
     Some (if o_status r \<in> set expected then target else o_status r)"
  by (simp add: lookup_hit where_iff sets_status lookup_id)

lemma misses_unexpected:
  "distinct (map o_id db) \<Longrightarrow> get_order_by_id db oid = Some r \<Longrightarrow> o_status r \<notin> set expected \<Longrightarrow>
   \<not> fst (execute stmt db)"
  by (simp add: rowcount_lookup where_iff)

lemma hits_expected:
  "get_order_by_id db oid = Some r \<Longrightarrow> o_status r \<in> set expected \<Longrightarrow> fst (execute stmt db)"
  using lookup_in lookup_id by (simp add: execute_def filter_empty_conv where_iff) blast

end

text \<open>
  One update of a table: every row is left as it is, or stays the same order and takes one allowed
  transition.
\<close>

definition moves :: "order \<Rightarrow> order \<Rightarrow> bool" where
  "moves a b \<longleftrightarrow> b = a \<or> same_identity b a \<and> can_transition (o_status a) (o_status b)"

definition db_moves :: "orders \<Rightarrow> orders \<Rightarrow> bool" where
  "db_moves = list_all2 moves"

lemma db_moves_refl [simp]: "db_moves db db"
  by (simp add: db_moves_def moves_def list.rel_refl)

text \<open>
  How a row may evolve over many updates: it stays the same order, and its status moves by
  allowed transitions only.  A table evolves row by row.
\<close>

definition evolves :: "order \<Rightarrow> order \<Rightarrow> bool" where
  "evolves a b \<longleftrightarrow> same_identity b a \<and> can_transition\<^sup>*\<^sup>* (o_status a) (o_status b)"

definition db_evolves :: "orders \<Rightarrow> orders \<Rightarrow> bool" where
  "db_evolves = list_all2 evolves"

lemma evolves_refl [simp]: "evolves a a"
  by (simp add: evolves_def)

lemma evolves_trans: "evolves a b \<Longrightarrow> evolves b c \<Longrightarrow> evolves a c"
  unfolding evolves_def using same_identity_trans rtranclp_trans by metis

lemma db_evolves_refl [simp]: "db_evolves db db"
  by (simp add: db_evolves_def list.rel_refl)

lemma db_evolves_trans: "db_evolves a b \<Longrightarrow> db_evolves b c \<Longrightarrow> db_evolves a c"
  unfolding db_evolves_def by (rule list_all2_trans) (rule evolves_trans)

lemma db_moves_evolves: "db_moves a b \<Longrightarrow> db_evolves a b"
  unfolding db_moves_def db_evolves_def
  by (erule list_all2_mono) (auto simp: moves_def evolves_def)

lemma db_evolves_ids:
  assumes "db_evolves a b"
  shows "map o_id b = map o_id a"
proof -
  have "list_all2 (\<lambda>x y. o_id x = o_id y) a b"
    using assms unfolding db_evolves_def
    by (rule list_all2_mono) (simp add: evolves_def same_identity_def)
  then show ?thesis
    by (induction rule: list_all2_induct) simp_all
qed

lemma db_evolves_lookup:
  assumes "db_evolves a b"
  shows "rel_option evolves (get_order_by_id a k) (get_order_by_id b k)"
  using assms unfolding db_evolves_def get_order_by_id_def
proof (induction rule: list_all2_induct)
  case (Cons x xs y ys)
  then have "o_id x = o_id y" by (simp add: evolves_def same_identity_def)
  with Cons show ?case by simp
qed simp

context guarded_update
begin

lemma execute_moves:
  "\<forall>s \<in> set expected. can_transition s target \<Longrightarrow> db_moves db (snd (execute stmt db))"
  unfolding db_moves_def execute_def
  by (auto simp: list.rel_map moves_def keeps_identity where_iff sets_status intro!: list.rel_refl_strong)

lemmas execute_evolves = db_moves_evolves [OF execute_moves]

end

text \<open>With unique ids, only the status of the stored order matters.\<close>

context guarded_update
begin

lemma execute_evolves_stored:
  assumes "distinct (map o_id db)" and "get_order_by_id db oid = Some r"
    and "can_transition (o_status r) target"
  shows "db_evolves db (snd (execute stmt db))"
proof -
  have "evolves x (if fst stmt x then snd stmt x else x)" if "x \<in> set db" for x
  proof (cases "fst stmt x")
    case True
    then have "o_id x = oid" by (rule only_row)
    with lookup_unique [OF assms(1) that] assms(2) have "x = r" by simp
    with True assms(3) show ?thesis
      by (simp add: evolves_def keeps_identity sets_status r_into_rtranclp)
  qed simp
  then show ?thesis
    unfolding db_evolves_def execute_def by (simp add: list.rel_map list.rel_refl_strong)
qed

end

text \<open>Every statement of the repository keeps its contract.\<close>

interpretation upd_status: guarded_update "update_order_status now oid expected target" oid expected target
  for now oid expected target
  by unfold_locales (simp_all add: update_order_status_def same_identity_def)

interpretation upd_submit: guarded_update
  "update_order_submit_result now oid rt mc m1 org no sub pl target q" oid "[PROCESSING]" target
  for now oid rt mc m1 org no sub pl target q
  by unfold_locales
    (simp_all add: update_order_submit_result_def same_identity_def split: option.splits)

interpretation upd_track: guarded_update
  "update_order_tracking_result now oid expected rt mc m1 org no f avg rem target pl" oid expected target
  for now oid expected rt mc m1 org no f avg rem target pl
  by unfold_locales (simp_all add: update_order_tracking_result_def same_identity_def)

text \<open>The failure update, where its arguments are complete; and the parent update, which has no guard.\<close>

definition failure_stmt ::
  "timestamp \<Rightarrow> uuid \<Rightarrow> order_status list \<Rightarrow> str option \<Rightarrow> str option \<Rightarrow> str option \<Rightarrow> order_status \<Rightarrow>
   json option \<Rightarrow> update_stmt" where
  "failure_stmt now oid expected rt mc m1 target pl =
     (case update_order_failure_result now oid (Some expected) rt mc m1 target None None None pl of
        Inr st \<Rightarrow> st | Inl _ \<Rightarrow> (\<lambda>_. False, \<lambda>r. r))"

interpretation upd_failure: guarded_update "failure_stmt now oid expected rt mc m1 target pl" oid expected target
  for now oid expected rt mc m1 target pl
  by unfold_locales (simp_all add: failure_stmt_def update_order_failure_result_def same_identity_def)

definition parent_stmt :: "timestamp \<Rightarrow> uuid \<Rightarrow> int \<Rightarrow> int \<Rightarrow> order_status \<Rightarrow> update_stmt" where
  "parent_stmt now oid f q target =
     (\<lambda>r. o_id r = oid,
      \<lambda>r. r\<lparr>o_filled_qty := f, o_remaining_qty := q, o_status := target, o_updated_at := now\<rparr>)"

lemma update_parent_ok [simp]:
  "update_parent_order_after_child now oid f q target [] = Inr (parent_stmt now oid f q target)"
  by (simp add: update_parent_order_after_child_def parent_stmt_def)

interpretation upd_parent: row_update "parent_stmt now oid f q target" oid
  for now oid f q target
  by unfold_locales (simp_all add: parent_stmt_def same_identity_def)

section \<open>Lemmas on insertion and queries\<close>

lemma create_order_ok:
  "create_order db row = Inr (row', db') \<Longrightarrow>
   row' = row \<and> db' = db @ [row] \<and> (distinct (map o_id db) \<longrightarrow> distinct (map o_id db'))"
  by (auto simp: create_order_def split: if_splits)

lemma sorted_desc: "sorted (map (\<lambda>r. - o_created_at r) (sort_key (\<lambda>r. - o_created_at r) xs))"
  by simp

section \<open>Claims and recoverable orders\<close>

text \<open>
  Claiming an order is exclusive: whatever the table, of two successive attempts to move the
  same order from \<open>PENDING\<close> to \<open>PROCESSING\<close> (worker 1's first step) the second changes no row
  and reports failure.
\<close>

lemma claim_is_exclusive:
  "\<not> fst (execute (update_order_status t2 oid [PENDING] PROCESSING)
             (snd (execute (update_order_status t1 oid [PENDING] PROCESSING) db)))"
  by (rule upd_status.rowcount_none [OF upd_status.none_expected_after]) simp

text \<open>
  The recovery queries select exactly the orders they document: the submit query the
  \<open>PENDING\<close> orders, the tracking query the \<open>REQUESTED\<close>, \<open>ACCEPTED\<close> and \<open>PARTIAL_FILLED\<close> orders that
  have a broker order number; each order once, oldest first.
\<close>

lemma recoverable_orders_exact:
  "set (get_recoverable_submit_orders db) = {r \<in> set db. o_status r = PENDING}
   \<and> set (get_recoverable_tracking_orders db) =
       {r \<in> set db. o_status r \<in> set TRACKING_TARGET_STATUSES \<and> o_broker_order_no r \<noteq> None}
   \<and> sorted (map o_created_at (get_recoverable_submit_orders db))
   \<and> sorted (map o_created_at (get_recoverable_tracking_orders db))
   \<and> (distinct db \<longrightarrow> distinct (get_recoverable_submit_orders db)
                    \<and> distinct (get_recoverable_tracking_orders db))"
  by (auto simp: get_recoverable_submit_orders_def get_recoverable_tracking_orders_def
      TRACKING_TARGET_STATUSES_def)

end
