(* ===== verification/Redis_Lock.thy ===== *)
theory Redis_Lock
  imports Prelude
begin

text \<open>
  The Redis keys the system shares, the distributed lock of
  \<^verbatim>\<open>app/utils/distributed_lock.py\<close> and the kill switch of
  \<^verbatim>\<open>app/services/safety/kill_switch_service.py\<close>.  A Redis database is a map from keys to a value and
  an expiry time; the commands the code issues (\<open>GET\<close>, \<open>SET\<close> with \<open>EX\<close> and \<open>NX\<close>, \<open>DEL\<close>) have their
  documented meaning, a key past its expiry being absent.  A value is a plain text or,
  where the code stores \<open>json.dumps(...)\<close>, the JSON value it encodes.
\<close>

section \<open>Redis\<close>

datatype rvalue = RText str | RJson json

type_synonym redis = "str \<rightharpoonup> rvalue \<times> timestamp option"

definition redis_get :: "timestamp \<Rightarrow> redis \<Rightarrow> str \<Rightarrow> rvalue option" where
  "redis_get now r k =
     (case r k of
        None \<Rightarrow> None
      | Some (v, ex) \<Rightarrow> (case ex of None \<Rightarrow> Some v | Some t \<Rightarrow> if now < t then Some v else None))"

definition redis_set :: "timestamp \<Rightarrow> redis \<Rightarrow> str \<Rightarrow> rvalue \<Rightarrow> int option \<Rightarrow> redis" where
  "redis_set now r k v ex = r(k \<mapsto> (v, map_option (\<lambda>d. now + d) ex))"

definition redis_set_nx :: "timestamp \<Rightarrow> redis \<Rightarrow> str \<Rightarrow> rvalue \<Rightarrow> int \<Rightarrow> bool \<times> redis" where
  "redis_set_nx now r k v ttl =
     (case redis_get now r k of
        None \<Rightarrow> (True, redis_set now r k v (Some ttl))
      | Some _ \<Rightarrow> (False, r))"

definition redis_delete :: "redis \<Rightarrow> str \<Rightarrow> redis" where
  "redis_delete r k = r(k := None)"

lemma redis_get_set [simp]:
  "redis_get t (redis_set now r k v ex) k' =
     (if k' = k then (case ex of None \<Rightarrow> Some v | Some d \<Rightarrow> if t < now + d then Some v else None)
      else redis_get t r k')"
  by (simp add: redis_get_def redis_set_def split: option.splits)

lemma redis_get_delete [simp]:
  "redis_get t (redis_delete r k) k' = (if k' = k then None else redis_get t r k')"
  by (simp add: redis_get_def redis_delete_def)

section \<open>The lock\<close>

definition acquire_lock :: "timestamp \<Rightarrow> redis \<Rightarrow> str \<Rightarrow> int \<Rightarrow> bool \<times> redis" where
  "acquire_lock now r key ttl_seconds = redis_set_nx now r key (RText ''1'') ttl_seconds"

definition release_lock :: "redis \<Rightarrow> str \<Rightarrow> redis" where
  "release_lock r key = redis_delete r key"

text \<open>
  The context manager around a body that works on a state \<open>'w\<close> holding the Redis database
  (\<open>get_redis\<close>, \<open>put_redis\<close>): the lock is released whether the body returns or raises, and a
  release that fails (\<open>release_fails\<close>) is only logged.
\<close>

definition distributed_lock ::
  "('w \<Rightarrow> redis) \<Rightarrow> (redis \<Rightarrow> 'w \<Rightarrow> 'w) \<Rightarrow> timestamp \<Rightarrow> str \<Rightarrow> int \<Rightarrow> bool \<Rightarrow>
   ('w \<Rightarrow> 'a result \<times> 'w) \<Rightarrow> 'w \<Rightarrow> 'a result \<times> 'w" where
  "distributed_lock get_redis put_redis now key ttl_seconds release_fails body w =
     (let (acquired, r) = acquire_lock now (get_redis w) key ttl_seconds
      in if \<not> acquired then (Inl (LockAcquisitionError key), w)
         else let (res, w') = body (put_redis r w)
              in (res, if release_fails then w' else put_redis (release_lock (get_redis w') key) w'))"

definition locked :: "str \<Rightarrow> timestamp \<Rightarrow> redis \<Rightarrow> bool" where
  "locked key now r = (redis_get now r key \<noteq> None)"

section \<open>Mutual exclusion of the lock's users\<close>

text \<open>
  Any number of instances that take the lock, work and release it, with the clock
  advancing between the steps.  \<open>working s i = Some t\<close>: instance \<open>i\<close> entered at \<open>t\<close>.  The
  utility has no owner token, so it relies on its users' work ending before the TTL does
  (\<open>tick\<close>'s condition), as its documentation says.
\<close>

record 'r lock_sys =
  clock :: int
  store :: 'r
  working :: "nat \<Rightarrow> int option"

inductive lock_step ::
  "(int \<Rightarrow> 'r \<Rightarrow> bool \<times> 'r) \<Rightarrow> ('r \<Rightarrow> 'r) \<Rightarrow> int \<Rightarrow> 'r lock_sys \<Rightarrow> 'r lock_sys \<Rightarrow> bool"
  for acq rel ttl
where
  enter: "working s i = None \<Longrightarrow> acq (clock s) (store s) = (True, r) \<Longrightarrow>
    lock_step acq rel ttl s (s\<lparr>store := r, working := (working s)(i \<mapsto> clock s)\<rparr>)"
| refused: "acq (clock s) (store s) = (False, r) \<Longrightarrow>
    lock_step acq rel ttl s (s\<lparr>store := r\<rparr>)"
| leave: "working s i = Some t \<Longrightarrow>
    lock_step acq rel ttl s (s\<lparr>store := rel (store s), working := (working s)(i := None)\<rparr>)"
| tick: "0 \<le> d \<Longrightarrow> \<forall>i t. working s i = Some t \<longrightarrow> clock s + d < t + ttl \<Longrightarrow>
    lock_step acq rel ttl s (s\<lparr>clock := clock s + d\<rparr>)"

inductive lock_reach ::
  "(int \<Rightarrow> 'r \<Rightarrow> bool \<times> 'r) \<Rightarrow> ('r \<Rightarrow> 'r) \<Rightarrow> int \<Rightarrow> 'r lock_sys \<Rightarrow> bool"
  for acq rel ttl
where
  idle: "working s = (\<lambda>_. None) \<Longrightarrow> lock_reach acq rel ttl s"
| step: "lock_reach acq rel ttl s \<Longrightarrow> lock_step acq rel ttl s t \<Longrightarrow> lock_reach acq rel ttl t"

text \<open>What a user of the lock relies on.\<close>

locale mutex =
  fixes acq :: "int \<Rightarrow> 'r \<Rightarrow> bool \<times> 'r" and rel :: "'r \<Rightarrow> 'r" and held :: "int \<Rightarrow> 'r \<Rightarrow> bool"
    and ttl :: int
  assumes acq_free: "fst (acq t r) \<longleftrightarrow> \<not> held t r"
    and acq_holds: "fst (acq t r) \<Longrightarrow> t \<le> u \<Longrightarrow> u < t + ttl \<Longrightarrow> held u (snd (acq t r))"
    and acq_refused: "\<not> fst (acq t r) \<Longrightarrow> snd (acq t r) = r"
    and rel_free: "\<not> held t (rel r)"
    and ttl_pos: "0 < ttl"
begin

definition safe :: "'r lock_sys \<Rightarrow> bool" where
  "safe s \<longleftrightarrow>
     (\<forall>i j. working s i \<noteq> None \<and> working s j \<noteq> None \<longrightarrow> i = j)
     \<and> (\<forall>i t. working s i = Some t \<longrightarrow>
          t \<le> clock s \<and> clock s < t + ttl \<and> (\<forall>u. clock s \<le> u \<and> u < t + ttl \<longrightarrow> held u (store s)))"

lemma step_safe: "lock_step acq rel ttl s s' \<Longrightarrow> safe s \<Longrightarrow> safe s'"
proof (induction rule: lock_step.induct)
  case (enter s i r)
  have free: "\<not> held (clock s) (store s)"
    using enter.hyps(2) acq_free [of "clock s" "store s"] by simp
  have none: "working s j = None" for j
  proof (rule ccontr)
    assume "working s j \<noteq> None"
    then obtain t where "working s j = Some t" by blast
    with enter.prems have "clock s < t + ttl" "\<forall>u. clock s \<le> u \<and> u < t + ttl \<longrightarrow> held u (store s)"
      unfolding safe_def by blast+
    with free show False by blast
  qed
  have "held u r" if "clock s \<le> u" "u < clock s + ttl" for u
    using acq_holds [of "clock s" "store s" u] enter.hyps(2) that by simp
  with none ttl_pos show ?case by (simp add: safe_def)
next
  case (refused s r)
  then have "r = store s" using acq_refused [of "clock s" "store s"] by simp
  with refused.prems show ?case by (simp add: safe_def)
next
  case (leave s i t)
  then have "working s j = None" if "j \<noteq> i" for j
    using that unfolding safe_def by (metis option.distinct(1))
  then show ?case by (simp add: safe_def)
next
  case (tick d s)
  from tick.prems have "\<And>i t. working s i = Some t \<Longrightarrow> t \<le> clock s + d"
    using tick.hyps(1) unfolding safe_def by (meson add_increasing2)
  moreover have "held u (store s)" if "working s i = Some t" "clock s + d \<le> u" "u < t + ttl" for i t u
    using tick.prems tick.hyps(1) that unfolding safe_def
    by (metis le_add_same_cancel1 order_trans)
  ultimately show ?case
    using tick.prems tick.hyps(2) unfolding safe_def by simp
qed

lemma reach_safe: "lock_reach acq rel ttl s \<Longrightarrow> safe s"
proof (induction rule: lock_reach.induct)
  case (idle s)
  then show ?case by (simp add: safe_def)
next
  case (step s t)
  then show ?case by (blast intro: step_safe)
qed

lemma exclusive:
  "lock_reach acq rel ttl s \<Longrightarrow> working s i \<noteq> None \<Longrightarrow> working s j \<noteq> None \<Longrightarrow> i = j"
  using reach_safe unfolding safe_def by blast

end

text \<open>The Redis lock is such a lock, for every key and every positive TTL.\<close>

lemma acquire_lock_fst: "fst (acquire_lock t r key ttl) \<longleftrightarrow> \<not> locked key t r"
  by (simp add: acquire_lock_def redis_set_nx_def locked_def split: option.splits)

lemma redis_mutex:
  "0 < ttl \<Longrightarrow> mutex (\<lambda>t r. acquire_lock t r key ttl) (\<lambda>r. release_lock r key) (locked key) ttl"
  by unfold_locales
    (auto simp: acquire_lock_fst, auto simp: acquire_lock_def release_lock_def redis_set_nx_def locked_def
      split: option.splits if_splits)

section \<open>Kill switch\<close>

definition KILL_SWITCH_KEY :: str where "KILL_SWITCH_KEY = ''kill_switch:trading''"

definition kill_switch_is_on :: "timestamp \<Rightarrow> redis \<Rightarrow> bool" where
  "kill_switch_is_on now r =
     (case redis_get now r KILL_SWITCH_KEY of
        None \<Rightarrow> False
      | Some v \<Rightarrow> (v = RText ''1''))"

definition kill_switch_turn_on :: "timestamp \<Rightarrow> redis \<Rightarrow> redis" where
  "kill_switch_turn_on now r = redis_set now r KILL_SWITCH_KEY (RText ''1'') None"

definition kill_switch_turn_off :: "timestamp \<Rightarrow> redis \<Rightarrow> redis" where
  "kill_switch_turn_off now r = redis_set now r KILL_SWITCH_KEY (RText ''0'') None"

definition kill_switch_set_state :: "timestamp \<Rightarrow> redis \<Rightarrow> bool \<Rightarrow> redis" where
  "kill_switch_set_state now r enabled =
     redis_set now r KILL_SWITCH_KEY (RText (if enabled then ''1'' else ''0'')) None"

definition kill_switch_get_state :: "timestamp \<Rightarrow> redis \<Rightarrow> bool \<times> str" where
  "kill_switch_get_state now r =
     (let enabled = kill_switch_is_on now r
      in (enabled, if enabled then ''trading is blocked'' else ''trading is allowed''))"

text \<open>A persistent flag over Redis: reading returns the last write, at every later time.\<close>

locale redis_flag =
  fixes rd :: "timestamp \<Rightarrow> redis \<Rightarrow> bool" and wr :: "timestamp \<Rightarrow> redis \<Rightarrow> bool \<Rightarrow> redis"
    and key :: str
  assumes read_write: "rd t (wr now r b) = b"
    and write_frame: "k \<noteq> key \<Longrightarrow> redis_get t (wr now r b) k = redis_get t r k"
    and read_local: "redis_get t r key = redis_get t r' key \<Longrightarrow> rd t r = rd t r'"
    and read_unset: "redis_get t r key = None \<Longrightarrow> \<not> rd t r"
begin

lemma last_write_wins: "rd t (foldl (\<lambda>r (u, b). wr u r b) r (ws @ [(u, b)])) = b"
  by (simp add: read_write)

lemma read_after_other_key:
  "key \<noteq> k \<Longrightarrow> rd t (redis_set now r k v ex) = rd t r"
  by (rule read_local) simp

lemma read_after_delete_other: "key \<noteq> k \<Longrightarrow> rd t (redis_delete r k) = rd t r"
  by (rule read_local) simp

end

interpretation kill_switch: redis_flag kill_switch_is_on kill_switch_set_state KILL_SWITCH_KEY
  by unfold_locales (simp_all add: kill_switch_is_on_def kill_switch_set_state_def)

lemma kill_switch_locked [simp]:
  "key \<noteq> KILL_SWITCH_KEY \<Longrightarrow> kill_switch_is_on t (snd (acquire_lock now r key ttl)) = kill_switch_is_on t r"
  by (simp add: acquire_lock_def redis_set_nx_def kill_switch.read_after_other_key split: option.splits)

section \<open>Properties\<close>

text \<open>
  C31. The distributed lock gives mutual exclusion: however instances take, are refused and
  release the lock of one key while the clock advances, no two of them are inside at once, as
  long as nobody's work lasts as long as the TTL.
\<close>

theorem distributed_lock_mutual_exclusion:
  assumes "0 < ttl"
    and "lock_reach (\<lambda>t r. acquire_lock t r key ttl) (\<lambda>r. release_lock r key) ttl s"
    and "working s i \<noteq> None" and "working s j \<noteq> None"
  shows "i = j"
  using mutex.exclusive [OF redis_mutex [OF assms(1)] assms(2-4)] .

lemma lock_reach_example:
  "lock_reach (\<lambda>t r. acquire_lock t r ''k'' 10) (\<lambda>r. release_lock r ''k'') 10
     \<lparr>clock = 5, store = redis_set 5 Map.empty ''k'' (RText ''1'') (Some 10), working = (\<lambda>_. None)(3 \<mapsto> 5)\<rparr>"
proof -
  let ?s = "\<lparr>clock = 5, store = Map.empty, working = (\<lambda>_. None)\<rparr> :: redis lock_sys"
  have "lock_step (\<lambda>t r. acquire_lock t r ''k'' 10) (\<lambda>r. release_lock r ''k'') 10 ?s
    (?s\<lparr>store := redis_set 5 Map.empty ''k'' (RText ''1'') (Some 10), working := (working ?s)(3 \<mapsto> clock ?s)\<rparr>)"
    by (rule lock_step.enter) (simp_all add: acquire_lock_def redis_set_nx_def redis_get_def)
  then show ?thesis
    using lock_reach.step [OF lock_reach.idle [of ?s]] by fastforce
qed

theorem distributed_lock_mutual_exclusion_witness:
  "lock_reach (\<lambda>t r. acquire_lock t r ''k'' 10) (\<lambda>r. release_lock r ''k'') 10
     \<lparr>clock = 5, store = redis_set 5 Map.empty ''k'' (RText ''1'') (Some 10), working = (\<lambda>_. None)(3 \<mapsto> 5)\<rparr>
   \<and> (3::nat) = 3"
  using distributed_lock_mutual_exclusion [OF _ lock_reach_example, of 3 3] lock_reach_example by simp

text \<open>
  The context manager releases its lock on every way out: whether the body returned or
  raised, the key is free afterwards (unless the release itself failed), and a refused
  acquisition raises \<open>LockAcquisitionError\<close> without running the body or changing the state.
\<close>

lemma distributed_lock_releases:
  assumes "\<And>r w. get_redis (put_redis r w) = r"
  shows "(\<not> locked key now (get_redis w) \<longrightarrow>
      (\<exists>w1. distributed_lock get_redis put_redis now key ttl release_fails body w
              = (fst (body w1), if release_fails then snd (body w1)
                                else put_redis (release_lock (get_redis (snd (body w1))) key) (snd (body w1)))
        \<and> get_redis w1 = snd (acquire_lock now (get_redis w) key ttl))
      \<and> (\<not> release_fails \<longrightarrow>
          \<not> locked key t (get_redis (snd (distributed_lock get_redis put_redis now key ttl release_fails body w)))))
    \<and> (locked key now (get_redis w) \<longrightarrow>
        distributed_lock get_redis put_redis now key ttl release_fails body w = (Inl (LockAcquisitionError key), w))"
proof (cases "acquire_lock now (get_redis w) key ttl")
  case (Pair a r)
  have a: "a \<longleftrightarrow> \<not> locked key now (get_redis w)"
    using Pair acquire_lock_fst [of now "get_redis w" key ttl] by simp
  show ?thesis
  proof (cases a)
    case True
    have free: "\<not> locked key t (release_lock r' key)" for r'
      by (simp add: locked_def release_lock_def)
    from True a Pair assms free show ?thesis
      by (auto simp: distributed_lock_def case_prod_beta)
  next
    case False
    with a Pair show ?thesis by (simp add: distributed_lock_def)
  qed
qed

text \<open>
  The kill switch reads back what was last written to it, at every later time, whatever
  happens to other keys; never written, it is off.
\<close>

lemma kill_switch_last_write:
  "kill_switch_is_on t (kill_switch_turn_on now r)
   \<and> \<not> kill_switch_is_on t (kill_switch_turn_off now r)
   \<and> kill_switch_get_state t (kill_switch_set_state now r b)
       = (b, if b then ''trading is blocked'' else ''trading is allowed'')
   \<and> kill_switch_is_on t (snd (acquire_lock now r ''lock:rebalance:auto'' ttl)) = kill_switch_is_on t r
   \<and> \<not> kill_switch_is_on t Map.empty"
proof -
  have "kill_switch_turn_on now r = kill_switch_set_state now r True"
    "kill_switch_turn_off now r = kill_switch_set_state now r False"
    by (simp_all add: kill_switch_turn_on_def kill_switch_turn_off_def kill_switch_set_state_def)
  moreover have "\<not> kill_switch_is_on t Map.empty"
    by (rule kill_switch.read_unset) (simp add: redis_get_def)
  moreover have "''lock:rebalance:auto'' \<noteq> KILL_SWITCH_KEY" by (simp add: KILL_SWITCH_KEY_def)
  ultimately show ?thesis
    by (simp add: kill_switch.read_write kill_switch_get_state_def)
qed

end
