(* ===== verification/Kis_Order.thy ===== *)
theory Kis_Order
  imports Order_State Py_Number Py_Time
begin

text \<open>
  The order endpoints of the KIS broker: \<^verbatim>\<open>app/broker/kis/kis_order.py\<close> with the identifiers of
  \<^verbatim>\<open>app/broker/kis/enums.py\<close> and the response schemas of \<^verbatim>\<open>app/schemas/kis\<close>.  The network is a
  parameter: \<open>http rq k\<close> is what the \<open>k\<close>-th attempt to send \<open>rq\<close> meets, a network error or a
  response with its status, its JSON body (\<open>None\<close> when the body is no JSON), its text and the text
  \<open>raise_for_status\<close> would raise with.  Every operation also returns how many requests it sent.
  Waiting between attempts takes no step of the model.
\<close>

section \<open>Requests and responses\<close>

record http_request =
  rq_method :: str
  rq_endpoint :: str
  rq_tr_id :: str
  rq_payload :: "(str \<times> str) list"

datatype http_outcome =
    NetworkError str
  | Response int "json option" str str

type_synonym http = "http_request \<Rightarrow> nat \<Rightarrow> http_outcome"

datatype TRID =
    DOMESTIC_STOCK_BUY | DOMESTIC_STOCK_SELL | DOMESTIC_STOCK_MODIFY
  | DAILY_CCDL_RECENT | DAILY_CCDL_OLD | DOMESTIC_STOCK_BALANCE | AVAILABLE_BUY

text \<open>\<open>TRID.resolve(is_paper)\<close>.\<close>

fun resolve :: "TRID \<Rightarrow> bool \<Rightarrow> str" where
  "resolve DOMESTIC_STOCK_BUY p = (if p then ''VTTC0012U'' else ''TTTC0012U'')"
| "resolve DOMESTIC_STOCK_SELL p = (if p then ''VTTC0011U'' else ''TTTC0011U'')"
| "resolve DOMESTIC_STOCK_MODIFY p = (if p then ''VTTC0013U'' else ''TTTC0013U'')"
| "resolve DAILY_CCDL_RECENT p = (if p then ''VTTC0081R'' else ''TTTC0081R'')"
| "resolve DAILY_CCDL_OLD p = (if p then ''VTSC9215R'' else ''CTSC9215R'')"
| "resolve DOMESTIC_STOCK_BALANCE p = (if p then ''VTTC8434R'' else ''TTTC8434R'')"
| "resolve AVAILABLE_BUY p = (if p then ''VTTC8908R'' else ''TTTC8908R'')"

definition ORD_DVSN_LIMIT :: str where "ORD_DVSN_LIMIT = ''00''"
definition ORD_DVSN_MARKET :: str where "ORD_DVSN_MARKET = ''01''"
definition EXCG_KRX :: str where "EXCG_KRX = ''KRX''"

record order_output =
  out_KRX_FWDG_ORD_ORGNO :: str
  out_ODNO :: str
  out_ORD_TMD :: str

record order_response =
  r_rt_cd :: str
  r_msg_cd :: str
  r_msg1 :: str
  r_output :: "order_output option"

text \<open>
  Rows of the daily execution inquiry are dicts of strings, with these required fields; other
  fields of the JSON are dropped.
\<close>

definition daily_item_fields :: "str list" where
  "daily_item_fields =
     [''ord_dt'', ''ord_gno_brno'', ''odno'', ''orgn_odno'', ''ord_dvsn_name'', ''sll_buy_dvsn_cd'',
      ''sll_buy_dvsn_cd_name'', ''pdno'', ''prdt_name'', ''ord_qty'', ''ord_unpr'', ''ord_tmd'',
      ''tot_ccld_qty'', ''avg_prvs'', ''cncl_yn'', ''tot_ccld_amt'', ''loan_dt'', ''ordr_empno'',
      ''ord_dvsn_cd'', ''cncl_cfrm_qty'', ''rmn_qty'', ''rjct_qty'', ''ccld_cndt_name'',
      ''inqr_ip_addr'', ''cpbc_ordp_ord_rcit_dvsn_cd'', ''cpbc_ordp_infm_mthd_dvsn_cd'', ''infm_tmd'',
      ''ctac_tlno'', ''prdt_type_cd'', ''excg_dvsn_cd'', ''cpbc_ordp_mtrl_dvsn_cd'', ''ord_orgno'',
      ''rsvn_ord_end_dt'', ''excg_id_dvsn_cd'', ''stpm_cndt_pric'', ''stpm_efct_occr_dtmd'']"

definition daily_summary_fields :: "str list" where
  "daily_summary_fields =
     [''tot_ord_qty'', ''tot_ccld_qty'', ''tot_ccld_amt'', ''prsm_tlex_smtl'', ''pchs_avg_pric'']"

type_synonym daily_item = "(str \<times> str) list"

record daily_response =
  d_rt_cd :: str
  d_msg_cd :: str
  d_msg1 :: str
  d_ctx_area_fk100 :: str
  d_ctx_area_nk100 :: str
  d_output1 :: "daily_item list option"
  d_output2 :: "(str \<times> str) list option"

section \<open>Validation of responses\<close>

text \<open>Required string fields of a JSON object; \<open>None\<close> is pydantic's \<open>ValidationError\<close>.\<close>

fun str_fields :: "str list \<Rightarrow> (str \<times> json) list \<Rightarrow> (str \<times> str) list option" where
  "str_fields [] d = Some []"
| "str_fields (f # fs) d =
     (case dict_get d f of
        Some (JStr s) \<Rightarrow> map_option (\<lambda>r. (f, s) # r) (str_fields fs d)
      | _ \<Rightarrow> None)"

definition model_fields :: "str list \<Rightarrow> json \<Rightarrow> (str \<times> str) list option" where
  "model_fields fs j = (case j of JObj d \<Rightarrow> str_fields fs d | _ \<Rightarrow> None)"

fun all_some :: "'a option list \<Rightarrow> 'a list option" where
  "all_some [] = Some []"
| "all_some (None # xs) = None"
| "all_some (Some x # xs) = map_option (\<lambda>r. x # r) (all_some xs)"

text \<open>A field with a default of \<open>None\<close>: absent and null are \<open>None\<close>.\<close>

definition optional_field :: "(json \<Rightarrow> 'a option) \<Rightarrow> (str \<times> json) list \<Rightarrow> str \<Rightarrow> 'a option option" where
  "optional_field p d f =
     (case dict_get d f of
        None \<Rightarrow> Some None
      | Some JNull \<Rightarrow> Some None
      | Some j \<Rightarrow> map_option Some (p j))"

definition ValidationError :: "str \<Rightarrow> exn" where
  "ValidationError model = LibError ''ValidationError'' (''validation error for '' @ model)"

text \<open>\<open>OrderResponse(**data)\<close> and \<open>DailyOrderExecutionResponse(**data)\<close>.\<close>

definition parse_output :: "json \<Rightarrow> order_output option" where
  "parse_output j =
     (case model_fields [''KRX_FWDG_ORD_ORGNO'', ''ODNO'', ''ORD_TMD''] j of
        Some [(_, a), (_, b), (_, c)] \<Rightarrow>
          Some \<lparr>out_KRX_FWDG_ORD_ORGNO = a, out_ODNO = b, out_ORD_TMD = c\<rparr>
      | _ \<Rightarrow> None)"

definition OrderResponse :: "(str \<times> json) list \<Rightarrow> order_response result" where
  "OrderResponse d =
     (case (str_fields [''rt_cd'', ''msg_cd'', ''msg1''] d, optional_field parse_output d ''output'') of
        (Some [(_, a), (_, b), (_, c)], Some out) \<Rightarrow>
          Inr \<lparr>r_rt_cd = a, r_msg_cd = b, r_msg1 = c, r_output = out\<rparr>
      | _ \<Rightarrow> Inl (ValidationError ''OrderResponse''))"

definition parse_items :: "json \<Rightarrow> daily_item list option" where
  "parse_items j = (case j of JList l \<Rightarrow> all_some (map (model_fields daily_item_fields) l) | _ \<Rightarrow> None)"

definition DailyOrderExecutionResponse :: "(str \<times> json) list \<Rightarrow> daily_response result" where
  "DailyOrderExecutionResponse d =
     (case (str_fields [''rt_cd'', ''msg_cd'', ''msg1'', ''ctx_area_fk100'', ''ctx_area_nk100''] d,
            optional_field parse_items d ''output1'',
            optional_field (model_fields daily_summary_fields) d ''output2'') of
        (Some [(_, a), (_, b), (_, c), (_, fk), (_, nk)], Some o1, Some o2) \<Rightarrow>
          Inr \<lparr>d_rt_cd = a, d_msg_cd = b, d_msg1 = c, d_ctx_area_fk100 = fk, d_ctx_area_nk100 = nk,
               d_output1 = o1, d_output2 = o2\<rparr>
      | _ \<Rightarrow> Inl (ValidationError ''DailyOrderExecutionResponse''))"

section \<open>Error bodies\<close>

definition get_default :: "(str \<times> json) list \<Rightarrow> str \<Rightarrow> str \<Rightarrow> str option" where
  "get_default d k dflt = (case dict_get d k of None \<Rightarrow> Some dflt | Some j \<Rightarrow> json_text (Some j))"

text \<open>
  The \<open>rt_cd\<close>, \<open>msg_cd\<close>, \<open>msg1\<close> and payload taken from the body of a failed response: the body's
  own fields when it is a JSON object, the HTTP defaults otherwise.
\<close>

definition http_error_info ::
  "str \<Rightarrow> int \<Rightarrow> json option \<Rightarrow> str \<Rightarrow> str option \<times> str option \<times> str option \<times> json" where
  "http_error_info label status body txt =
     (let msg = label @ '' request failed: HTTP '' @ show_int status
      in case body of
           Some (JObj d) \<Rightarrow>
             (get_default d ''rt_cd'' ''ERROR'', get_default d ''msg_cd'' ''BROKER_HTTP_ERROR'',
              get_default d ''msg1'' msg, JObj d)
         | _ \<Rightarrow> (Some ''ERROR'', Some ''BROKER_HTTP_ERROR'', Some msg,
                 JObj [(''status_code'', JInt status), (''response_text'', JStr txt)]))"

definition network_error :: "str \<Rightarrow> str \<Rightarrow> str \<Rightarrow> exn" where
  "network_error label stg e =
     (let msg = label @ '' request failed: '' @ e
      in new_KISOrderError (Some msg) (Some 500) None (Some ''ERROR'') (Some ''NETWORK_ERROR'') (Some msg)
           (Some (JObj [(''stage'', JStr stg), (''error'', JStr e)])))"

definition broker_http_error :: "str \<Rightarrow> str \<Rightarrow> int \<Rightarrow> json option \<Rightarrow> str \<Rightarrow> exn" where
  "broker_http_error label stg status body txt =
     (let (rt, mc, m1, pl) = http_error_info label status body txt
      in new_KISOrderError (Some (or_text m1 ''None'')) (Some status) mc rt mc m1
           (Some (JObj [(''stage'', JStr stg), (''status_code'', JInt status), (''response'', pl)])))"

text \<open>A response the broker answered with an \<open>rt_cd\<close> other than \<open>"0"\<close>.\<close>

definition rejected :: "str \<Rightarrow> (str \<times> json) list \<Rightarrow> exn" where
  "rejected dflt d =
     new_KISOrderError (Some (or_text (get_default d ''msg1'' dflt) ''None'')) (Some 400)
       (json_text (dict_get d ''msg_cd'')) (json_text (dict_get d ''rt_cd'')) (json_text (dict_get d ''msg_cd''))
       (json_text (dict_get d ''msg1'')) (Some (JObj d))"

text \<open>\<open>resp.json()\<close> used as a dict.\<close>

definition json_dict :: "json option \<Rightarrow> (str \<times> json) list result" where
  "json_dict body =
     (case body of
        Some (JObj d) \<Rightarrow> Inr d
      | Some _ \<Rightarrow> Inl (AttributeError ''object has no attribute get'')
      | None \<Rightarrow> Inl (LibError ''JSONDecodeError'' ''Expecting value''))"

definition is_success :: "int \<Rightarrow> bool" where
  "is_success status = (200 \<le> status \<and> status < 300)"

section \<open>Cash orders\<close>

text \<open>
  The retry loop of the buy and sell orders, from the given attempt on, \<open>HTTP_RETRY_COUNT\<close>
  attempts in all: the body of the first successful response, or the error of the last attempt.
\<close>

fun cash_loop :: "str \<Rightarrow> str \<Rightarrow> (nat \<Rightarrow> http_outcome) \<Rightarrow> nat list \<Rightarrow> nat \<times> json option result" where
  "cash_loop label stg send [] = (0, Inl (LibError ''UnboundLocalError'' ''resp''))"
| "cash_loop label stg send (attempt # rest) =
     (let again = (\<lambda>e. if attempt = HTTP_RETRY_COUNT - 1 then (1, Inl e)
                       else (let (n, r) = cash_loop label stg send rest in (Suc n, r)))
      in case send attempt of
           NetworkError e \<Rightarrow> again (network_error label stg e)
         | Response status body txt _ \<Rightarrow>
             if is_success status then (1, Inr body)
             else again (broker_http_error label stg status body txt))"

text \<open>What follows the loop: the body must be an accepted dict whose \<open>output\<close> can be read.\<close>

definition cash_result :: "str \<Rightarrow> json option \<Rightarrow> order_response result" where
  "cash_result dflt body =
     bind_result (json_dict body) (\<lambda>d.
       if dict_get d ''rt_cd'' \<noteq> Some (JStr ''0'') then Inl (rejected dflt d)
       else (case dict_get d ''output'' of
               None \<Rightarrow> OrderResponse d
             | Some (JObj _) \<Rightarrow> OrderResponse d
             | Some _ \<Rightarrow> Inl (AttributeError ''object has no attribute get'')))"

text \<open>\<open>str(int(quantity))\<close> and \<open>str(int(Decimal(str(price))))\<close>, the price being a text.\<close>

definition str_qty :: "str \<Rightarrow> str result" where
  "str_qty quantity = bind_result (py_int quantity) (\<lambda>n. Inr (show_int n))"

definition str_price :: "str \<Rightarrow> str result" where
  "str_price price =
     (case parse_decimal price of
        None \<Rightarrow> Inl (LibError ''InvalidOperation'' ''ConversionSyntax'')
      | Some d \<Rightarrow> bind_result (int_of_decimal d) (\<lambda>n. Inr (show_int n)))"

definition buy_request :: "bool \<Rightarrow> str \<Rightarrow> str \<Rightarrow> str \<Rightarrow> str \<Rightarrow> str \<Rightarrow> str \<Rightarrow> str \<Rightarrow> http_request" where
  "buy_request paper account_no account_product_code order_type stock_code qty price exchange_type =
     \<lparr>rq_method = ''POST'', rq_endpoint = ''/uapi/domestic-stock/v1/trading/order-cash'',
      rq_tr_id = resolve DOMESTIC_STOCK_BUY paper,
      rq_payload =
        [(''CANO'', account_no), (''ACNT_PRDT_CD'', account_product_code), (''PDNO'', stock_code),
         (''SLL_TYPE'', ''''), (''ORD_DVSN'', order_type), (''ORD_QTY'', qty), (''ORD_UNPR'', price),
         (''CNDT_PRIC'', ''''), (''EXCG_ID_DVSN_CD'', exchange_type)]\<rparr>"

definition sell_request :: "bool \<Rightarrow> str \<Rightarrow> str \<Rightarrow> str \<Rightarrow> str \<Rightarrow> str \<Rightarrow> str \<Rightarrow> str \<Rightarrow> http_request" where
  "sell_request paper account_no account_product_code order_type stock_code qty price exchange_type =
     \<lparr>rq_method = ''POST'', rq_endpoint = ''/uapi/domestic-stock/v1/trading/order-cash'',
      rq_tr_id = resolve DOMESTIC_STOCK_SELL paper,
      rq_payload =
        [(''CANO'', account_no), (''ACNT_PRDT_CD'', account_product_code), (''PDNO'', stock_code),
         (''SLL_TYPE'', ''01''), (''ORD_DVSN'', order_type), (''ORD_QTY'', qty), (''ORD_UNPR'', price),
         (''CNDT_PRIC'', ''''), (''EXCG_ID_DVSN_CD'', exchange_type)]\<rparr>"

text \<open>Requests sent with their number, and the result.\<close>

type_synonym 'a sent = "http_request list \<times> 'a result"

definition cash_order ::
  "http \<Rightarrow> str \<Rightarrow> str \<Rightarrow> (str \<Rightarrow> str \<Rightarrow> http_request) \<Rightarrow> str \<Rightarrow> str \<Rightarrow> order_response sent" where
  "cash_order http label stg mk quantity price =
     (case bind_result (str_qty quantity) (\<lambda>q. bind_result (str_price price) (\<lambda>p. Inr (mk q p))) of
        Inl e \<Rightarrow> ([], Inl e)
      | Inr rq \<Rightarrow>
          (let (n, res) = cash_loop label stg (http rq) [0..<HTTP_RETRY_COUNT]
           in (replicate n rq, bind_result res (cash_result (label @ '' failed'')))))"

definition buy_domestic_stock_by_cash ::
  "http \<Rightarrow> bool \<Rightarrow> str \<Rightarrow> str \<Rightarrow> str \<Rightarrow> str \<Rightarrow> str \<Rightarrow> str \<Rightarrow> str \<Rightarrow> order_response sent" where
  "buy_domestic_stock_by_cash http paper account_no account_product_code order_type stock_code
       quantity price exchange_type =
     cash_order http ''buy order'' ''buy_domestic_stock_by_cash''
       (\<lambda>q p. buy_request paper account_no account_product_code order_type stock_code q p exchange_type)
       quantity price"

definition sell_domestic_stock_by_cash ::
  "http \<Rightarrow> bool \<Rightarrow> str \<Rightarrow> str \<Rightarrow> str \<Rightarrow> str \<Rightarrow> str \<Rightarrow> str \<Rightarrow> str \<Rightarrow> order_response sent" where
  "sell_domestic_stock_by_cash http paper account_no account_product_code order_type stock_code
       quantity price exchange_type =
     cash_order http ''sell order'' ''sell_domestic_stock_by_cash''
       (\<lambda>q p. sell_request paper account_no account_product_code order_type stock_code q p exchange_type)
       quantity price"

section \<open>Modification and cancellation\<close>

definition modify_request ::
  "bool \<Rightarrow> str \<Rightarrow> str \<Rightarrow> str \<Rightarrow> str \<Rightarrow> str \<Rightarrow> str \<Rightarrow> str \<Rightarrow> str \<Rightarrow> str \<Rightarrow> str \<Rightarrow> http_request" where
  "modify_request paper account_no account_product_code krx_fwdg_ord_orgno order_no order_type
       revise_cancel_type quantity price qty_all_order_yn exchange_type =
     \<lparr>rq_method = ''POST'', rq_endpoint = ''/uapi/domestic-stock/v1/trading/order-rvsecncl'',
      rq_tr_id = resolve DOMESTIC_STOCK_MODIFY paper,
      rq_payload =
        [(''CANO'', account_no), (''ACNT_PRDT_CD'', account_product_code),
         (''KRX_FWDG_ORD_ORGNO'', krx_fwdg_ord_orgno), (''ORGN_ODNO'', order_no),
         (''ORD_DVSN'', order_type), (''RVSE_CNCL_DVSN_CD'', revise_cancel_type),
         (''ORD_QTY'', quantity), (''ORD_UNPR'', price), (''QTY_ALL_ORD_YN'', qty_all_order_yn),
         (''CNDT_PRIC'', ''''), (''EXCG_ID_DVSN_CD'', exchange_type)]\<rparr>"

definition modify_error :: "str \<Rightarrow> exn" where
  "modify_error msg = new_KISOrderError (Some msg) None None None None None None"

text \<open>
  A network error is retried; an HTTP error is not: before the last attempt the handler sleeps
  and then raises an error that carries a message only, on the last attempt it raises the
  broker's error.
\<close>

fun modify_loop :: "(nat \<Rightarrow> http_outcome) \<Rightarrow> nat list \<Rightarrow> nat \<times> order_response result" where
  "modify_loop send [] = (0, Inl (TypeError ''no attempt''))"
| "modify_loop send (attempt # rest) =
     (case send attempt of
        NetworkError e \<Rightarrow>
          if attempt = HTTP_RETRY_COUNT - 1
          then (1, Inl (network_error ''revise/cancel order'' ''modify_order_by_cash'' e))
          else (let (n, r) = modify_loop send rest in (Suc n, r))
      | Response status body txt _ \<Rightarrow>
          if is_success status then
            (1, bind_result (json_dict body) (\<lambda>d.
                  if dict_get d ''rt_cd'' \<noteq> Some (JStr ''0'') then Inl (rejected ''revise/cancel order failed'' d)
                  else OrderResponse d))
          else if attempt = HTTP_RETRY_COUNT - 1
          then (1, Inl (broker_http_error ''revise/cancel order'' ''modify_order_by_cash'' status body txt))
          else (1, Inl (modify_error ''an error occurred while revising/canceling the order'')))"

definition modify_order_by_cash ::
  "http \<Rightarrow> bool \<Rightarrow> str \<Rightarrow> str \<Rightarrow> str \<Rightarrow> str \<Rightarrow> str \<Rightarrow> str \<Rightarrow> str \<Rightarrow> str \<Rightarrow> str \<Rightarrow> str \<Rightarrow> order_response sent" where
  "modify_order_by_cash http paper account_no account_product_code krx_fwdg_ord_orgno order_no order_type
       revise_cancel_type quantity revise_price qty_all_order_yn exchange_type =
     (case str_price revise_price of
        Inl e \<Rightarrow> ([], Inl e)
      | Inr p \<Rightarrow>
          (let rq = modify_request paper account_no account_product_code krx_fwdg_ord_orgno order_no
                      order_type revise_cancel_type quantity p qty_all_order_yn exchange_type;
               (n, res) = modify_loop (http rq) [0..<HTTP_RETRY_COUNT]
           in (replicate n rq, res)))"

section \<open>Inquiries\<close>

text \<open>Orders that can be revised or canceled: not for paper trading.\<close>

definition modifiable_item_fields :: "str list" where
  "modifiable_item_fields =
     [''ord_gno_brno'', ''odno'', ''orgn_odno'', ''ord_dvsn_name'', ''pdno'', ''prdt_name'',
      ''rvse_cncl_dvsn_name'', ''ord_qty'', ''ord_unpr'', ''ord_tmd'', ''tot_ccld_qty'', ''tot_ccld_amt'',
      ''psbl_qty'', ''sll_buy_dvsn_cd'', ''ord_dvsn_cd'', ''mgco_aptm_odno'', ''excg_dvsn_cd'',
      ''excg_id_dvsn_cd'', ''excg_id_dvsn_name'', ''stpm_cndt_pric'', ''stpm_efct_occr_yn'']"

definition parse_modifiable :: "json \<Rightarrow> (str \<times> str) list list option" where
  "parse_modifiable j =
     (case j of JList l \<Rightarrow> all_some (map (model_fields modifiable_item_fields) l) | _ \<Rightarrow> None)"

definition ModifiableOrdersResponse :: "(str \<times> json) list \<Rightarrow> (str \<times> str) list list option result" where
  "ModifiableOrdersResponse d =
     (case (str_fields [''rt_cd'', ''msg_cd'', ''msg1''] d, optional_field parse_modifiable d ''output'') of
        (Some _, Some out) \<Rightarrow> Inr out
      | _ \<Rightarrow> Inl (ValidationError ''ModifiableOrdersResponse''))"

definition get_cancelable_cash_orders ::
  "http \<Rightarrow> bool \<Rightarrow> str \<Rightarrow> str \<Rightarrow> str \<Rightarrow> str \<Rightarrow> (str \<times> str) list list option sent" where
  "get_cancelable_cash_orders http paper account_no account_product_code inquire_div1 inquire_div2 =
     (if paper then
        ([], Inl (let msg = ''modifiable orders inquiry is not supported in paper trading''
                  in new_KISOrderError (Some msg) (Some 400) (Some ''PAPER_NOT_SUPPORTED'') (Some ''ERROR'')
                       (Some ''PAPER_NOT_SUPPORTED'') (Some msg)
                       (Some (JObj [(''stage'', JStr ''get_cancelable_cash_orders''), (''trading_env'', JStr ''paper'')]))))
      else
        (let rq = \<lparr>rq_method = ''POST'', rq_endpoint = ''/uapi/domestic-stock/v1/trading/inquire-psbl-rvsecncl'',
                   rq_tr_id = ''TTTC0084R'',
                   rq_payload = [(''CANO'', account_no), (''ACNT_PRDT_CD'', account_product_code),
                     (''CTX_AREA_FK100'', ''''), (''CTX_AREA_NK100'', ''''),
                     (''INQR_DVSN_1'', inquire_div1), (''INQR_DVSN_2'', inquire_div2)]\<rparr>;
             (n, res) = cash_loop ''modifiable orders inquiry'' ''get_cancelable_cash_orders'' (http rq) [0..<HTTP_RETRY_COUNT]
         in (replicate n rq,
             bind_result (bind_result res json_dict) (\<lambda>d.
               if dict_get d ''rt_cd'' \<noteq> Some (JStr ''0'') then Inl (rejected ''modifiable orders inquiry failed'' d)
               else ModifiableOrdersResponse d))))"

text \<open>The daily execution inquiry.\<close>

definition check_within_3_months :: "str \<Rightarrow> str \<Rightarrow> bool result" where
  "check_within_3_months start_date end_date =
     (case (strptime_ymd start_date, strptime_ymd end_date) of
        (Some s, Some e) \<Rightarrow> Inr (e - s \<le> 90)
      | _ \<Rightarrow> Inl (ValueError ''time data does not match format %Y%m%d''))"

fun str_le :: "str \<Rightarrow> str \<Rightarrow> bool" where
  "str_le [] t = True"
| "str_le (c # s) [] = False"
| "str_le (c # s) (d # t) =
     ((of_char c :: nat) < of_char d \<or> c = d \<and> str_le s t)"

definition daily_error :: "int \<Rightarrow> str \<Rightarrow> exn" where
  "daily_error status e =
     (let msg = ''daily order execution inquiry failed: '' @ e
      in new_KISOrderError (Some msg) (Some status) None (Some ''ERROR'') (Some ''NETWORK_ERROR'') (Some msg)
           (Some (JObj [(''stage'', JStr ''daily_order_execution''), (''error'', JStr e)])))"

text \<open>The answer to an accepted inquiry; \<open>len(data.get('output1', []))\<close> of the log line must be defined.\<close>

definition daily_result :: "json option \<Rightarrow> daily_response result" where
  "daily_result body =
     bind_result (json_dict body) (\<lambda>d.
       if dict_get d ''rt_cd'' \<noteq> Some (JStr ''0'') then Inl (rejected ''daily order execution inquiry failed'' d)
       else (case dict_get d ''output1'' of
               Some JNull \<Rightarrow> Inl (TypeError ''object of type NoneType has no len()'')
             | Some (JInt _) \<Rightarrow> Inl (TypeError ''object of type int has no len()'')
             | Some (JBool _) \<Rightarrow> Inl (TypeError ''object of type bool has no len()'')
             | _ \<Rightarrow> DailyOrderExecutionResponse d))"

fun daily_loop :: "(nat \<Rightarrow> http_outcome) \<Rightarrow> nat list \<Rightarrow> nat \<times> daily_response result" where
  "daily_loop send [] = (0, Inl (TypeError ''no attempt''))"
| "daily_loop send (attempt # rest) =
     (let again = (\<lambda>e. if attempt = HTTP_RETRY_COUNT - 1 then (1, Inl (daily_error 500 e))
                       else (let (n, r) = daily_loop send rest in (Suc n, r)))
      in case send attempt of
           NetworkError e \<Rightarrow> again e
         | Response status body txt raise_text \<Rightarrow>
             if is_success status then (1, daily_result body)
             else if 400 \<le> status \<and> status < 500 then (1, Inl (daily_error status raise_text))
             else if 500 \<le> status \<and> status < 600 then again (''Server error: '' @ show_int status)
             else again raise_text)"

definition get_daily_order_executions ::
  "http \<Rightarrow> bool \<Rightarrow> str \<Rightarrow> str \<Rightarrow> str \<Rightarrow> str \<Rightarrow> str \<Rightarrow> str \<Rightarrow> str \<Rightarrow> str \<Rightarrow> str \<Rightarrow> str \<Rightarrow> str \<Rightarrow> daily_response sent" where
  "get_daily_order_executions http paper curr_date account_no account_product_code start_date end_date
       sell_buy_div stock_code broker_org_no broker_order_no ccld_div exchange_type =
     (case check_within_3_months start_date end_date of
        Inl e \<Rightarrow> ([], Inl e)
      | Inr within_3_months \<Rightarrow>
          (let tr_id = (if str_le curr_date end_date \<and> within_3_months
                        then resolve DAILY_CCDL_RECENT paper else resolve DAILY_CCDL_OLD paper);
               rq = \<lparr>rq_method = ''GET'', rq_endpoint = ''/uapi/domestic-stock/v1/trading/inquire-daily-ccld'',
                     rq_tr_id = tr_id,
                     rq_payload = [(''CANO'', account_no), (''ACNT_PRDT_CD'', account_product_code),
                       (''INQR_STRT_DT'', start_date), (''INQR_END_DT'', end_date),
                       (''SLL_BUY_DVSN_CD'', sell_buy_div), (''PDNO'', stock_code),
                       (''ORG_GNO_BRNO'', broker_org_no), (''ODNO'', broker_order_no),
                       (''CCLD_DVSN'', ccld_div), (''INQR_DVSN'', ''00''), (''INQR_DVSN_1'', ''''),
                       (''INQR_DVSN_3'', ''00''), (''EXCG_ID_DVSN_CD'', exchange_type),
                       (''CTX_AREA_FK100'', ''''), (''CTX_AREA_NK100'', '''')]\<rparr>;
               (n, res) = daily_loop (http rq) [0..<HTTP_RETRY_COUNT]
           in (replicate n rq, res)))"

section \<open>Counting requests\<close>

text \<open>The three attempts, written out; the first of them the broker answers successfully.\<close>

lemma attempts: "[0..<HTTP_RETRY_COUNT] = [0, 1, 2]"
  by (simp add: HTTP_RETRY_COUNT_def upt_rec)

definition send_ok :: "http_outcome \<Rightarrow> bool" where
  "send_ok r = (case r of Response status _ _ _ \<Rightarrow> is_success status | NetworkError _ \<Rightarrow> False)"

definition first_ok :: "(nat \<Rightarrow> http_outcome) \<Rightarrow> nat option" where
  "first_ok send = List.find (\<lambda>a. send_ok (send a)) [0, 1, 2]"

lemma first_ok_SomeD: "first_ok send = Some k \<Longrightarrow> send_ok (send k)"
  by (auto simp: first_ok_def split: if_splits)

lemma cash_loop_requests:
  "fst (cash_loop label stg send [0, 1, 2]) = (case first_ok send of None \<Rightarrow> 3 | Some a \<Rightarrow> a + 1)"
  by (simp add: first_ok_def send_ok_def HTTP_RETRY_COUNT_def Let_def split: http_outcome.splits)

definition last_error :: "str \<Rightarrow> str \<Rightarrow> http_outcome \<Rightarrow> exn" where
  "last_error label stg r =
     (case r of Response status body txt _ \<Rightarrow> broker_http_error label stg status body txt
      | NetworkError e \<Rightarrow> network_error label stg e)"

lemma cash_loop_value:
  "snd (cash_loop label stg send [0, 1, 2]) =
     (case first_ok send of
        Some a \<Rightarrow> (case send a of Response _ body _ _ \<Rightarrow> Inr body | NetworkError e \<Rightarrow> Inr None)
      | None \<Rightarrow> Inl (last_error label stg (send 2)))"
  by (simp add: first_ok_def send_ok_def last_error_def HTTP_RETRY_COUNT_def Let_def split: http_outcome.splits)

lemma modify_loop_count: "fst (modify_loop send as) \<le> length as"
  by (induction as) (auto simp: Let_def split: http_outcome.splits prod.splits)

lemma daily_loop_count: "fst (daily_loop send as) \<le> length as"
  by (induction as) (auto simp: Let_def split: http_outcome.splits prod.splits)

definition is_network_error :: "http_outcome \<Rightarrow> bool" where
  "is_network_error r = (case r of NetworkError _ \<Rightarrow> True | Response _ _ _ _ \<Rightarrow> False)"

section \<open>What an accepted answer is\<close>

lemma str_fields_text: "str_fields fs d = Some r \<Longrightarrow> f \<in> set fs \<Longrightarrow> \<exists>s. dict_get d f = Some (JStr s)"
  by (induction fs arbitrary: r) (auto split: option.splits json.splits)

lemma str_fields_names: "str_fields fs d = Some r \<Longrightarrow> map fst r = fs"
  by (induction fs arbitrary: r) (auto split: option.splits json.splits)

lemma OrderResponse_rt_cd:
  assumes "OrderResponse d = Inr r"
  shows "dict_get d ''rt_cd'' = Some (JStr (r_rt_cd r))"
  using assms
  by (auto simp: OrderResponse_def split: option.splits prod.splits list.splits json.splits)

lemma cash_result_ok:
  assumes "cash_result dflt body = Inr r"
  shows "\<exists>d. body = Some (JObj d) \<and> OrderResponse d = Inr r \<and> r_rt_cd r = ''0''"
proof -
  obtain d where d: "json_dict body = Inr d"
    using assms by (auto simp: cash_result_def bind_result_Inr_iff)
  with assms have "dict_get d ''rt_cd'' = Some (JStr ''0'') \<and> OrderResponse d = Inr r"
    by (auto simp: cash_result_def split: if_splits option.splits json.splits)
  moreover have "body = Some (JObj d)"
    using d by (auto simp: json_dict_def split: option.splits json.splits)
  ultimately show ?thesis
    using OrderResponse_rt_cd by fastforce
qed

lemma modify_loop_ok: "snd (modify_loop send as) = Inr r \<Longrightarrow> r_rt_cd r = ''0''"
proof (induction as)
  case (Cons a as)
  show ?case
  proof (cases "send a")
    case (NetworkError e)
    with Cons show ?thesis by (auto split: if_splits prod.splits)
  next
    case (Response status body text_of raising)
    with Cons.prems show ?thesis
      by (auto simp: bind_result_Inr_iff split: if_splits dest: OrderResponse_rt_cd)
  qed
qed simp

lemma cash_order_ok:
  "snd (cash_order http label stg mk q p) = Inr r \<Longrightarrow> r_rt_cd r = ''0''"
  by (auto simp: cash_order_def bind_result_Inr_iff case_prod_beta split: sum.splits dest: cash_result_ok)

lemma modify_order_ok:
  "snd (modify_order_by_cash http paper acct pcode org no ty rc q p yn ex) = Inr r \<Longrightarrow> r_rt_cd r = ''0''"
  by (auto simp: modify_order_by_cash_def Let_def case_prod_beta split: sum.splits dest: modify_loop_ok)

lemma str_qty_show_nat [simp]: "str_qty (show_nat n) = Inr (show_int (int n))"
  by (simp add: str_qty_def)

lemma str_price_show_nat [simp]: "str_price (show_nat n) = Inr (show_int (int n))"
  by (simp add: str_price_def parse_decimal_show_nat)

section \<open>Properties\<close>

text \<open>
  A cash order of a whole quantity and price posts the same request at most three times and
  stops at the first successful answer, whose body decides the result; when no attempt succeeds the
  order was posted three times and the last attempt's error is raised.  (So a timeout after the
  broker took the order leads to a second post of it.)
\<close>

lemma cash_order_attempts:
  "let rq = buy_request paper acct pcode ty code (show_int (int q)) (show_int (int p)) ex
   in buy_domestic_stock_by_cash http paper acct pcode ty code (show_nat q) (show_nat p) ex =
        (case first_ok (http rq) of
           Some k \<Rightarrow> (replicate (k + 1) rq,
                      cash_result ''buy order failed''
                        (case http rq k of Response _ body _ _ \<Rightarrow> body | NetworkError _ \<Rightarrow> None))
         | None \<Rightarrow> (replicate 3 rq, Inl (last_error ''buy order'' ''buy_domestic_stock_by_cash'' (http rq 2))))"
proof -
  define rq where "rq = buy_request paper acct pcode ty code (show_int (int q)) (show_int (int p)) ex"
  let ?loop = "cash_loop ''buy order'' ''buy_domestic_stock_by_cash'' (http rq) [0, 1, 2]"
  have loop: "buy_domestic_stock_by_cash http paper acct pcode ty code (show_nat q) (show_nat p) ex
      = (replicate (fst ?loop) rq, bind_result (snd ?loop) (cash_result ''buy order failed''))"
    by (simp add: buy_domestic_stock_by_cash_def cash_order_def attempts rq_def case_prod_beta Let_def del: cash_loop.simps)
  show ?thesis
    unfolding rq_def [symmetric] Let_def loop cash_loop_requests cash_loop_value
    by (auto split: option.split http_outcome.split dest: first_ok_SomeD simp: send_ok_def)
qed

text \<open>
  An order operation that returns normally returns an answer whose \<open>rt_cd\<close> is \<open>"0"\<close>: every
  other answer of the broker leaves it as an exception, whatever the network does.
\<close>

lemma broker_orders_accepted_only:
  "(case snd (buy_domestic_stock_by_cash http paper acct pcode ty code q p ex) of
      Inr r \<Rightarrow> r_rt_cd r = ''0'' | Inl _ \<Rightarrow> True)
   \<and> (case snd (sell_domestic_stock_by_cash http paper acct pcode ty code q p ex) of
      Inr r \<Rightarrow> r_rt_cd r = ''0'' | Inl _ \<Rightarrow> True)
   \<and> (case snd (modify_order_by_cash http paper acct pcode org no ty rc q p yn ex) of
      Inr r \<Rightarrow> r_rt_cd r = ''0'' | Inl _ \<Rightarrow> True)"
  using cash_order_ok modify_order_ok
  by (simp add: buy_domestic_stock_by_cash_def sell_domestic_stock_by_cash_def split: sum.split)

text \<open>
  A revision or cancellation sends its one request at most three times, and again only after
  a network error: an answer with an HTTP error is never followed by another request.
\<close>

lemma modify_order_requests:
  "let (rqs, res) = modify_order_by_cash http paper acct pcode org no ty rc q p yn ex
   in length rqs \<le> HTTP_RETRY_COUNT
      \<and> (\<exists>rq. rqs = replicate (length rqs) rq
            \<and> list_all (\<lambda>k. is_network_error (http rq k)) [0..<length rqs - 1])"
proof (cases "str_price p")
  case (Inl e)
  then show ?thesis by (simp add: modify_order_by_cash_def)
next
  case (Inr p')
  define rq where "rq = modify_request paper acct pcode org no ty rc q p' yn ex"
  let ?n = "fst (modify_loop (http rq) [0, 1, 2])"
  have "?n \<le> HTTP_RETRY_COUNT"
    using modify_loop_count [of "http rq" "[0, 1, 2]"] by (simp add: HTTP_RETRY_COUNT_def)
  moreover have "\<forall>k < ?n - 1. \<exists>e. http rq k = NetworkError e"
    by (simp add: HTTP_RETRY_COUNT_def case_prod_beta less_Suc_eq numeral_eq_Suc split: http_outcome.split)
  then have "list_all (\<lambda>k. is_network_error (http rq k)) [0..<?n - 1]"
    unfolding list_all_iff by (metis atLeastLessThan_iff set_upt http_outcome.simps(5) is_network_error_def)
  ultimately show ?thesis
    using Inr by (auto simp: modify_order_by_cash_def attempts case_prod_beta rq_def [symmetric])
qed

end
