(* ===== verification/Auth_Service.thy ===== *)
theory Auth_Service
  imports Redis_Lock Kis_Order
begin

text \<open>
  Access tokens: the token endpoint of \<^verbatim>\<open>app/broker/kis/kis_auth.py\<close> and the cached, locked
  refresh of \<^verbatim>\<open>app/services/kis/auth_service.py\<close>.  The digest of \<open>hashlib.sha256\<close> is a parameter
  (\<open>sha\<close>), and so is what other processes do to Redis while this one sleeps (\<open>others\<close>).
  A wall clock time of the broker is Korean time, nine hours ahead of the epoch.  The token key
  is written by this service only, with a text under \<open>access_token\<close>.
\<close>

section \<open>The token endpoint\<close>

record token_response =
  t_access_token :: str
  t_expired :: "str option"
  t_token_type :: str
  t_expires_in :: int

definition token_request :: "str \<Rightarrow> str \<Rightarrow> http_request" where
  "token_request appkey appsecret =
     \<lparr>rq_method = ''POST'', rq_endpoint = ''/oauth2/tokenP'', rq_tr_id = '''',
      rq_payload = [(''grant_type'', ''client_credentials''), (''appkey'', appkey), (''appsecret'', appsecret)]\<rparr>"

definition auth_error :: "str \<Rightarrow> int \<Rightarrow> str option \<Rightarrow> exn" where
  "auth_error message status_code error_code =
     KISAuthError \<lparr>e_message = message, e_status_code = Some status_code, e_error_code = error_code,
       e_rt_cd = None, e_msg_cd = None, e_msg1 = None, e_payload = None\<rparr>"

text \<open>A response with a status other than 200: its error description, or its text.\<close>

definition auth_failure :: "int \<Rightarrow> json option \<Rightarrow> str \<Rightarrow> exn" where
  "auth_failure status body txt_body =
     (case body of
        None \<Rightarrow> auth_error txt_body status None
      | Some (JObj d) \<Rightarrow>
          auth_error (or_text (get_default d ''error_description'' txt_body) ''None'') status
            (json_text (dict_get d ''error_code''))
      | Some _ \<Rightarrow> AttributeError ''object has no attribute get'')"

text \<open>Lax integers of pydantic: an integer, a boolean or an integer text.\<close>

definition lax_int :: "json option \<Rightarrow> int option" where
  "lax_int j =
     (case j of
        Some (JInt n) \<Rightarrow> Some n
      | Some (JBool b) \<Rightarrow> Some (if b then 1 else 0)
      | Some (JStr s) \<Rightarrow> (case py_int s of Inr n \<Rightarrow> Some n | Inl _ \<Rightarrow> None)
      | _ \<Rightarrow> None)"

definition TokenResponse :: "(str \<times> json) list \<Rightarrow> token_response result" where
  "TokenResponse d =
     (case (json_text (dict_get d ''access_token''),
            optional_field (\<lambda>j. json_text (Some j)) d ''access_token_token_expired'',
            json_text (dict_get d ''token_type''), lax_int (dict_get d ''expires_in'')) of
        (Some a, Some x, Some t, Some n) \<Rightarrow>
          Inr \<lparr>t_access_token = a, t_expired = x, t_token_type = t, t_expires_in = n\<rparr>
      | _ \<Rightarrow> Inl (ValidationError ''TokenResponse''))"

definition get_access_token :: "(nat \<Rightarrow> http_outcome) \<Rightarrow> token_response result" where
  "get_access_token send =
     (case send 0 of
        NetworkError e \<Rightarrow> Inl (LibError ''RequestError'' e)
      | Response status body txt_body _ \<Rightarrow>
          if status \<noteq> 200 then Inl (auth_failure status body txt_body)
          else bind_result (json_dict body) TokenResponse)"

text \<open>The access key of the WebSocket feed, which is not cached.\<close>

definition get_websocket_approval_key :: "(nat \<Rightarrow> http_outcome) \<Rightarrow> str result" where
  "get_websocket_approval_key send =
     (case send 0 of
        NetworkError e \<Rightarrow> Inl (LibError ''RequestError'' e)
      | Response status body txt_body _ \<Rightarrow>
          if status \<noteq> 200 then Inl (auth_failure status body txt_body)
          else bind_result (json_dict body) (\<lambda>d.
            case json_text (dict_get d ''approval_key'') of
              Some k \<Rightarrow> Inr k
            | None \<Rightarrow> Inl (ValidationError ''ApprovalKeyResponse'')))"

section \<open>The cache\<close>

definition TOKEN_CACHE_KEY :: str where "TOKEN_CACHE_KEY = ''kis:access_token''"
definition TOKEN_LOCK_KEY :: str where "TOKEN_LOCK_KEY = ''kis:access_token:lock''"
definition EXPIRY_BUFFER_SECONDS :: int where "EXPIRY_BUFFER_SECONDS = 300"
definition LOCK_TTL_SECONDS :: int where "LOCK_TTL_SECONDS = 55"
definition LOCK_WAIT_SECONDS :: int where "LOCK_WAIT_SECONDS = 1"
definition LOCK_RETRY_COUNT :: nat where "LOCK_RETRY_COUNT = 5"

lemmas auth_keys = TOKEN_CACHE_KEY_def TOKEN_LOCK_KEY_def
lemmas auth_constants =
  EXPIRY_BUFFER_SECONDS_def LOCK_TTL_SECONDS_def LOCK_WAIT_SECONDS_def LOCK_RETRY_COUNT_def

record auth_env =
  a_send :: "nat \<Rightarrow> http_outcome"
  a_sha :: "str \<Rightarrow> str"
  a_appkey :: str
  a_appsecret :: str
  a_others :: "nat \<Rightarrow> redis \<Rightarrow> redis"
  a_release_fails :: bool

record auth_world =
  aw_redis :: redis
  aw_requests :: "http_request list"

type_synonym payload = "(str \<times> json) list"

fun truthy_json :: "json \<Rightarrow> bool" where
  "truthy_json JNull = False"
| "truthy_json (JBool b) = b"
| "truthy_json (JInt n) = (n \<noteq> 0)"
| "truthy_json (JStr s) = (s \<noteq> [])"
| "truthy_json (JList l) = (l \<noteq> [])"
| "truthy_json (JObj d) = (d \<noteq> [])"

text \<open>A cached value that is no JSON is dropped from the cache.\<close>

definition get_cached_token_payload :: "timestamp \<Rightarrow> redis \<Rightarrow> payload option result \<times> redis" where
  "get_cached_token_payload now r =
     (case redis_get now r TOKEN_CACHE_KEY of
        None \<Rightarrow> (Inr None, r)
      | Some (RText t) \<Rightarrow> (Inr None, if t = [] then r else redis_delete r TOKEN_CACHE_KEY)
      | Some (RJson (JObj d)) \<Rightarrow>
          (case dict_get d ''access_token'' of
             None \<Rightarrow> (Inr None, r)
           | Some j \<Rightarrow> (Inr (if truthy_json j then Some d else None), r))
      | Some (RJson _) \<Rightarrow> (Inl (AttributeError ''object has no attribute get''), r))"

definition kst_epoch :: "int \<Rightarrow> timestamp" where
  "kst_epoch wall = wall - 9 * 3600"

definition parse_expired_at :: "str \<Rightarrow> timestamp result" where
  "parse_expired_at v =
     (case strptime_datetime v of
        Some wall \<Rightarrow> Inr (kst_epoch wall)
      | None \<Rightarrow> Inl (ValueError ''time data does not match format %Y-%m-%d %H:%M:%S''))"

definition is_expired_or_expiring :: "timestamp \<Rightarrow> payload \<Rightarrow> bool" where
  "is_expired_or_expiring now p =
     (case dict_get p ''access_token_token_expired'' of
        Some (JStr s) \<Rightarrow>
          (if s = [] then True
           else (case parse_expired_at s of
                   Inl _ \<Rightarrow> True
                 | Inr expired_at \<Rightarrow> expired_at - EXPIRY_BUFFER_SECONDS \<le> now))
      | _ \<Rightarrow> True)"

definition credential_fingerprint :: "(str \<Rightarrow> str) \<Rightarrow> str \<Rightarrow> str \<Rightarrow> str" where
  "credential_fingerprint sha appkey appsecret = take 16 (sha (appkey @ '':'' @ appsecret))"

definition validate_fingerprint :: "auth_env \<Rightarrow> payload \<Rightarrow> bool" where
  "validate_fingerprint env p =
     (dict_get p ''fingerprint''
        = Some (JStr (credential_fingerprint (a_sha env) (a_appkey env) (a_appsecret env))))"

definition usable :: "auth_env \<Rightarrow> timestamp \<Rightarrow> payload option \<Rightarrow> bool" where
  "usable env now cached =
     (case cached of None \<Rightarrow> False
      | Some p \<Rightarrow> validate_fingerprint env p \<and> \<not> is_expired_or_expiring now p)"

definition token_of :: "payload option \<Rightarrow> str" where
  "token_of cached =
     (case cached of None \<Rightarrow> '''' | Some p \<Rightarrow> or_text (json_text (dict_get p ''access_token'')) '''')"

text \<open>The time to live of the cache entry is the rest of the token's life, at least a second.\<close>

definition save_token_payload :: "timestamp \<Rightarrow> payload \<Rightarrow> redis \<Rightarrow> unit result \<times> redis" where
  "save_token_payload now p r =
     (case dict_get p ''access_token_token_expired'' of
        Some (JStr s) \<Rightarrow>
          (case parse_expired_at s of
             Inl e \<Rightarrow> (Inl e, r)
           | Inr expires_at \<Rightarrow>
               (Inr (), redis_set now r TOKEN_CACHE_KEY (RJson (JObj p)) (Some (max (expires_at - now) 1))))
      | _ \<Rightarrow> (Inl (TypeError ''strptime() argument 1 must be str''), r))"

definition token_payload :: "auth_env \<Rightarrow> timestamp \<Rightarrow> token_response \<Rightarrow> payload" where
  "token_payload env now t =
     [(''access_token'', JStr (t_access_token t)),
      (''fingerprint'', JStr (credential_fingerprint (a_sha env) (a_appkey env) (a_appsecret env))),
      (''token_type'', JStr (t_token_type t)),
      (''expires_in'', JInt (t_expires_in t)),
      (''access_token_token_expired'', (case t_expired t of None \<Rightarrow> JNull | Some x \<Rightarrow> JStr x)),
      (''issued_at'', JInt now)]"

section \<open>The service\<close>

text \<open>The block under the lock: the cache is read again, then a token is issued and saved.\<close>

definition issue_token :: "auth_env \<Rightarrow> timestamp \<Rightarrow> auth_world \<Rightarrow> str result \<times> auth_world" where
  "issue_token env now w =
     (let w1 = w\<lparr>aw_requests := aw_requests w @ [token_request (a_appkey env) (a_appsecret env)]\<rparr>
      in case get_access_token (a_send env) of
           Inl e \<Rightarrow> (Inl e, w1)
         | Inr t \<Rightarrow>
             (case save_token_payload now (token_payload env now t) (aw_redis w1) of
                (Inl e, r) \<Rightarrow> (Inl e, w1\<lparr>aw_redis := r\<rparr>)
              | (Inr _, r) \<Rightarrow> (Inr (t_access_token t), w1\<lparr>aw_redis := r\<rparr>)))"

definition refresh_under_lock :: "auth_env \<Rightarrow> timestamp \<Rightarrow> bool \<Rightarrow> auth_world \<Rightarrow> str result \<times> auth_world" where
  "refresh_under_lock env now force_refresh w =
     (if force_refresh then issue_token env now w
      else case get_cached_token_payload now (aw_redis w) of
             (Inl e, r) \<Rightarrow> (Inl e, w\<lparr>aw_redis := r\<rparr>)
           | (Inr cached, r) \<Rightarrow>
               if usable env now cached then (Inr (token_of cached), w\<lparr>aw_redis := r\<rparr>)
               else issue_token env now (w\<lparr>aw_redis := r\<rparr>))"

text \<open>
  Waiting for another worker's refresh: after each sleep a cached token whose fingerprint does
  \<^emph>\<open>not\<close> match is returned, and so is one that is not expiring.
\<close>

fun wait_for_refreshed_token :: "auth_env \<Rightarrow> timestamp \<Rightarrow> nat list \<Rightarrow> auth_world \<Rightarrow> str result \<times> auth_world" where
  "wait_for_refreshed_token env now [] w =
     (Inl (auth_error ''no valid access token after waiting for a refresh'' 500 (Some ''TOKEN_REFRESH_TIMEOUT'')), w)"
| "wait_for_refreshed_token env now (k # ks) w =
     (let now' = now + LOCK_WAIT_SECONDS
      in case get_cached_token_payload now' (a_others env k (aw_redis w)) of
           (Inl e, r) \<Rightarrow> (Inl e, w\<lparr>aw_redis := r\<rparr>)
         | (Inr None, r) \<Rightarrow> wait_for_refreshed_token env now' ks (w\<lparr>aw_redis := r\<rparr>)
         | (Inr (Some p), r) \<Rightarrow>
             if \<not> validate_fingerprint env p then (Inr (token_of (Some p)), w\<lparr>aw_redis := r\<rparr>)
             else if \<not> is_expired_or_expiring now' p then (Inr (token_of (Some p)), w\<lparr>aw_redis := r\<rparr>)
             else wait_for_refreshed_token env now' ks (w\<lparr>aw_redis := r\<rparr>))"

definition locked_refresh :: "auth_env \<Rightarrow> timestamp \<Rightarrow> bool \<Rightarrow> auth_world \<Rightarrow> str result \<times> auth_world" where
  "locked_refresh env now force_refresh w =
     (case distributed_lock aw_redis (\<lambda>r w. w\<lparr>aw_redis := r\<rparr>) now TOKEN_LOCK_KEY LOCK_TTL_SECONDS
             (a_release_fails env) (refresh_under_lock env now force_refresh) w of
        (Inl (LockAcquisitionError k), w') \<Rightarrow> wait_for_refreshed_token env now [0..<LOCK_RETRY_COUNT] w'
      | (res, w') \<Rightarrow> (res, w'))"

definition get_valid_access_token :: "auth_env \<Rightarrow> timestamp \<Rightarrow> bool \<Rightarrow> auth_world \<Rightarrow> str result \<times> auth_world" where
  "get_valid_access_token env now force_refresh w =
     (if force_refresh then locked_refresh env now force_refresh w
      else case get_cached_token_payload now (aw_redis w) of
             (Inl e, r) \<Rightarrow> (Inl e, w\<lparr>aw_redis := r\<rparr>)
           | (Inr cached, r) \<Rightarrow>
               if usable env now cached then (Inr (token_of cached), w\<lparr>aw_redis := r\<rparr>)
               else locked_refresh env now force_refresh (w\<lparr>aw_redis := r\<rparr>))"

definition invalidate_access_token :: "redis \<Rightarrow> redis" where
  "invalidate_access_token r = redis_delete r TOKEN_CACHE_KEY"

definition refresh_access_token :: "auth_env \<Rightarrow> timestamp \<Rightarrow> auth_world \<Rightarrow> str result \<times> auth_world" where
  "refresh_access_token env now w = get_valid_access_token env now True w"

interpretation token_lock: mutex
  "\<lambda>t r. acquire_lock t r TOKEN_LOCK_KEY LOCK_TTL_SECONDS" "\<lambda>r. release_lock r TOKEN_LOCK_KEY"
  "locked TOKEN_LOCK_KEY" LOCK_TTL_SECONDS
  by (rule redis_mutex) (simp add: LOCK_TTL_SECONDS_def)

section \<open>Lemmas\<close>

lemma key_neq [simp]:
  "TOKEN_CACHE_KEY \<noteq> TOKEN_LOCK_KEY" "TOKEN_LOCK_KEY \<noteq> TOKEN_CACHE_KEY"
  "TOKEN_LOCK_KEY \<noteq> KILL_SWITCH_KEY" "TOKEN_CACHE_KEY \<noteq> KILL_SWITCH_KEY"
  by (simp_all add: auth_keys KILL_SWITCH_KEY_def)

lemma acquire_other_key [simp]:
  "k \<noteq> key \<Longrightarrow> redis_get t (snd (acquire_lock now r key ttl)) k = redis_get t r k"
  by (simp add: acquire_lock_def redis_set_nx_def split: option.splits)

lemma release_other_key [simp]: "k \<noteq> key \<Longrightarrow> redis_get t (release_lock r key) k = redis_get t r k"
  by (simp add: release_lock_def)

lemma issue_token_requests:
  "aw_requests (snd (issue_token env now w)) = aw_requests w @ [token_request (a_appkey env) (a_appsecret env)]"
  by (simp add: issue_token_def Let_def split: sum.splits prod.splits)

lemma refresh_under_lock_requests:
  "length (aw_requests (snd (refresh_under_lock env now fr w))) \<le> Suc (length (aw_requests w))"
  by (simp add: refresh_under_lock_def issue_token_requests split: sum.splits prod.splits)

lemma wait_requests [simp]:
  "aw_requests (snd (wait_for_refreshed_token env now ks w)) = aw_requests w"
  by (induction ks arbitrary: now w) (simp_all add: Let_def split: sum.splits prod.splits option.splits)

lemma issue_not_lock_error: "fst (issue_token env now w) \<noteq> Inl (LockAcquisitionError k)"
  by (auto simp: issue_token_def Let_def get_access_token_def auth_failure_def auth_error_def
      save_token_payload_def parse_expired_at_def bind_result_def json_dict_def TokenResponse_def
      ValidationError_def split: sum.splits prod.splits option.splits json.splits http_outcome.splits if_splits)

lemma refresh_not_lock_error: "fst (refresh_under_lock env now fr w) \<noteq> Inl (LockAcquisitionError k)"
  by (auto simp: refresh_under_lock_def issue_not_lock_error get_cached_token_payload_def
      split: sum.splits prod.splits option.splits json.splits rvalue.splits if_splits)

text \<open>With the lock free, the refresh is the block under the lock followed by the release.\<close>

lemma locked_refresh_free:
  assumes "\<not> locked TOKEN_LOCK_KEY now (aw_redis w)"
  defines "w1 \<equiv> w\<lparr>aw_redis := snd (acquire_lock now (aw_redis w) TOKEN_LOCK_KEY LOCK_TTL_SECONDS)\<rparr>"
  shows "locked_refresh env now fr w =
     (fst (refresh_under_lock env now fr w1),
      if a_release_fails env then snd (refresh_under_lock env now fr w1)
      else (snd (refresh_under_lock env now fr w1))
             \<lparr>aw_redis := release_lock (aw_redis (snd (refresh_under_lock env now fr w1))) TOKEN_LOCK_KEY\<rparr>)"
proof -
  have "fst (acquire_lock now (aw_redis w) TOKEN_LOCK_KEY LOCK_TTL_SECONDS)"
    using assms(1) by (simp add: acquire_lock_fst)
  then have "distributed_lock aw_redis (\<lambda>r w. w\<lparr>aw_redis := r\<rparr>) now TOKEN_LOCK_KEY LOCK_TTL_SECONDS
       (a_release_fails env) (refresh_under_lock env now fr) w =
     (fst (refresh_under_lock env now fr w1),
      if a_release_fails env then snd (refresh_under_lock env now fr w1)
      else (snd (refresh_under_lock env now fr w1))
             \<lparr>aw_redis := release_lock (aw_redis (snd (refresh_under_lock env now fr w1))) TOKEN_LOCK_KEY\<rparr>)"
    by (simp add: distributed_lock_def case_prod_beta w1_def)
  then show ?thesis
    using refresh_not_lock_error [of env now fr w1]
    by (cases "refresh_under_lock env now fr w1") (auto simp: locked_refresh_def split: sum.split exn.split)
qed

lemma locked_refresh_busy:
  "locked TOKEN_LOCK_KEY now (aw_redis w) \<Longrightarrow>
   locked_refresh env now fr w = wait_for_refreshed_token env now [0..<LOCK_RETRY_COUNT] w"
  using acquire_lock_fst [of now "aw_redis w" TOKEN_LOCK_KEY LOCK_TTL_SECONDS]
  by (simp add: locked_refresh_def distributed_lock_def case_prod_beta)

lemma locked_refresh_requests:
  "length (aw_requests (snd (locked_refresh env now fr w))) \<le> Suc (length (aw_requests w))"
proof (cases "locked TOKEN_LOCK_KEY now (aw_redis w)")
  case True
  then show ?thesis by (simp add: locked_refresh_busy)
next
  case False
  let ?w1 = "w\<lparr>aw_redis := snd (acquire_lock now (aw_redis w) TOKEN_LOCK_KEY LOCK_TTL_SECONDS)\<rparr>"
  have "length (aw_requests (snd (refresh_under_lock env now fr ?w1))) \<le> Suc (length (aw_requests ?w1))"
    by (rule refresh_under_lock_requests)
  with False show ?thesis by (simp add: locked_refresh_free)
qed

section \<open>A concrete environment\<close>

definition example_auth_env :: auth_env where
  "example_auth_env =
     \<lparr>a_send = (\<lambda>_. Response 200 (Some (JObj
        [(''access_token'', JStr ''tk''), (''access_token_token_expired'', JStr ''2026-03-24 15:09:07''),
         (''token_type'', JStr ''Bearer''), (''expires_in'', JInt 86400)])) '''' ''''),
      a_sha = (\<lambda>_. ''0123456789abcdef0123''), a_appkey = ''k'', a_appsecret = ''s'', a_others = (\<lambda>_ r. r),
      a_release_fails = False\<rparr>"

lemma parse_expired_at_example: "parse_expired_at ''2026-03-24 15:09:07'' = Inr 1774332547"
  by (simp add: parse_expired_at_def strptime_datetime_def whole_def num4_def num2_def lit_def lit_space_def
      is_digit_def digit_val_def digits_val_def is_space_def kst_epoch_def valid_date_def day_of_def
      days_before_year_def days_before_month_def days_in_month_def is_leap_def upto.simps Let_def)

section \<open>Properties\<close>

text \<open>
  C38. A token is asked of the broker at most once per call and only while the token lock is ours,
  never when another process holds the lock.  A call that does not force a refresh asks for none
  when the cache holds a token of these credentials that lives more than five minutes longer,
  and returns that one as it is; a call that forces a refresh looks at no cache and, the lock being
  free, asks for exactly one.
\<close>

theorem token_requested_only_under_lock:
  "length (aw_requests (snd (get_valid_access_token env now fr w))) \<le> Suc (length (aw_requests w))
   \<and> (locked TOKEN_LOCK_KEY now (aw_redis w) \<longrightarrow>
        aw_requests (snd (get_valid_access_token env now fr w)) = aw_requests w)
   \<and> (\<forall>p. redis_get now (aw_redis w) TOKEN_CACHE_KEY = Some (RJson (JObj p)) \<and> usable env now (Some p)
          \<and> truthy (json_text (dict_get p ''access_token'')) \<longrightarrow>
        get_valid_access_token env now False w = (Inr (token_of (Some p)), w))
   \<and> (\<not> locked TOKEN_LOCK_KEY now (aw_redis w) \<longrightarrow>
        aw_requests (snd (get_valid_access_token env now True w))
          = aw_requests w @ [token_request (a_appkey env) (a_appsecret env)])"
proof (intro conjI allI impI)
  have cached_frame: "locked TOKEN_LOCK_KEY now (snd (get_cached_token_payload now r)) = locked TOKEN_LOCK_KEY now r" for r
    by (simp add: get_cached_token_payload_def locked_def split: option.splits rvalue.splits json.splits)
  show "length (aw_requests (snd (get_valid_access_token env now fr w))) \<le> Suc (length (aw_requests w))"
    using locked_refresh_requests [of env now fr "w\<lparr>aw_redis := snd (get_cached_token_payload now (aw_redis w))\<rparr>"]
      locked_refresh_requests [of env now fr w]
    by (auto simp: get_valid_access_token_def split: sum.splits prod.splits)
  show "aw_requests (snd (get_valid_access_token env now fr w)) = aw_requests w"
    if "locked TOKEN_LOCK_KEY now (aw_redis w)"
    using that cached_frame [of "aw_redis w"]
    by (auto simp: get_valid_access_token_def locked_refresh_busy split: sum.splits prod.splits)
  show "aw_requests (snd (get_valid_access_token env now True w))
      = aw_requests w @ [token_request (a_appkey env) (a_appsecret env)]"
    if "\<not> locked TOKEN_LOCK_KEY now (aw_redis w)"
    by (simp add: get_valid_access_token_def locked_refresh_free [OF that] refresh_under_lock_def issue_token_requests)
  fix p
  assume "redis_get now (aw_redis w) TOKEN_CACHE_KEY = Some (RJson (JObj p)) \<and> usable env now (Some p)
          \<and> truthy (json_text (dict_get p ''access_token''))"
  then show "get_valid_access_token env now False w = (Inr (token_of (Some p)), w)"
    by (cases "dict_get p ''access_token''" rule: json_text.cases)
      (auto simp: get_valid_access_token_def get_cached_token_payload_def)
qed

definition cached_example :: payload where
  "cached_example =
     [(''access_token'', JStr ''tk''), (''fingerprint'', JStr ''0123456789abcdef''),
      (''access_token_token_expired'', JStr ''2026-03-24 15:09:07'')]"

theorem token_requested_only_under_lock_witness:
  "get_valid_access_token example_auth_env 1774300000 False
      \<lparr>aw_redis = [TOKEN_CACHE_KEY \<mapsto> (RJson (JObj cached_example), None)], aw_requests = []\<rparr>
    = (Inr ''tk'', \<lparr>aw_redis = [TOKEN_CACHE_KEY \<mapsto> (RJson (JObj cached_example), None)], aw_requests = []\<rparr>)"
proof -
  have "usable example_auth_env 1774300000 (Some cached_example)"
    by (simp add: usable_def validate_fingerprint_def cached_example_def dict_get_def example_auth_env_def
        credential_fingerprint_def is_expired_or_expiring_def parse_expired_at_example EXPIRY_BUFFER_SECONDS_def)
  moreover have "redis_get 1774300000 [TOKEN_CACHE_KEY \<mapsto> (RJson (JObj cached_example), None)] TOKEN_CACHE_KEY
      = Some (RJson (JObj cached_example))"
    by (simp add: redis_get_def)
  ultimately show ?thesis
    using token_requested_only_under_lock [of example_auth_env 1774300000 False
      "\<lparr>aw_redis = [TOKEN_CACHE_KEY \<mapsto> (RJson (JObj cached_example), None)], aw_requests = []\<rparr>"]
    by (simp add: cached_example_def token_of_def dict_get_def)
qed

text \<open>
  Refresh and cache fit together: after a refresh that succeeded, every call before the last
  five minutes of the token's life returns that token from the cache, without contacting the
  broker or changing Redis, and the lock is free again.
\<close>

lemma refreshed_token_is_served:
  assumes "\<not> locked TOKEN_LOCK_KEY now (aw_redis w)" and "\<not> a_release_fails env"
    and "a_send env 0 = Response 200 (Some (JObj d)) body_text raise_text" and "TokenResponse d = Inr t"
    and "t_access_token t \<noteq> []" and "t_expired t = Some x" and "x \<noteq> []" and "parse_expired_at x = Inr ex"
  shows "\<exists>w'. refresh_access_token env now w = (Inr (t_access_token t), w')
     \<and> \<not> locked TOKEN_LOCK_KEY now (aw_redis w')
     \<and> (\<forall>u. u < ex - EXPIRY_BUFFER_SECONDS \<longrightarrow>
          get_valid_access_token env u False w' = (Inr (t_access_token t), w'))"
proof -
  define w1 where "w1 = w\<lparr>aw_redis := snd (acquire_lock now (aw_redis w) TOKEN_LOCK_KEY LOCK_TTL_SECONDS)\<rparr>"
  define p where "p = token_payload env now t"
  define r2 where "r2 = redis_set now (aw_redis w1) TOKEN_CACHE_KEY (RJson (JObj p)) (Some (max (ex - now) 1))"
  define w' where "w' = w1\<lparr>aw_requests := aw_requests w1 @ [token_request (a_appkey env) (a_appsecret env)],
    aw_redis := release_lock r2 TOKEN_LOCK_KEY\<rparr>"
  have p: "dict_get p ''access_token_token_expired'' = Some (JStr x)"
    "dict_get p ''access_token'' = Some (JStr (t_access_token t))" "validate_fingerprint env p"
    using assms by (simp_all add: p_def token_payload_def dict_get_def validate_fingerprint_def)
  have "get_access_token (a_send env) = Inr t"
    using assms by (simp add: get_access_token_def json_dict_def)
  then have "refresh_under_lock env now True w1 =
      (Inr (t_access_token t), w1\<lparr>aw_requests := aw_requests w1 @ [token_request (a_appkey env) (a_appsecret env)],
         aw_redis := r2\<rparr>)"
    using p assms by (simp add: refresh_under_lock_def issue_token_def save_token_payload_def p_def r2_def Let_def)
  then have a: "refresh_access_token env now w = (Inr (t_access_token t), w')"
    using locked_refresh_free [OF assms(1), of env True] assms(2)
    by (simp add: refresh_access_token_def get_valid_access_token_def w1_def [symmetric] w'_def)
  have b: "\<not> locked TOKEN_LOCK_KEY now (aw_redis w')"
    by (simp add: w'_def locked_def release_lock_def)
  have c: "get_valid_access_token env u False w' = (Inr (t_access_token t), w')"
    if "u < ex - EXPIRY_BUFFER_SECONDS" for u
  proof -
    have "redis_get u (aw_redis w') TOKEN_CACHE_KEY = Some (RJson (JObj p))"
      using that by (simp add: w'_def r2_def EXPIRY_BUFFER_SECONDS_def)
    moreover have "usable env u (Some p)"
      using that p assms by (simp add: usable_def is_expired_or_expiring_def)
    ultimately show ?thesis
      using p assms by (simp add: get_valid_access_token_def get_cached_token_payload_def token_of_def)
  qed
  from a b c show ?thesis by blast
qed

text \<open>
  What the code does with a token of other credentials: with the lock free such a token is
  never returned from the cache, but a caller that finds the lock taken returns it after its first
  sleep, expired or not (the waiting loop tests the fingerprint the wrong way round).
\<close>

lemma waiting_returns_foreign_token:
  assumes "locked TOKEN_LOCK_KEY now (aw_redis w)" and "a_others env 0 = (\<lambda>r. r)"
    and "redis_get now (aw_redis w) TOKEN_CACHE_KEY = Some (RJson (JObj p))"
    and "redis_get (now + LOCK_WAIT_SECONDS) (aw_redis w) TOKEN_CACHE_KEY = Some (RJson (JObj p))"
    and "dict_get p ''access_token'' = Some (JStr tk)" and "tk \<noteq> []" and "\<not> validate_fingerprint env p"
  shows "get_valid_access_token env now False w = (Inr tk, w)"
proof -
  have "[0..<LOCK_RETRY_COUNT] = 0 # [1, 2, 3, 4]"
    by (simp add: LOCK_RETRY_COUNT_def upt_rec)
  with assms show ?thesis
    by (simp add: get_valid_access_token_def get_cached_token_payload_def usable_def locked_refresh_busy
        token_of_def Let_def)
qed

end
