(* ===== verification/Trade_Service.thy ===== *)
theory Trade_Service
  imports Kis_Order
begin

text \<open>
  \<^verbatim>\<open>app/services/kis/trade_service.py\<close>: validation of the inputs of an order, translation to the
  broker's parameters, and the calls of the broker client.  Each operation returns the requests
  it sent and its result; an exception passes through the service unchanged.
\<close>

record settings =
  s_paper :: bool
  s_account_no :: str
  s_account_product_code :: str

section \<open>Validation\<close>

definition validate_stock_code :: "str \<Rightarrow> unit result" where
  "validate_stock_code stock_code =
     (let code = strip stock_code
      in if code = [] \<or> \<not> isdigit code \<or> length code \<noteq> 6
         then Inl (ValueError ''stock_code must be a 6-digit number'') else Inr ())"

definition no_price :: "str option \<Rightarrow> bool" where
  "no_price price = (price = None \<or> price = Some '''' \<or> price = Some ''0'')"

definition validate_order_inputs :: "str \<Rightarrow> order_type \<Rightarrow> str option \<Rightarrow> unit result" where
  "validate_order_inputs stock_code ty price =
     bind_result (validate_stock_code stock_code) (\<lambda>_.
       case ty of
         MARKET \<Rightarrow> Inr ()
       | LIMIT \<Rightarrow> if no_price price then Inl (ValueError ''a limit order needs a price'') else Inr ()
       | CONDITIONAL \<Rightarrow> Inl (ValueError ''unsupported order_type''))"

definition resolve_order_params :: "order_type \<Rightarrow> str \<Rightarrow> str \<times> str" where
  "resolve_order_params ty price =
     (if ty = MARKET then (ORD_DVSN_MARKET, ''0'') else (ORD_DVSN_LIMIT, price))"

definition validate_original_order_no :: "str \<Rightarrow> unit result" where
  "validate_original_order_no order_no =
     (if strip order_no = [] then Inl (ValueError ''order_no is required'') else Inr ())"

definition validate_qty_all_order_yn :: "str \<Rightarrow> unit result" where
  "validate_qty_all_order_yn yn =
     (if yn \<noteq> ''Y'' \<and> yn \<noteq> ''N'' then Inl (ValueError ''qty_all_order_yn must be Y or N'') else Inr ())"

definition validate_cancel_inputs :: "str \<Rightarrow> str option \<Rightarrow> str \<Rightarrow> unit result" where
  "validate_cancel_inputs order_no quantity yn =
     bind_result (validate_original_order_no order_no) (\<lambda>_.
     bind_result (validate_qty_all_order_yn yn) (\<lambda>_.
       if yn = ''N'' \<and> no_price quantity
       then Inl (ValueError ''a partial cancellation needs a quantity'') else Inr ()))"

text \<open>Not called by any operation: a revision is validated as a cancellation.\<close>

definition validate_revise_inputs :: "str \<Rightarrow> str option \<Rightarrow> order_type \<Rightarrow> str option \<Rightarrow> str \<Rightarrow> unit result" where
  "validate_revise_inputs order_no quantity ty price yn =
     bind_result (validate_original_order_no order_no) (\<lambda>_.
     bind_result (validate_qty_all_order_yn yn) (\<lambda>_.
       if yn = ''N'' \<and> no_price quantity
       then Inl (ValueError ''a partial revision needs a quantity'')
       else case ty of
              LIMIT \<Rightarrow> if no_price price then Inl (ValueError ''a limit revision needs a price'') else Inr ()
            | MARKET \<Rightarrow> Inr ()
            | CONDITIONAL \<Rightarrow> Inl (ValueError ''unsupported order_type'')))"

section \<open>Cash orders\<close>

text \<open>
  After the broker accepted the order, its time \<open>output.ORD_TMD\<close> is read for the log: an answer
  without \<open>output\<close> or with an ill-formed time raises although the order was posted.
\<close>

definition read_ord_tmd :: "order_response \<Rightarrow> order_response result" where
  "read_ord_tmd r =
     (case r_output r of
        None \<Rightarrow> Inl (AttributeError ''NoneType object has no attribute ORD_TMD'')
      | Some out \<Rightarrow>
          (let t = out_ORD_TMD out
           in bind_result (py_int (take 2 t)) (\<lambda>h.
              bind_result (py_int (take 2 (drop 2 t))) (\<lambda>mi.
              bind_result (py_int (take 2 (drop 4 t))) (\<lambda>sec.
                if 0 \<le> h \<and> h \<le> 23 \<and> 0 \<le> mi \<and> mi \<le> 59 \<and> 0 \<le> sec \<and> sec \<le> 59 then Inr r
                else Inl (ValueError ''time field out of range''))))))"

definition then_check :: "'a sent \<Rightarrow> ('a \<Rightarrow> 'b result) \<Rightarrow> 'b sent" where
  "then_check s f = (fst s, bind_result (snd s) f)"

definition buy_domestic_stock :: "settings \<Rightarrow> http \<Rightarrow> str \<Rightarrow> str \<Rightarrow> order_type \<Rightarrow> str \<Rightarrow> order_response sent" where
  "buy_domestic_stock st http stock_code quantity ty price =
     (case validate_order_inputs stock_code ty (Some price) of
        Inl e \<Rightarrow> ([], Inl e)
      | Inr _ \<Rightarrow>
          (let (order_mode, normalized_price) = resolve_order_params ty price
           in then_check
                (buy_domestic_stock_by_cash http (s_paper st) (s_account_no st) (s_account_product_code st)
                   order_mode stock_code quantity normalized_price EXCG_KRX)
                read_ord_tmd))"

definition sell_domestic_stock :: "settings \<Rightarrow> http \<Rightarrow> str \<Rightarrow> str \<Rightarrow> order_type \<Rightarrow> str \<Rightarrow> order_response sent" where
  "sell_domestic_stock st http stock_code quantity ty price =
     (case validate_order_inputs stock_code ty (Some price) of
        Inl e \<Rightarrow> ([], Inl e)
      | Inr _ \<Rightarrow>
          (let (order_mode, normalized_price) = resolve_order_params ty price
           in then_check
                (sell_domestic_stock_by_cash http (s_paper st) (s_account_no st) (s_account_product_code st)
                   order_mode stock_code quantity normalized_price EXCG_KRX)
                read_ord_tmd))"

section \<open>Cancellation and revision\<close>

definition cancel_domestic_stock ::
  "settings \<Rightarrow> http \<Rightarrow> str \<Rightarrow> str \<Rightarrow> str \<Rightarrow> str \<Rightarrow> str \<Rightarrow> order_response sent" where
  "cancel_domestic_stock st http order_no krx_fwdg_ord_orgno quantity qty_all_order_yn order_mode =
     (case validate_cancel_inputs order_no (Some quantity) qty_all_order_yn of
        Inl e \<Rightarrow> ([], Inl e)
      | Inr _ \<Rightarrow>
          modify_order_by_cash http (s_paper st) (s_account_no st) (s_account_product_code st)
            krx_fwdg_ord_orgno order_no order_mode ''02'' quantity ''0'' qty_all_order_yn EXCG_KRX)"

definition revise_domestic_stock ::
  "settings \<Rightarrow> http \<Rightarrow> str \<Rightarrow> str \<Rightarrow> order_type \<Rightarrow> str \<Rightarrow> str \<Rightarrow> str \<Rightarrow> order_response sent" where
  "revise_domestic_stock st http order_no quantity ty price krx_fwdg_ord_orgno qty_all_order_yn =
     (case validate_cancel_inputs order_no (Some quantity) qty_all_order_yn of
        Inl e \<Rightarrow> ([], Inl e)
      | Inr _ \<Rightarrow>
          (let (order_mode, normalized_price) = resolve_order_params ty price
           in modify_order_by_cash http (s_paper st) (s_account_no st) (s_account_product_code st)
                krx_fwdg_ord_orgno order_no order_mode ''01'' quantity normalized_price qty_all_order_yn EXCG_KRX))"

section \<open>Inquiries\<close>

definition daily_order_executions ::
  "http \<Rightarrow> bool \<Rightarrow> str \<Rightarrow> str \<Rightarrow> str \<Rightarrow> str \<Rightarrow> str \<Rightarrow> str \<Rightarrow> str \<Rightarrow> str \<Rightarrow> daily_response sent" where
  "daily_order_executions http paper curr_date account_no account_product_code start_date end_date
       stock_code broker_org_no broker_order_no =
     get_daily_order_executions http paper curr_date account_no account_product_code start_date end_date
       ''00'' stock_code broker_org_no broker_order_no ''00'' EXCG_KRX"

definition list_cancelable_orders ::
  "settings \<Rightarrow> http \<Rightarrow> str \<Rightarrow> str \<Rightarrow> (str \<times> str) list list option sent" where
  "list_cancelable_orders st http inquire_div1 inquire_div2 =
     (if s_paper st
      then ([], Inl (ValueError ''the modifiable orders inquiry is not supported in paper trading''))
      else get_cancelable_cash_orders http (s_paper st) (s_account_no st) (s_account_product_code st)
             inquire_div1 inquire_div2)"

text \<open>
  \<open>list_daily_order_executions\<close> calls \<open>self._default_account_no\<close>, which no class of the program
  defines, so every call of it raises before anything is sent.
\<close>

definition list_daily_order_executions :: "http \<Rightarrow> str \<Rightarrow> str \<Rightarrow> daily_response sent" where
  "list_daily_order_executions http start_date end_date =
     ([], Inl (AttributeError ''TradeService object has no attribute _default_account_no''))"

section \<open>Properties\<close>

lemma validate_stock_code_ok:
  "validate_stock_code s = Inr () \<longleftrightarrow> length (strip s) = 6 \<and> list_all is_digit (strip s)"
  by (auto simp: validate_stock_code_def isdigit_def Let_def)

lemma show_zero: "show_nat 0 = ''0''"
  by code_simp

lemma str_price_zero: "str_price ''0'' = Inr ''0''"
  using str_price_show_nat [of 0] by (simp add: show_int_def show_zero)

lemma buy_requests_are:
  "rq \<in> set (fst (buy_domestic_stock_by_cash http paper acct pcode ty code q p ex)) \<Longrightarrow>
   \<exists>q' p'. str_qty q = Inr q' \<and> str_price p = Inr p' \<and> rq = buy_request paper acct pcode ty code q' p' ex"
  by (auto simp: buy_domestic_stock_by_cash_def cash_order_def bind_result_Inr_iff case_prod_beta Let_def
      split: sum.splits)

lemma sell_requests_are:
  "rq \<in> set (fst (sell_domestic_stock_by_cash http paper acct pcode ty code q p ex)) \<Longrightarrow>
   \<exists>q' p'. str_qty q = Inr q' \<and> str_price p = Inr p' \<and> rq = sell_request paper acct pcode ty code q' p' ex"
  by (auto simp: sell_domestic_stock_by_cash_def cash_order_def bind_result_Inr_iff case_prod_beta Let_def
      split: sum.splits)

text \<open>
  Nothing unvalidated reaches the broker: every request of a buy or a sell carries the given
  stock code, whose digits are six, and is a market order without a price or a limit order whose
  price the caller gave; a conditional order sends nothing.
\<close>

lemma cash_orders_validated:
  assumes "rq \<in> set (fst (buy_domestic_stock st http code q ty p)) \<union> set (fst (sell_domestic_stock st http code q ty p))"
  shows "length (strip code) = 6 \<and> list_all is_digit (strip code)
    \<and> dict_get (rq_payload rq) ''PDNO'' = Some code
    \<and> (ty = MARKET \<and> dict_get (rq_payload rq) ''ORD_DVSN'' = Some ''01''
         \<and> dict_get (rq_payload rq) ''ORD_UNPR'' = Some ''0''
       \<or> ty = LIMIT \<and> \<not> no_price (Some p) \<and> dict_get (rq_payload rq) ''ORD_DVSN'' = Some ''00''
         \<and> (\<exists>p'. str_price p = Inr p' \<and> dict_get (rq_payload rq) ''ORD_UNPR'' = Some p'))"
proof -
  obtain mode np where m: "resolve_order_params ty p = (mode, np)" by (cases "resolve_order_params ty p")
  have v: "validate_order_inputs code ty (Some p) = Inr ()"
    using assms by (auto simp: buy_domestic_stock_def sell_domestic_stock_def split: sum.splits)
  then have "rq \<in> set (fst (buy_domestic_stock_by_cash http (s_paper st) (s_account_no st) (s_account_product_code st)
                 mode code q np EXCG_KRX))
       \<or> rq \<in> set (fst (sell_domestic_stock_by_cash http (s_paper st) (s_account_no st) (s_account_product_code st)
                 mode code q np EXCG_KRX))"
    using assms m by (simp add: buy_domestic_stock_def sell_domestic_stock_def then_check_def)
  then obtain q' p' where "str_price np = Inr p'" and rq: "rq \<in> {buy_request (s_paper st) (s_account_no st)
        (s_account_product_code st) mode code q' p' EXCG_KRX, sell_request (s_paper st) (s_account_no st)
        (s_account_product_code st) mode code q' p' EXCG_KRX}"
    using buy_requests_are sell_requests_are by (metis insertCI)
  moreover note str_price_zero
  ultimately show ?thesis
    using v m
    by (cases ty)
      (auto simp: validate_order_inputs_def bind_result_Inr_iff validate_stock_code_ok resolve_order_params_def
        buy_request_def sell_request_def dict_get_def ORD_DVSN_MARKET_def ORD_DVSN_LIMIT_def split: if_splits)
qed

end
