(* ===== verification/Worker_World.thy ===== *)
theory Worker_World
  imports Order_Repository Auth_Service Trade_Service
begin

text \<open>
  What the two order workers share: the world they act on, their environment, and the
  publication of order changes (\<^verbatim>\<open>app/websocket/publisher.py\<close>).

  The world holds the committed rows of the orders table, Redis, the requests sent to the broker
  (\<open>w_posts\<close>: the orders and the inquiries of the order and account services, in the order they were
  sent; the token requests are logged in \<open>w_token_requests\<close>), the messages put on the Celery queue, the rows published on the WebSocket channel and the
  alerts handed to \<open>send_order_error_alert_sync\<close> (which builds them and never sends them).  Every transaction of a worker is one statement followed by a commit, or a
  statement that touched no row followed by a rollback, so a transaction is one update of
  \<open>w_db\<close>.  \<open>e_curr_date\<close> is the server's local date, as \<open>%Y%m%d\<close>.  SQLAlchemy applies an executed \<open>update()\<close> to the loaded objects too
  (\<open>synchronize_session='auto'\<close>, its documented default), so a loaded order is the row after the
  statement.  One handler run happens at one time \<open>e_now\<close>; column widths are left out.
\<close>

section \<open>The world\<close>

datatype task =
    ProcessOrder uuid int
  | TrackOrder uuid nat "timestamp option" int
  | CaptureSnapshot uuid

record alert =
  al_stock_code :: str
  al_order_id :: uuid
  al_action :: str
  al_message :: str

record world =
  w_db :: orders
  w_redis :: redis
  w_token_requests :: "http_request list"
  w_posts :: "http_request list"
  w_queue :: "task list"
  w_published :: "order list"
  w_alerts :: "alert list"

record worker_env =
  e_now :: timestamp
  e_curr_date :: str
  e_settings :: settings
  e_auth :: auth_env
  e_http :: http

type_synonym 'a action = "world \<Rightarrow> 'a result \<times> world"

section \<open>Elementary actions\<close>

text \<open>A statement with its commit: whether it touched a row.\<close>

definition commit_stmt :: "update_stmt \<Rightarrow> world \<Rightarrow> bool \<times> world" where
  "commit_stmt stmt w = (let (hit, db) = execute stmt (w_db w) in (hit, w\<lparr>w_db := db\<rparr>))"

definition enqueue :: "task \<Rightarrow> world \<Rightarrow> world" where
  "enqueue t w = w\<lparr>w_queue := w_queue w @ [t]\<rparr>"

definition log_requests :: "http_request list \<Rightarrow> world \<Rightarrow> world" where
  "log_requests rqs w = w\<lparr>w_posts := w_posts w @ rqs\<rparr>"

definition send_alert :: "alert \<Rightarrow> world \<Rightarrow> world" where
  "send_alert a w = w\<lparr>w_alerts := w_alerts w @ [a]\<rparr>"

text \<open>
  \<open>publish_order_update\<close> publishes the order and, if it has one, its parent; its own failures are
  swallowed and change nothing.
\<close>

definition publish_order_update :: "uuid \<Rightarrow> world \<Rightarrow> world" where
  "publish_order_update order_id w =
     (case get_order_by_id (w_db w) order_id of
        None \<Rightarrow> w
      | Some row \<Rightarrow>
          (let parent = (case o_original_order_id row of
                           None \<Rightarrow> []
                         | Some pid \<Rightarrow> (case get_order_by_id (w_db w) pid of None \<Rightarrow> [] | Some p \<Rightarrow> [p]))
           in w\<lparr>w_published := w_published w @ row # parent\<rparr>))"

text \<open>The access token, by the service over the shared Redis.\<close>

definition obtain_token :: "worker_env \<Rightarrow> str action" where
  "obtain_token env w =
     (let (res, aw) = get_valid_access_token (e_auth env) (e_now env) False
                        \<lparr>aw_redis = w_redis w, aw_requests = w_token_requests w\<rparr>
      in (res, w\<lparr>w_redis := aw_redis aw, w_token_requests := aw_requests aw\<rparr>))"

section \<open>What the actions leave alone\<close>

lemma commit_stmt_simps [step_simps]:
  "fst (commit_stmt stmt w) = fst (execute stmt (w_db w))"
  "w_db (snd (commit_stmt stmt w)) = snd (execute stmt (w_db w))"
  "w_redis (snd (commit_stmt stmt w)) = w_redis w"
  "w_posts (snd (commit_stmt stmt w)) = w_posts w"
  "w_queue (snd (commit_stmt stmt w)) = w_queue w"
  "w_published (snd (commit_stmt stmt w)) = w_published w"
  "w_alerts (snd (commit_stmt stmt w)) = w_alerts w"
  by (simp_all add: commit_stmt_def case_prod_beta)

lemma publish_simps [step_simps]:
  "w_db (publish_order_update k w) = w_db w"
  "w_redis (publish_order_update k w) = w_redis w"
  "w_posts (publish_order_update k w) = w_posts w"
  "w_queue (publish_order_update k w) = w_queue w"
  "w_alerts (publish_order_update k w) = w_alerts w"
  by (simp_all add: publish_order_update_def Let_def split: option.splits)

lemma enqueue_simps [step_simps]:
  "w_db (enqueue t w) = w_db w"
  "w_redis (enqueue t w) = w_redis w"
  "w_posts (enqueue t w) = w_posts w"
  "w_queue (enqueue t w) = w_queue w @ [t]"
  "w_alerts (enqueue t w) = w_alerts w"
  by (simp_all add: enqueue_def)

lemma log_simps [step_simps]:
  "w_db (log_requests rqs w) = w_db w"
  "w_redis (log_requests rqs w) = w_redis w"
  "w_posts (log_requests rqs w) = w_posts w @ rqs"
  "w_queue (log_requests rqs w) = w_queue w"
  "w_published (log_requests rqs w) = w_published w"
  "w_alerts (log_requests rqs w) = w_alerts w"
  by (simp_all add: log_requests_def)

lemma log_nothing [simp]: "log_requests [] w = w"
  by (simp add: log_requests_def)

lemma obtain_after_log:
  "obtain_token env (log_requests rqs w) = (fst (obtain_token env w), log_requests rqs (snd (obtain_token env w)))"
  by (simp add: obtain_token_def log_requests_def case_prod_beta)

lemma alert_simps [step_simps]:
  "w_db (send_alert t w) = w_db w"
  "w_redis (send_alert t w) = w_redis w"
  "w_posts (send_alert t w) = w_posts w"
  "w_queue (send_alert t w) = w_queue w"
  "w_alerts (send_alert t w) = w_alerts w @ [t]"
  by (simp_all add: send_alert_def)

lemma token_simps [step_simps]:
  "w_db (snd (obtain_token env w)) = w_db w"
  "w_posts (snd (obtain_token env w)) = w_posts w"
  "w_queue (snd (obtain_token env w)) = w_queue w"
  "w_published (snd (obtain_token env w)) = w_published w"
  "w_alerts (snd (obtain_token env w)) = w_alerts w"
  by (simp_all add: obtain_token_def case_prod_beta)

end
