(* ===== verification/Submit_Worker.thy ===== *)
theory Submit_Worker
  imports Worker_World
begin

text \<open>
  Worker 1, the submission of an order: \<^verbatim>\<open>app/worker/tasks_order.py\<close>.  The handler
  \<open>process_order\<close> is composed of its phases: claim the order (\<open>PENDING\<close> to \<open>PROCESSING\<close>), get a
  token and look at the kill switch, call the broker by the kind of the order, read the answer,
  store it and schedule the tracking; and of its two exception handlers.  An exception that
  leaves the handler is the handler's result.
\<close>

section \<open>Reading the broker's answer\<close>

text \<open>\<open>HHMMSS\<close> of today in Seoul.\<close>

definition parse_submitted_at :: "timestamp \<Rightarrow> str option \<Rightarrow> timestamp option" where
  "parse_submitted_at now ord_tmd =
     (if \<not> truthy ord_tmd then None
      else map_option (\<lambda>sec. kst_date now * 86400 + sec - 9 * 3600) (strptime_hms (the ord_tmd)))"

record submit_snapshot =
  sn_rt_cd :: str
  sn_msg_cd :: str
  sn_msg1 :: str
  sn_broker_org_no :: "str option"
  sn_broker_order_no :: "str option"
  sn_submitted_at :: "timestamp option"
  sn_payload :: json
  sn_next_status :: order_status
  sn_remaining_qty :: int

definition response_json :: "order_response \<Rightarrow> json" where
  "response_json r =
     JObj [(''rt_cd'', JStr (r_rt_cd r)), (''msg_cd'', JStr (r_msg_cd r)), (''msg1'', JStr (r_msg1 r)),
       (''output'', (case r_output r of None \<Rightarrow> JNull
          | Some out \<Rightarrow> JObj [(''KRX_FWDG_ORD_ORGNO'', JStr (out_KRX_FWDG_ORD_ORGNO out)),
              (''ODNO'', JStr (out_ODNO out)), (''ORD_TMD'', JStr (out_ORD_TMD out))]))]"

definition extract_order_snapshot :: "timestamp \<Rightarrow> order_response \<Rightarrow> int \<Rightarrow> submit_snapshot" where
  "extract_order_snapshot now service_result order_qty =
     (let broker_order_no = map_option out_ODNO (r_output service_result);
          next_status = (if r_rt_cd service_result \<noteq> ''0'' then FAILED
                         else if truthy broker_order_no then ACCEPTED else REQUESTED)
      in \<lparr>sn_rt_cd = r_rt_cd service_result, sn_msg_cd = r_msg_cd service_result,
          sn_msg1 = r_msg1 service_result,
          sn_broker_org_no = map_option out_KRX_FWDG_ORD_ORGNO (r_output service_result),
          sn_broker_order_no = broker_order_no,
          sn_submitted_at = parse_submitted_at now (map_option out_ORD_TMD (r_output service_result)),
          sn_payload = response_json service_result,
          sn_next_status = next_status,
          sn_remaining_qty = (if next_status \<in> set [REQUESTED, ACCEPTED] then order_qty else 0)\<rparr>)"

section \<open>Errors\<close>

text \<open>The broker's Korean phrase for "requests per second", in UTF-8.\<close>

definition RATE_LIMIT_TEXT :: str where
  "RATE_LIMIT_TEXT = map char_of [0xec, 0xb4, 0x88, 0xeb, 0x8b, 0xb9, 0x20 :: nat, 0xea, 0xb1, 0xb0,
     0xeb, 0x9e, 0x98, 0xea, 0xb1, 0xb4, 0xec, 0x88, 0x98]"

text \<open>The \<open>response\<close> object of the payload, empty when there is none.\<close>

definition error_response :: "kis_error \<Rightarrow> (str \<times> json) list result" where
  "error_response e =
     (case e_payload e of
        Some (JObj d) \<Rightarrow>
          (case dict_get d ''response'' of
             None \<Rightarrow> Inr []
           | Some (JObj r) \<Rightarrow> Inr r
           | Some _ \<Rightarrow> Inl (AttributeError ''object has no attribute get''))
      | _ \<Rightarrow> Inr [])"

definition is_rate_limit_error :: "kis_error \<Rightarrow> bool result" where
  "is_rate_limit_error e =
     bind_result (error_response e) (\<lambda>response.
       let original_msg_cd = json_text (dict_get response ''msg_cd'');
           original_msg1 = or_text (json_text (dict_get response ''msg1'')) (or_text (e_msg1 e) '''')
       in Inr (original_msg_cd = Some ''EGW00201'' \<or> contains RATE_LIMIT_TEXT original_msg1))"

text \<open>
  The kill switch check raises \<open>KISOrderError(rt_cd=..., msg_cd=..., msg1=..., payload=...)\<close>, a call
  without the required \<open>message\<close>.
\<close>

definition check_kill_switch :: "worker_env \<Rightarrow> uuid \<Rightarrow> world \<Rightarrow> unit result" where
  "check_kill_switch env order_pk w =
     (if kill_switch_is_on (e_now env) (w_redis w)
      then Inl (new_KISOrderError None None None (Some ''KILL_SWITCH_ON'') (Some ''TRADING_BLOCKED'')
             (Some ''the kill switch is on: the order was not accepted'')
             (Some (JObj [(''order_id'', JStr order_pk)])))
      else Inr ())"

section \<open>Calling the broker\<close>

text \<open>The checks of a revision or a cancellation; \<open>tag\<close> is the prefix of their messages.\<close>

definition parent_of_child :: "str \<Rightarrow> orders \<Rightarrow> order \<Rightarrow> order result" where
  "parent_of_child tag db row =
     (if \<not> truthy (o_original_order_id row) then Inl (ValueError (tag @ '' no original order''))
      else if \<not> truthy (o_original_broker_order_no row) then Inl (ValueError (tag @ '' no original broker order number''))
      else if \<not> truthy (o_original_broker_org_no row) then Inl (ValueError (tag @ '' no original broker org number''))
      else if o_order_qty row \<le> 0 then Inl (ValueError (tag @ '' the quantity must be positive''))
      else case get_order_by_id db (the (o_original_order_id row)) of
             None \<Rightarrow> Inl (ValueError (tag @ '' original order not found''))
           | Some original_order \<Rightarrow>
               if o_remaining_qty original_order \<le> 0 then Inl (ValueError (tag @ '' nothing remains of the original order''))
               else if o_order_qty row > o_remaining_qty original_order
               then Inl (ValueError (tag @ '' the quantity exceeds what remains''))
               else Inr original_order)"

definition yes_no :: "bool \<Rightarrow> str" where
  "yes_no b = (if b then ''Y'' else ''N'')"

definition submit_new :: "worker_env \<Rightarrow> order \<Rightarrow> order_response sent" where
  "submit_new env row =
     (let st = e_settings env; http = e_http env
      in if o_order_pos row = ACTION_BUY then
           (case ORDER_TYPE (o_order_type row) of
              Inl e \<Rightarrow> ([], Inl e)
            | Inr ty \<Rightarrow> buy_domestic_stock st http (o_stock_code row) (show_int (o_order_qty row)) ty
                          (show_price (o_order_price row)))
         else if o_order_pos row = ACTION_SELL then
           (case ORDER_TYPE (o_order_type row) of
              Inl e \<Rightarrow> ([], Inl e)
            | Inr ty \<Rightarrow> sell_domestic_stock st http (o_stock_code row) (show_int (o_order_qty row)) ty
                          (show_price (o_order_price row)))
         else ([], Inl (ValueError (''unknown order position '' @ o_order_pos row))))"

definition submit_modify :: "worker_env \<Rightarrow> orders \<Rightarrow> order \<Rightarrow> order_response sent" where
  "submit_modify env db row =
     (case parent_of_child ''[modify]'' db row of
        Inl e \<Rightarrow> ([], Inl e)
      | Inr original_order \<Rightarrow>
          revise_domestic_stock (e_settings env) (e_http env) (the (o_original_broker_order_no row))
            (show_int (o_order_qty row))
            (if o_order_type row = order_type_value MARKET then MARKET else LIMIT)
            (show_price (o_order_price row)) (the (o_original_broker_org_no row))
            (yes_no (o_order_qty row \<ge> o_remaining_qty original_order)))"

definition submit_cancel :: "worker_env \<Rightarrow> orders \<Rightarrow> order \<Rightarrow> order_response sent" where
  "submit_cancel env db row =
     (case parent_of_child ''[cancel]'' db row of
        Inl e \<Rightarrow> ([], Inl e)
      | Inr original_order \<Rightarrow>
          cancel_domestic_stock (e_settings env) (e_http env) (the (o_original_broker_order_no row))
            (the (o_original_broker_org_no row)) (show_int (o_order_qty row))
            (yes_no (o_order_qty row \<ge> o_remaining_qty original_order)) ORD_DVSN_MARKET)"

definition call_broker :: "worker_env \<Rightarrow> orders \<Rightarrow> order \<Rightarrow> order_response sent" where
  "call_broker env db row =
     (if o_order_kind row = KIND_NEW then submit_new env row
      else if o_order_kind row = KIND_MODIFY then submit_modify env db row
      else if o_order_kind row = KIND_CANCEL then submit_cancel env db row
      else ([], Inl (ValueError (''unknown order kind '' @ o_order_kind row))))"

section \<open>Phases\<close>

text \<open>Steps 1 and 2: the order as loaded and claimed, or \<open>None\<close> when the handler returns at once.\<close>

definition claim_order :: "worker_env \<Rightarrow> uuid \<Rightarrow> world \<Rightarrow> order option \<times> world" where
  "claim_order env order_id w =
     (case get_order_by_id (w_db w) order_id of
        None \<Rightarrow> (None, w)
      | Some row \<Rightarrow>
          (let stmt = update_order_status (e_now env) (o_id row) [PENDING] PROCESSING;
               (updated, w') = commit_stmt stmt w
           in (if updated then Some (snd stmt row) else None, w')))"

text \<open>Step 3: token and kill switch.\<close>

definition prepare_submission :: "worker_env \<Rightarrow> order \<Rightarrow> unit action" where
  "prepare_submission env row w =
     (case obtain_token env w of
        (Inl e, w') \<Rightarrow> (Inl e, w')
      | (Inr _, w') \<Rightarrow> (check_kill_switch env (o_id row) w', w'))"

text \<open>Step 4: the broker.\<close>

definition submit_order :: "worker_env \<Rightarrow> order \<Rightarrow> order_response action" where
  "submit_order env row w =
     (let (rqs, res) = call_broker env (w_db w) row in (res, w\<lparr>w_posts := w_posts w @ rqs\<rparr>))"

text \<open>Steps 5 to 7 and the tracking task.\<close>

definition record_submission :: "worker_env \<Rightarrow> order \<Rightarrow> order_response \<Rightarrow> world \<Rightarrow> world" where
  "record_submission env row service_result w =
     (let sn = extract_order_snapshot (e_now env) service_result (o_order_qty row)
      in if \<not> can_transition (o_status row) (sn_next_status sn) then w
         else let (updated, w1) = commit_stmt
                     (update_order_submit_result (e_now env) (o_id row) (Some (sn_rt_cd sn)) (Some (sn_msg_cd sn))
                        (Some (sn_msg1 sn)) (sn_broker_org_no sn) (sn_broker_order_no sn) (sn_submitted_at sn)
                        (Some (sn_payload sn)) (sn_next_status sn) (Some (sn_remaining_qty sn))) w
              in if \<not> updated then w1
                 else let w2 = publish_order_update (o_id row) w1
                      in if sn_next_status sn \<in> set [ACCEPTED, REQUESTED]
                         then enqueue (TrackOrder (o_id row) 0 None 0) w2 else w2)"

section \<open>Exception handlers\<close>

text \<open>
  A failure is stored by \<open>update_order_failure_result\<close>, which the two handlers call without its
  required \<open>expected_current_statuses\<close>; what follows the call in the handlers follows it here.
\<close>

definition store_failure ::
  "worker_env \<Rightarrow> order \<Rightarrow> str \<Rightarrow> str \<Rightarrow> str \<Rightarrow> json \<Rightarrow> str \<Rightarrow> unit action" where
  "store_failure env row rt_cd msg_cd msg1 payload alert_text w =
     (case update_order_failure_result (e_now env) (o_id row) None (Some rt_cd) (Some msg_cd) (Some msg1)
             FAILED None None None (Some payload) of
        Inl e \<Rightarrow> (Inl e, w)
      | Inr stmt \<Rightarrow>
          (let w1 = publish_order_update (o_id row) (snd (commit_stmt stmt w))
           in if o_order_pos row \<in> set [ACTION_BUY, ACTION_SELL, ''cancel'', ''modify'']
              then (Inr (), send_alert \<lparr>al_stock_code = o_stock_code row, al_order_id = o_id row,
                               al_action = o_order_pos row, al_message = alert_text\<rparr> w1)
              else (Inl (ValueError (o_order_pos row @ '' is not a valid ORDER_ACTION'')), w1)))"

definition or_json :: "json option \<Rightarrow> json \<Rightarrow> json" where
  "or_json x d = (case x of None \<Rightarrow> d | Some j \<Rightarrow> j)"

definition opt_str :: "str option \<Rightarrow> json" where
  "opt_str x = (case x of None \<Rightarrow> JNull | Some s \<Rightarrow> JStr s)"

definition error_summary :: "kis_error \<Rightarrow> (str \<times> json) list" where
  "error_summary e =
     [(''rt_cd'', opt_str (e_rt_cd e)), (''msg_cd'', opt_str (e_msg_cd e)), (''msg1'', opt_str (e_msg1 e)),
      (''message'', JStr (e_message e))]"

definition handle_kis_error :: "worker_env \<Rightarrow> uuid \<Rightarrow> order \<Rightarrow> kis_error \<Rightarrow> unit action" where
  "handle_kis_error env order_id row e w =
     (case is_rate_limit_error e of
        Inl e' \<Rightarrow> (Inl e', w)
      | Inr True \<Rightarrow>
          (let w1 = snd (commit_stmt (update_order_status (e_now env) (o_id row) [PROCESSING] PENDING) w)
           in (Inr (), enqueue (ProcessOrder order_id 60) w1))
      | Inr False \<Rightarrow>
          store_failure env row (or_text (e_rt_cd e) ''1'') (or_text (e_msg_cd e) ''KIS_ORDER_ERROR'')
            (or_text (e_msg1 e) (e_message e)) (or_json (e_payload e) (JObj (error_summary e)))
            (''order failed - broker API error: '' @ or_text (e_msg1 e) ''None'') w)"

definition handle_exception :: "worker_env \<Rightarrow> order \<Rightarrow> exn \<Rightarrow> unit action" where
  "handle_exception env row e w =
     store_failure env row ''ERROR'' ''WORKER_EXCEPTION'' (exn_str e)
       (JObj [(''error'', JStr (exn_str e)), (''order_id'', JStr (o_id row)), (''stage'', JStr ''process_order'')])
       (''order failed - worker exception: '' @ exn_str e) w"

definition handle_failure :: "worker_env \<Rightarrow> uuid \<Rightarrow> order \<Rightarrow> exn \<Rightarrow> unit action" where
  "handle_failure env order_id row e w =
     (case e of KISOrderError k \<Rightarrow> handle_kis_error env order_id row k w | _ \<Rightarrow> handle_exception env row e w)"

section \<open>The handler\<close>

definition process_claimed :: "worker_env \<Rightarrow> order \<Rightarrow> unit action" where
  "process_claimed env row w =
     (case prepare_submission env row w of
        (Inl e, w1) \<Rightarrow> (Inl e, w1)
      | (Inr _, w1) \<Rightarrow>
          (case submit_order env row w1 of
             (Inl e, w2) \<Rightarrow> (Inl e, w2)
           | (Inr service_result, w2) \<Rightarrow> (Inr (), record_submission env row service_result w2)))"

definition process_order :: "worker_env \<Rightarrow> uuid \<Rightarrow> unit action" where
  "process_order env order_id w =
     (case claim_order env order_id w of
        (None, w1) \<Rightarrow> (Inr (), w1)
      | (Some row, w1) \<Rightarrow>
          (case process_claimed env row w1 of
             (Inr _, w2) \<Rightarrow> (Inr (), w2)
           | (Inl e, w2) \<Rightarrow> handle_failure env order_id row e w2))"

section \<open>The branches of the handler\<close>

lemma store_failure_raises:
  "store_failure env row rc mc m1 pl al w =
     (Inl (TypeError ''update_order_failure_result() missing 1 required positional argument: expected_current_statuses''), w)"
  by (simp add: store_failure_def update_order_failure_result_def)

lemma handle_exception_raises:
  "handle_exception env row e w =
     (Inl (TypeError ''update_order_failure_result() missing 1 required positional argument: expected_current_statuses''), w)"
  by (simp add: handle_exception_def store_failure_raises)

text \<open>The answer of the broker, whatever the kind of the order, is an accepted one.\<close>

lemma then_check_ok: "snd (then_check s read_ord_tmd) = Inr r \<Longrightarrow> snd s = Inr r"
  by (auto simp: then_check_def read_ord_tmd_def bind_result_Inr_iff Let_def split: option.splits if_splits)

lemma buy_ok: "snd (buy_domestic_stock st http code q ty p) = Inr r \<Longrightarrow> r_rt_cd r = ''0''"
  by (auto simp: buy_domestic_stock_def buy_domestic_stock_by_cash_def case_prod_beta split: sum.splits
      dest!: then_check_ok cash_order_ok)

lemma sell_ok: "snd (sell_domestic_stock st http code q ty p) = Inr r \<Longrightarrow> r_rt_cd r = ''0''"
  by (auto simp: sell_domestic_stock_def sell_domestic_stock_by_cash_def case_prod_beta split: sum.splits
      dest!: then_check_ok cash_order_ok)

lemma revise_ok: "snd (revise_domestic_stock st http no q ty p org yn) = Inr r \<Longrightarrow> r_rt_cd r = ''0''"
  by (auto simp: revise_domestic_stock_def case_prod_beta split: sum.splits dest!: modify_order_ok)

lemma cancel_ok: "snd (cancel_domestic_stock st http no org q yn m) = Inr r \<Longrightarrow> r_rt_cd r = ''0''"
  by (auto simp: cancel_domestic_stock_def split: sum.splits dest!: modify_order_ok)

lemma call_broker_ok: "snd (call_broker env db row) = Inr r \<Longrightarrow> r_rt_cd r = ''0''"
  by (auto simp: call_broker_def submit_new_def submit_modify_def submit_cancel_def Let_def
      split: if_splits sum.splits dest!: buy_ok sell_ok revise_ok cancel_ok)

text \<open>The next status of an accepted answer.\<close>

lemma snapshot_status:
  "r_rt_cd r = ''0'' \<Longrightarrow>
   sn_next_status (extract_order_snapshot now r q) = (if truthy (map_option out_ODNO (r_output r)) then ACCEPTED else REQUESTED)"
  by (simp add: extract_order_snapshot_def Let_def)

lemma snapshot_any_status:
  "sn_next_status (extract_order_snapshot now r q) \<in> {ACCEPTED, REQUESTED, FAILED}"
  by (simp add: extract_order_snapshot_def Let_def)

section \<open>How the handler changes the table\<close>

lemma claim_moves: "db_moves (w_db w) (w_db (snd (claim_order env oid w)))"
  by (auto simp: claim_order_def case_prod_beta step_simps can_transition_from_PENDING Let_def
      intro!: upd_status.execute_moves split: option.split)

lemma claim_other:
  "k \<noteq> oid \<Longrightarrow> get_order_by_id (w_db (snd (claim_order env oid w))) k = get_order_by_id (w_db w) k"
  by (auto simp: claim_order_def case_prod_beta step_simps Let_def upd_status.lookup_other dest: lookup_id
      split: option.split)

lemma claim_id: "claim_order env oid w = (Some row, w1) \<Longrightarrow> o_id row = oid"
  by (auto simp: claim_order_def case_prod_beta Let_def upd_status.keeps_identity [unfolded same_identity_def]
      dest: lookup_id split: option.splits if_splits)

lemma prepare_db [simp]:
  "w_db (snd (prepare_submission env row w)) = w_db w"
  "w_posts (snd (prepare_submission env row w)) = w_posts w"
  "w_queue (snd (prepare_submission env row w)) = w_queue w"
  "w_published (snd (prepare_submission env row w)) = w_published w"
  "w_alerts (snd (prepare_submission env row w)) = w_alerts w"
  using token_simps [of env w]
  by (auto simp: prepare_submission_def split: sum.split prod.splits)

lemma submit_db [simp]:
  "w_db (snd (submit_order env row w)) = w_db w"
  "w_queue (snd (submit_order env row w)) = w_queue w"
  by (simp_all add: submit_order_def case_prod_beta)

lemma record_moves: "db_moves (w_db w) (w_db (record_submission env row r w))"
proof -
  have "can_transition PROCESSING (sn_next_status (extract_order_snapshot (e_now env) r (o_order_qty row)))"
    using snapshot_any_status [of "e_now env" r "o_order_qty row"] by (auto simp: can_transition_from_PROCESSING)
  then show ?thesis
    by (simp add: record_submission_def case_prod_beta step_simps Let_def upd_submit.execute_moves)
qed

lemma record_other:
  "k \<noteq> o_id row \<Longrightarrow> get_order_by_id (w_db (record_submission env row r w)) k = get_order_by_id (w_db w) k"
  by (simp add: record_submission_def case_prod_beta step_simps Let_def upd_submit.lookup_other)

lemma handle_moves: "db_moves (w_db w) (w_db (snd (handle_failure env oid row e w)))"
  by (auto simp: handle_failure_def handle_kis_error_def handle_exception_raises store_failure_raises
      step_simps can_transition_from_PROCESSING Let_def intro!: upd_status.execute_moves
      split: exn.split sum.split bool.split)

lemma handle_other:
  "k \<noteq> o_id row \<Longrightarrow> get_order_by_id (w_db (snd (handle_failure env oid row e w))) k = get_order_by_id (w_db w) k"
  by (simp add: handle_failure_def handle_kis_error_def handle_exception_raises store_failure_raises
      step_simps Let_def upd_status.lookup_other split: exn.split sum.split bool.split)

lemmas claim_evolves = claim_moves [THEN db_moves_evolves]
lemmas record_evolves = record_moves [THEN db_moves_evolves]
lemmas handle_evolves = handle_moves [THEN db_moves_evolves]

text \<open>What follows the claim stores at most once, by the record of the answer or by the failure handler.\<close>

lemma process_claimed_cases:
  obtains (stored) r w2 where "process_claimed env row w = (Inr (), record_submission env row r w2)" and "w_db w2 = w_db w"
  | (failed) e w2 where "process_claimed env row w = (Inl e, w2)" and "w_db w2 = w_db w"
proof -
  obtain res w1 where p: "prepare_submission env row w = (res, w1)" by (cases "prepare_submission env row w")
  obtain res2 w2 where s: "submit_order env row w1 = (res2, w2)" by (cases "submit_order env row w1")
  have "w_db w1 = w_db w" "w_db w2 = w_db w1"
    using prepare_db(1) [of env row w] submit_db(1) [of env row w1] p s by simp_all
  then show ?thesis
    using p s that by (cases res; cases res2) (auto simp: process_claimed_def)
qed

lemma process_order_moves:
  fixes w env oid
  defines "db1 \<equiv> w_db (snd (claim_order env oid w))"
  shows "db_moves db1 (w_db (snd (process_order env oid w)))"
    and "k \<noteq> oid \<Longrightarrow> get_order_by_id (w_db (snd (process_order env oid w))) k = get_order_by_id db1 k"
proof -
  obtain cl w1 where c: "claim_order env oid w = (cl, w1)" by (cases "claim_order env oid w")
  then have 1: "db1 = w_db w1" by (simp add: db1_def)
  have "db_moves db1 (w_db (snd (process_order env oid w)))
    \<and> (\<forall>k. k \<noteq> oid \<longrightarrow> get_order_by_id (w_db (snd (process_order env oid w))) k = get_order_by_id db1 k)"
  proof (cases cl)
    case None
    with c 1 show ?thesis by (simp add: process_order_def)
  next
    case (Some row)
    with c have row: "o_id row = oid" using claim_id by blast
    show ?thesis
    proof (cases rule: process_claimed_cases [of env row w1])
      case (stored r w2)
      with c Some 1 row show ?thesis using record_moves [of w2 env row r] record_other [of _ row env r w2]
        by (simp add: process_order_def)
    next
      case (failed e w2)
      with c Some 1 row show ?thesis using handle_moves [of w2 env oid row e] handle_other [of _ row env oid e w2]
        by (simp add: process_order_def)
    qed
  qed
  then show "db_moves db1 (w_db (snd (process_order env oid w)))"
    and "k \<noteq> oid \<Longrightarrow> get_order_by_id (w_db (snd (process_order env oid w))) k = get_order_by_id db1 k" by simp_all
qed

section \<open>The handler on a pending order\<close>

text \<open>The order after the claim, as loaded and as stored.\<close>

definition claimed_row :: "worker_env \<Rightarrow> order \<Rightarrow> order" where
  "claimed_row env r = r\<lparr>o_status := PROCESSING, o_updated_at := e_now env\<rparr>"

definition claimed :: "worker_env \<Rightarrow> uuid \<Rightarrow> world \<Rightarrow> world" where
  "claimed env oid w = snd (commit_stmt (update_order_status (e_now env) oid [PENDING] PROCESSING) w)"

lemma claimed_simps [simp]:
  "w_redis (claimed env oid w) = w_redis w" "w_posts (claimed env oid w) = w_posts w"
  "w_queue (claimed env oid w) = w_queue w" "w_alerts (claimed env oid w) = w_alerts w"
  "w_token_requests (claimed env oid w) = w_token_requests w"
  by (simp_all add: claimed_def step_simps) (simp add: commit_stmt_def case_prod_beta)

lemma claimed_row_simps [simp]:
  "o_id (claimed_row env r) = o_id r" "o_status (claimed_row env r) = PROCESSING"
  "o_order_qty (claimed_row env r) = o_order_qty r"
  by (simp_all add: claimed_row_def)

lemma claim_order_pending:
  assumes "get_order_by_id (w_db w) oid = Some r" and "o_status r = PENDING"
  shows "claim_order env oid w = (Some (claimed_row env r), claimed env oid w)"
proof -
  have "o_id r = oid" using assms lookup_id by blast
  moreover have "fst (execute (update_order_status (e_now env) oid [PENDING] PROCESSING) (w_db w))"
    using assms by (intro upd_status.hits_expected) auto
  ultimately show ?thesis
    using assms
    by (simp add: claim_order_def claimed_def commit_stmt_def case_prod_beta claimed_row_def
        update_order_status_def Let_def)
qed

lemma claimed_lookup:
  assumes "get_order_by_id (w_db w) oid = Some r" and "o_status r = PENDING"
  shows "get_order_by_id (w_db (claimed env oid w)) oid = Some (claimed_row env r)"
  using assms lookup_id [OF assms(1)]
  by (simp add: claimed_def step_simps upd_status.lookup_hit) (simp add: update_order_status_def claimed_row_def)

lemma claimed_other: "k \<noteq> oid \<Longrightarrow> get_order_by_id (w_db (claimed env oid w)) k = get_order_by_id (w_db w) k"
  by (simp add: claimed_def step_simps upd_status.lookup_other)

lemma process_order_pending:
  assumes "get_order_by_id (w_db w) oid = Some r" and "o_status r = PENDING"
  shows "process_order env oid w =
     (case process_claimed env (claimed_row env r) (claimed env oid w) of
        (Inr _, w2) \<Rightarrow> (Inr (), w2)
      | (Inl e, w2) \<Rightarrow> handle_failure env oid (claimed_row env r) e w2)"
  by (simp add: process_order_def claim_order_pending [OF assms])

lemma handle_not_rate_limited:
  assumes "\<forall>k. e = KISOrderError k \<longrightarrow> is_rate_limit_error k = Inr False"
  shows "\<exists>t. handle_failure env oid row e w = (Inl (TypeError t), w)"
  using assms
  by (cases e) (simp_all add: handle_failure_def handle_exception_raises handle_kis_error_def store_failure_raises)

lemma not_recoverable:
  assumes "distinct (map o_id db)" "get_order_by_id db oid = Some r" "o_status r = PROCESSING"
  shows "oid \<notin> o_id ` set (get_recoverable_submit_orders db)"
    "oid \<notin> o_id ` set (get_recoverable_tracking_orders db)"
proof -
  have "x = r" if "x \<in> set db" "o_id x = oid" for x
    using lookup_unique [OF assms(1) that(1)] that(2) assms(2) by simp
  with assms(3) show "oid \<notin> o_id ` set (get_recoverable_submit_orders db)"
    "oid \<notin> o_id ` set (get_recoverable_tracking_orders db)"
    by (auto simp: get_recoverable_submit_orders_def get_recoverable_tracking_orders_def)
qed

lemma claimed_distinct: "distinct (map o_id (w_db w)) \<Longrightarrow> distinct (map o_id (w_db (claimed env oid w)))"
  by (simp add: claimed_def step_simps upd_status.execute_ids)

text \<open>Storing the answer of an accepted submission.\<close>

definition submitted_row :: "worker_env \<Rightarrow> order_response \<Rightarrow> order \<Rightarrow> order" where
  "submitted_row env resp r =
     (let sn = extract_order_snapshot (e_now env) resp (o_order_qty r)
      in snd (update_order_submit_result (e_now env) (o_id r) (Some (sn_rt_cd sn)) (Some (sn_msg_cd sn))
                (Some (sn_msg1 sn)) (sn_broker_org_no sn) (sn_broker_order_no sn) (sn_submitted_at sn)
                (Some (sn_payload sn)) (sn_next_status sn) (Some (sn_remaining_qty sn))) r)"

lemma submitted_row_simps:
  assumes "r_rt_cd resp = ''0''"
  shows "o_status (submitted_row env resp r) =
      (if truthy (map_option out_ODNO (r_output resp)) then ACCEPTED else REQUESTED)"
    "o_broker_order_no (submitted_row env resp r) = map_option out_ODNO (r_output resp)"
    "o_remaining_qty (submitted_row env resp r) = o_order_qty r"
    "o_filled_qty (submitted_row env resp r) = o_filled_qty r"
    "same_identity (submitted_row env resp r) r"
  using assms upd_submit.keeps_identity
  by (simp_all add: submitted_row_def Let_def)
    (simp_all add: extract_order_snapshot_def update_order_submit_result_def Let_def)

lemma record_submission_hit:
  assumes "get_order_by_id (w_db w) (o_id row) = Some row" and "o_status row = PROCESSING" and "r_rt_cd resp = ''0''"
  shows "w_queue (record_submission env row resp w) = w_queue w @ [TrackOrder (o_id row) 0 None 0]"
    "w_posts (record_submission env row resp w) = w_posts w"
    "get_order_by_id (w_db (record_submission env row resp w)) (o_id row) = Some (submitted_row env resp row)"
    "k \<noteq> o_id row \<Longrightarrow> get_order_by_id (w_db (record_submission env row resp w)) k = get_order_by_id (w_db w) k"
proof -
  define sn where "sn = extract_order_snapshot (e_now env) resp (o_order_qty row)"
  define st where "st = update_order_submit_result (e_now env) (o_id row) (Some (sn_rt_cd sn)) (Some (sn_msg_cd sn))
        (Some (sn_msg1 sn)) (sn_broker_org_no sn) (sn_broker_order_no sn) (sn_submitted_at sn)
        (Some (sn_payload sn)) (sn_next_status sn) (Some (sn_remaining_qty sn))"
  have next_set: "sn_next_status sn \<in> {ACCEPTED, REQUESTED}"
    using snapshot_status [OF assms(3)] by (simp add: sn_def)
  then have ct: "can_transition (o_status row) (sn_next_status sn)"
    using assms(2) by (auto simp: can_transition_from_PROCESSING)
  have hit: "fst (execute st (w_db w))"
    unfolding st_def using assms by (intro upd_submit.hits_expected) auto
  have rec: "record_submission env row resp w =
      enqueue (TrackOrder (o_id row) 0 None 0) (publish_order_update (o_id row) (snd (commit_stmt st w)))"
    using ct hit next_set
    by (auto simp: record_submission_def Let_def sn_def [symmetric] st_def [symmetric] case_prod_beta step_simps)
  show "w_queue (record_submission env row resp w) = w_queue w @ [TrackOrder (o_id row) 0 None 0]"
    "w_posts (record_submission env row resp w) = w_posts w"
    by (simp_all add: rec step_simps)
  have "fst st row" using assms(2) by (simp add: st_def update_order_submit_result_def)
  then show "get_order_by_id (w_db (record_submission env row resp w)) (o_id row) = Some (submitted_row env resp row)"
    using assms(1)
    by (simp add: rec step_simps)
      (simp add: st_def upd_submit.lookup_hit submitted_row_def sn_def Let_def)
  show "k \<noteq> o_id row \<Longrightarrow> get_order_by_id (w_db (record_submission env row resp w)) k = get_order_by_id (w_db w) k"
    by (simp add: rec step_simps) (simp add: st_def upd_submit.lookup_other)
qed

section \<open>A concrete submission\<close>

definition example_order :: order where
  "example_order = (new_order 1774290000 ''o1'')
     \<lparr>o_account_no := ''12345678'', o_account_product_code := ''01'', o_stock_code := ''005930'',
      o_order_pos := ''buy'', o_order_kind := ''new'', o_order_type := ''market'', o_order_qty := 7\<rparr>"

definition example_answer :: "(str \<times> json) list \<Rightarrow> http" where
  "example_answer d = (\<lambda>_ _. Response 200 (Some (JObj d)) '''' '''')"

definition accepted_body :: "(str \<times> json) list" where
  "accepted_body =
     [(''rt_cd'', JStr ''0''), (''msg_cd'', JStr ''APBK0013''), (''msg1'', JStr ''ok''),
      (''output'', JObj [(''KRX_FWDG_ORD_ORGNO'', JStr ''00950''), (''ODNO'', JStr ''0000001234''),
                         (''ORD_TMD'', JStr ''111554'')])]"

definition rejected_body :: "str \<Rightarrow> (str \<times> json) list" where
  "rejected_body msg = [(''rt_cd'', JStr ''1''), (''msg_cd'', JStr ''X''), (''msg1'', JStr msg)]"

definition example_env :: "http \<Rightarrow> worker_env" where
  "example_env http =
     \<lparr>e_now = 1774300000, e_curr_date = ''20260324'',
      e_settings = \<lparr>s_paper = True, s_account_no = ''12345678'', s_account_product_code = ''01''\<rparr>,
      e_auth = example_auth_env, e_http = http\<rparr>"

definition example_token :: payload where
  "example_token =
     [(''access_token'', JStr ''tk''), (''fingerprint'', JStr ''0123456789abcdef''),
      (''access_token_token_expired'', JStr ''2026-03-24 15:09:07'')]"

definition example_world :: "bool \<Rightarrow> world" where
  "example_world kill =
     \<lparr>w_db = [example_order],
      w_redis = [TOKEN_CACHE_KEY \<mapsto> (RJson (JObj example_token), None),
                 KILL_SWITCH_KEY \<mapsto> (RText (if kill then ''1'' else ''0''), None)],
      w_token_requests = [], w_posts = [], w_queue = [], w_published = [], w_alerts = []\<rparr>"

lemma example_lookup [simp]: "get_order_by_id (w_db (example_world kill)) ''o1'' = Some example_order"
  by (simp add: example_world_def get_order_by_id_def example_order_def new_order_def)

lemma example_pending [simp]: "o_status example_order = PENDING"
  by (simp add: example_order_def new_order_def)

lemma example_distinct [simp]: "distinct (map o_id (w_db (example_world kill)))"
  by (simp add: example_world_def)

lemma example_obtain: "obtain_token (example_env http) (example_world kill) = (Inr ''tk'', example_world kill)"
proof -
  have "usable example_auth_env 1774300000 (Some example_token)"
    by (simp add: usable_def validate_fingerprint_def example_token_def dict_get_def example_auth_env_def
        credential_fingerprint_def is_expired_or_expiring_def parse_expired_at_example EXPIRY_BUFFER_SECONDS_def)
  moreover have "get_cached_token_payload 1774300000 (w_redis (example_world kill))
      = (Inr (Some example_token), w_redis (example_world kill))"
    by (simp add: get_cached_token_payload_def example_world_def redis_get_def example_token_def dict_get_def)
  ultimately show ?thesis
    by (simp add: obtain_token_def get_valid_access_token_def example_env_def token_of_def)
      (simp add: example_token_def dict_get_def example_world_def)
qed

lemma example_kill: "kill_switch_is_on t (w_redis (example_world kill)) = kill"
  by (simp add: kill_switch_is_on_def example_world_def redis_get_def)

lemma example_calls:
  "call_broker (example_env (example_answer accepted_body)) db (claimed_row env example_order)
     = ([buy_request True ''12345678'' ''01'' ''01'' ''005930'' ''7'' ''0'' ''KRX''],
        Inr \<lparr>r_rt_cd = ''0'', r_msg_cd = ''APBK0013'', r_msg1 = ''ok'',
          r_output = Some \<lparr>out_KRX_FWDG_ORD_ORGNO = ''00950'', out_ODNO = ''0000001234'', out_ORD_TMD = ''111554''\<rparr>\<rparr>)"
  "call_broker (example_env (example_answer (rejected_body msg))) db (claimed_row env example_order)
     = ([buy_request True ''12345678'' ''01'' ''01'' ''005930'' ''7'' ''0'' ''KRX''],
        Inl (rejected ''buy order failed'' (rejected_body msg)))"
proof -
  have z: "show_int 7 = ''7''" by code_simp
  have q: "str_qty ''7'' = Inr ''7''" by code_simp
  have v: "validate_order_inputs ''005930'' MARKET (Some ''None'') = Inr ()" by code_simp
  have t: "ORDER_TYPE ''market'' = Inr MARKET" by code_simp
  have p: "str_price ''0'' = Inr ''0''" by (rule str_price_zero)
  have r: "read_ord_tmd \<lparr>r_rt_cd = ''0'', r_msg_cd = ''APBK0013'', r_msg1 = ''ok'',
          r_output = Some \<lparr>out_KRX_FWDG_ORD_ORGNO = ''00950'', out_ODNO = ''0000001234'', out_ORD_TMD = ''111554''\<rparr>\<rparr>
      = Inr \<lparr>r_rt_cd = ''0'', r_msg_cd = ''APBK0013'', r_msg1 = ''ok'',
          r_output = Some \<lparr>out_KRX_FWDG_ORD_ORGNO = ''00950'', out_ODNO = ''0000001234'', out_ORD_TMD = ''111554''\<rparr>\<rparr>"
    by code_simp
  have c: "cash_result dflt (Some (JObj accepted_body)) = Inr \<lparr>r_rt_cd = ''0'', r_msg_cd = ''APBK0013'', r_msg1 = ''ok'',
          r_output = Some \<lparr>out_KRX_FWDG_ORD_ORGNO = ''00950'', out_ODNO = ''0000001234'', out_ORD_TMD = ''111554''\<rparr>\<rparr>" for dflt
    by (simp add: cash_result_def json_dict_def accepted_body_def dict_get_def OrderResponse_def optional_field_def
        parse_output_def model_fields_def)
  have d: "cash_result dflt (Some (JObj (rejected_body msg))) = Inl (rejected dflt (rejected_body msg))" for dflt
    by (simp add: cash_result_def json_dict_def rejected_body_def dict_get_def)
  have e: "call_broker (example_env http) db (claimed_row env example_order)
      = then_check (buy_domestic_stock_by_cash http True ''12345678'' ''01'' ''01'' ''005930'' ''7'' ''0'' ''KRX'') read_ord_tmd" for http
    by (simp add: call_broker_def submit_new_def example_env_def claimed_row_def example_order_def new_order_def
        kind_defs t z show_price_def buy_domestic_stock_def v resolve_order_params_def ORD_DVSN_MARKET_def EXCG_KRX_def)
  have f: "buy_domestic_stock_by_cash (example_answer b) True ''12345678'' ''01'' ''01'' ''005930'' ''7'' ''0'' ''KRX''
      = ([buy_request True ''12345678'' ''01'' ''01'' ''005930'' ''7'' ''0'' ''KRX''],
         cash_result ''buy order failed'' (Some (JObj b)))" for b
    by (simp add: buy_domestic_stock_by_cash_def cash_order_def q p attempts example_answer_def is_success_def Let_def)
  show "call_broker (example_env (example_answer accepted_body)) db (claimed_row env example_order)
     = ([buy_request True ''12345678'' ''01'' ''01'' ''005930'' ''7'' ''0'' ''KRX''],
        Inr \<lparr>r_rt_cd = ''0'', r_msg_cd = ''APBK0013'', r_msg1 = ''ok'',
          r_output = Some \<lparr>out_KRX_FWDG_ORD_ORGNO = ''00950'', out_ODNO = ''0000001234'', out_ORD_TMD = ''111554''\<rparr>\<rparr>)"
    by (simp add: e f c then_check_def r)
  show "call_broker (example_env (example_answer (rejected_body msg))) db (claimed_row env example_order)
     = ([buy_request True ''12345678'' ''01'' ''01'' ''005930'' ''7'' ''0'' ''KRX''],
        Inl (rejected ''buy order failed'' (rejected_body msg)))"
    by (simp add: e f d then_check_def)
qed

section \<open>Properties\<close>

lemma obtain_token_claimed:
  "fst (obtain_token env (claimed env oid w)) = fst (obtain_token env w)"
  "w_redis (snd (obtain_token env (claimed env oid w))) = w_redis (snd (obtain_token env w))"
  by (simp_all add: obtain_token_def case_prod_beta)

lemma prepare_claimed:
  "fst (prepare_submission env row (claimed env oid w)) =
     (case fst (obtain_token env w) of Inl e \<Rightarrow> Inl e
      | Inr _ \<Rightarrow> check_kill_switch env (o_id row) (snd (obtain_token env w)))"
  using obtain_token_claimed [of env oid w]
  by (cases "obtain_token env (claimed env oid w)")
    (auto simp: prepare_submission_def check_kill_switch_def split: sum.split)

lemma submit_after_prepare:
  assumes "fst (prepare_submission env row (claimed env oid w)) = Inr ()"
    and "call_broker env (w_db (claimed env oid w)) row = (rqs, res)"
  obtains w2 where "w_db w2 = w_db (claimed env oid w)" and "w_posts w2 = w_posts w @ rqs"
    and "w_queue w2 = w_queue w" and "w_alerts w2 = w_alerts w"
    and "process_claimed env row (claimed env oid w) =
           (case res of Inl e \<Rightarrow> (Inl e, w2) | Inr resp \<Rightarrow> (Inr (), record_submission env row resp w2))"
proof -
  obtain w1 where p: "prepare_submission env row (claimed env oid w) = (Inr (), w1)"
    using assms(1) by (cases "prepare_submission env row (claimed env oid w)") auto
  have w1: "w_db w1 = w_db (claimed env oid w)" "w_posts w1 = w_posts w" "w_queue w1 = w_queue w" "w_alerts w1 = w_alerts w"
    using prepare_db [of env row "claimed env oid w"] p by simp_all
  let ?w2 = "w1\<lparr>w_posts := w_posts w1 @ rqs\<rparr>"
  have "submit_order env row w1 = (res, ?w2)" using w1(1) assms(2) by (simp add: submit_order_def)
  with p w1 show thesis
    by (intro that [of ?w2]) (auto simp: process_claimed_def split: sum.split)
qed

text \<open>
  Worker 1 acts on pending orders only: for an order that does not exist or is in any other
  status the handler returns without sending, storing, queueing or publishing anything.
\<close>

lemma submission_needs_pending:
  assumes "distinct (map o_id (w_db w))"
    and "\<forall>r. get_order_by_id (w_db w) oid = Some r \<longrightarrow> o_status r \<noteq> PENDING"
  shows "process_order env oid w = (Inr (), w)"
proof (cases "get_order_by_id (w_db w) oid")
  case None
  then show ?thesis by (simp add: process_order_def claim_order_def)
next
  case (Some r)
  have "o_id r = oid" using Some lookup_id by blast
  have "\<not> fst (execute (update_order_status (e_now env) oid [PENDING] PROCESSING) (w_db w))"
    using Some assms by (intro upd_status.misses_unexpected) auto
  moreover from this have "snd (execute (update_order_status (e_now env) oid [PENDING] PROCESSING) (w_db w)) = w_db w"
    by (rule upd_status.execute_none)
  ultimately show ?thesis
    using Some \<open>o_id r = oid\<close>
    by (simp add: process_order_def claim_order_def commit_stmt_def case_prod_beta Let_def)
qed

text \<open>
  C3. A successful submission: a pending order whose broker call returns is posted exactly with
  the requests of that call, ends \<open>ACCEPTED\<close> (or \<open>REQUESTED\<close> when the broker gave no order number) with
  its broker number and its whole quantity remaining, is tracked by exactly one new task, and no
  other order changes.
\<close>

theorem submission_effect:
  assumes "get_order_by_id (w_db w) oid = Some r" and "o_status r = PENDING"
    and "fst (obtain_token env w) = Inr tok"
    and "\<not> kill_switch_is_on (e_now env) (w_redis (snd (obtain_token env w)))"
    and "call_broker env (w_db (claimed env oid w)) (claimed_row env r) = (rqs, Inr resp)"
  shows "\<exists>w' r'. process_order env oid w = (Inr (), w')
     \<and> w_posts w' = w_posts w @ rqs
     \<and> w_queue w' = w_queue w @ [TrackOrder oid 0 None 0]
     \<and> get_order_by_id (w_db w') oid = Some r' \<and> same_identity r' r
     \<and> o_status r' = (if truthy (map_option out_ODNO (r_output resp)) then ACCEPTED else REQUESTED)
     \<and> o_broker_order_no r' = map_option out_ODNO (r_output resp)
     \<and> o_remaining_qty r' = o_order_qty r \<and> o_filled_qty r' = o_filled_qty r
     \<and> (\<forall>k. k \<noteq> oid \<longrightarrow> get_order_by_id (w_db w') k = get_order_by_id (w_db w) k)"
proof -
  let ?row = "claimed_row env r"
  have id: "o_id ?row = oid" using lookup_id [OF assms(1)] by simp
  have ok: "r_rt_cd resp = ''0''" using call_broker_ok assms(5) by (metis snd_conv)
  have "fst (prepare_submission env ?row (claimed env oid w)) = Inr ()"
    using assms(3,4) by (simp add: prepare_claimed check_kill_switch_def)
  then obtain w2 where w2: "w_db w2 = w_db (claimed env oid w)" "w_posts w2 = w_posts w @ rqs" "w_queue w2 = w_queue w"
    "process_claimed env ?row (claimed env oid w) = (Inr (), record_submission env ?row resp w2)"
    using submit_after_prepare [OF _ assms(5)] by (metis (lifting) sum.case(2))
  have row: "get_order_by_id (w_db w2) (o_id ?row) = Some ?row"
    using claimed_lookup [OF assms(1,2)] id w2(1) by simp
  note rec = record_submission_hit [OF row _ ok, where env = env]
  show ?thesis
  proof (intro exI conjI)
    show "process_order env oid w = (Inr (), record_submission env ?row resp w2)"
      by (simp add: process_order_pending [OF assms(1,2)] w2(4))
    show "get_order_by_id (w_db (record_submission env ?row resp w2)) oid = Some (submitted_row env resp ?row)"
      using rec(3) id by simp
    show "same_identity (submitted_row env resp ?row) r"
      using submitted_row_simps(5) [OF ok, of env ?row]
      by (rule same_identity_trans) (simp add: same_identity_def claimed_row_def)
    show "\<forall>k. k \<noteq> oid \<longrightarrow> get_order_by_id (w_db (record_submission env ?row resp w2)) k = get_order_by_id (w_db w) k"
      using rec(4) id w2(1) claimed_other by simp
  qed (use rec(1,2) id w2 submitted_row_simps [OF ok, of env ?row] in \<open>simp_all add: claimed_row_def\<close>)
qed

text \<open>
  C9. Whatever happens to a submission, it stores at most twice, each time by one allowed
  transition: the claim either leaves the table or takes the order by one transition, and what
  the rest of the handler stores (the answer or the return for a retry) is one more allowed
  transition from there or nothing.  No order disappears or changes what it is, and no order but
  the submitted one changes at all.
\<close>

theorem submission_respects_state_machine:
  "db_moves (w_db w) (w_db (snd (claim_order env oid w)))
   \<and> db_moves (w_db (snd (claim_order env oid w))) (w_db (snd (process_order env oid w)))
   \<and> (\<forall>k. k \<noteq> oid \<longrightarrow> get_order_by_id (w_db (snd (process_order env oid w))) k = get_order_by_id (w_db w) k)"
  by (simp add: claim_moves process_order_moves claim_other)

text \<open>
  C39. What the code does when a submission fails for any reason other than the rate limit (a
  rejection, a network or token error, invalid inputs): the failure handler itself raises
  \<open>TypeError\<close>, no failure is stored, no alert is sent, and the order stays \<open>PROCESSING\<close>, which
  neither the recovery of submissions nor the recovery of tracking selects.
\<close>

theorem failed_submission_is_stuck:
  assumes "distinct (map o_id (w_db w))"
    and "get_order_by_id (w_db w) oid = Some r" and "o_status r = PENDING"
    and "fst (process_claimed env (claimed_row env r) (claimed env oid w)) = Inl e"
    and "\<forall>k. e = KISOrderError k \<longrightarrow> is_rate_limit_error k = Inr False"
  shows "\<exists>t w' r'. process_order env oid w = (Inl (TypeError t), w')
     \<and> get_order_by_id (w_db w') oid = Some r' \<and> o_status r' = PROCESSING
     \<and> w_queue w' = w_queue w \<and> w_alerts w' = w_alerts w
     \<and> oid \<notin> o_id ` set (get_recoverable_submit_orders (w_db w'))
     \<and> oid \<notin> o_id ` set (get_recoverable_tracking_orders (w_db w'))"
proof -
  let ?row = "claimed_row env r"
  obtain w1 where pc: "process_claimed env ?row (claimed env oid w) = (Inl e, w1)"
    using assms(4) by (cases "process_claimed env ?row (claimed env oid w)") auto
  have "w_db w1 = w_db (claimed env oid w) \<and> w_queue w1 = w_queue w \<and> w_alerts w1 = w_alerts w"
  proof (cases "fst (prepare_submission env ?row (claimed env oid w))")
    case (Inl e')
    with pc have "w1 = snd (prepare_submission env ?row (claimed env oid w))"
      by (cases "prepare_submission env ?row (claimed env oid w)") (auto simp: process_claimed_def)
    then show ?thesis by simp
  next
    case (Inr u)
    obtain rqs res where cb: "call_broker env (w_db (claimed env oid w)) ?row = (rqs, res)"
      by (cases "call_broker env (w_db (claimed env oid w)) ?row")
    show ?thesis
      by (rule submit_after_prepare [OF _ cb]) (use Inr pc in \<open>auto split: sum.splits\<close>)
  qed
  moreover obtain t where "process_order env oid w = (Inl (TypeError t), w1)"
    using handle_not_rate_limited [OF assms(5), of env oid ?row w1]
    by (auto simp: process_order_pending [OF assms(2,3)] pc)
  ultimately show ?thesis
    using claimed_lookup [OF assms(2,3)] not_recoverable [OF claimed_distinct [OF assms(1)] claimed_lookup [OF assms(2,3)]]
    by simp
qed

text \<open>
  C4. With the kill switch on nothing is posted to the broker.  The handler then fails on its own
  error (which lacks the required message), so the order stays \<open>PROCESSING\<close> and is not marked failed.
\<close>

theorem kill_switch_blocks_submission:
  assumes "get_order_by_id (w_db w) oid = Some r" and "o_status r = PENDING"
    and "fst (obtain_token env w) = Inr tok"
    and "kill_switch_is_on (e_now env) (w_redis (snd (obtain_token env w)))"
  shows "\<exists>t w'. process_order env oid w = (Inl (TypeError t), w')
     \<and> w_posts w' = w_posts w \<and> w_queue w' = w_queue w
     \<and> map_option o_status (get_order_by_id (w_db w') oid) = Some PROCESSING"
proof -
  let ?row = "claimed_row env r"
  obtain w1 where p: "prepare_submission env ?row (claimed env oid w)
      = (Inl (TypeError ''KISError.__init__() missing 1 required positional argument: message''), w1)"
    using assms(3,4) prepare_claimed [of env ?row oid w]
    by (cases "prepare_submission env ?row (claimed env oid w)")
      (auto simp: check_kill_switch_def new_KISOrderError_def)
  have "w_db w1 = w_db (claimed env oid w)" "w_posts w1 = w_posts w" "w_queue w1 = w_queue w"
    using prepare_db [of env ?row "claimed env oid w"] p by simp_all
  with p show ?thesis
    using claimed_lookup [OF assms(1,2)]
    by (simp add: process_order_pending [OF assms(1,2)] process_claimed_def handle_failure_def handle_exception_raises)
qed

text \<open>
  A submission the broker refuses for its rate limit goes back to \<open>PENDING\<close>, is queued again after
  sixty seconds, and is then selected by the recovery of submissions; no other order changes.
\<close>

lemma rate_limited_submission_retried:
  assumes "get_order_by_id (w_db w) oid = Some r" and "o_status r = PENDING"
    and "fst (obtain_token env w) = Inr tok"
    and "\<not> kill_switch_is_on (e_now env) (w_redis (snd (obtain_token env w)))"
    and "call_broker env (w_db (claimed env oid w)) (claimed_row env r) = (rqs, Inl (KISOrderError k))"
    and "is_rate_limit_error k = Inr True"
  shows "\<exists>w'. process_order env oid w = (Inr (), w')
     \<and> w_queue w' = w_queue w @ [ProcessOrder oid 60]
     \<and> map_option o_status (get_order_by_id (w_db w') oid) = Some PENDING
     \<and> oid \<in> o_id ` set (get_recoverable_submit_orders (w_db w'))
     \<and> (\<forall>j. j \<noteq> oid \<longrightarrow> get_order_by_id (w_db w') j = get_order_by_id (w_db w) j)"
proof -
  let ?row = "claimed_row env r"
  have id: "o_id ?row = oid" using lookup_id [OF assms(1)] by simp
  have "fst (prepare_submission env ?row (claimed env oid w)) = Inr ()"
    using assms(3,4) by (simp add: prepare_claimed check_kill_switch_def)
  then obtain w2 where w2: "w_db w2 = w_db (claimed env oid w)" "w_queue w2 = w_queue w"
    "process_claimed env ?row (claimed env oid w) = (Inl (KISOrderError k), w2)"
    using submit_after_prepare [OF _ assms(5)] by (metis (lifting) sum.case(1))
  define st where "st = update_order_status (e_now env) oid [PROCESSING] PENDING"
  define w' where "w' = enqueue (ProcessOrder oid 60) (snd (commit_stmt st w2))"
  have row: "get_order_by_id (w_db w2) oid = Some ?row"
    using claimed_lookup [OF assms(1,2)] w2(1) by simp
  have "process_order env oid w = (Inr (), w')"
    using assms(6) id
    by (simp add: process_order_pending [OF assms(1,2)] w2(3) handle_failure_def handle_kis_error_def w'_def st_def Let_def)
  moreover have pend: "map_option o_status (get_order_by_id (w_db w') oid) = Some PENDING"
    using upd_status.status_after [OF row, of "e_now env" "[PROCESSING]" PENDING] by (simp add: w'_def st_def step_simps)
  moreover have "oid \<in> o_id ` set (get_recoverable_submit_orders (w_db w'))"
  proof -
    from pend obtain x where x: "get_order_by_id (w_db w') oid = Some x" "o_status x = PENDING" by auto
    then have "x \<in> set (w_db w')" "o_id x = oid" using lookup_in lookup_id by blast+
    with x show ?thesis by (auto simp: get_recoverable_submit_orders_def)
  qed
  moreover have "\<forall>j. j \<noteq> oid \<longrightarrow> get_order_by_id (w_db w') j = get_order_by_id (w_db w) j"
    using w2(1) claimed_other by (simp add: w'_def st_def step_simps upd_status.lookup_other)
  ultimately show ?thesis using w2(2) by (simp add: w'_def step_simps)
qed

theorem submission_effect_witness:
  "\<exists>w' r'. process_order (example_env (example_answer accepted_body)) ''o1'' (example_world False) = (Inr (), w')
     \<and> get_order_by_id (w_db w') ''o1'' = Some r' \<and> o_status r' = ACCEPTED
     \<and> w_queue w' = [TrackOrder ''o1'' 0 None 0]"
  using submission_effect [where env = "example_env (example_answer accepted_body)" and w = "example_world False"
      and oid = "''o1''" and r = example_order and tok = "''tk''", OF _ _ _ _ example_calls(1)]
  by (auto simp: example_obtain example_kill) (simp add: example_world_def)

lemma example_failure:
  "fst (process_claimed (example_env (example_answer (rejected_body msg)))
     (claimed_row (example_env (example_answer (rejected_body msg))) example_order)
     (claimed (example_env (example_answer (rejected_body msg))) ''o1'' (example_world False)))
   = Inl (rejected ''buy order failed'' (rejected_body msg))"
proof -
  let ?env = "example_env (example_answer (rejected_body msg))"
  have "fst (prepare_submission ?env (claimed_row ?env example_order) (claimed ?env ''o1'' (example_world False))) = Inr ()"
    by (simp add: prepare_claimed example_obtain check_kill_switch_def example_kill)
  then show ?thesis
    by (rule submit_after_prepare [OF _ example_calls(2)]) simp
qed

lemma example_rejection:
  "rejected dflt (rejected_body msg) = KISOrderError
     \<lparr>e_message = or_text (Some msg) ''None'', e_status_code = Some 400, e_error_code = Some ''X'',
      e_rt_cd = Some ''1'', e_msg_cd = Some ''X'', e_msg1 = Some msg, e_payload = Some (JObj (rejected_body msg))\<rparr>"
  by (simp add: rejected_def rejected_body_def get_default_def dict_get_def new_KISOrderError_def)

lemma example_rate_limited:
  "is_rate_limit_error \<lparr>e_message = m, e_status_code = s, e_error_code = c, e_rt_cd = t, e_msg_cd = d,
      e_msg1 = Some msg, e_payload = Some (JObj (rejected_body msg'))\<rparr> = Inr (contains RATE_LIMIT_TEXT msg)"
  by (simp add: is_rate_limit_error_def error_response_def rejected_body_def dict_get_def Let_def)

theorem failed_submission_is_stuck_witness:
  "\<exists>t w' r'. process_order (example_env (example_answer (rejected_body ''no cash''))) ''o1'' (example_world False)
       = (Inl (TypeError t), w')
     \<and> get_order_by_id (w_db w') ''o1'' = Some r' \<and> o_status r' = PROCESSING"
proof -
  have "\<not> contains RATE_LIMIT_TEXT ''no cash''" by code_simp
  then show ?thesis
    using failed_submission_is_stuck [OF example_distinct example_lookup example_pending example_failure [of "''no cash''"]]
    by (auto simp: example_rejection example_rate_limited)
qed

theorem kill_switch_blocks_submission_witness:
  "\<exists>t w'. process_order (example_env (example_answer accepted_body)) ''o1'' (example_world True) = (Inl (TypeError t), w')
     \<and> w_posts w' = []"
  using kill_switch_blocks_submission [where env = "example_env (example_answer accepted_body)" and w = "example_world True"
      and oid = "''o1''" and r = example_order and tok = "''tk''"]
  by (auto simp: example_obtain example_kill) (simp add: example_world_def)

theorem submission_respects_state_machine_witness:
  "db_moves [example_order] (w_db (snd (claim_order (example_env (example_answer accepted_body)) ''o1'' (example_world False))))
   \<and> db_moves (w_db (snd (claim_order (example_env (example_answer accepted_body)) ''o1'' (example_world False))))
       (w_db (snd (process_order (example_env (example_answer accepted_body)) ''o1'' (example_world False))))
   \<and> get_order_by_id (w_db (snd (process_order (example_env (example_answer accepted_body)) ''o1'' (example_world False)))) ''o2'' = None"
proof -
  have "w_db (example_world False) = [example_order]" "get_order_by_id [example_order] ''o2'' = None"
    by (simp_all add: example_world_def get_order_by_id_def example_order_def new_order_def)
  with submission_respects_state_machine [of "example_world False" "example_env (example_answer accepted_body)" "''o1''"]
  show ?thesis by simp
qed

end
