(* ===== verification/Track_Worker.thy ===== *)
theory Track_Worker
  imports Submit_Worker
begin

text \<open>
  Worker 2, the tracking of a submitted order: \<^verbatim>\<open>app/worker/tasks_order_status.py\<close>.  The phases of
  the handler: guards, token and inquiry, the snapshot of the answer, its storage, the propagation
  of a cancellation or revision to the parent order, the publication and snapshot trigger, and the
  next tracking or the time-out; then the two exception handlers.  Elapsed times are whole
  seconds, and a \<open>first_tracked_at\<close> text is the time it encodes.
\<close>

section \<open>Delays\<close>

definition resolve_retracking_delay :: "nat \<Rightarrow> int \<Rightarrow> int option" where
  "resolve_retracking_delay attempt elapsed_seconds =
     (if elapsed_seconds < ORDER_TRACKING_FAST_WINDOW_SECONDS
      then Some (min (RETRACKING_INTERVAL_SECONDS * (int attempt + 1)) 15)
      else if elapsed_seconds \<ge> ORDER_TRACKING_MAX_WINDOW_SECONDS then None
      else Some ORDER_TRACKING_SLOW_INTERVAL_SECONDS)"

section \<open>The snapshot of an answer\<close>

record parent_state =
  pa_filled_qty :: int
  pa_remaining_qty :: int
  pa_next_status :: order_status

definition resolve_parent_after_child :: "int \<Rightarrow> int \<Rightarrow> int \<Rightarrow> parent_state" where
  "resolve_parent_after_child parent_order_qty parent_filled_qty parent_remaining_qty =
     \<lparr>pa_filled_qty = parent_filled_qty, pa_remaining_qty = parent_remaining_qty,
      pa_next_status =
        (if parent_filled_qty \<ge> parent_order_qty \<and> parent_order_qty > 0 then FILLED
         else if parent_remaining_qty > 0
         then (if parent_filled_qty > 0 then PARTIAL_FILLED else ACCEPTED)
         else CANCELED)\<rparr>"

text \<open>The status an own row of the inquiry shows.\<close>

definition tracked_status :: "int \<Rightarrow> int \<Rightarrow> int \<Rightarrow> int \<Rightarrow> int \<Rightarrow> order_status" where
  "tracked_status order_qty filled_qty remaining_qty cancel_confirm_qty rejected_qty =
     (if order_qty > 0 \<and> filled_qty \<ge> order_qty \<and> remaining_qty = 0 then FILLED
      else if order_qty > 0 \<and> filled_qty = 0 \<and> cancel_confirm_qty \<ge> order_qty \<and> remaining_qty = 0 then CANCELED
      else if remaining_qty > 0 then (if filled_qty > 0 then PARTIAL_FILLED else ACCEPTED)
      else if filled_qty \<ge> order_qty \<and> order_qty > 0 then FILLED
      else if cancel_confirm_qty > 0 then CANCELED
      else if rejected_qty > 0 then FAILED
      else if filled_qty > 0 then CANCELED
      else ACCEPTED)"

record track_snapshot =
  ts_rt_cd :: str
  ts_msg_cd :: str
  ts_msg1 :: str
  ts_broker_org_no :: "str option"
  ts_broker_order_no :: "str option"
  ts_order_qty :: "int option"
  ts_filled_qty :: int
  ts_remaining_qty :: int
  ts_rejected_qty :: "int option"
  ts_filled_avg_price :: "decimal option"
  ts_next_status :: order_status
  ts_payload :: json

definition fields_json :: "(str \<times> str) list \<Rightarrow> json" where
  "fields_json fs = JObj (map (\<lambda>(k, v). (k, JStr v)) fs)"

definition daily_json :: "daily_response \<Rightarrow> json" where
  "daily_json r =
     JObj [(''rt_cd'', JStr (d_rt_cd r)), (''msg_cd'', JStr (d_msg_cd r)), (''msg1'', JStr (d_msg1 r)),
       (''ctx_area_fk100'', JStr (d_ctx_area_fk100 r)), (''ctx_area_nk100'', JStr (d_ctx_area_nk100 r)),
       (''output1'', case d_output1 r of None \<Rightarrow> JNull | Some l \<Rightarrow> JList (map fields_json l)),
       (''output2'', case d_output2 r of None \<Rightarrow> JNull | Some fs \<Rightarrow> fields_json fs)]"

text \<open>The row of the order: the first whose number is the order's, spaces aside.\<close>

definition matched_row :: "order \<Rightarrow> daily_item list \<Rightarrow> daily_item option" where
  "matched_row row output1 =
     List.find (\<lambda>it. strip (case dict_get it ''odno'' of None \<Rightarrow> '''' | Some s \<Rightarrow> s)
                     = strip (case o_broker_order_no row of None \<Rightarrow> ''None'' | Some s \<Rightarrow> s)) output1"

definition unmatched_snapshot :: "order \<Rightarrow> daily_response \<Rightarrow> track_snapshot" where
  "unmatched_snapshot row r =
     \<lparr>ts_rt_cd = d_rt_cd r, ts_msg_cd = d_msg_cd r, ts_msg1 = d_msg1 r,
      ts_broker_org_no = o_broker_org_no row, ts_broker_order_no = o_broker_order_no row,
      ts_order_qty = None, ts_filled_qty = o_filled_qty row, ts_remaining_qty = o_remaining_qty row,
      ts_rejected_qty = None, ts_filled_avg_price = o_avg_fill_price row,
      ts_next_status = o_status row, ts_payload = daily_json r\<rparr>"

definition row_snapshot :: "order \<Rightarrow> bool \<Rightarrow> daily_response \<Rightarrow> daily_item \<Rightarrow> int \<Rightarrow> int \<Rightarrow> int \<Rightarrow> int \<Rightarrow> track_snapshot" where
  "row_snapshot row has_child_orders r it order_qty row_remaining_qty cancel_confirm_qty rejected_qty =
     (let filled_qty = max (order_qty - row_remaining_qty - cancel_confirm_qty - rejected_qty) 0;
          parent_with_child = (o_order_kind row = KIND_NEW \<and> has_child_orders)
      in \<lparr>ts_rt_cd = d_rt_cd r, ts_msg_cd = d_msg_cd r, ts_msg1 = d_msg1 r,
          ts_broker_org_no = dict_get it ''ord_gno_brno'', ts_broker_order_no = dict_get it ''odno'',
          ts_order_qty = Some order_qty, ts_filled_qty = filled_qty, ts_remaining_qty = row_remaining_qty,
          ts_rejected_qty = Some rejected_qty,
          ts_filled_avg_price = (if parent_with_child then o_avg_fill_price row else to_decimal (dict_get it ''avg_prvs'')),
          ts_next_status =
            (if parent_with_child
             then pa_next_status (resolve_parent_after_child order_qty filled_qty row_remaining_qty)
             else tracked_status order_qty filled_qty row_remaining_qty cancel_confirm_qty rejected_qty),
          ts_payload = daily_json r\<rparr>)"

definition extract_order_tracking_snapshot :: "order \<Rightarrow> daily_response \<Rightarrow> bool \<Rightarrow> track_snapshot result" where
  "extract_order_tracking_snapshot row r has_child_orders =
     (case d_output1 r of
        None \<Rightarrow> Inl (TypeError ''NoneType object is not iterable'')
      | Some output1 \<Rightarrow>
          (case matched_row row output1 of
             None \<Rightarrow> Inr (unmatched_snapshot row r)
           | Some it \<Rightarrow>
               bind_result (qty_of_field (dict_get it ''ord_qty'')) (\<lambda>order_qty.
               bind_result (qty_of_field (dict_get it ''rmn_qty'')) (\<lambda>row_remaining_qty.
               bind_result (qty_of_field (dict_get it ''cncl_cfrm_qty'')) (\<lambda>cancel_confirm_qty.
               bind_result (qty_of_field (dict_get it ''rjct_qty'')) (\<lambda>rejected_qty.
                 Inr (row_snapshot row has_child_orders r it order_qty row_remaining_qty cancel_confirm_qty rejected_qty)))))))"

section \<open>Retryable errors\<close>

definition is_retryable_tracking_error :: "exn \<Rightarrow> bool" where
  "is_retryable_tracking_error e =
     ((case e of
         KISOrderError k \<Rightarrow>
           (let msg1 = strip (or_text (e_msg1 k) (e_message k))
            in e_msg_cd k = Some ''EGW00201'' \<or> contains RATE_LIMIT_TEXT msg1
               \<or> contains ''Server error: 500'' msg1 \<or> contains ''timeout'' (lower msg1)
               \<or> contains ''temporarily unavailable'' (lower msg1))
       | _ \<Rightarrow> False)
      \<or> (let error_text = lower (exn_str e)
         in contains ''server error: 500'' error_text \<or> contains ''timeout'' error_text
            \<or> contains ''connection'' error_text \<or> contains ''temporarily unavailable'' error_text))"

definition requeue_order_tracking :: "uuid \<Rightarrow> nat \<Rightarrow> timestamp \<Rightarrow> int \<Rightarrow> world \<Rightarrow> bool \<times> world" where
  "requeue_order_tracking order_pk attempt first_tracked_at elapsed_seconds w =
     (case resolve_retracking_delay attempt elapsed_seconds of
        None \<Rightarrow> (False, w)
      | Some next_delay_seconds \<Rightarrow>
          (True, enqueue (TrackOrder order_pk (attempt + 1) (Some first_tracked_at) next_delay_seconds) w))"

section \<open>Trigger of the portfolio snapshot\<close>

definition trigger_rebalance_snapshot_if_completed :: "order \<Rightarrow> world \<Rightarrow> world" where
  "trigger_rebalance_snapshot_if_completed row w =
     (if \<not> truthy (o_rebalance_id row) then w
      else let rebalance_id = the (o_rebalance_id row);
               rebalance_orders = get_orders_by_rebalance_id (w_db w) rebalance_id
           in if rebalance_orders = [] then w
              else if filter (\<lambda>r. \<not> terminal (o_status r)) rebalance_orders \<noteq> [] then w
              else enqueue (CaptureSnapshot rebalance_id) w)"

section \<open>Phases\<close>

text \<open>Steps 4 and 5: token and inquiry.\<close>

definition inquire_order :: "worker_env \<Rightarrow> order \<Rightarrow> daily_response action" where
  "inquire_order env row w =
     (case obtain_token env w of
        (Inl e, w1) \<Rightarrow> (Inl e, w1)
      | (Inr _, w1) \<Rightarrow>
          (let day = strftime_ymd (o_created_at row);
               (rqs, res) = daily_order_executions (e_http env) (s_paper (e_settings env)) (e_curr_date env)
                  (o_account_no row) (o_account_product_code row) day day (o_stock_code row)
                  (or_text (o_broker_org_no row) '''') (or_text (o_broker_order_no row) '''')
           in (res, w1\<lparr>w_posts := w_posts w1 @ rqs\<rparr>)))"

text \<open>Step 6: the snapshot.\<close>

definition read_tracking :: "order \<Rightarrow> daily_response \<Rightarrow> world \<Rightarrow> track_snapshot result" where
  "read_tracking row r w =
     extract_order_tracking_snapshot row r
       (o_order_kind row = KIND_NEW \<and> exists_child_orders (w_db w) (o_id row))"

text \<open>
  Step 7: the order as loaded after its update, or \<open>None\<close> when the transition is not allowed or no
  row was updated.
\<close>

definition tracking_stmt :: "timestamp \<Rightarrow> order \<Rightarrow> track_snapshot \<Rightarrow> update_stmt" where
  "tracking_stmt now row sn =
     update_order_tracking_result now (o_id row) (filter (can_transition (o_status row)) TRACKING_TARGET_STATUSES)
       (Some (ts_rt_cd sn)) (Some (ts_msg_cd sn)) (Some (ts_msg1 sn)) (ts_broker_org_no sn) (ts_broker_order_no sn)
       (ts_filled_qty sn) (ts_filled_avg_price sn) (ts_remaining_qty sn) (ts_next_status sn) (Some (ts_payload sn))"

definition store_tracking :: "worker_env \<Rightarrow> order \<Rightarrow> track_snapshot \<Rightarrow> world \<Rightarrow> order option \<times> world" where
  "store_tracking env row sn w =
     (if \<not> can_transition (o_status row) (ts_next_status sn) then (None, w)
      else let stmt = tracking_stmt (e_now env) row sn;
               (updated, w1) = commit_stmt stmt w
           in (if updated then Some (snd stmt row) else None, w1))"

text \<open>
  Step 8: the parent of a cancellation or revision.  \<open>row\<close> is the child as loaded after its update,
  so its \<open>filled_qty\<close> is already the new one.  The result tells whether the handler goes on.
\<close>

definition propagate_cancel :: "worker_env \<Rightarrow> order \<Rightarrow> track_snapshot \<Rightarrow> bool action" where
  "propagate_cancel env row sn w =
     (case get_order_by_id (w_db w) (the (o_original_order_id row)) of
        None \<Rightarrow> (Inl (ValueError ''original order not found''), w)
      | Some parent_order \<Rightarrow>
          (case (ts_order_qty sn, ts_rejected_qty sn) of
             (Some order_qty, Some rejected_qty) \<Rightarrow>
               (let current_applied_cancel_qty = max (order_qty - ts_remaining_qty sn - rejected_qty) 0;
                    delta_cancel_qty = max (current_applied_cancel_qty - o_filled_qty row) 0
                in if delta_cancel_qty > 0 then
                     (let parent_next = resolve_parent_after_child (o_order_qty parent_order) (o_filled_qty parent_order)
                                          (max (o_remaining_qty parent_order - delta_cancel_qty) 0)
                      in case update_parent_order_after_child (e_now env) (o_id parent_order) (pa_filled_qty parent_next)
                                (pa_remaining_qty parent_next) (pa_next_status parent_next) [''expected_current_statuses''] of
                           Inl e \<Rightarrow> (Inl e, w)
                         | Inr stmt \<Rightarrow> (Inr True, snd (commit_stmt stmt w)))
                   else (Inr True, w))
           | _ \<Rightarrow> (Inl (LibError ''KeyError'' ''order_qty''), w)))"

definition propagate_modify :: "worker_env \<Rightarrow> order \<Rightarrow> track_snapshot \<Rightarrow> bool action" where
  "propagate_modify env row sn w =
     (case get_order_by_id (w_db w) (the (o_original_order_id row)) of
        None \<Rightarrow> (Inl (ValueError ''[modify] original order not found''), w)
      | Some parent_order \<Rightarrow>
          (let delta_filled_qty = max (ts_filled_qty sn - o_filled_qty row) 0
           in if delta_filled_qty > 0 then
                (let parent_next = resolve_parent_after_child (o_order_qty parent_order)
                                     (min (o_filled_qty parent_order + delta_filled_qty) (o_order_qty parent_order))
                                     (max (o_remaining_qty parent_order - delta_filled_qty) 0)
                 in case update_parent_order_after_child (e_now env) (o_id parent_order) (pa_filled_qty parent_next)
                           (pa_remaining_qty parent_next) (pa_next_status parent_next) [] of
                      Inl e \<Rightarrow> (Inl e, w)
                    | Inr stmt \<Rightarrow> (let (updated_parent, w1) = commit_stmt stmt w in (Inr updated_parent, w1)))
              else (Inr True, w)))"

definition propagate_to_parent :: "worker_env \<Rightarrow> order \<Rightarrow> track_snapshot \<Rightarrow> bool action" where
  "propagate_to_parent env row sn w =
     (if \<not> truthy (o_original_order_id row) then (Inr True, w)
      else if o_order_kind row = KIND_CANCEL \<and> ts_next_status sn \<in> set [CANCELED, FILLED, PARTIAL_FILLED]
      then propagate_cancel env row sn w
      else if o_order_kind row = KIND_MODIFY \<and> ts_next_status sn \<in> set [PARTIAL_FILLED, FILLED]
      then propagate_modify env row sn w
      else (Inr True, w))"

text \<open>
  The time-out: the order becomes \<open>TIMEOUT\<close>; a cancel order for the rest would be created under a new
  id, but \<open>uuid\<close> is \<open>celery.uuid\<close> there, a function without \<open>uuid4\<close>, and the error is only logged.
\<close>

definition new_uuid :: "str result" where
  "new_uuid = Inl (AttributeError ''function object has no attribute uuid4'')"

definition timeout_cancel_order :: "worker_env \<Rightarrow> order \<Rightarrow> int \<Rightarrow> world \<Rightarrow> world" where
  "timeout_cancel_order env row remaining_qty w =
     (case new_uuid of
        Inl _ \<Rightarrow> w
      | Inr cancel_order_id \<Rightarrow>
          (case create_order (w_db w)
                  ((new_order (e_now env) cancel_order_id)
                     \<lparr>o_stock_code := o_stock_code row, o_order_pos := o_order_pos row, o_order_qty := remaining_qty,
                      o_order_price := Some (Dec 0 0), o_order_type := ''market'', o_order_kind := KIND_CANCEL,
                      o_status := PENDING, o_account_no := o_account_no row,
                      o_account_product_code := o_account_product_code row, o_rebalance_id := o_rebalance_id row,
                      o_original_order_id := Some (o_id row), o_original_broker_order_no := o_broker_order_no row,
                      o_original_broker_org_no := o_broker_org_no row\<rparr>) of
             Inl _ \<Rightarrow> w
           | Inr (_, db) \<Rightarrow> enqueue (ProcessOrder cancel_order_id 0) (w\<lparr>w_db := db\<rparr>)))"

definition timeout_stmt :: "timestamp \<Rightarrow> order \<Rightarrow> track_snapshot \<Rightarrow> int \<Rightarrow> update_stmt" where
  "timeout_stmt now row sn elapsed_seconds =
     update_order_tracking_result now (o_id row) TRACKING_TARGET_STATUSES (Some (ts_rt_cd sn)) (Some ''ORDER_TIMEOUT'')
       (Some (''maximum tracking time exceeded ('' @ show_int elapsed_seconds @ '' s)'')) (ts_broker_org_no sn)
       (ts_broker_order_no sn) (ts_filled_qty sn) (ts_filled_avg_price sn) (ts_remaining_qty sn) TIMEOUT
       (Some (ts_payload sn))"

definition time_out :: "worker_env \<Rightarrow> order \<Rightarrow> track_snapshot \<Rightarrow> int \<Rightarrow> world \<Rightarrow> world" where
  "time_out env row sn elapsed_seconds w =
     (let remaining_qty = o_remaining_qty row;
          w1 = publish_order_update (o_id row)
                 (snd (commit_stmt (timeout_stmt (e_now env) row sn elapsed_seconds) w));
          w2 = (if remaining_qty > 0 \<and> truthy (o_broker_order_no row)
                then timeout_cancel_order env row remaining_qty w1 else w1);
          w3 = send_alert \<lparr>al_stock_code = o_stock_code row, al_order_id = o_id row, al_action = o_order_pos row,
                 al_message = ''tracking timed out, cancellation requested for '' @ show_int remaining_qty\<rparr> w2
      in trigger_rebalance_snapshot_if_completed row w3)"

text \<open>After the commit: publication, snapshot trigger, step 9.\<close>

definition finish_tracking ::
  "worker_env \<Rightarrow> order \<Rightarrow> track_snapshot \<Rightarrow> nat \<Rightarrow> timestamp \<Rightarrow> int \<Rightarrow> world \<Rightarrow> world" where
  "finish_tracking env row sn attempt first_tracked_at elapsed_seconds w =
     (let w1 = publish_order_update (o_id row) w
      in if terminal (ts_next_status sn) then trigger_rebalance_snapshot_if_completed row w1
         else case resolve_retracking_delay attempt elapsed_seconds of
                None \<Rightarrow> time_out env row sn elapsed_seconds w1
              | Some next_delay_seconds \<Rightarrow>
                  enqueue (TrackOrder (o_id row) (attempt + 1) (Some first_tracked_at) next_delay_seconds) w1)"

section \<open>Exception handlers\<close>

definition store_tracking_failure ::
  "worker_env \<Rightarrow> order \<Rightarrow> order_status list option \<Rightarrow> str \<Rightarrow> str \<Rightarrow> str \<Rightarrow> json \<Rightarrow> str \<Rightarrow> unit action" where
  "store_tracking_failure env row expected rt_cd msg_cd msg1 payload alert_text w =
     (case update_order_failure_result (e_now env) (o_id row) expected (Some rt_cd) (Some msg_cd) (Some msg1)
             FAILED None None None (Some payload) of
        Inl e \<Rightarrow> (Inl e, w)
      | Inr stmt \<Rightarrow>
          (let w1 = publish_order_update (o_id row) (snd (commit_stmt stmt w))
           in if o_order_pos row \<in> set [ACTION_BUY, ACTION_SELL, ''cancel'', ''modify'']
              then (Inr (), send_alert \<lparr>al_stock_code = o_stock_code row, al_order_id = o_id row,
                               al_action = o_order_pos row, al_message = alert_text\<rparr> w1)
              else (Inl (ValueError (o_order_pos row @ '' is not a valid ORDER_ACTION'')), w1)))"

definition handle_tracking_failure ::
  "worker_env \<Rightarrow> order \<Rightarrow> nat \<Rightarrow> timestamp \<Rightarrow> int \<Rightarrow> exn \<Rightarrow> unit action" where
  "handle_tracking_failure env row attempt first_tracked_at elapsed_seconds e w =
     (if is_retryable_tracking_error e
      then (Inr (), snd (requeue_order_tracking (o_id row) attempt first_tracked_at elapsed_seconds w))
      else case e of
             KISOrderError k \<Rightarrow>
               store_tracking_failure env row (Some TRACKING_TARGET_STATUSES) (or_text (e_rt_cd k) ''1'')
                 (or_text (e_msg_cd k) ''KIS_TRACKING_ERROR'') (or_text (e_msg1 k) (e_message k))
                 (or_json (e_payload k) (JObj (error_summary k @ [(''stage'', JStr ''process_order_status'')])))
                 (''error while tracking the order - regarded as failed: '' @ exn_str e) w
           | _ \<Rightarrow>
               store_tracking_failure env row None ''1'' ''ORDER_TRACKING_ERROR'' (exn_str e)
                 (JObj [(''message'', JStr (exn_str e)), (''stage'', JStr ''process_order_status'')])
                 (''tracking of the order failed: '' @ exn_str e) w)"

section \<open>The handler\<close>

definition track_order :: "worker_env \<Rightarrow> order \<Rightarrow> nat \<Rightarrow> timestamp \<Rightarrow> int \<Rightarrow> unit action" where
  "track_order env row attempt first_tracked_at elapsed_seconds w =
     (case inquire_order env row w of
        (Inl e, w1) \<Rightarrow> (Inl e, w1)
      | (Inr r, w1) \<Rightarrow>
          (case read_tracking row r w1 of
             Inl e \<Rightarrow> (Inl e, w1)
           | Inr sn \<Rightarrow>
               (case store_tracking env row sn w1 of
                  (None, w2) \<Rightarrow> (Inr (), w2)
                | (Some row', w2) \<Rightarrow>
                    (case propagate_to_parent env row' sn w2 of
                       (Inl e, w3) \<Rightarrow> (Inl e, w3)
                     | (Inr False, w3) \<Rightarrow> (Inr (), w3)
                     | (Inr True, w3) \<Rightarrow>
                         (Inr (), finish_tracking env row' sn attempt first_tracked_at elapsed_seconds w3)))))"

definition process_order_status :: "worker_env \<Rightarrow> uuid \<Rightarrow> nat \<Rightarrow> timestamp option \<Rightarrow> unit action" where
  "process_order_status env order_id attempt first_tracked_at w =
     (let first_tracked = (case first_tracked_at of None \<Rightarrow> e_now env | Some t \<Rightarrow> t);
          elapsed_seconds = max (e_now env - first_tracked) 0
      in case get_order_by_id (w_db w) order_id of
           None \<Rightarrow> (Inr (), w)
         | Some row \<Rightarrow>
             if o_status row \<notin> set TRACKING_TARGET_STATUSES then (Inr (), w)
             else if \<not> truthy (o_broker_order_no row) then (Inr (), w)
             else (case track_order env row attempt first_tracked elapsed_seconds w of
                     (Inr _, w1) \<Rightarrow> (Inr (), w1)
                   | (Inl e, w1) \<Rightarrow> handle_tracking_failure env row attempt first_tracked elapsed_seconds e w1))"

section \<open>How long an order is tracked\<close>

lemma delay_bounds:
  "resolve_retracking_delay a e = Some d \<Longrightarrow> 1 \<le> d \<and> d \<le> 60 \<and> e < 1800"
  by (auto simp: resolve_retracking_delay_def tracking_constants split: if_splits)

lemma delay_None_iff: "resolve_retracking_delay a e = None \<longleftrightarrow> 1800 \<le> e"
  by (auto simp: resolve_retracking_delay_def tracking_constants)

text \<open>The least time that has passed when an attempt starts, each one at least its delay after the one before.\<close>

primrec least_elapsed :: "nat \<Rightarrow> int" where
  "least_elapsed 0 = 0"
| "least_elapsed (Suc k) =
     (if least_elapsed k < 90 then min 90 (least_elapsed k + min (int k + 1) 15)
      else min 1800 (least_elapsed k + 60))"

lemma least_elapsed_step:
  assumes "least_elapsed k \<le> e" and "resolve_retracking_delay k e = Some d"
  shows "least_elapsed (Suc k) \<le> e + d"
  using assms by (auto simp: resolve_retracking_delay_def tracking_constants split: if_splits)

lemma least_elapsed_13: "least_elapsed 13 = 90"
proof -
  note step = least_elapsed.simps(2)
  have "least_elapsed 2 = 3" by (simp add: numeral_2_eq_2)
  then have "least_elapsed 3 = 6" using step [of 2] by simp
  then have "least_elapsed 4 = 10" using step [of 3] by simp
  then have "least_elapsed 5 = 15" using step [of 4] by simp
  then have "least_elapsed 6 = 21" using step [of 5] by simp
  then have "least_elapsed 7 = 28" using step [of 6] by simp
  then have "least_elapsed 8 = 36" using step [of 7] by simp
  then have "least_elapsed 9 = 45" using step [of 8] by simp
  then have "least_elapsed 10 = 55" using step [of 9] by simp
  then have "least_elapsed 11 = 66" using step [of 10] by simp
  then have "least_elapsed 12 = 78" using step [of 11] by simp
  then have "least_elapsed 13 = 90" using step [of 12] by simp
  then show ?thesis .
qed

lemma least_elapsed_slow: "least_elapsed (13 + j) = min 1800 (90 + 60 * int j)"
proof (induction j)
  case 0
  then show ?case using least_elapsed_13 by simp
next
  case (Suc j)
  then show ?case using least_elapsed.simps(2) [of "13 + j"] by (auto simp: min_def)
qed

lemma least_elapsed_42: "least_elapsed 42 = 1800"
  using least_elapsed_slow [of 29] by simp

section \<open>What tracking does to the table\<close>

lemma inquire_simps [simp]:
  "w_db (snd (inquire_order env row w)) = w_db w"
  "w_queue (snd (inquire_order env row w)) = w_queue w"
  "w_published (snd (inquire_order env row w)) = w_published w"
  "w_alerts (snd (inquire_order env row w)) = w_alerts w"
  using token_simps [of env w]
  by (auto simp: inquire_order_def Let_def case_prod_beta split: sum.splits prod.splits)

lemma trigger_simps [step_simps]:
  "w_db (trigger_rebalance_snapshot_if_completed row w) = w_db w"
  "w_posts (trigger_rebalance_snapshot_if_completed row w) = w_posts w"
  "w_alerts (trigger_rebalance_snapshot_if_completed row w) = w_alerts w"
  by (simp_all add: trigger_rebalance_snapshot_if_completed_def enqueue_def Let_def)

lemma timeout_cancel_nothing: "timeout_cancel_order env row q w = w"
  by (simp add: timeout_cancel_order_def new_uuid_def)

text \<open>The row as stored and loaded by the tracking update.\<close>

definition tracked_row :: "timestamp \<Rightarrow> order \<Rightarrow> track_snapshot \<Rightarrow> order" where
  "tracked_row now row sn = snd (tracking_stmt now row sn) row"

lemma tracked_row_simps [simp]:
  "o_id (tracked_row now row sn) = o_id row"
  "o_status (tracked_row now row sn) = ts_next_status sn"
  "o_filled_qty (tracked_row now row sn) = ts_filled_qty sn"
  "o_remaining_qty (tracked_row now row sn) = ts_remaining_qty sn"
  "o_broker_order_no (tracked_row now row sn) = ts_broker_order_no sn"
  "o_original_order_id (tracked_row now row sn) = o_original_order_id row"
  "o_order_kind (tracked_row now row sn) = o_order_kind row"
  "o_order_pos (tracked_row now row sn) = o_order_pos row"
  "o_stock_code (tracked_row now row sn) = o_stock_code row"
  "o_rebalance_id (tracked_row now row sn) = o_rebalance_id row"
  "o_order_qty (tracked_row now row sn) = o_order_qty row"
  by (simp_all add: tracked_row_def tracking_stmt_def update_order_tracking_result_def)

lemma tracking_stmt_where:
  "fst (tracking_stmt now row sn) r \<longleftrightarrow>
     o_id r = o_id row \<and> o_status r \<in> set TRACKING_TARGET_STATUSES \<and> can_transition (o_status row) (o_status r)"
  by (auto simp: tracking_stmt_def update_order_tracking_result_def)

lemma store_tracking_hit:
  assumes "get_order_by_id (w_db w) oid = Some row" and "o_status row \<in> set TRACKING_TARGET_STATUSES"
    and "can_transition (o_status row) (ts_next_status sn)"
  shows "store_tracking env row sn w
      = (Some (tracked_row (e_now env) row sn), snd (commit_stmt (tracking_stmt (e_now env) row sn) w))"
proof -
  have "\<not> terminal (o_status row)" using assms(2) by (simp add: tracked_iff)
  then have "can_transition (o_status row) (o_status row)" by (simp add: can_transition_refl)
  then have "fst (tracking_stmt (e_now env) row sn) row"
    using assms(2) by (simp add: tracking_stmt_where)
  then have "fst (execute (tracking_stmt (e_now env) row sn) (w_db w))"
    using lookup_in [OF assms(1)] by (simp add: execute_def filter_empty_conv) blast
  with assms(3) show ?thesis
    by (simp add: store_tracking_def Let_def case_prod_beta step_simps tracked_row_def)
qed

text \<open>A parent is never updated: a cancellation raises, and a revision finds no new fill.\<close>

lemma propagate_modify_nothing:
  "o_filled_qty row = ts_filled_qty sn \<Longrightarrow> snd (propagate_modify env row sn w) = w"
  by (simp add: propagate_modify_def Let_def split: option.split)

lemma propagate_cancel_nothing: "snd (propagate_cancel env row sn w) = w"
  by (simp add: propagate_cancel_def update_parent_order_after_child_def Let_def split: option.split)

lemma propagate_nothing:
  "o_filled_qty row = ts_filled_qty sn \<Longrightarrow> snd (propagate_to_parent env row sn w) = w"
  by (simp add: propagate_to_parent_def propagate_modify_nothing propagate_cancel_nothing)

section \<open>Properties\<close>

lemma finish_db:
  "w_db (finish_tracking env row sn attempt ft el w) =
     (if \<not> terminal (ts_next_status sn) \<and> resolve_retracking_delay attempt el = None
      then snd (execute (timeout_stmt (e_now env) row sn el) (w_db w)) else w_db w)"
  by (simp add: finish_tracking_def time_out_def timeout_cancel_nothing step_simps Let_def split: option.split)

lemma timeout_stmt_id [simp]: "fst (timeout_stmt now row sn el) r \<longleftrightarrow> o_id r = o_id row \<and> o_status r \<in> set TRACKING_TARGET_STATUSES"
  by (simp add: timeout_stmt_def update_order_tracking_result_def)

lemma timeout_lookup:
  assumes "get_order_by_id db (o_id row) = Some x" and "fst (timeout_stmt now row sn el) x"
  shows "get_order_by_id (snd (execute (timeout_stmt now row sn el) db)) (o_id row) = Some (snd (timeout_stmt now row sn el) x)"
  using assms unfolding timeout_stmt_def by (simp only: upd_track.lookup_hit if_True option.map)

lemma timeout_evolves: "db_evolves db (snd (execute (timeout_stmt now row sn el) db))"
  unfolding timeout_stmt_def
  by (rule upd_track.execute_evolves)
    (simp add: TRACKING_TARGET_STATUSES_def can_transition_def TERMINAL_STATES_def)

lemma handle_tracking_evolves: "db_evolves (w_db w) (w_db (snd (handle_tracking_failure env row attempt ft el e w)))"
proof -
  have c: "\<forall>s \<in> set TRACKING_TARGET_STATUSES. can_transition s FAILED"
    by (simp add: TRACKING_TARGET_STATUSES_def can_transition_def TERMINAL_STATES_def)
  have f: "db_evolves (w_db w) (w_db (snd (store_tracking_failure env row (Some TRACKING_TARGET_STATUSES) rc mc m1 pl al w)))"
    for rc mc m1 pl al
    using upd_failure.execute_evolves [OF c, of "w_db w" "e_now env" "o_id row" "Some rc" "Some mc" "Some m1" "Some pl"]
    by (simp add: store_tracking_failure_def failure_stmt_def update_order_failure_result_def step_simps Let_def)
  have n: "snd (store_tracking_failure env row None rc mc m1 pl al w) = w" for rc mc m1 pl al
    by (simp add: store_tracking_failure_def update_order_failure_result_def)
  show ?thesis
    by (cases e)
      (simp_all add: handle_tracking_failure_def requeue_order_tracking_def step_simps f n split: option.split)
qed

lemma track_order_evolves:
  assumes "distinct (map o_id (w_db w))" and "get_order_by_id (w_db w) oid = Some row"
    and "o_status row \<in> set TRACKING_TARGET_STATUSES"
  shows "db_evolves (w_db w) (w_db (snd (track_order env row attempt ft el w)))"
proof -
  obtain res w1 where i: "inquire_order env row w = (res, w1)" by (cases "inquire_order env row w")
  have db1: "w_db w1 = w_db w" using inquire_simps(1) [of env row w] i by simp
  show ?thesis
  proof (cases res)
    case (Inl e)
    with i db1 show ?thesis by (simp add: track_order_def)
  next
    case (Inr r)
    show ?thesis
    proof (cases "read_tracking row r w1")
      case (Inl e)
      with i \<open>res = Inr r\<close> db1 show ?thesis by (simp add: track_order_def)
    next
      case (Inr sn)
      note read = this
      show ?thesis
      proof (cases "can_transition (o_status row) (ts_next_status sn)")
        case False
        with i \<open>res = Inr r\<close> read db1 show ?thesis by (simp add: track_order_def store_tracking_def)
      next
        case True
        let ?row = "tracked_row (e_now env) row sn"
        let ?w2 = "snd (commit_stmt (tracking_stmt (e_now env) row sn) w1)"
        have st: "store_tracking env row sn w1 = (Some ?row, ?w2)"
          using store_tracking_hit [of w1 oid row sn env] assms(2,3) True db1 by simp
        have "o_id row = oid" using assms(2) lookup_id by blast
        then have e2: "db_evolves (w_db w) (w_db ?w2)"
          using upd_track.execute_evolves_stored [OF assms(1), of oid row "ts_next_status sn"] assms(2) True db1
          by (simp add: step_simps tracking_stmt_def)
        have e3: "db_evolves (w_db ?w2) (w_db (finish_tracking env ?row sn attempt ft el ?w2))"
          by (simp add: finish_db timeout_evolves)
        obtain pr w3 where p: "propagate_to_parent env ?row sn ?w2 = (pr, w3)"
          by (cases "propagate_to_parent env ?row sn ?w2")
        have "w3 = ?w2" using propagate_nothing [of ?row sn env ?w2] p by simp
        with i \<open>res = Inr r\<close> read st p e2 db_evolves_trans [OF e2 e3] show ?thesis
          by (auto simp: track_order_def split: sum.split bool.split)
      qed
    qed
  qed
qed

text \<open>
  C32. The status read from the order's own row: for a positive quantity split into filled,
  remaining, canceled and rejected parts, the order is over exactly when nothing remains, filled
  exactly when all of it was filled, canceled when a part was canceled (else failed when a part was
  rejected), and partially filled exactly when both a filled and a remaining part exist.  This is
  the code's rule; two documents say otherwise.  The README has \<open>FILLED\<close> whenever nothing remains and
  something was filled, where the code has \<open>CANCELED\<close> or \<open>FAILED\<close> unless all was filled; and the
  docstring has \<open>FAILED\<close> whenever a part was rejected, where the code looks at the rejected part
  only when nothing remains and nothing was canceled.
\<close>

theorem tracked_status_exact:
  assumes "0 < q" and "0 \<le> f" and "0 \<le> m" and "0 \<le> c" and "0 \<le> j" and "f + m + c + j = q"
  shows "(terminal (tracked_status q f m c j) \<longleftrightarrow> m = 0)
   \<and> (tracked_status q f m c j = FILLED \<longleftrightarrow> f = q)
   \<and> (tracked_status q f m c j = CANCELED \<longleftrightarrow> m = 0 \<and> 0 < c)
   \<and> (tracked_status q f m c j = FAILED \<longleftrightarrow> m = 0 \<and> c = 0 \<and> 0 < j)
   \<and> (tracked_status q f m c j = PARTIAL_FILLED \<longleftrightarrow> 0 < m \<and> 0 < f)
   \<and> (tracked_status q f m c j = ACCEPTED \<longleftrightarrow> 0 < m \<and> f = 0)"
  using assms by (auto simp: tracked_status_def TERMINAL_STATES_def)

theorem tracked_status_exact_witness:
  "tracked_status 10 4 0 6 0 = CANCELED \<and> terminal (tracked_status 10 4 0 6 0)"
  using tracked_status_exact [of 10 4 0 6 0] by auto

lemma process_status_evolves:
  assumes "distinct (map o_id (w_db w))"
  shows "db_evolves (w_db w) (w_db (snd (process_order_status env oid attempt ft w)))"
proof (cases "get_order_by_id (w_db w) oid")
  case None
  then show ?thesis by (simp add: process_order_status_def Let_def)
next
  case (Some row)
  let ?ft = "case ft of None \<Rightarrow> e_now env | Some t \<Rightarrow> t"
  let ?el = "max (e_now env - ?ft) 0"
  show ?thesis
  proof (cases "o_status row \<in> set TRACKING_TARGET_STATUSES \<and> truthy (o_broker_order_no row)")
    case True
    obtain res w1 where t: "track_order env row attempt ?ft ?el w = (res, w1)"
      by (cases "track_order env row attempt ?ft ?el w")
    have "db_evolves (w_db w) (w_db w1)"
      using track_order_evolves [OF assms Some, of env attempt ?ft ?el] True t by simp
    with Some True t show ?thesis
      using db_evolves_trans [OF _ handle_tracking_evolves]
      by (auto simp: process_order_status_def Let_def split: sum.split)
  next
    case False
    with Some show ?thesis by (auto simp: process_order_status_def Let_def)
  qed
qed

text \<open>
  C10. Whatever the broker answers and however tracking ends, the table evolves lawfully: no order
  disappears or changes what it is and every status moves along allowed transitions.
\<close>

theorem tracking_respects_state_machine:
  assumes "distinct (map o_id (w_db w))"
  shows "db_evolves (w_db w) (w_db (snd (process_order_status env oid attempt ft w)))"
  using assms by (rule process_status_evolves)

section \<open>Single steps of tracking\<close>

text \<open>A tracking run up to the update of the order: what the later steps start from.\<close>

definition stored :: "worker_env \<Rightarrow> order \<Rightarrow> track_snapshot \<Rightarrow> world \<Rightarrow> world" where
  "stored env row sn w = snd (commit_stmt (tracking_stmt (e_now env) row sn) w)"

lemma stored_simps [simp]:
  "w_queue (stored env row sn w) = w_queue w" "w_posts (stored env row sn w) = w_posts w"
  "w_alerts (stored env row sn w) = w_alerts w"
  by (simp_all add: stored_def step_simps)

lemma stored_lookup:
  assumes "get_order_by_id (w_db w) oid = Some row" and "o_status row \<in> set TRACKING_TARGET_STATUSES"
  shows "get_order_by_id (w_db (stored env row sn w)) oid = Some (tracked_row (e_now env) row sn)"
proof -
  have "\<not> terminal (o_status row)" using assms(2) by (simp add: tracked_iff)
  then have "fst (tracking_stmt (e_now env) row sn) row"
    using assms(2) by (simp add: tracking_stmt_where can_transition_refl)
  then show ?thesis
    using assms(1)
    by (simp add: stored_def step_simps tracked_row_def tracking_stmt_def upd_track.lookup_hit)
qed

lemma stored_other:
  "k \<noteq> o_id row \<Longrightarrow> get_order_by_id (w_db (stored env row sn w)) k = get_order_by_id (w_db w) k"
  by (simp add: stored_def step_simps tracking_stmt_def upd_track.lookup_other)

lemma track_order_stored:
  assumes "get_order_by_id (w_db w) oid = Some row" and "o_status row \<in> set TRACKING_TARGET_STATUSES"
    and "inquire_order env row w = (Inr r, w1)" and "read_tracking row r w1 = Inr sn"
    and "can_transition (o_status row) (ts_next_status sn)"
  shows "track_order env row attempt ft el w =
     (case propagate_to_parent env (tracked_row (e_now env) row sn) sn (stored env row sn w1) of
        (Inl e, w3) \<Rightarrow> (Inl e, w3)
      | (Inr False, w3) \<Rightarrow> (Inr (), w3)
      | (Inr True, w3) \<Rightarrow> (Inr (), finish_tracking env (tracked_row (e_now env) row sn) sn attempt ft el w3))"
proof -
  have "get_order_by_id (w_db w1) oid = Some row"
    using inquire_simps(1) [of env row w] assms(1,3) by simp
  from store_tracking_hit [OF this assms(2,5), of env] assms(3,4) show ?thesis
    by (simp add: track_order_def stored_def)
qed

lemma process_order_status_since:
  assumes "get_order_by_id (w_db w) oid = Some row" and "o_status row \<in> set TRACKING_TARGET_STATUSES"
    and "truthy (o_broker_order_no row)" and "ft = (case since of None \<Rightarrow> e_now env | Some t \<Rightarrow> t)"
  shows "process_order_status env oid attempt since w =
     (case track_order env row attempt ft (max (e_now env - ft) 0) w of
        (Inr _, w1) \<Rightarrow> (Inr (), w1)
      | (Inl e, w1) \<Rightarrow> handle_tracking_failure env row attempt ft (max (e_now env - ft) 0) e w1)"
  unfolding assms(4) using assms(1-3) by (simp add: process_order_status_def Let_def)

lemma process_order_status_tracked:
  assumes "get_order_by_id (w_db w) oid = Some row" and "o_status row \<in> set TRACKING_TARGET_STATUSES"
    and "truthy (o_broker_order_no row)"
  shows "process_order_status env oid attempt (Some ft) w =
     (case track_order env row attempt ft (max (e_now env - ft) 0) w of
        (Inr _, w1) \<Rightarrow> (Inr (), w1)
      | (Inl e, w1) \<Rightarrow> handle_tracking_failure env row attempt ft (max (e_now env - ft) 0) e w1)"
  by (rule process_order_status_since [OF assms]) simp

text \<open>The status of an answer is one the broker knows.\<close>

lemma read_tracking_ge:
  assumes "read_tracking row r w = Inr sn" and "REQUESTED \<le> o_status row"
  shows "REQUESTED \<le> ts_next_status sn"
proof -
  have t: "REQUESTED \<le> tracked_status a b c d e" for a b c d e
    by (simp add: tracked_status_def less_eq_order_status_def)
  have p: "REQUESTED \<le> pa_next_status (resolve_parent_after_child a b c)" for a b c
    by (simp add: resolve_parent_after_child_def less_eq_order_status_def)
  show ?thesis
    using assms t p
    by (auto simp: read_tracking_def extract_order_tracking_snapshot_def unmatched_snapshot_def row_snapshot_def
        bind_result_Inr_iff Let_def split: option.splits)
qed

lemma no_propagation:
  "\<not> truthy (o_original_order_id row) \<Longrightarrow> propagate_to_parent env (tracked_row now row sn) sn w = (Inr True, w)"
  by (simp add: propagate_to_parent_def)

lemma trigger_queue:
  "w_queue (trigger_rebalance_snapshot_if_completed row w) = w_queue w
     @ (let rid = the (o_rebalance_id row); os = filter (\<lambda>r. o_rebalance_id r = Some rid) (w_db w)
        in if truthy (o_rebalance_id row) \<and> os \<noteq> [] \<and> list_all (\<lambda>r. terminal (o_status r)) os
           then [CaptureSnapshot rid] else [])"
proof -
  have s: "set (get_orders_by_rebalance_id db rid) = set (filter (\<lambda>r. o_rebalance_id r = Some rid) db)" for db rid
    by (auto simp: get_orders_by_rebalance_id_def Let_def)
  then have n: "get_orders_by_rebalance_id db rid = [] \<longleftrightarrow> filter (\<lambda>r. o_rebalance_id r = Some rid) db = []" for db rid
    by (metis set_empty)
  have t: "filter (\<lambda>r. \<not> terminal (o_status r)) (get_orders_by_rebalance_id db rid) = [] \<longleftrightarrow>
      list_all (\<lambda>r. terminal (o_status r)) (filter (\<lambda>r. o_rebalance_id r = Some rid) db)" for db rid
    unfolding filter_empty_conv list_all_iff s [symmetric] by blast
  show ?thesis
    by (simp add: trigger_rebalance_snapshot_if_completed_def Let_def enqueue_simps n t)
qed

lemma finish_other:
  "k \<noteq> o_id row \<Longrightarrow> get_order_by_id (w_db (finish_tracking env row sn attempt ft el w)) k = get_order_by_id (w_db w) k"
  by (simp add: finish_db timeout_stmt_def upd_track.lookup_other)

text \<open>What the end of a run queues: a snapshot when the order is over or timed out, else the next tracking.\<close>

lemma trigger_queue_captures:
  "\<exists>tasks. w_queue (trigger_rebalance_snapshot_if_completed row w) = w_queue w @ tasks
     \<and> (\<forall>t \<in> set tasks. \<exists>rid. t = CaptureSnapshot rid)"
  unfolding trigger_queue by (auto simp: Let_def)

lemma finish_queue:
  "\<exists>tasks. w_queue (finish_tracking env row sn attempt ft el w) = w_queue w @ tasks
     \<and> (if terminal (ts_next_status sn) \<or> resolve_retracking_delay attempt el = None
        then \<forall>t \<in> set tasks. \<exists>rid. t = CaptureSnapshot rid
        else tasks = [TrackOrder (o_id row) (attempt + 1) (Some ft) (the (resolve_retracking_delay attempt el))])"
proof (cases "\<not> terminal (ts_next_status sn) \<and> resolve_retracking_delay attempt el \<noteq> None")
  case True
  then show ?thesis by (auto simp: finish_tracking_def step_simps)
next
  case False
  obtain w2 where w2: "w_queue w2 = w_queue w"
    "finish_tracking env row sn attempt ft el w = trigger_rebalance_snapshot_if_completed row w2"
  proof (cases "terminal (ts_next_status sn)")
    case True
    then show thesis by (intro that [of "publish_order_update (o_id row) w"]) (simp_all add: finish_tracking_def step_simps)
  next
    case nt: False
    have "\<exists>w2. w_queue w2 = w_queue w \<and> time_out env row sn el (publish_order_update (o_id row) w)
        = trigger_rebalance_snapshot_if_completed row w2"
      unfolding time_out_def Let_def timeout_cancel_nothing
      by (rule exI, rule conjI [rotated], rule refl) (simp add: step_simps)
    with nt False that show thesis by (auto simp: finish_tracking_def)
  qed
  with False trigger_queue_captures [of row w2] show ?thesis by auto
qed

text \<open>
  C11. A tracking run of an order that is no cancellation or revision of another, when the inquiry
  is answered and the answer can be read.  No other order changes, and: if the status of the answer
  may not follow the present one, nothing is stored and nothing is queued, so the tracking stops;
  otherwise, if that status is final, the order takes status and quantities of the answer and no
  further tracking is queued; otherwise, within the time limit, it takes them and exactly one
  further tracking is queued, with the same start time and the next attempt number; and past the
  time limit the order becomes \<open>TIMEOUT\<close> with the quantities of the answer and is not tracked again.
  (For a confirmed cancellation see \<open>confirmed_cancellation_crashes\<close>, for a failed inquiry
  \<open>inquiry_server_errors\<close>.)
\<close>

theorem tracking_effect:
  assumes "get_order_by_id (w_db w) oid = Some row" and "o_status row \<in> set TRACKING_TARGET_STATUSES"
    and "truthy (o_broker_order_no row)" and "\<not> truthy (o_original_order_id row)"
    and "inquire_order env row w = (Inr r, w1)" and "read_tracking row r w1 = Inr sn"
    and "ft = (case since of None \<Rightarrow> e_now env | Some t \<Rightarrow> t)"
  shows "\<exists>w' tasks. process_order_status env oid attempt since w = (Inr (), w')
     \<and> w_queue w' = w_queue w @ tasks
     \<and> (\<forall>k. k \<noteq> oid \<longrightarrow> get_order_by_id (w_db w') k = get_order_by_id (w_db w) k)
     \<and> (if \<not> can_transition (o_status row) (ts_next_status sn)
        then get_order_by_id (w_db w') oid = Some row \<and> tasks = []
        else \<exists>row'. get_order_by_id (w_db w') oid = Some row' \<and> same_identity row' row
             \<and> o_filled_qty row' = ts_filled_qty sn \<and> o_remaining_qty row' = ts_remaining_qty sn
             \<and> (if terminal (ts_next_status sn)
                then o_status row' = ts_next_status sn \<and> (\<forall>t \<in> set tasks. \<exists>rid. t = CaptureSnapshot rid)
                else case resolve_retracking_delay attempt (max (e_now env - ft) 0) of
                  Some d \<Rightarrow> o_status row' = ts_next_status sn \<and> tasks = [TrackOrder oid (attempt + 1) (Some ft) d]
                | None \<Rightarrow> o_status row' = TIMEOUT \<and> (\<forall>t \<in> set tasks. \<exists>rid. t = CaptureSnapshot rid)))"
proof -
  let ?row = "tracked_row (e_now env) row sn"
  let ?el = "max (e_now env - ft) 0"
  have id: "o_id row = oid" using assms(1) lookup_id by blast
  have db1: "w_db w1 = w_db w" "w_queue w1 = w_queue w" using inquire_simps [of env row w] assms(5) by simp_all
  note start = process_order_status_since [OF assms(1-3,7)]
  show ?thesis
  proof (cases "can_transition (o_status row) (ts_next_status sn)")
    case False
    then have "process_order_status env oid attempt since w = (Inr (), w1)"
      using assms(5,6) by (simp add: start track_order_def store_tracking_def)
    with False assms(1) db1 show ?thesis by simp
  next
    case True
    let ?w2 = "stored env row sn w1"
    define w' where "w' = finish_tracking env ?row sn attempt ft ?el ?w2"
    have run: "process_order_status env oid attempt since w = (Inr (), w')"
      by (simp add: start track_order_stored [OF assms(1,2,5,6) True] no_propagation [OF assms(4)] w'_def)
    have lk: "get_order_by_id (w_db ?w2) oid = Some ?row"
      using stored_lookup [of w1 oid row env sn] assms(1,2) db1 by simp
    have others: "\<forall>k. k \<noteq> oid \<longrightarrow> get_order_by_id (w_db w') k = get_order_by_id (w_db w) k"
      using stored_other [of _ row env sn w1] finish_other [of _ ?row env sn attempt ft ?el ?w2] id db1
      by (simp add: w'_def)
    have queue: "w_queue ?w2 = w_queue w" using db1 by simp
    note q = finish_queue [of env ?row sn attempt ft ?el ?w2, folded w'_def, unfolded queue]
    have same: "same_identity ?row row" unfolding tracked_row_def tracking_stmt_def by (rule upd_track.keeps_identity)
    show ?thesis
    proof (cases "\<not> terminal (ts_next_status sn) \<and> resolve_retracking_delay attempt ?el = None")
      case False
      then have "w_db w' = w_db ?w2" unfolding w'_def finish_db by (rule if_not_P)
      with run others lk True False q same id show ?thesis
        by (cases "resolve_retracking_delay attempt ?el") (auto simp: same)
    next
      case late: True
      have "ts_next_status sn \<in> set TRACKING_TARGET_STATUSES"
        using late read_tracking_ge [OF assms(6)] assms(2) by (simp add: tracked_iff)
      then have "fst (timeout_stmt (e_now env) ?row sn ?el) ?row" by simp
      with timeout_lookup [of "w_db ?w2" ?row ?row] lk id
      have "get_order_by_id (w_db w') oid = Some (snd (timeout_stmt (e_now env) ?row sn ?el) ?row)"
        unfolding w'_def finish_db if_P [OF late] by simp
      moreover have "same_identity (snd (timeout_stmt (e_now env) ?row sn ?el) ?row) row"
        unfolding timeout_stmt_def by (rule same_identity_trans [OF upd_track.keeps_identity same])
      ultimately show ?thesis
        using run others True late q by (auto simp: timeout_stmt_def update_order_tracking_result_def)
    qed
  qed
qed

text \<open>
  The portfolio snapshot of a cycle is queued exactly when the order belongs to a cycle all of
  whose orders are in a terminal status.
\<close>

lemma snapshot_trigger_exact:
  "w_queue (trigger_rebalance_snapshot_if_completed row w) = w_queue w
     @ (let rid = the (o_rebalance_id row); os = filter (\<lambda>r. o_rebalance_id r = Some rid) (w_db w)
        in if truthy (o_rebalance_id row) \<and> os \<noteq> [] \<and> list_all (\<lambda>r. terminal (o_status r)) os
           then [CaptureSnapshot rid] else [])
   \<and> w_db (trigger_rebalance_snapshot_if_completed row w) = w_db w"
  by (simp add: trigger_queue trigger_simps)

section \<open>Tracking and the other orders\<close>

lemma handle_tracking_other:
  "k \<noteq> o_id row \<Longrightarrow>
   get_order_by_id (w_db (snd (handle_tracking_failure env row attempt ft el e w))) k = get_order_by_id (w_db w) k"
proof -
  assume k: "k \<noteq> o_id row"
  have f: "get_order_by_id (w_db (snd (store_tracking_failure env row ex rc mc m1 pl al w))) k = get_order_by_id (w_db w) k"
    for ex rc mc m1 pl al
  proof (cases ex)
    case (Some l)
    then show ?thesis
      using upd_failure.lookup_other [OF k, of "e_now env" l "Some rc" "Some mc" "Some m1" FAILED "Some pl" "w_db w"]
      by (simp add: store_tracking_failure_def failure_stmt_def update_order_failure_result_def step_simps Let_def)
  qed (simp add: store_tracking_failure_def update_order_failure_result_def)
  show ?thesis
    by (cases e) (simp_all add: handle_tracking_failure_def requeue_order_tracking_def step_simps f split: option.split)
qed

lemma track_order_other:
  assumes "k \<noteq> o_id row"
  shows "get_order_by_id (w_db (snd (track_order env row attempt ft el w))) k = get_order_by_id (w_db w) k"
proof -
  obtain res w1 where i: "inquire_order env row w = (res, w1)" by (cases "inquire_order env row w")
  have db1: "w_db w1 = w_db w" using inquire_simps(1) [of env row w] i by simp
  show ?thesis
  proof (cases res)
    case (Inr r)
    show ?thesis
    proof (cases "read_tracking row r w1")
      case (Inr sn)
      obtain so w2 where s: "store_tracking env row sn w1 = (so, w2)" by (cases "store_tracking env row sn w1")
      have o2: "get_order_by_id (w_db w2) k = get_order_by_id (w_db w) k"
        using s db1 assms
        by (auto simp: store_tracking_def Let_def case_prod_beta step_simps tracking_stmt_def upd_track.lookup_other
            split: if_splits)
      show ?thesis
      proof (cases so)
        case None
        with i \<open>res = Inr r\<close> \<open>read_tracking row r w1 = Inr sn\<close> s o2 show ?thesis by (simp add: track_order_def)
      next
        case (Some row')
        have row': "row' = tracked_row (e_now env) row sn"
          using s Some by (auto simp: store_tracking_def Let_def case_prod_beta tracked_row_def split: if_splits)
        obtain pr w3 where p: "propagate_to_parent env row' sn w2 = (pr, w3)"
          by (cases "propagate_to_parent env row' sn w2")
        have "w3 = w2" using propagate_nothing [of row' sn env w2] p row' by simp
        with i \<open>res = Inr r\<close> \<open>read_tracking row r w1 = Inr sn\<close> s Some p o2 row' assms finish_other
        show ?thesis
          by (cases pr) (auto simp: track_order_def split: bool.split)
      qed
    qed (use i \<open>res = Inr r\<close> db1 in \<open>simp add: track_order_def\<close>)
  qed (use i db1 in \<open>simp add: track_order_def\<close>)
qed

lemma process_status_other:
  assumes "k \<noteq> oid"
  shows "get_order_by_id (w_db (snd (process_order_status env oid attempt ft w))) k = get_order_by_id (w_db w) k"
proof (cases "get_order_by_id (w_db w) oid")
  case None
  then show ?thesis by (simp add: process_order_status_def Let_def)
next
  case (Some row)
  have id: "k \<noteq> o_id row" using assms lookup_id [OF Some] by simp
  let ?ft = "case ft of None \<Rightarrow> e_now env | Some t \<Rightarrow> t"
  let ?el = "max (e_now env - ?ft) 0"
  obtain res w1 where t: "track_order env row attempt ?ft ?el w = (res, w1)"
    by (cases "track_order env row attempt ?ft ?el w")
  with Some track_order_other [OF id, of env attempt ?ft ?el w] handle_tracking_other [OF id] show ?thesis
    by (auto simp: process_order_status_def Let_def split: sum.split)
qed

text \<open>
  Tracking changes the tracked order only.  This holds for the parents of cancellation and
  revision orders too, which step 8 of the code means to update: a revision's new fill is computed
  from the child after it was updated and is always zero, and the update for a cancellation raises.
\<close>

lemma tracking_changes_own_order_only:
  assumes "k \<noteq> oid"
  shows "get_order_by_id (w_db (snd (process_order_status env oid attempt ft w))) k = get_order_by_id (w_db w) k"
  using assms by (rule process_status_other)

text \<open>
  What the code does when a cancellation is confirmed: the cancel order is stored as
  canceled, then the update of its parent raises \<open>TypeError\<close>, and so does the exception handler; the
  parent keeps its remaining quantity, and neither a further tracking nor a snapshot is queued.
\<close>

lemma confirmed_cancellation_crashes:
  assumes "get_order_by_id (w_db w) oid = Some row" and "o_status row \<in> set TRACKING_TARGET_STATUSES"
    and "truthy (o_broker_order_no row)" and "o_order_kind row = KIND_CANCEL"
    and "o_original_order_id row = Some pid" and "pid \<noteq> oid" and "pid \<noteq> []"
    and "get_order_by_id (w_db w) pid = Some parent"
    and "inquire_order env row w = (Inr r, w1)" and "read_tracking row r w1 = Inr sn"
    and "ts_next_status sn = CANCELED" and "ts_order_qty sn = Some q" and "ts_rejected_qty sn = Some j"
    and "ts_filled_qty sn < q - ts_remaining_qty sn - j"
  shows "\<exists>t w'. process_order_status env oid attempt (Some ft) w = (Inl (TypeError t), w')
     \<and> map_option o_status (get_order_by_id (w_db w') oid) = Some CANCELED
     \<and> get_order_by_id (w_db w') pid = Some parent
     \<and> w_queue w' = w_queue w"
proof -
  let ?row = "tracked_row (e_now env) row sn"
  let ?w2 = "stored env row sn w1"
  let ?err = "TypeError ''update_parent_order_after_child() got an unexpected keyword argument expected_current_statuses''"
  have id: "o_id row = oid" using assms(1) lookup_id by blast
  have db1: "w_db w1 = w_db w" "w_queue w1 = w_queue w" using inquire_simps [of env row w] assms(9) by simp_all
  have ct: "can_transition (o_status row) (ts_next_status sn)"
    using assms(2,11) by (auto simp: TRACKING_TARGET_STATUSES_def can_transition_def TERMINAL_STATES_def)
  have parent: "get_order_by_id (w_db ?w2) pid = Some parent"
    using stored_other [of pid row env sn w1] assms(6,8) id db1 by simp
  have "propagate_to_parent env ?row sn ?w2 = (Inl ?err, ?w2)"
    using assms(4,5,7,11-14) parent
    by (simp add: propagate_to_parent_def propagate_cancel_def update_parent_order_after_child_def Let_def)
  then have tr: "track_order env row attempt ft (max (e_now env - ft) 0) w = (Inl ?err, ?w2)"
    by (simp add: track_order_stored [OF assms(1,2,9,10) ct])
  have "\<not> is_retryable_tracking_error ?err" by code_simp
  then obtain t where
    "handle_tracking_failure env row attempt ft (max (e_now env - ft) 0) ?err ?w2 = (Inl (TypeError t), ?w2)"
    by (simp add: handle_tracking_failure_def store_tracking_failure_def update_order_failure_result_def)
  with tr have "process_order_status env oid attempt (Some ft) w = (Inl (TypeError t), ?w2)"
    by (simp add: process_order_status_tracked [OF assms(1-3)])
  moreover have "map_option o_status (get_order_by_id (w_db ?w2) oid) = Some CANCELED"
    using stored_lookup [of w1 oid row env sn] assms(1,2,11) db1 by simp
  ultimately show ?thesis using parent db1 by auto
qed

text \<open>
  After 1800 seconds an unfinished order becomes \<open>TIMEOUT\<close> and is not tracked again; although
  the alert announces it, no cancellation order is created and none is queued.
\<close>

lemma time_out_creates_no_cancellation:
  assumes "get_order_by_id (w_db w) oid = Some row" and "o_status row \<in> set TRACKING_TARGET_STATUSES"
    and "truthy (o_broker_order_no row)" and "\<not> truthy (o_original_order_id row)"
    and "inquire_order env row w = (Inr r, w1)" and "read_tracking row r w1 = Inr sn"
    and "can_transition (o_status row) (ts_next_status sn)" and "\<not> terminal (ts_next_status sn)"
    and "REQUESTED \<le> ts_next_status sn" and "1800 \<le> e_now env - ft"
  shows "\<exists>w'. process_order_status env oid attempt (Some ft) w = (Inr (), w')
     \<and> map_option o_status (get_order_by_id (w_db w') oid) = Some TIMEOUT
     \<and> map o_id (w_db w') = map o_id (w_db w)
     \<and> list_all (\<lambda>t. case t of CaptureSnapshot _ \<Rightarrow> True | _ \<Rightarrow> False) (drop (length (w_queue w)) (w_queue w'))
     \<and> length (w_alerts w') = Suc (length (w_alerts w))"
proof -
  let ?row = "tracked_row (e_now env) row sn"
  let ?el = "max (e_now env - ft) 0"
  let ?w2 = "stored env row sn w1"
  define w' where "w' = finish_tracking env ?row sn attempt ft ?el ?w2"
  have none: "resolve_retracking_delay attempt ?el = None" using assms(10) by (simp add: delay_None_iff)
  have db1: "w_db w1 = w_db w" "w_queue w1 = w_queue w" "w_alerts w1 = w_alerts w"
    using inquire_simps [of env row w] assms(5) by simp_all
  have id: "o_id row = oid" using assms(1) lookup_id by blast
  have "process_order_status env oid attempt (Some ft) w = (Inr (), w')"
    by (simp add: process_order_status_tracked [OF assms(1-3)] track_order_stored [OF assms(1,2,5-7)]
        no_propagation [OF assms(4)] w'_def)
  moreover have db: "w_db w' = snd (execute (timeout_stmt (e_now env) ?row sn ?el) (w_db ?w2))"
    using none assms(8) by (simp add: w'_def finish_db)
  moreover have "map_option o_status (get_order_by_id (w_db w') oid) = Some TIMEOUT"
  proof -
    have "get_order_by_id (w_db ?w2) oid = Some ?row"
      using stored_lookup [of w1 oid row env sn] assms(1,2) db1 by simp
    moreover have "ts_next_status sn \<in> set TRACKING_TARGET_STATUSES"
      using assms(8,9) by (simp add: tracked_iff)
    ultimately show ?thesis
      using id unfolding db timeout_stmt_def by (simp add: upd_track.status_after)
  qed
  moreover have "map o_id (w_db w') = map o_id (w_db w)"
    unfolding db timeout_stmt_def stored_def
    by (simp add: upd_track.execute_ids step_simps tracking_stmt_def db1)
  moreover have "list_all (\<lambda>t. case t of CaptureSnapshot _ \<Rightarrow> True | _ \<Rightarrow> False) (drop (length (w_queue w)) (w_queue w'))"
    using none assms(8) db1
    by (simp add: w'_def finish_tracking_def time_out_def timeout_cancel_nothing trigger_queue step_simps Let_def)
  moreover have "length (w_alerts w') = Suc (length (w_alerts w))"
    using none assms(8) db1
    by (simp add: w'_def finish_tracking_def time_out_def timeout_cancel_nothing step_simps Let_def)
  ultimately show ?thesis by blast
qed

section \<open>Chains of tracking runs\<close>

text \<open>
  What a run may queue: snapshots, and its own next run with the attempt counted, the start time kept
  and the delay of the two.
\<close>

definition own_task :: "uuid \<Rightarrow> nat \<Rightarrow> timestamp \<Rightarrow> int \<Rightarrow> task \<Rightarrow> bool" where
  "own_task oid attempt ft el t \<longleftrightarrow> (\<exists>rid. t = CaptureSnapshot rid)
     \<or> (\<exists>d. resolve_retracking_delay attempt el = Some d \<and> t = TrackOrder oid (attempt + 1) (Some ft) d)"

definition queues_own :: "uuid \<Rightarrow> nat \<Rightarrow> timestamp \<Rightarrow> int \<Rightarrow> world \<Rightarrow> world \<Rightarrow> bool" where
  "queues_own oid attempt ft el w w' \<longleftrightarrow> (\<exists>tasks. w_queue w' = w_queue w @ tasks \<and> (\<forall>t \<in> set tasks. own_task oid attempt ft el t))"

lemma queues_own_same: "w_queue w' = w_queue w \<Longrightarrow> queues_own oid attempt ft el w w'"
  by (simp add: queues_own_def)

lemma queues_own_trans:
  "queues_own oid a ft el w1 w2 \<Longrightarrow> queues_own oid a ft el w2 w3 \<Longrightarrow> queues_own oid a ft el w1 w3"
  unfolding queues_own_def by (metis Un_iff append.assoc set_append)

lemma finish_own: "queues_own (o_id row) attempt ft el w (finish_tracking env row sn attempt ft el w)"
  using finish_queue [of env row sn attempt ft el w]
  unfolding queues_own_def own_task_def by (auto split: if_splits)

lemma handle_own:
  "queues_own (o_id row) attempt ft el w (snd (handle_tracking_failure env row attempt ft el e w))"
proof -
  have f: "w_queue (snd (store_tracking_failure env row ex rc mc m1 pl al w)) = w_queue w" for ex rc mc m1 pl al
    by (simp add: store_tracking_failure_def step_simps Let_def split: sum.split)
  have q: "queues_own (o_id row) attempt ft el w (snd (requeue_order_tracking (o_id row) attempt ft el w))"
    by (auto simp: requeue_order_tracking_def queues_own_def own_task_def step_simps split: option.split)
  show ?thesis
    by (cases e) (simp_all add: handle_tracking_failure_def f q queues_own_same)
qed

lemma track_own: "queues_own (o_id row) attempt ft el w (snd (track_order env row attempt ft el w))"
proof -
  obtain res w1 where i: "inquire_order env row w = (res, w1)" by (cases "inquire_order env row w")
  have 1: "w_queue w1 = w_queue w" using inquire_simps(2) [of env row w] i by simp
  show ?thesis
  proof (cases res)
    case (Inr r)
    show ?thesis
    proof (cases "read_tracking row r w1")
      case (Inr sn)
      obtain so w2 where st: "store_tracking env row sn w1 = (so, w2)" by (cases "store_tracking env row sn w1")
      have 2: "w_queue w2 = w_queue w1"
        using st by (auto simp: store_tracking_def Let_def case_prod_beta step_simps split: if_splits)
      show ?thesis
      proof (cases so)
        case None
        with i \<open>res = Inr r\<close> Inr st 1 2 show ?thesis by (simp add: track_order_def queues_own_same)
      next
        case (Some row')
        have row': "row' = tracked_row (e_now env) row sn"
          using st Some by (auto simp: store_tracking_def Let_def case_prod_beta tracked_row_def split: if_splits)
        obtain pr w3 where p: "propagate_to_parent env row' sn w2 = (pr, w3)"
          by (cases "propagate_to_parent env row' sn w2")
        have "w3 = w2" using propagate_nothing [of row' sn env w2] p row' by simp
        moreover have "queues_own (o_id row) attempt ft el w w2" using 1 2 by (simp add: queues_own_same)
        moreover note queues_own_trans [OF this, of "finish_tracking env row' sn attempt ft el w2"]
          finish_own [of row' attempt ft el w2 env sn]
        ultimately show ?thesis
          using i \<open>res = Inr r\<close> Inr st Some p row' by (cases pr) (auto simp: track_order_def split: bool.split)
      qed
    qed (use i \<open>res = Inr r\<close> 1 in \<open>simp add: track_order_def queues_own_same\<close>)
  qed (use i 1 in \<open>simp add: track_order_def queues_own_same\<close>)
qed

lemma process_status_own:
  fixes env since
  defines "ft \<equiv> (case since of None \<Rightarrow> e_now env | Some t \<Rightarrow> t)"
  shows "queues_own oid attempt ft (max (e_now env - ft) 0) w (snd (process_order_status env oid attempt since w))"
proof (cases "get_order_by_id (w_db w) oid")
  case None
  then show ?thesis by (simp add: process_order_status_def Let_def queues_own_same)
next
  case (Some row)
  then have id: "o_id row = oid" by (rule lookup_id)
  let ?el = "max (e_now env - ft) 0"
  show ?thesis
  proof (cases "o_status row \<in> set TRACKING_TARGET_STATUSES \<and> truthy (o_broker_order_no row)")
    case True
    obtain res w1 where t: "track_order env row attempt ft ?el w = (res, w1)" by (cases "track_order env row attempt ft ?el w")
    with track_own [of row attempt ft ?el w env] id have "queues_own oid attempt ft ?el w w1" by simp
    moreover have "queues_own oid attempt ft ?el w1 (snd (handle_tracking_failure env row attempt ft ?el e w1))" for e
      using handle_own [of row attempt ft ?el w1 env e] id by simp
    moreover have fteq: "ft = (case since of None \<Rightarrow> e_now env | Some t \<Rightarrow> t)" by (simp add: ft_def)
    note process_order_status_since [OF Some conjunct1 [OF True] conjunct2 [OF True] fteq, of attempt]
    ultimately show ?thesis
      using t queues_own_trans [of oid attempt ft ?el w w1] by (cases res) simp_all
  next
    case False
    with Some show ?thesis by (auto simp: process_order_status_def Let_def queues_own_same)
  qed
qed

text \<open>
  A run of the handler, with the environment and the world of its moment; the run that takes
  up a task another one queued, no earlier than its countdown; and the chains of such runs that
  start from the task a submission or a recovery queues.
\<close>

record tracking_run =
  tr_env :: worker_env
  tr_attempt :: nat
  tr_since :: "timestamp option"
  tr_world :: world

definition run_tasks :: "uuid \<Rightarrow> tracking_run \<Rightarrow> task list" where
  "run_tasks oid r =
     drop (length (w_queue (tr_world r)))
       (w_queue (snd (process_order_status (tr_env r) oid (tr_attempt r) (tr_since r) (tr_world r))))"

definition requeues :: "uuid \<Rightarrow> tracking_run \<Rightarrow> tracking_run \<Rightarrow> bool" where
  "requeues oid r r' \<longleftrightarrow>
     (\<exists>d. TrackOrder oid (tr_attempt r') (tr_since r') d \<in> set (run_tasks oid r)
        \<and> e_now (tr_env r) + d \<le> e_now (tr_env r'))"

inductive tracking_chain :: "uuid \<Rightarrow> tracking_run list \<Rightarrow> bool" where
  first_run: "tr_attempt r = 0 \<Longrightarrow> tr_since r = None \<Longrightarrow> tracking_chain oid [r]"
| next_run: "tracking_chain oid (rs @ [r]) \<Longrightarrow> requeues oid r r' \<Longrightarrow> tracking_chain oid (rs @ [r, r'])"

lemma requeues_next:
  fixes r :: tracking_run
  defines "ft \<equiv> (case tr_since r of None \<Rightarrow> e_now (tr_env r) | Some t \<Rightarrow> t)"
  assumes "requeues oid r r'"
  obtains d where "resolve_retracking_delay (tr_attempt r) (max (e_now (tr_env r) - ft) 0) = Some d"
    and "tr_attempt r' = tr_attempt r + 1" and "tr_since r' = Some ft" and "e_now (tr_env r) + d \<le> e_now (tr_env r')"
proof -
  obtain d where d: "TrackOrder oid (tr_attempt r') (tr_since r') d \<in> set (run_tasks oid r)"
    "e_now (tr_env r) + d \<le> e_now (tr_env r')"
    using assms(2) unfolding requeues_def by blast
  have "queues_own oid (tr_attempt r) ft (max (e_now (tr_env r) - ft) 0) (tr_world r)
      (snd (process_order_status (tr_env r) oid (tr_attempt r) (tr_since r) (tr_world r)))"
    unfolding ft_def by (rule process_status_own)
  with d(1) have "own_task oid (tr_attempt r) ft (max (e_now (tr_env r) - ft) 0) (TrackOrder oid (tr_attempt r') (tr_since r') d)"
    by (auto simp: queues_own_def run_tasks_def)
  with d(2) that show thesis by (auto simp: own_task_def)
qed

lemma least_elapsed_nonneg: "0 \<le> least_elapsed k"
  by (induction k) auto

text \<open>Along a chain the attempts are counted, the start time is kept, and time passes.\<close>

lemma chain_times:
  assumes "tracking_chain oid rs"
  shows "rs \<noteq> [] \<and> (\<forall>i < length rs.
       tr_attempt (rs ! i) = i
     \<and> (case tr_since (rs ! i) of None \<Rightarrow> e_now (tr_env (rs ! i)) | Some t \<Rightarrow> t) = e_now (tr_env (rs ! 0))
     \<and> least_elapsed i \<le> e_now (tr_env (rs ! i)) - e_now (tr_env (rs ! 0))
     \<and> (Suc i < length rs \<longrightarrow> e_now (tr_env (rs ! i)) < e_now (tr_env (rs ! 0)) + 1800))"
  using assms
proof (induction rule: tracking_chain.induct)
  case (first_run r oid)
  then show ?case by simp
next
  case (next_run oid rs r r')
  let ?t0 = "e_now (tr_env ((rs @ [r]) ! 0))"
  let ?n = "length rs"
  have old: "i < Suc ?n \<Longrightarrow> (rs @ [r, r']) ! i = (rs @ [r]) ! i" for i by (simp add: nth_append)
  have r: "(rs @ [r]) ! ?n = r" by simp
  have at: "tr_attempt r = ?n" "(case tr_since r of None \<Rightarrow> e_now (tr_env r) | Some t \<Rightarrow> t) = ?t0"
    "least_elapsed ?n \<le> e_now (tr_env r) - ?t0"
    using next_run.IH r by (metis length_append_singleton lessI)+
  obtain d where d: "resolve_retracking_delay ?n (max (e_now (tr_env r) - ?t0) 0) = Some d"
    "tr_attempt r' = Suc ?n" "tr_since r' = Some ?t0" "e_now (tr_env r) + d \<le> e_now (tr_env r')"
    using requeues_next [OF next_run.hyps(2)] at by (metis Suc_eq_plus1)
  have el: "max (e_now (tr_env r) - ?t0) 0 = e_now (tr_env r) - ?t0"
    using at(3) least_elapsed_nonneg [of ?n] by simp
  have new: "least_elapsed (Suc ?n) \<le> e_now (tr_env r') - ?t0" "e_now (tr_env r) < ?t0 + 1800"
    using least_elapsed_step [OF at(3) d(1) [unfolded el]] d(4) delay_bounds [OF d(1) [unfolded el]] by simp_all
  show ?case
  proof (rule conjI, simp, intro allI impI)
    fix i assume i: "i < length (rs @ [r, r'])"
    have 0: "(rs @ [r, r']) ! 0 = (rs @ [r]) ! 0" by (rule old) simp
    show "tr_attempt ((rs @ [r, r']) ! i) = i
        \<and> (case tr_since ((rs @ [r, r']) ! i) of None \<Rightarrow> e_now (tr_env ((rs @ [r, r']) ! i)) | Some t \<Rightarrow> t)
            = e_now (tr_env ((rs @ [r, r']) ! 0))
        \<and> least_elapsed i \<le> e_now (tr_env ((rs @ [r, r']) ! i)) - e_now (tr_env ((rs @ [r, r']) ! 0))
        \<and> (Suc i < length (rs @ [r, r']) \<longrightarrow>
             e_now (tr_env ((rs @ [r, r']) ! i)) < e_now (tr_env ((rs @ [r, r']) ! 0)) + 1800)"
    proof (cases "i < ?n")
      case True
      then show ?thesis using next_run.IH by (simp only: 0 old) simp
    next
      case False
      then consider "i = ?n" | "i = Suc ?n" using i by fastforce
      then show ?thesis
      proof cases
        case 1
        then have ri: "(rs @ [r, r']) ! i = r" by (simp add: nth_append)
        show ?thesis unfolding 0 ri using 1 at new by simp
      next
        case 2
        then have ri: "(rs @ [r, r']) ! i = r'" by (simp add: nth_append)
        show ?thesis unfolding 0 ri using 2 new d by simp
      qed
    qed
  qed
qed

text \<open>
  C36. Tracking ends.  A chain of runs of the handler for an order, each taking up a tracking task
  the one before it queued, at its countdown or any time later, whatever the worlds and the broker's
  answers are, has at most 43 runs when it starts from the task a submission or a recovery
  queues: the attempts are numbered one by one, and only runs within 1800 seconds of the first one
  queue another.  (A recovery queues the first task of a new chain for each tracked order.)
\<close>

theorem tracking_attempts_bounded:
  assumes "tracking_chain oid rs"
  shows "length rs \<le> 43
    \<and> (\<forall>i < length rs. tr_attempt (rs ! i) = i)
    \<and> (\<forall>i. Suc i < length rs \<longrightarrow> e_now (tr_env (rs ! i)) < e_now (tr_env (rs ! 0)) + 1800)"
proof -
  note t = chain_times [OF assms]
  have "length rs \<le> 43"
  proof (rule ccontr)
    assume "\<not> length rs \<le> 43"
    then have "42 < length rs" "Suc 42 < length rs" by simp_all
    with t have "least_elapsed 42 \<le> e_now (tr_env (rs ! 42)) - e_now (tr_env (rs ! 0))"
      "e_now (tr_env (rs ! 42)) < e_now (tr_env (rs ! 0)) + 1800" by blast+
    then show False by (simp add: least_elapsed_42)
  qed
  with t show ?thesis by (metis Suc_lessD)
qed

section \<open>Transient errors of the inquiry\<close>

lemma inquiry_error:
  assumes "fst (obtain_token env w) = Inr tok"
    and "e_http env = (\<lambda>_ _. Response s body body_text raise_text)" and "500 \<le> s" and "s < 600"
    and "check_within_3_months (strftime_ymd (o_created_at row)) (strftime_ymd (o_created_at row)) = Inr b"
  obtains w1 where "inquire_order env row w = (Inl (daily_error 500 (''Server error: '' @ show_int s)), w1)"
    "w_db w1 = w_db w" "w_queue w1 = w_queue w" "w_alerts w1 = w_alerts w"
proof -
  have "\<not> is_success s" using assms(3) by (simp add: is_success_def)
  then have "daily_loop (\<lambda>k. Response s body body_text raise_text) [0..<HTTP_RETRY_COUNT]
      = (3, Inl (daily_error 500 (''Server error: '' @ show_int s)))"
    using assms(3,4) by (simp add: attempts) (simp add: HTTP_RETRY_COUNT_def)
  then have "fst (inquire_order env row w) = Inl (daily_error 500 (''Server error: '' @ show_int s))"
    using assms(1,2,5)
    by (cases "obtain_token env w")
      (simp add: inquire_order_def daily_order_executions_def get_daily_order_executions_def Let_def)
  then show thesis
    using inquire_simps [of env row w] that by (cases "inquire_order env row w") auto
qed

definition server_error :: "int \<Rightarrow> kis_error" where
  "server_error s =
     (let msg = ''daily order execution inquiry failed: Server error: '' @ show_int s
      in \<lparr>e_message = msg, e_status_code = Some 500, e_error_code = None, e_rt_cd = Some ''ERROR'',
          e_msg_cd = Some ''NETWORK_ERROR'', e_msg1 = Some msg,
          e_payload = Some (JObj [(''stage'', JStr ''daily_order_execution''),
                                  (''error'', JStr (''Server error: '' @ show_int s))])\<rparr>)"

lemma server_error_eq: "daily_error 500 (''Server error: '' @ show_int s) = KISOrderError (server_error s)"
  by (simp add: daily_error_def server_error_def new_KISOrderError_def Let_def)

lemma server_errors_retryable:
  "is_retryable_tracking_error (KISOrderError (server_error 500))"
  "\<not> is_retryable_tracking_error (KISOrderError (server_error 503))"
  by code_simp+

lemma track_order_inquiry_error:
  "inquire_order env row w = (Inl e, w1) \<Longrightarrow> track_order env row attempt ft el w = (Inl e, w1)"
  by (simp add: track_order_def)

text \<open>
  What a server error of the inquiry does to a live order: after HTTP 500 the order keeps its
  status and is tracked again (within the 1800 seconds); after HTTP 503, which says as little about
  the order, it is stored as \<open>FAILED\<close>, an alert is sent, and it is not tracked again.
\<close>

lemma inquiry_server_errors:
  assumes "get_order_by_id (w_db w) oid = Some row" and "o_status row \<in> set TRACKING_TARGET_STATUSES"
    and "truthy (o_broker_order_no row)" and "o_order_pos row \<in> {ACTION_BUY, ACTION_SELL}"
    and "fst (obtain_token env w) = Inr tok"
    and "e_http env = (\<lambda>_ _. Response s body body_text raise_text)" and "s \<in> {500, 503}"
    and "check_within_3_months (strftime_ymd (o_created_at row)) (strftime_ymd (o_created_at row)) = Inr b"
    and "resolve_retracking_delay attempt (max (e_now env - ft) 0) = Some d"
  shows "\<exists>w'. process_order_status env oid attempt (Some ft) w = (Inr (), w')
     \<and> (if s = 500
        then get_order_by_id (w_db w') oid = Some row
             \<and> w_queue w' = w_queue w @ [TrackOrder oid (attempt + 1) (Some ft) d]
             \<and> w_alerts w' = w_alerts w
        else map_option o_status (get_order_by_id (w_db w') oid) = Some FAILED
             \<and> w_queue w' = w_queue w
             \<and> length (w_alerts w') = Suc (length (w_alerts w)))"
proof -
  have id: "o_id row = oid" using assms(1) lookup_id by blast
  obtain w1 where i: "inquire_order env row w = (Inl (KISOrderError (server_error s)), w1)"
    "w_db w1 = w_db w" "w_queue w1 = w_queue w" "w_alerts w1 = w_alerts w"
  proof -
    have "500 \<le> s" "s < 600" using assms(7) by auto
    from inquiry_error [OF assms(5,6) this assms(8)] that show thesis
      unfolding server_error_eq by blast
  qed
  let ?h = "handle_tracking_failure env row attempt ft (max (e_now env - ft) 0) (KISOrderError (server_error s)) w1"
  have "process_order_status env oid attempt (Some ft) w = (case ?h of (x, w') \<Rightarrow> (x, w'))"
    using track_order_inquiry_error [OF i(1)] by (simp add: process_order_status_tracked [OF assms(1-3)])
  then have p: "process_order_status env oid attempt (Some ft) w = ?h" by simp
  show ?thesis
  proof (cases "s = 500")
    case True
    then show ?thesis
      using p i assms(1,9) id server_errors_retryable(1)
      by (simp add: handle_tracking_failure_def requeue_order_tracking_def step_simps)
  next
    case False
    define st where "st = failure_stmt (e_now env) oid TRACKING_TARGET_STATUSES (Some ''ERROR'')
      (Some ''NETWORK_ERROR'') (e_msg1 (server_error s)) FAILED (e_payload (server_error s))"
    from False assms(7) have s: "s = 503" by simp
    have ne: "or_text (e_msg1 (server_error 503)) (e_message (server_error 503)) = the (e_msg1 (server_error 503))"
      by (simp add: server_error_def Let_def)
    have "?h = (Inr (), send_alert \<lparr>al_stock_code = o_stock_code row, al_order_id = oid, al_action = o_order_pos row,
        al_message = ''error while tracking the order - regarded as failed: '' @ e_message (server_error s)\<rparr>
        (publish_order_update oid (snd (commit_stmt st w1))))"
      using server_errors_retryable(2) assms(4) id s ne
      by (simp add: handle_tracking_failure_def store_tracking_failure_def st_def failure_stmt_def
          update_order_failure_result_def Let_def)
        (auto simp: server_error_def or_json_def Let_def)
    moreover have "map_option o_status (get_order_by_id (snd (execute st (w_db w1))) oid) = Some FAILED"
      unfolding st_def
      using upd_failure.status_after [where db = "w_db w1" and oid = oid and r = row and now = "e_now env"
          and expected = TRACKING_TARGET_STATUSES and rt = "Some ''ERROR''" and mc = "Some ''NETWORK_ERROR''"
          and ?m1.0 = "e_msg1 (server_error s)" and target = FAILED and pl = "e_payload (server_error s)"]
        assms(1,2) i(2) by simp
    ultimately show ?thesis using p i False by (simp add: step_simps)
  qed
qed

section \<open>Concrete tracking runs\<close>

definition example_item :: "str \<Rightarrow> str \<Rightarrow> daily_item" where
  "example_item remaining canceled =
     map (\<lambda>f. (f, if f = ''odno'' then ''0000001234'' else if f = ''ord_qty'' then ''7''
                  else if f = ''rmn_qty'' then remaining else if f = ''cncl_cfrm_qty'' then canceled
                  else if f = ''rjct_qty'' then ''0'' else if f = ''avg_prvs'' then ''71000'' else ''''))
       daily_item_fields"

definition daily_body :: "daily_item \<Rightarrow> (str \<times> json) list" where
  "daily_body it =
     [(''rt_cd'', JStr ''0''), (''msg_cd'', JStr ''M''), (''msg1'', JStr ''ok''), (''ctx_area_fk100'', JStr ''''),
      (''ctx_area_nk100'', JStr ''''), (''output1'', JList [fields_json it])]"

definition daily_answer :: "daily_item \<Rightarrow> daily_response" where
  "daily_answer it =
     \<lparr>d_rt_cd = ''0'', d_msg_cd = ''M'', d_msg1 = ''ok'', d_ctx_area_fk100 = '''', d_ctx_area_nk100 = '''',
      d_output1 = Some [it], d_output2 = None\<rparr>"

definition tracked_example :: order where
  "tracked_example = example_order
     \<lparr>o_status := ACCEPTED, o_broker_order_no := Some ''0000001234'', o_broker_org_no := Some ''00950'',
      o_remaining_qty := 7\<rparr>"

definition cancel_example :: order where
  "cancel_example = tracked_example
     \<lparr>o_id := ''c1'', o_order_kind := ''cancel'', o_original_order_id := Some ''o1''\<rparr>"

definition track_world :: "orders \<Rightarrow> world" where
  "track_world db = (example_world False)\<lparr>w_db := db\<rparr>"

lemma track_world_simps [simp]:
  "w_db (track_world db) = db" "w_queue (track_world db) = []" "w_alerts (track_world db) = []"
  by (simp_all add: track_world_def example_world_def)

lemma tracked_example_simps [simp]:
  "o_id tracked_example = ''o1''" "o_status tracked_example = ACCEPTED" "o_order_pos tracked_example = ''buy''"
  "o_broker_order_no tracked_example = Some ''0000001234''" "o_original_order_id tracked_example = None"
  "o_order_kind tracked_example = ''new''" "o_created_at tracked_example = 1774290000"
  "o_id cancel_example = ''c1''" "o_status cancel_example = ACCEPTED"
  "o_broker_order_no cancel_example = Some ''0000001234''" "o_original_order_id cancel_example = Some ''o1''"
  "o_order_kind cancel_example = ''cancel''" "o_created_at cancel_example = 1774290000"
  by (simp_all add: cancel_example_def tracked_example_def example_order_def new_order_def)

lemma track_token: "obtain_token (example_env http) (track_world db) = (Inr ''tk'', track_world db)"
proof -
  have "obtain_token env (w\<lparr>w_db := db\<rparr>) = (fst (obtain_token env w), (snd (obtain_token env w))\<lparr>w_db := db\<rparr>)" for env w
    by (simp add: obtain_token_def case_prod_beta)
  then show ?thesis by (simp add: track_world_def example_obtain)
qed

lemma example_env_simps [simp]:
  "e_http (example_env http) = http" "e_now (example_env http) = 1774300000"
  by (simp_all add: example_env_def)

lemma example_day: "check_within_3_months (strftime_ymd 1774290000) (strftime_ymd 1774290000) = Inr True"
  by code_simp

lemma example_inquiry:
  assumes "DailyOrderExecutionResponse (daily_body it) = Inr (daily_answer it)" and "o_created_at row = 1774290000"
  shows "\<exists>w1. inquire_order (example_env (example_answer (daily_body it))) row (track_world db) = (Inr (daily_answer it), w1)
    \<and> w_db w1 = db"
proof -
  have "daily_result (Some (JObj (daily_body it))) = Inr (daily_answer it)"
    using assms(1) by (simp add: daily_result_def json_dict_def) (simp add: daily_body_def dict_get_def)
  then show ?thesis
    using assms(2)
    by (simp add: inquire_order_def track_token daily_order_executions_def get_daily_order_executions_def
        example_day example_answer_def attempts is_success_def Let_def)
qed

lemma example_items:
  "DailyOrderExecutionResponse (daily_body (example_item ''4'' ''0'')) = Inr (daily_answer (example_item ''4'' ''0''))"
  "DailyOrderExecutionResponse (daily_body (example_item ''0'' ''7'')) = Inr (daily_answer (example_item ''0'' ''7''))"
  by code_simp+

definition partial_snapshot :: track_snapshot where
  "partial_snapshot =
     row_snapshot tracked_example False (daily_answer (example_item ''4'' ''0'')) (example_item ''4'' ''0'') 7 4 0 0"

definition canceled_snapshot :: track_snapshot where
  "canceled_snapshot =
     row_snapshot cancel_example False (daily_answer (example_item ''0'' ''7'')) (example_item ''0'' ''7'') 7 0 7 0"

lemma example_reads:
  "w_db w1 = [tracked_example] \<Longrightarrow>
   read_tracking tracked_example (daily_answer (example_item ''4'' ''0'')) w1 = Inr partial_snapshot"
  "read_tracking cancel_example (daily_answer (example_item ''0'' ''7'')) w1 = Inr canceled_snapshot"
proof -
  have a: "extract_order_tracking_snapshot tracked_example (daily_answer (example_item ''4'' ''0'')) False = Inr partial_snapshot"
    "extract_order_tracking_snapshot cancel_example (daily_answer (example_item ''0'' ''7'')) False = Inr canceled_snapshot"
    by code_simp+
  show "w_db w1 = [tracked_example] \<Longrightarrow>
     read_tracking tracked_example (daily_answer (example_item ''4'' ''0'')) w1 = Inr partial_snapshot"
    using a by (simp add: read_tracking_def exists_child_orders_def)
  show "read_tracking cancel_example (daily_answer (example_item ''0'' ''7'')) w1 = Inr canceled_snapshot"
    using a by (simp add: read_tracking_def kind_defs)
qed

lemma example_snapshot_simps [simp]:
  "ts_next_status partial_snapshot = PARTIAL_FILLED" "ts_filled_qty partial_snapshot = 3"
  "ts_next_status canceled_snapshot = CANCELED" "ts_filled_qty canceled_snapshot = 0"
  "ts_remaining_qty canceled_snapshot = 0" "ts_order_qty canceled_snapshot = Some 7"
  "ts_rejected_qty canceled_snapshot = Some 0"
  by (simp_all add: partial_snapshot_def canceled_snapshot_def row_snapshot_def tracked_status_def Let_def)

lemma example_track_lookup [simp]:
  "get_order_by_id [tracked_example] ''o1'' = Some tracked_example"
  "get_order_by_id [tracked_example, cancel_example] ''o1'' = Some tracked_example"
  "get_order_by_id [tracked_example, cancel_example] ''c1'' = Some cancel_example"
  by (simp_all add: get_order_by_id_def)

section \<open>Witnesses\<close>

theorem tracking_respects_state_machine_witness:
  "db_evolves [tracked_example]
     (w_db (snd (process_order_status (example_env (\<lambda>_ _. NetworkError '''')) ''o1'' 0 None (track_world [tracked_example]))))"
  using tracking_respects_state_machine [of "track_world [tracked_example]"] by simp

theorem tracking_effect_witness:
  "\<exists>w'. process_order_status (example_env (example_answer (daily_body (example_item ''4'' ''0'')))) ''o1'' 0 (Some 1774300000)
          (track_world [tracked_example]) = (Inr (), w')
     \<and> w_queue w' = [TrackOrder ''o1'' 1 (Some 1774300000) 1]
     \<and> map_option o_status (get_order_by_id (w_db w') ''o1'') = Some PARTIAL_FILLED"
proof -
  let ?env = "example_env (example_answer (daily_body (example_item ''4'' ''0'')))"
  obtain w1 where i: "inquire_order ?env tracked_example (track_world [tracked_example])
      = (Inr (daily_answer (example_item ''4'' ''0'')), w1)" "w_db w1 = [tracked_example]"
    using example_inquiry [OF example_items(1), of tracked_example] by auto
  have d: "resolve_retracking_delay 0 0 = Some 1" by code_simp
  from tracking_effect [where env = ?env and oid = "''o1''" and attempt = 0 and since = "Some 1774300000"
      and ft = 1774300000, OF _ _ _ _ i(1) example_reads(1) [OF i(2)]]
  show ?thesis
    by (auto simp: d TRACKING_TARGET_STATUSES_def can_transition_def TERMINAL_STATES_def)
qed

text \<open>A first run on the example, which finds it partially filled, and the run it queues.\<close>

definition example_runs :: "tracking_run list" where
  "example_runs =
     (let env = example_env (example_answer (daily_body (example_item ''4'' ''0'')))
      in [\<lparr>tr_env = env, tr_attempt = 0, tr_since = None, tr_world = track_world [tracked_example]\<rparr>,
          \<lparr>tr_env = env\<lparr>e_now := 1774300005\<rparr>, tr_attempt = 1, tr_since = Some 1774300000, tr_world = track_world []\<rparr>])"

theorem tracking_attempts_bounded_witness:
  "tracking_chain ''o1'' example_runs \<and> length example_runs = 2 \<and> length example_runs \<le> 43
   \<and> e_now (tr_env (example_runs ! 0)) < e_now (tr_env (example_runs ! 0)) + 1800"
proof -
  let ?env = "example_env (example_answer (daily_body (example_item ''4'' ''0'')))"
  define r where "r = \<lparr>tr_env = ?env, tr_attempt = 0, tr_since = None, tr_world = track_world [tracked_example]\<rparr>"
  define r' where "r' = \<lparr>tr_env = ?env\<lparr>e_now := 1774300005\<rparr>, tr_attempt = 1, tr_since = Some 1774300000,
      tr_world = track_world []\<rparr>"
  have runs: "example_runs = [r, r']" by (simp add: example_runs_def r_def r'_def Let_def)
  obtain w1 where i: "inquire_order ?env tracked_example (track_world [tracked_example])
      = (Inr (daily_answer (example_item ''4'' ''0'')), w1)" "w_db w1 = [tracked_example]"
    using example_inquiry [OF example_items(1), of tracked_example] by auto
  have d: "resolve_retracking_delay 0 0 = Some 1" by code_simp
  have ct: "can_transition ACCEPTED PARTIAL_FILLED" by (simp add: can_transition_def TERMINAL_STATES_def)
  have "process_order_status ?env ''o1'' 0 None (track_world [tracked_example])
      = (Inr (), finish_tracking ?env (tracked_row 1774300000 tracked_example partial_snapshot) partial_snapshot 0 1774300000 0
           (stored ?env tracked_example partial_snapshot w1))"
    using process_order_status_since [of "track_world [tracked_example]" "''o1''" tracked_example 1774300000 ?env None 0]
      track_order_stored [OF _ _ i(1) example_reads(1) [OF i(2)], of "''o1''"] ct
      no_propagation [of tracked_example]
    by (simp add: tracked_iff less_eq_order_status_def TERMINAL_STATES_def)
  moreover have "w_queue w1 = []" using inquire_simps(2) [of ?env tracked_example "track_world [tracked_example]"] i(1) by simp
  ultimately have "run_tasks ''o1'' r = [TrackOrder ''o1'' 1 (Some 1774300000) 1]"
    by (simp add: run_tasks_def r_def finish_tracking_def d step_simps TERMINAL_STATES_def Let_def)
  then have "requeues ''o1'' r r'" by (simp add: requeues_def r_def r'_def)
  then have "tracking_chain ''o1'' ([] @ [r, r'])"
    by (intro next_run) (simp_all add: first_run r_def)
  then have c: "tracking_chain ''o1'' example_runs" by (simp add: runs)
  from tracking_attempts_bounded [OF c] c show ?thesis by (simp add: runs)
qed

end
