(* ===== verification/Position_Diff.thy ===== *)
theory Position_Diff
  imports Prelude Py_Float
begin

text \<open>
  \<^verbatim>\<open>app/strategy/runtime/position_diff.py\<close> and the dataclasses of
  \<^verbatim>\<open>app/schemas/strategy/trading.py\<close> it works on: the difference between the current holdings
  and the target portfolio, as a list of sales, purchases and holdings kept.  Amounts and
  quantities are Python integers, the equal-weight allocation is computed in floats
  (\<open>Py_Float\<close>).  The metadata of an intent holds numbers.
\<close>

section \<open>Data\<close>

datatype diff_action = SELL | BUY | HOLD | REBALANCE

record position_diff_item =
  pd_stock_code :: str
  pd_stock_name :: str
  pd_action :: diff_action
  pd_current_qty :: int
  pd_current_price :: int
  pd_current_value :: int
  pd_target_qty :: int
  pd_target_value :: int
  pd_order_qty :: int
  pd_order_value :: int
  pd_momentum_return :: rat
  pd_momentum_rank :: rat

record current_holding =
  h_stock_code :: str
  h_stock_name :: str
  h_quantity :: int
  h_current_price :: int
  h_eval_amount :: int

record position_diff_result =
  pr_sell_list :: "position_diff_item list"
  pr_buy_list :: "position_diff_item list"
  pr_hold_list :: "position_diff_item list"
  pr_total_sell_value :: int
  pr_total_buy_value :: int
  pr_available_cash :: int
  pr_estimated_cash_after :: int
  pr_target_count :: nat
  pr_current_count :: nat

datatype trade_side = SideBUY | SideSELL

record trade_intent =
  ti_stock_code :: str
  ti_stock_name :: str
  ti_side :: trade_side
  ti_weight :: "rat option"
  ti_quantity :: "int option"
  ti_price_hint :: "int option"
  ti_reason :: str
  ti_metadata :: "(str \<times> rat) list"

text \<open>\<open>PositionDiffItem(stock_code, stock_name, action)\<close> with the defaults of the other fields.\<close>

definition new_item :: "str \<Rightarrow> str \<Rightarrow> diff_action \<Rightarrow> position_diff_item" where
  "new_item code name action =
     \<lparr>pd_stock_code = code, pd_stock_name = name, pd_action = action, pd_current_qty = 0,
      pd_current_price = 0, pd_current_value = 0, pd_target_qty = 0, pd_target_value = 0,
      pd_order_qty = 0, pd_order_value = 0, pd_momentum_return = 0, pd_momentum_rank = 0\<rparr>"

section \<open>Calculation\<close>

text \<open>\<open>{h.stock_code: h for h in current_holdings}\<close> and \<open>{i.stock_code: i for i in trade_intents}\<close>.\<close>

definition holding_map :: "current_holding list \<Rightarrow> (str \<times> current_holding) list" where
  "holding_map hs = dict_of (map (\<lambda>h. (h_stock_code h, h)) hs)"

definition intent_map :: "trade_intent list option \<Rightarrow> (str \<times> trade_intent) list" where
  "intent_map trade_intents =
     (case trade_intents of None \<Rightarrow> [] | Some is \<Rightarrow> dict_of (map (\<lambda>i. (ti_stock_code i, i)) is))"

definition hold_item :: "str \<Rightarrow> current_holding \<Rightarrow> position_diff_item" where
  "hold_item code h = (new_item code (h_stock_name h) HOLD)
     \<lparr>pd_current_qty := h_quantity h, pd_current_price := h_current_price h,
      pd_current_value := h_eval_amount h\<rparr>"

definition sell_item :: "str \<Rightarrow> current_holding \<Rightarrow> position_diff_item" where
  "sell_item code h = (new_item code (h_stock_name h) SELL)
     \<lparr>pd_current_qty := h_quantity h, pd_current_price := h_current_price h,
      pd_current_value := h_eval_amount h, pd_order_qty := h_quantity h,
      pd_order_value := h_quantity h * h_current_price h\<rparr>"

text \<open>The loop over the holdings: sale or hold.\<close>

fun classify_holdings ::
  "str list \<Rightarrow> (str \<times> current_holding) list \<Rightarrow> position_diff_result \<Rightarrow> position_diff_result" where
  "classify_holdings buy_codes [] res = res"
| "classify_holdings buy_codes ((code, h) # rest) res =
     classify_holdings buy_codes rest
       (if code \<in> set buy_codes then res\<lparr>pr_hold_list := pr_hold_list res @ [hold_item code h]\<rparr>
        else res\<lparr>pr_sell_list := pr_sell_list res @ [sell_item code h],
                 pr_total_sell_value := pr_total_sell_value res + pd_order_value (sell_item code h)\<rparr>)"

text \<open>
  The equal-weight allocation: \<open>worth / n\<close> per target stock, times the \<open>m\<close> stocks to buy,
  at most \<open>net\<close> (\<open>min\<close> keeps the float unless \<open>net\<close> is smaller), divided by \<open>m\<close>.  An \<open>int\<close> that
  meets a float is converted first; \<open>int / int\<close> rounds the exact quotient once.
\<close>

definition total_new_buy_target :: "int \<Rightarrow> nat \<Rightarrow> nat \<Rightarrow> rat" where
  "total_new_buy_target worth n m =
     (if 0 < n then fl (fl (of_int worth / of_nat n) * fl (of_nat m)) else 0)"

definition actual_buy_budget :: "int \<Rightarrow> rat \<Rightarrow> rat" where
  "actual_buy_budget net target = (if of_int net < target then of_int net else target)"

definition alloc_per_stock :: "int \<Rightarrow> rat \<Rightarrow> nat \<Rightarrow> rat" where
  "alloc_per_stock net target m =
     (if of_int net < target then fl (of_int net / of_nat m) else fl (target / fl (of_nat m)))"

text \<open>\<open>math.floor(alloc_per_stock / price)\<close>.\<close>

definition whole_shares :: "rat \<Rightarrow> int \<Rightarrow> int" where
  "whole_shares alloc price = \<lfloor>fl (alloc / fl (of_int price))\<rfloor>"

definition momentum_of :: "trade_intent option \<Rightarrow> str \<Rightarrow> rat" where
  "momentum_of intent key =
     (case intent of
        None \<Rightarrow> 0
      | Some i \<Rightarrow> (case dict_get (ti_metadata i) key of None \<Rightarrow> 0 | Some v \<Rightarrow> v))"

definition price_of :: "(str \<times> int) list \<Rightarrow> str \<Rightarrow> int" where
  "price_of price_map code = (case dict_get price_map code of None \<Rightarrow> 0 | Some p \<Rightarrow> p)"

definition name_of :: "(str \<times> str) list \<Rightarrow> str \<Rightarrow> str" where
  "name_of name_map code = (case dict_get name_map code of None \<Rightarrow> code | Some n \<Rightarrow> n)"

definition buy_item ::
  "rat \<Rightarrow> (str \<times> int) list \<Rightarrow> (str \<times> str) list \<Rightarrow> (str \<times> trade_intent) list \<Rightarrow> str \<Rightarrow> position_diff_item option"
where
  "buy_item alloc price_map name_map intents code =
     (let price = price_of price_map code in
      if price \<le> 0 then None
      else let qty = whole_shares alloc price in
        if qty \<le> 0 then None
        else let intent = dict_get intents code in
          Some ((new_item code (name_of name_map code) BUY)
            \<lparr>pd_current_price := price, pd_target_qty := qty, pd_target_value := int_of_float alloc,
             pd_order_qty := qty, pd_order_value := qty * price,
             pd_momentum_return := momentum_of intent ''momentum_return'',
             pd_momentum_rank := momentum_of intent ''momentum_rank''\<rparr>))"

text \<open>The loop over the stocks to buy; the ones without a price or a whole share are left out.\<close>

fun buy_loop ::
  "(str \<Rightarrow> position_diff_item option) \<Rightarrow> str list \<Rightarrow> position_diff_result \<Rightarrow> position_diff_result" where
  "buy_loop item [] res = res"
| "buy_loop item (code # codes) res =
     (case item code of
        None \<Rightarrow> buy_loop item codes res
      | Some it \<Rightarrow> buy_loop item codes
          (res\<lparr>pr_buy_list := pr_buy_list res @ [it],
               pr_total_buy_value := pr_total_buy_value res + pd_order_value it\<rparr>))"

definition calculate ::
  "rat \<Rightarrow> str list \<Rightarrow> trade_intent list option \<Rightarrow> current_holding list \<Rightarrow> int \<Rightarrow> (str \<times> int) list \<Rightarrow>
   (str \<times> str) list option \<Rightarrow> position_diff_result" where
  "calculate cash_buffer_ratio buy_codes trade_intents current_holdings available_cash price_map name_map_arg =
     (let name_map = (case name_map_arg of None \<Rightarrow> [] | Some d \<Rightarrow> d);
          holdings = holding_map current_holdings;
          res0 = \<lparr>pr_sell_list = [], pr_buy_list = [], pr_hold_list = [], pr_total_sell_value = 0,
                  pr_total_buy_value = 0, pr_available_cash = available_cash,
                  pr_estimated_cash_after = 0, pr_target_count = length buy_codes,
                  pr_current_count = length current_holdings\<rparr>;
          res1 = classify_holdings buy_codes holdings res0;
          new_buy_codes = filter (\<lambda>code. code \<notin> fst ` set holdings) buy_codes;
          total_investable = available_cash + pr_total_sell_value res1;
          cash_buffer = int_of_float (fl (fl (of_int total_investable) * cash_buffer_ratio));
          net_investable = total_investable - cash_buffer;
          hold_value = sum_list (map pd_current_value (pr_hold_list res1));
          total_portfolio_value = net_investable + hold_value;
          m = length new_buy_codes;
          target = total_new_buy_target total_portfolio_value (length buy_codes) m;
          res2 = (if new_buy_codes \<noteq> [] \<and> 0 < actual_buy_budget net_investable target
                  then buy_loop (buy_item (alloc_per_stock net_investable target m) price_map name_map
                         (intent_map trade_intents)) new_buy_codes res1
                  else res1)
      in res2\<lparr>pr_estimated_cash_after :=
               available_cash + pr_total_sell_value res2 - pr_total_buy_value res2\<rparr>)"

section \<open>Lemmas\<close>

lemma classify_holdings_lists:
  "classify_holdings buy_codes hs res = res
     \<lparr>pr_hold_list := pr_hold_list res @ map (case_prod hold_item) (filter (\<lambda>x. fst x \<in> set buy_codes) hs),
      pr_sell_list := pr_sell_list res @ map (case_prod sell_item) (filter (\<lambda>x. fst x \<notin> set buy_codes) hs),
      pr_total_sell_value := pr_total_sell_value res
        + sum_list (map (pd_order_value \<circ> case_prod sell_item) (filter (\<lambda>x. fst x \<notin> set buy_codes) hs))\<rparr>"
  by (induction buy_codes hs res rule: classify_holdings.induct) simp_all

lemma buy_loop_lists:
  "buy_loop item codes res = res
     \<lparr>pr_buy_list := pr_buy_list res @ List.map_filter item codes,
      pr_total_buy_value := pr_total_buy_value res + sum_list (map pd_order_value (List.map_filter item codes))\<rparr>"
  by (induction item codes res rule: buy_loop.induct)
    (simp_all add: List.map_filter_def split: option.splits)

lemma item_codes [simp]:
  "pd_stock_code (hold_item c h) = c" "pd_stock_code (sell_item c h) = c"
  "pd_order_qty (sell_item c h) = h_quantity h"
  by (simp_all add: hold_item_def sell_item_def new_item_def)

lemma buy_item_code: "buy_item alloc pm nm intents code = Some it \<Longrightarrow> pd_stock_code it = code"
  by (auto simp: buy_item_def new_item_def Let_def split: if_splits)

lemma buy_items_codes:
  "pd_stock_code ` set (List.map_filter (buy_item alloc pm nm intents) codes) \<subseteq> set codes"
  by (induction codes) (auto simp: List.map_filter_def dest: buy_item_code)

lemma holding_map_keys:
  "distinct (map fst (holding_map hs))" "fst ` set (holding_map hs) = h_stock_code ` set hs"
  by (simp_all add: holding_map_def dict_of_distinct dict_of_domain image_image)

text \<open>What the purchases of one allocation cost, line by line.\<close>

definition line_value :: "rat \<Rightarrow> int \<Rightarrow> int" where
  "line_value alloc price =
     (if price \<le> 0 \<or> whole_shares alloc price \<le> 0 then 0 else whole_shares alloc price * price)"

lemma line_value_bound:
  assumes "price < 2 ^ 53" "0 \<le> alloc"
  shows "of_int (line_value alloc price) \<le> (1 + 1 / 2 ^ 53) * alloc"
proof (cases "0 < price")
  case True
  have "of_int (whole_shares alloc price) * of_int price \<le> (1 + 1 / 2 ^ 53) * alloc"
    using binary64.floor_quotient [OF assms(2), of "of_int price"] True assms(1)
    by (simp add: whole_shares_def)
  with assms(2) show ?thesis
    by (simp add: line_value_def)
next
  case False
  with assms(2) show ?thesis by (simp add: line_value_def)
qed

lemma alloc_bound:
  assumes "0 < net" "0 \<le> target" "0 < m" "m < 2 ^ 53"
  shows "0 \<le> alloc_per_stock net target m"
    and "alloc_per_stock net target m * of_nat m \<le> (1 + 1 / 2 ^ 53) * of_int net"
proof -
  have m: "fl (of_nat m) = of_nat m"
    using fl_of_int [of "int m"] assms(4) by simp
  show "0 \<le> alloc_per_stock net target m"
    unfolding alloc_per_stock_def m using assms by (auto intro!: binary64.nonneg)
  have "alloc_per_stock net target m \<le> (1 + 1 / 2 ^ 53) * (of_int net / of_nat m)"
  proof (cases "of_int net < target")
    case True
    then show ?thesis
      using binary64.upper [of "of_int net / of_nat m"] assms by (simp add: alloc_per_stock_def)
  next
    case False
    have "alloc_per_stock net target m \<le> (1 + 1 / 2 ^ 53) * (target / of_nat m)"
      using binary64.upper [of "target / of_nat m"] False assms by (simp add: alloc_per_stock_def m)
    also have "\<dots> \<le> (1 + 1 / 2 ^ 53) * (of_int net / of_nat m)"
      using False assms by (intro mult_left_mono divide_right_mono) simp_all
    finally show ?thesis .
  qed
  then show "alloc_per_stock net target m * of_nat m \<le> (1 + 1 / 2 ^ 53) * of_int net"
    using assms(3) by (simp add: field_simps)
qed

text \<open>The budget: all lines together cost at most \<open>net\<close>, rounding included.\<close>

lemma lines_within_budget:
  assumes "0 < net" "net < 2 ^ 51" "0 \<le> target" "codes \<noteq> []" "length codes < 2 ^ 53"
    and prices: "\<And>c. c \<in> set codes \<Longrightarrow> price c < 2 ^ 53"
  shows "sum_list (map (\<lambda>c. line_value (alloc_per_stock net target (length codes)) (price c)) codes) \<le> net"
proof -
  define m a u where "m = length codes" and "a = alloc_per_stock net target m" and "u = (1 / 2 ^ 53 :: rat)"
  have a: "0 \<le> a" "a * of_nat m \<le> (1 + u) * of_int net"
    using alloc_bound [of net target m] assms unfolding a_def m_def u_def by simp_all
  have "of_int (sum_list (map (\<lambda>c. line_value a (price c)) cs)) \<le> of_nat (length cs) * ((1 + u) * a)"
    if "set cs \<subseteq> set codes" for cs
    using that
  proof (induction cs)
    case (Cons c cs)
    have "of_int (line_value a (price c)) \<le> (1 + u) * a"
      using line_value_bound [of "price c" a] prices [of c] a(1) Cons.prems by (simp add: u_def)
    with Cons show ?case by (simp add: distrib_right)
  qed simp
  from this [of codes] have "of_int (sum_list (map (\<lambda>c. line_value a (price c)) codes))
      \<le> (1 + u) * (a * of_nat m)"
    by (simp add: m_def ac_simps)
  also have "\<dots> \<le> (1 + u) * ((1 + u) * of_int net)"
    using a(2) by (rule mult_left_mono) (simp add: u_def)
  also have "\<dots> = of_int net + (2 * u + u * u) * of_int net"
    by (simp add: algebra_simps)
  also have "\<dots> < of_int net + 1"
  proof -
    have "of_int net < (2 ^ 51 :: rat)" using assms(2) by simp
    then have "(2 * u + u * u) * of_int net \<le> (2 * u + u * u) * 2 ^ 51"
      by (intro mult_left_mono) (simp_all add: u_def)
    also have "\<dots> < 1" by (simp add: u_def)
    finally show ?thesis by simp
  qed
  finally have "of_int (sum_list (map (\<lambda>c. line_value a (price c)) codes)) < (of_int (net + 1) :: rat)"
    by simp
  then show ?thesis unfolding of_int_less_iff a_def m_def by simp
qed

lemma buy_items_value:
  "sum_list (map pd_order_value (List.map_filter (buy_item alloc pm nm intents) codes))
     = sum_list (map (\<lambda>c. line_value alloc (price_of pm c)) codes)"
  by (induction codes)
    (auto simp: List.map_filter_def buy_item_def line_value_def Let_def new_item_def)

lemma actual_budget_pos:
  "0 < actual_buy_budget net target \<longleftrightarrow> 0 < net \<and> 0 < target"
  by (auto simp: actual_buy_budget_def)

section \<open>Properties\<close>

text \<open>The quantities \<open>calculate\<close> plans with, by name.\<close>

definition sale_proceeds :: "str list \<Rightarrow> current_holding list \<Rightarrow> int" where
  "sale_proceeds buy_codes hs =
     sum_list (map (\<lambda>x. h_quantity (snd x) * h_current_price (snd x))
       (filter (\<lambda>x. fst x \<notin> set buy_codes) (holding_map hs)))"

definition net_investable_of :: "rat \<Rightarrow> str list \<Rightarrow> current_holding list \<Rightarrow> int \<Rightarrow> int" where
  "net_investable_of ratio buy_codes hs cash =
     (let t = cash + sale_proceeds buy_codes hs in t - int_of_float (fl (fl (of_int t) * ratio)))"

lemma sale_proceeds_sum:
  "sum_list (map (pd_order_value \<circ> case_prod sell_item) (filter (\<lambda>x. fst x \<notin> set buy_codes) (holding_map hs)))
     = sale_proceeds buy_codes hs"
  by (simp add: sale_proceeds_def sell_item_def o_def case_prod_beta)

lemma calculate_lists:
  fixes ratio buy_codes ti hs cash pm nm
  defines "R \<equiv> calculate ratio buy_codes ti hs cash pm nm"
  shows "pr_hold_list R = map (case_prod hold_item) (filter (\<lambda>x. fst x \<in> set buy_codes) (holding_map hs))"
    and "pr_sell_list R = map (case_prod sell_item) (filter (\<lambda>x. fst x \<notin> set buy_codes) (holding_map hs))"
    and "pr_total_sell_value R = sale_proceeds buy_codes hs"
    and "pr_estimated_cash_after R = cash + pr_total_sell_value R - pr_total_buy_value R"
    and "pr_total_buy_value R = sum_list (map pd_order_value (pr_buy_list R))"
  by (simp_all add: R_def calculate_def Let_def classify_holdings_lists buy_loop_lists sale_proceeds_sum)

lemma calculate_buys:
  fixes ratio buy_codes ti hs cash pm nm
  defines "codes \<equiv> filter (\<lambda>code. code \<notin> h_stock_code ` set hs) buy_codes"
    and "net \<equiv> net_investable_of ratio buy_codes hs cash"
  defines "target \<equiv> total_new_buy_target
    (net + sum_list (map pd_current_value (map (case_prod hold_item) (filter (\<lambda>x. fst x \<in> set buy_codes) (holding_map hs)))))
    (length buy_codes) (length codes)"
  shows "pr_buy_list (calculate ratio buy_codes ti hs cash pm nm) =
    (if codes \<noteq> [] \<and> 0 < actual_buy_budget net target
     then List.map_filter (buy_item (alloc_per_stock net target (length codes)) pm
            (case nm of None \<Rightarrow> [] | Some d \<Rightarrow> d) (intent_map ti)) codes
     else [])"
  unfolding codes_def net_def target_def net_investable_of_def holding_map_keys(2) [symmetric]
  by (simp add: calculate_def Let_def classify_holdings_lists buy_loop_lists sale_proceeds_sum)

lemma buy_list_codes:
  "pd_stock_code ` set (pr_buy_list (calculate ratio buy_codes ti hs cash pm nm))
     \<subseteq> set (filter (\<lambda>code. code \<notin> h_stock_code ` set hs) buy_codes)"
  unfolding calculate_buys by (split if_split) (simp only: buy_items_codes list.set image_empty empty_subsetI simp_thms)

text \<open>
  The difference is a partition: each stock held is either sold in full or kept, by whether
  it is in the target; no stock appears twice; only target stocks that are not held are bought.
\<close>

lemma position_diff_partition:
  fixes ratio buy_codes ti hs cash pm nm
  defines "R \<equiv> calculate ratio buy_codes ti hs cash pm nm"
  shows "distinct (map pd_stock_code (pr_sell_list R @ pr_hold_list R))
    \<and> pd_stock_code ` set (pr_sell_list R) = h_stock_code ` set hs - set buy_codes
    \<and> pd_stock_code ` set (pr_hold_list R) = h_stock_code ` set hs \<inter> set buy_codes
    \<and> pd_stock_code ` set (pr_buy_list R) \<subseteq> set buy_codes - h_stock_code ` set hs
    \<and> map pd_order_qty (pr_sell_list R)
        = map (h_quantity \<circ> snd) (filter (\<lambda>x. fst x \<notin> set buy_codes) (holding_map hs))"
proof (intro conjI)
  have c: "pd_stock_code (case_prod hold_item x) = fst x" "pd_stock_code (case_prod sell_item x) = fst x" for x
    by (cases x, simp)+
  have "distinct (map fst (filter P (holding_map hs)))" for P
    by (rule distinct_map_filter) (rule holding_map_keys(1))
  then show "distinct (map pd_stock_code (pr_sell_list R @ pr_hold_list R))"
    by (auto simp: R_def calculate_lists c o_def)
  show "pd_stock_code ` set (pr_sell_list R) = h_stock_code ` set hs - set buy_codes"
    unfolding holding_map_keys(2) [symmetric] R_def calculate_lists by (force simp: c)
  show "pd_stock_code ` set (pr_hold_list R) = h_stock_code ` set hs \<inter> set buy_codes"
    unfolding holding_map_keys(2) [symmetric] R_def calculate_lists by (force simp: c)
  show "pd_stock_code ` set (pr_buy_list R) \<subseteq> set buy_codes - h_stock_code ` set hs"
    using buy_list_codes [of ratio buy_codes ti hs cash pm nm] unfolding R_def by auto
  show "map pd_order_qty (pr_sell_list R)
      = map (h_quantity \<circ> snd) (filter (\<lambda>x. fst x \<notin> set buy_codes) (holding_map hs))"
    by (simp add: R_def calculate_lists o_def case_prod_beta)
qed

text \<open>
  C7. The purchases stay within the budget although the allocation is computed in floats: they
  cost at most the cash plus the sales' proceeds less the buffer (nothing if that is negative),
  and the estimated cash afterwards is exactly cash plus sales minus purchases; for budgets
  below \<open>2 ^ 51\<close> won, prices and numbers of stocks below \<open>2 ^ 53\<close>.
\<close>

theorem position_diff_within_budget:
  assumes "net_investable_of ratio buy_codes hs cash < 2 ^ 51"
    and "length buy_codes < 2 ^ 53" and "\<And>c. price_of pm c < 2 ^ 53"
  shows "pr_total_buy_value (calculate ratio buy_codes ti hs cash pm nm)
      \<le> max 0 (net_investable_of ratio buy_codes hs cash)
    \<and> pr_estimated_cash_after (calculate ratio buy_codes ti hs cash pm nm)
      = cash + sale_proceeds buy_codes hs - pr_total_buy_value (calculate ratio buy_codes ti hs cash pm nm)"
proof
  let ?R = "calculate ratio buy_codes ti hs cash pm nm"
  let ?net = "net_investable_of ratio buy_codes hs cash"
  let ?codes = "filter (\<lambda>code. code \<notin> h_stock_code ` set hs) buy_codes"
  have len: "length ?codes < 2 ^ 53"
    using assms(2) length_filter_le [of _ buy_codes] by (rule le_less_trans [rotated])
  show "pr_total_buy_value ?R \<le> max 0 ?net"
    unfolding calculate_lists(5) calculate_buys
    using lines_within_budget [OF _ assms(1) _ _ len assms(3)]
    by (auto simp: buy_items_value actual_budget_pos intro!: max.coboundedI2)
  show "pr_estimated_cash_after ?R = cash + sale_proceeds buy_codes hs - pr_total_buy_value ?R"
    by (simp add: calculate_lists)
qed

definition example_holdings :: "current_holding list" where
  "example_holdings =
     [\<lparr>h_stock_code = ''A'', h_stock_name = ''a'', h_quantity = 10, h_current_price = 50, h_eval_amount = 500\<rparr>,
      \<lparr>h_stock_code = ''B'', h_stock_name = ''b'', h_quantity = 4, h_current_price = 25, h_eval_amount = 100\<rparr>]"

theorem position_diff_within_budget_witness:
  "pr_total_buy_value (calculate (1/50) [''B'', ''C''] None example_holdings 500 [(''C'', 70)] None) \<le> 980"
proof -
  have n: "net_investable_of (1/50) [''B'', ''C''] example_holdings 500 = 980" by code_simp
  have "price_of [(''C'', 70)] c < 2 ^ 53" for c by (simp add: price_of_def dict_get_def)
  then show ?thesis
    using position_diff_within_budget [of "1/50" "[''B'', ''C'']" example_holdings 500 "[(''C'', 70)]" None None]
    by (simp add: n)
qed

end
