(* ===== verification/Kis_Account.thy ===== *)
theory Kis_Account
  imports Kis_Order "HOL-Library.AList"
begin

text \<open>
  The account endpoints of the KIS broker: \<^verbatim>\<open>app/broker/kis/kis_account.py\<close> with the balance schemas
  of \<^verbatim>\<open>app/schemas/kis/kis.py\<close>.  The balance comes in pages: each answer names the keys to ask
  the next page with.  Nothing bounds the number of pages, so the loop is a partial function:
  \<open>None\<close> is a loop that never ends.  \<open>http rq k\<close> is what the \<open>k\<close>-th request of the operation meets.
\<close>

section \<open>Responses\<close>

definition balance_item_fields :: "str list" where
  "balance_item_fields =
     [''pdno'', ''prdt_name'', ''trad_dvsn_name'', ''bfdy_buy_qty'', ''bfdy_sll_qty'',
      ''thdt_buyqty'', ''thdt_sll_qty'', ''hldg_qty'', ''ord_psbl_qty'', ''pchs_avg_pric'',
      ''pchs_amt'', ''prpr'', ''evlu_amt'', ''evlu_pfls_amt'', ''evlu_pfls_rt'', ''evlu_erng_rt'',
      ''loan_dt'', ''loan_amt'', ''stln_slng_chgs'', ''expd_dt'', ''fltt_rt'', ''bfdy_cprs_icdc'',
      ''item_mgna_rt_name'', ''grta_rt_name'', ''sbst_pric'', ''stck_loan_unpr'']"

definition balance_summary_fields :: "str list" where
  "balance_summary_fields =
     [''dnca_tot_amt'', ''nxdy_excc_amt'', ''prvs_rcdl_excc_amt'', ''cma_evlu_amt'', ''bfdy_buy_amt'',
      ''thdt_buy_amt'', ''nxdy_auto_rdpt_amt'', ''bfdy_sll_amt'', ''thdt_sll_amt'', ''d2_auto_rdpt_amt'',
      ''bfdy_tlex_amt'', ''thdt_tlex_amt'', ''tot_loan_amt'', ''scts_evlu_amt'', ''tot_evlu_amt'',
      ''nass_amt'', ''fncg_gld_auto_rdpt_yn'', ''pchs_amt_smtl_amt'', ''evlu_amt_smtl_amt'',
      ''evlu_pfls_smtl_amt'', ''tot_stln_slng_chgs'', ''bfdy_tot_asst_evlu_amt'', ''asst_icdc_amt'',
      ''asst_icdc_erng_rt'']"

definition available_buy_fields :: "str list" where
  "available_buy_fields =
     [''ord_psbl_cash'', ''ord_psbl_sbst'', ''ruse_psbl_amt'', ''fund_rpch_chgs'', ''psbl_qty_calc_unpr'',
      ''nrcvb_buy_amt'', ''nrcvb_buy_qty'', ''max_buy_amt'', ''max_buy_qty'', ''cma_evlu_amt'',
      ''ovrs_re_use_amt_wcrc'', ''ord_psbl_frcr_amt_wcrc'']"

type_synonym balance_item = "(str \<times> str) list"
type_synonym balance_summary = "(str \<times> str) list"

record balance_response =
  b_rt_cd :: str
  b_msg_cd :: str
  b_msg1 :: str
  b_ctx_area_fk100 :: str
  b_ctx_area_nk100 :: str
  b_output1 :: "balance_item list"
  b_output2 :: "balance_summary list"

definition parse_list :: "str list \<Rightarrow> json option \<Rightarrow> (str \<times> str) list list option" where
  "parse_list fs j = (case j of Some (JList l) \<Rightarrow> all_some (map (model_fields fs) l) | _ \<Rightarrow> None)"

definition BalanceResponse :: "(str \<times> json) list \<Rightarrow> balance_response result" where
  "BalanceResponse d =
     (case (str_fields [''rt_cd'', ''msg_cd'', ''msg1'', ''ctx_area_fk100'', ''ctx_area_nk100''] d,
            parse_list balance_item_fields (dict_get d ''output1''),
            parse_list balance_summary_fields (dict_get d ''output2'')) of
        (Some [(_, a), (_, b), (_, c), (_, fk), (_, nk)], Some o1, Some o2) \<Rightarrow>
          Inr \<lparr>b_rt_cd = a, b_msg_cd = b, b_msg1 = c, b_ctx_area_fk100 = fk, b_ctx_area_nk100 = nk,
               b_output1 = o1, b_output2 = o2\<rparr>
      | _ \<Rightarrow> Inl (ValidationError ''BalanceResponse''))"

definition BalanceAvailableBuyResponse :: "(str \<times> json) list \<Rightarrow> (str \<times> str) list result" where
  "BalanceAvailableBuyResponse d =
     (case (str_fields [''rt_cd'', ''msg_cd'', ''msg1''] d,
            Option.bind (dict_get d ''output'') (model_fields available_buy_fields)) of
        (Some _, Some out) \<Rightarrow> Inr out
      | _ \<Rightarrow> Inl (ValidationError ''BalanceAvailableBuyResponse''))"

section \<open>Errors\<close>

definition new_KISAccountError ::
  "str \<Rightarrow> int \<Rightarrow> str option \<Rightarrow> str option \<Rightarrow> str option \<Rightarrow> str option \<Rightarrow> json \<Rightarrow> exn" where
  "new_KISAccountError message status_code error_code rt_cd msg_cd msg1 payload =
     KISAccountError \<lparr>e_message = message, e_status_code = Some status_code, e_error_code = error_code,
       e_rt_cd = rt_cd, e_msg_cd = msg_cd, e_msg1 = msg1, e_payload = Some payload\<rparr>"

definition account_network_error :: "str \<Rightarrow> str \<Rightarrow> str \<Rightarrow> exn" where
  "account_network_error label stg e =
     (let msg = label @ '' request failed: '' @ e
      in new_KISAccountError msg 500 (Some ''NETWORK_ERROR'') (Some ''ERROR'') (Some ''NETWORK_ERROR'') (Some msg)
           (JObj [(''stage'', JStr stg), (''error'', JStr e)]))"

definition account_http_error :: "str \<Rightarrow> str \<Rightarrow> int \<Rightarrow> json option \<Rightarrow> str \<Rightarrow> exn" where
  "account_http_error label stg status body txt =
     (let (rt, mc, m1, pl) = http_error_info label status body txt
      in new_KISAccountError (or_text m1 ''None'') status mc rt mc m1
           (JObj [(''stage'', JStr stg), (''status_code'', JInt status), (''response'', pl)]))"

definition account_rejected :: "str \<Rightarrow> (str \<times> json) list \<Rightarrow> exn" where
  "account_rejected dflt d =
     new_KISAccountError (or_text (get_default d ''msg1'' dflt) ''None'') 400
       (json_text (dict_get d ''msg_cd'')) (json_text (dict_get d ''rt_cd'')) (json_text (dict_get d ''msg_cd''))
       (json_text (dict_get d ''msg1'')) (JObj d)"

section \<open>The balance\<close>

text \<open>The retry loop of one page; a successful answer whose body is no JSON is not retried.\<close>

fun balance_attempts :: "(nat \<Rightarrow> http_outcome) \<Rightarrow> nat list \<Rightarrow> nat \<times> json result" where
  "balance_attempts send [] = (0, Inl (LibError ''UnboundLocalError'' ''data''))"
| "balance_attempts send (attempt # rest) =
     (let again = (\<lambda>e. if attempt = HTTP_RETRY_COUNT - 1 then (1, Inl e)
                       else (let (n, r) = balance_attempts send rest in (Suc n, r)))
      in case send attempt of
           NetworkError e \<Rightarrow> again (account_network_error ''balance inquiry'' ''get_balance'' e)
         | Response status body txt _ \<Rightarrow>
             if is_success status
             then (1, case body of None \<Rightarrow> Inl (LibError ''JSONDecodeError'' ''Expecting value'') | Some j \<Rightarrow> Inr j)
             else again (account_http_error ''balance inquiry'' ''get_balance'' status body txt))"

text \<open>\<open>all_output1.extend(data.get("output1", []))\<close>: what the value iterates over.\<close>

definition output1_items :: "(str \<times> json) list \<Rightarrow> json list result" where
  "output1_items d =
     (case dict_get d ''output1'' of
        None \<Rightarrow> Inr []
      | Some (JList l) \<Rightarrow> Inr l
      | Some (JStr s) \<Rightarrow> Inr (map (\<lambda>c. JStr [c]) s)
      | Some (JObj e) \<Rightarrow> Inr (map (JStr \<circ> fst) e)
      | Some _ \<Rightarrow> Inl (TypeError ''object is not iterable''))"

text \<open>\<open>data.get(key, "").strip()\<close>.\<close>

definition stripped_key :: "(str \<times> json) list \<Rightarrow> str \<Rightarrow> str result" where
  "stripped_key d k =
     (case dict_get d k of
        None \<Rightarrow> Inr ''''
      | Some (JStr s) \<Rightarrow> Inr (strip s)
      | Some _ \<Rightarrow> Inl (AttributeError ''object has no attribute strip''))"

text \<open>One page: its rows, the keys of the next page and the data.\<close>

definition balance_page :: "json \<Rightarrow> (json list \<times> str \<times> str \<times> (str \<times> json) list) result" where
  "balance_page body =
     bind_result (json_dict (Some body)) (\<lambda>d.
       if dict_get d ''rt_cd'' \<noteq> Some (JStr ''0'') then Inl (account_rejected ''balance inquiry failed'' d)
       else bind_result (output1_items d) (\<lambda>items.
              bind_result (stripped_key d ''ctx_area_fk100'') (\<lambda>fk.
                bind_result (stripped_key d ''ctx_area_nk100'') (\<lambda>nk. Inr (items, fk, nk, d)))))"

definition balance_request :: "bool \<Rightarrow> str \<Rightarrow> str \<Rightarrow> str \<Rightarrow> str \<Rightarrow> http_request" where
  "balance_request paper account_no account_product_code ctx_fk100 ctx_nk100 =
     \<lparr>rq_method = ''GET'', rq_endpoint = ''/uapi/domestic-stock/v1/trading/inquire-balance'',
      rq_tr_id = resolve DOMESTIC_STOCK_BALANCE paper,
      rq_payload =
        [(''CANO'', account_no), (''ACNT_PRDT_CD'', account_product_code), (''AFHR_FLPR_YN'', ''N''),
         (''OFL_YN'', ''''), (''INQR_DVSN'', ''01''), (''UNPR_DVSN'', ''01''), (''FUND_STTL_ICLD_YN'', ''N''),
         (''FNCG_AMT_AUTO_RDPT_YN'', ''N''), (''PRCS_DVSN'', ''00''),
         (''CTX_AREA_FK100'', ctx_fk100), (''CTX_AREA_NK100'', ctx_nk100)]\<rparr>"

definition no_more_pages :: "str \<Rightarrow> str \<Rightarrow> str \<Rightarrow> str \<Rightarrow> bool" where
  "no_more_pages fk nk next_fk next_nk =
     (next_fk = '''' \<and> next_nk = '''' \<or> next_fk = fk \<and> next_nk = nk)"

text \<open>The loop over the pages, from the given keys, rows and requests on.\<close>

partial_function (option) balance_loop ::
  "http \<Rightarrow> (str \<Rightarrow> str \<Rightarrow> http_request) \<Rightarrow> str \<Rightarrow> str \<Rightarrow> json list \<Rightarrow> http_request list \<Rightarrow> balance_response sent option"
where
  "balance_loop http mk fk nk acc rqs =
     (case balance_attempts (\<lambda>a. http (mk fk nk) (length rqs + a)) [0..<HTTP_RETRY_COUNT] of
        (n, res) \<Rightarrow>
          (case bind_result res balance_page of
             Inl e \<Rightarrow> Some (rqs @ replicate n (mk fk nk), Inl e)
           | Inr (items, next_fk, next_nk, d) \<Rightarrow>
               if no_more_pages fk nk next_fk next_nk
               then Some (rqs @ replicate n (mk fk nk),
                          BalanceResponse (AList.update ''output1'' (JList (acc @ items)) d))
               else balance_loop http mk next_fk next_nk (acc @ items) (rqs @ replicate n (mk fk nk))))"

definition get_balance :: "http \<Rightarrow> bool \<Rightarrow> str \<Rightarrow> str \<Rightarrow> balance_response sent option" where
  "get_balance http paper account_no account_product_code =
     balance_loop http (balance_request paper account_no account_product_code) '''' '''' [] []"

section \<open>The available purchase amount\<close>

text \<open>One attempt; an HTTP error is raised as it is.\<close>

definition available_buy_request :: "bool \<Rightarrow> str \<Rightarrow> str \<Rightarrow> http_request" where
  "available_buy_request paper account_no account_product_code =
     \<lparr>rq_method = ''GET'', rq_endpoint = ''/uapi/domestic-stock/v1/trading/inquire-psbl-order'',
      rq_tr_id = resolve AVAILABLE_BUY paper,
      rq_payload =
        [(''CANO'', account_no), (''ACNT_PRDT_CD'', account_product_code), (''PDNO'', ''''),
         (''ORD_UNPR'', ''''), (''ORD_DVSN'', ''''), (''CMA_EVLU_AMT_ICLD_YN'', ''N''), (''OVRS_ICLD_YN'', ''N'')]\<rparr>"

definition get_available_buy :: "http \<Rightarrow> bool \<Rightarrow> str \<Rightarrow> str \<Rightarrow> (str \<times> str) list sent" where
  "get_available_buy http paper account_no account_product_code =
     (let rq = available_buy_request paper account_no account_product_code
      in ([rq],
          case http rq 0 of
            NetworkError e \<Rightarrow> Inl (account_network_error ''available buy inquiry'' ''get_available_buy'' e)
          | Response status body txt raise_text \<Rightarrow>
              if \<not> is_success status then Inl (LibError ''HTTPStatusError'' raise_text)
              else bind_result (json_dict body) (\<lambda>d.
                     if dict_get d ''rt_cd'' \<noteq> Some (JStr ''0'')
                     then Inl (account_rejected ''available buy inquiry failed'' d)
                     else BalanceAvailableBuyResponse d)))"

section \<open>Lemmas\<close>


definition answers :: "http_outcome \<Rightarrow> (str \<times> json) list \<Rightarrow> bool" where
  "answers r d = (case r of Response status (Some (JObj e)) _ _ \<Rightarrow> is_success status \<and> e = d | _ \<Rightarrow> False)"

definition page_rows :: "(str \<times> json) list \<Rightarrow> json list" where
  "page_rows d = (case output1_items d of Inr l \<Rightarrow> l | Inl _ \<Rightarrow> [])"

text \<open>
  A broker that serves the given pages: the \<open>k\<close>-th request is answered by the next of them, an
  accepted page, whose keys lead on exactly when another page follows.
\<close>

fun serves :: "http \<Rightarrow> (str \<Rightarrow> str \<Rightarrow> http_request) \<Rightarrow> nat \<Rightarrow> str \<Rightarrow> str \<Rightarrow> (str \<times> json) list list \<Rightarrow> bool" where
  "serves http mk k fk nk [] = False"
| "serves http mk k fk nk (d # ds) =
     (answers (http (mk fk nk) k) d
      \<and> (case balance_page (JObj d) of
           Inl _ \<Rightarrow> False
         | Inr (_, next_fk, next_nk, _) \<Rightarrow>
             if ds = [] then no_more_pages fk nk next_fk next_nk
             else \<not> no_more_pages fk nk next_fk next_nk \<and> serves http mk (Suc k) next_fk next_nk ds))"

lemma balance_attempts_answered:
  "answers (send 0) d \<Longrightarrow> balance_attempts send [0..<HTTP_RETRY_COUNT] = (1, Inr (JObj d))"
  by (auto simp: attempts answers_def split: http_outcome.splits option.splits json.splits)

lemma balance_page_InrD:
  "balance_page (JObj d) = Inr (items, fk, nk, e) \<Longrightarrow> items = page_rows d \<and> e = d"
  by (auto simp: balance_page_def json_dict_def page_rows_def bind_result_Inr_iff split: if_splits)

lemma balance_loop_serves:
  "serves http mk (length rqs) fk nk ds \<Longrightarrow>
   \<exists>more. balance_loop http mk fk nk acc rqs =
       Some (rqs @ more, BalanceResponse (AList.update ''output1'' (JList (acc @ concat (map page_rows ds))) (last ds)))
     \<and> length more = length ds"
proof (induction ds arbitrary: fk nk acc rqs)
  case (Cons d ds)
  from Cons.prems obtain items next_fk next_nk e
    where p: "balance_page (JObj d) = Inr (items, next_fk, next_nk, e)" and a: "answers (http (mk fk nk) (length rqs)) d"
    by (auto split: sum.splits)
  have at: "balance_attempts (\<lambda>a. http (mk fk nk) (length rqs + a)) [0..<HTTP_RETRY_COUNT] = (1, Inr (JObj d))"
    using a by (simp add: balance_attempts_answered)
  have ie: "items = page_rows d" "e = d" using balance_page_InrD [OF p] by simp_all
  show ?case
  proof (cases "ds = []")
    case True
    with Cons.prems p have "no_more_pages fk nk next_fk next_nk" by simp
    with True at p ie show ?thesis by (simp add: balance_loop.simps)
  next
    case False
    with Cons.prems p have n: "\<not> no_more_pages fk nk next_fk next_nk"
      and s: "serves http mk (length (rqs @ [mk fk nk])) next_fk next_nk ds" by simp_all
    from Cons.IH [OF s, of "acc @ items"] False at p n ie show ?thesis
      by (auto simp: balance_loop.simps [of http mk fk nk acc rqs])
  qed
qed simp

text \<open>Whatever the broker answers, only inquiries are sent.\<close>

lemma balance_loop_sends:
  assumes "balance_loop http mk fk nk acc rqs = Some y"
  shows "\<forall>rq \<in> set (fst y). rq \<in> set rqs \<or> (\<exists>a b. rq = mk a b)"
proof (rule balance_loop.raw_induct [where P = "\<lambda>http mk fk nk acc rqs y.
    \<forall>rq \<in> set (fst y). rq \<in> set rqs \<or> (\<exists>a b. rq = mk a b)", OF _ assms])
  fix loop http mk fk nk acc rqs y
  assume IH: "\<And>http mk fk nk acc rqs y. loop http mk fk nk acc rqs = Some y \<Longrightarrow>
      \<forall>rq \<in> set (fst y). rq \<in> set rqs \<or> (\<exists>a b. rq = mk a b)"
    and now: "(case balance_attempts (\<lambda>a. http (mk fk nk) (length rqs + a)) [0..<HTTP_RETRY_COUNT] of
      (n, res) \<Rightarrow> (case bind_result res balance_page of
           Inl e \<Rightarrow> Some (rqs @ replicate n (mk fk nk), Inl e)
         | Inr (items, next_fk, next_nk, d) \<Rightarrow>
             if no_more_pages fk nk next_fk next_nk
             then Some (rqs @ replicate n (mk fk nk), BalanceResponse (AList.update ''output1'' (JList (acc @ items)) d))
             else loop http mk next_fk next_nk (acc @ items) (rqs @ replicate n (mk fk nk)))) = Some y"
  obtain n res where r: "balance_attempts (\<lambda>a. http (mk fk nk) (length rqs + a)) [0..<HTTP_RETRY_COUNT] = (n, res)"
    by (cases "balance_attempts (\<lambda>a. http (mk fk nk) (length rqs + a)) [0..<HTTP_RETRY_COUNT]")
  have "fst y = rqs @ replicate n (mk fk nk) \<or>
      (\<exists>next_fk next_nk acc'. loop http mk next_fk next_nk acc' (rqs @ replicate n (mk fk nk)) = Some y)"
    using now r by (auto split: sum.splits prod.splits if_splits)
  then show "\<forall>rq \<in> set (fst y). rq \<in> set rqs \<or> (\<exists>a b. rq = mk a b)"
  proof
    assume "\<exists>next_fk next_nk acc'. loop http mk next_fk next_nk acc' (rqs @ replicate n (mk fk nk)) = Some y"
    then obtain next_fk next_nk acc' where "loop http mk next_fk next_nk acc' (rqs @ replicate n (mk fk nk)) = Some y" by blast
    from IH [OF this] show ?thesis by (auto split: if_splits)
  qed auto
qed

lemma balance_sends_inquiries:
  "get_balance http paper acct pcode = Some (rqs, res) \<Longrightarrow> \<forall>rq \<in> set rqs. rq_method rq = ''GET''"
  using balance_loop_sends [of http "balance_request paper acct pcode" "[]" "[]" "[]" "[]" "(rqs, res)"]
  by (auto simp: get_balance_def balance_request_def)

lemma available_buy_sends_inquiries:
  "\<forall>rq \<in> set (fst (get_available_buy http paper acct pcode)). rq_method rq = ''GET''"
  by (simp add: get_available_buy_def available_buy_request_def Let_def)

section \<open>Properties\<close>

text \<open>
  C40. The balance is complete: when the broker serves any number of pages and its last page ends the
  chain of keys, one request per page is sent and the answer carries the rows of all pages, in
  order, with the other fields of the last page.
\<close>

theorem balance_collects_all_pages:
  assumes "serves http (balance_request paper acct pcode) 0 '''' '''' ds"
  shows "case get_balance http paper acct pcode of
      None \<Rightarrow> False
    | Some (rqs, res) \<Rightarrow> length rqs = length ds
        \<and> res = BalanceResponse (AList.update ''output1'' (JList (concat (map page_rows ds))) (last ds))"
  using balance_loop_serves [of http "balance_request paper acct pcode" "[]" "''''" "''''" ds "[]"] assms
  by (auto simp: get_balance_def)

definition example_page :: "str \<Rightarrow> json list \<Rightarrow> (str \<times> json) list" where
  "example_page nk rows =
     [(''rt_cd'', JStr ''0''), (''msg_cd'', JStr ''OK''), (''msg1'', JStr ''ok''),
      (''ctx_area_fk100'', JStr ''''), (''ctx_area_nk100'', JStr nk), (''output1'', JList rows), (''output2'', JList [])]"

definition example_row :: "str \<Rightarrow> json" where
  "example_row code = JObj ((''pdno'', JStr code) # map (\<lambda>f. (f, JStr ''1'')) (tl balance_item_fields))"

definition two_pages :: http where
  "two_pages rq k = Response 200 (Some (JObj (if k = 0 then example_page ''K'' [example_row ''A'']
                                              else example_page '''' [example_row ''B'']))) '''' ''''"

theorem balance_collects_all_pages_witness:
  "case get_balance two_pages True ''1'' ''01'' of
     None \<Rightarrow> False
   | Some (rqs, res) \<Rightarrow> length rqs = 2
       \<and> res = BalanceResponse (example_page '''' [example_row ''A'', example_row ''B''])"
proof -
  let ?ds = "[example_page ''K'' [example_row ''A''], example_page '''' [example_row ''B'']]"
  have s: "serves two_pages (balance_request True ''1'' ''01'') 0 '''' '''' ?ds" by code_simp
  have e: "AList.update ''output1'' (JList (concat (map page_rows ?ds))) (last ?ds)
      = example_page '''' [example_row ''A'', example_row ''B'']" by code_simp
  have "length ?ds = 2" by simp
  with balance_collects_all_pages [OF s] show ?thesis unfolding e by metis
qed

text \<open>
  The guard against endless paging compares with the previous keys only: a broker whose keys
  alternate between two values keeps the loop going for ever.
\<close>

definition alternating :: http where
  "alternating rq k = Response 200 (Some (JObj (example_page (if even k then ''A'' else ''B'') []))) '''' ''''"

lemma alternating_page:
  "balance_page (JObj (example_page k [])) = Inr ([], '''', strip k, example_page k [])"
  by (simp add: balance_page_def json_dict_def example_page_def dict_get_def output1_items_def stripped_key_def)
    (simp add: strip_def)

theorem balance_cycle_never_ends: "get_balance alternating paper acct pcode = None"
proof -
  let ?mk = "balance_request paper acct pcode"
  have step: "balance_attempts (\<lambda>a. alternating rq (n + a)) [0..<HTTP_RETRY_COUNT]
      = (1, Inr (JObj (example_page (if even n then ''A'' else ''B'') [])))" for rq n
    by (rule balance_attempts_answered) (simp add: answers_def alternating_def is_success_def)
  have "http = alternating \<longrightarrow> nk = (if even (length rqs) then ''A'' else ''B'')"
    if "balance_loop http mk fk nk acc rqs = Some y" for http mk fk nk acc rqs y
  proof (rule balance_loop.raw_induct [where P = "\<lambda>http mk fk nk acc rqs y.
      http = alternating \<longrightarrow> nk = (if even (length rqs) then ''A'' else ''B'')", OF _ that])
    fix loop http mk fk nk acc rqs y
    assume IH: "\<And>http mk fk nk acc rqs y. loop http mk fk nk acc rqs = Some y \<Longrightarrow>
        http = alternating \<longrightarrow> nk = (if even (length rqs) then ''A'' else ''B'')"
      and now: "(case balance_attempts (\<lambda>a. http (mk fk nk) (length rqs + a)) [0..<HTTP_RETRY_COUNT] of
        (n, res) \<Rightarrow> (case bind_result res balance_page of
             Inl e \<Rightarrow> Some (rqs @ replicate n (mk fk nk), Inl e)
           | Inr (items, next_fk, next_nk, d) \<Rightarrow>
               if no_more_pages fk nk next_fk next_nk
               then Some (rqs @ replicate n (mk fk nk), BalanceResponse (AList.update ''output1'' (JList (acc @ items)) d))
               else loop http mk next_fk next_nk (acc @ items) (rqs @ replicate n (mk fk nk)))) = Some y"
    show "http = alternating \<longrightarrow> nk = (if even (length rqs) then ''A'' else ''B'')"
    proof
      assume h: "http = alternating"
      let ?k = "if even (length rqs) then ''A'' else ''B''"
      have k: "strip ?k = ?k" by (simp add: strip_def is_space_def)
      show "nk = ?k"
      proof (rule ccontr)
        assume "nk \<noteq> ?k"
        then have "loop http mk '''' ?k acc (rqs @ [mk fk nk]) = Some y"
          using now unfolding h step by (simp add: alternating_page k no_more_pages_def split: if_splits)
        from IH [OF this] h show False by (simp split: if_splits)
      qed
    qed
  qed
  from this [of alternating "?mk" "''''" "''''" "[]" "[]"] show ?thesis
    by (cases "get_balance alternating paper acct pcode") (auto simp: get_balance_def)
qed

end
