(* ===== verification/Account_Service.thy ===== *)
theory Account_Service
  imports Kis_Account Worker_World Py_Float
begin

text \<open>
  The account service \<^verbatim>\<open>app/services/kis/account_service.py\<close> with its schemas
  \<^verbatim>\<open>app/schemas/kis/account.py\<close>.  Every operation first gets a token over Redis.  An operation that
  reads the balance is \<open>None\<close> when the broker never stops paging.  The inquiries sent are logged in
  the world's requests.
\<close>

section \<open>Schemas\<close>

record holding_read =
  hr_stock_code :: str
  hr_stock_name :: str
  hr_holding_qty :: str
  hr_avg_buy_price :: str
  hr_current_price :: str
  hr_purchase_amount :: str
  hr_evaluation_amount :: str
  hr_profit_loss_amount :: str
  hr_profit_loss_rate :: str

record account_summary =
  as_settlement_cash_amount :: str
  as_stock_evaluation_amount :: str
  as_total_evaluation_amount :: str
  as_net_asset_amount :: str
  as_total_purchase_amount :: str
  as_total_profit_loss_amount :: str
  as_holding_stock_count :: str

section \<open>Conversions\<close>

text \<open>A field of a validated item; the field is there.\<close>

definition item_field :: "(str \<times> str) list \<Rightarrow> str \<Rightarrow> str" where
  "item_field item f = the (dict_get item f)"

text \<open>
  \<open>int(float(value))\<close>: the text is parsed as a decimal (floats have the same syntax, without signaling
  NaNs), rounded to a float and truncated; from \<open>2 ^ 1024 - 2 ^ 970\<close> on the float is infinite.
\<close>

definition rat_of_decimal :: "int \<Rightarrow> int \<Rightarrow> rat" where
  "rat_of_decimal c x = (if 0 \<le> x then of_int c * 10 ^ nat x else of_int c / 10 ^ nat (- x))"

definition float_infinite :: "rat \<Rightarrow> bool" where
  "float_infinite x = (2 ^ 1024 - 2 ^ 970 \<le> \<bar>x\<bar>)"

definition to_int :: "str \<Rightarrow> int result" where
  "to_int v =
     (if v = '''' then Inr 0
      else case parse_decimal v of
        None \<Rightarrow> Inl (ValueError (''could not convert string to float: '' @ v))
      | Some DNaN \<Rightarrow> Inl (ValueError ''cannot convert float NaN to integer'')
      | Some (DInf _) \<Rightarrow> Inl (LibError ''OverflowError'' ''cannot convert float infinity to integer'')
      | Some (Dec c x) \<Rightarrow>
          if float_infinite (rat_of_decimal c x)
          then Inl (LibError ''OverflowError'' ''cannot convert float infinity to integer'')
          else Inr (int_of_float (fl (rat_of_decimal c x))))"

definition build_holding_list :: "balance_item list \<Rightarrow> holding_read list" where
  "build_holding_list items =
     map (\<lambda>i. \<lparr>hr_stock_code = item_field i ''pdno'', hr_stock_name = item_field i ''prdt_name'',
              hr_holding_qty = item_field i ''hldg_qty'', hr_avg_buy_price = item_field i ''pchs_avg_pric'',
              hr_current_price = item_field i ''prpr'', hr_purchase_amount = item_field i ''pchs_amt'',
              hr_evaluation_amount = item_field i ''evlu_amt'',
              hr_profit_loss_amount = item_field i ''evlu_pfls_amt'',
              hr_profit_loss_rate = item_field i ''evlu_pfls_rt''\<rparr>) items"

definition build_account_summary :: "balance_summary \<Rightarrow> nat \<Rightarrow> account_summary" where
  "build_account_summary s holding_stock_count =
     \<lparr>as_settlement_cash_amount = item_field s ''prvs_rcdl_excc_amt'',
      as_stock_evaluation_amount = item_field s ''scts_evlu_amt'',
      as_total_evaluation_amount = item_field s ''tot_evlu_amt'',
      as_net_asset_amount = item_field s ''nass_amt'',
      as_total_purchase_amount = item_field s ''pchs_amt_smtl_amt'',
      as_total_profit_loss_amount = item_field s ''evlu_pfls_smtl_amt'',
      as_holding_stock_count = show_nat holding_stock_count\<rparr>"

section \<open>Operations\<close>

definition get_account_balance :: "worker_env \<Rightarrow> world \<Rightarrow> (balance_response result \<times> world) option" where
  "get_account_balance env w =
     (case obtain_token env w of
        (Inl e, w') \<Rightarrow> Some (Inl e, w')
      | (Inr _, w') \<Rightarrow>
          map_option (\<lambda>(rqs, res). (res, log_requests rqs w'))
            (get_balance (e_http env) (s_paper (e_settings env)) (s_account_no (e_settings env))
               (s_account_product_code (e_settings env))))"

definition on_balance ::
  "(balance_response \<Rightarrow> 'a result) \<Rightarrow> worker_env \<Rightarrow> world \<Rightarrow> ('a result \<times> world) option" where
  "on_balance f env w = map_option (\<lambda>(res, w'). (bind_result res f, w')) (get_account_balance env w)"

definition get_holding_list :: "worker_env \<Rightarrow> world \<Rightarrow> (holding_read list result \<times> world) option" where
  "get_holding_list = on_balance (\<lambda>b. Inr (build_holding_list (b_output1 b)))"

definition summary_of :: "balance_response \<Rightarrow> account_summary result" where
  "summary_of b =
     (case b_output2 b of
        [] \<Rightarrow> Inl (ValueError ''the balance response has no summary (output2)'')
      | s # _ \<Rightarrow> Inr (build_account_summary s (length (b_output1 b))))"

definition get_account_summary :: "worker_env \<Rightarrow> world \<Rightarrow> (account_summary result \<times> world) option" where
  "get_account_summary = on_balance summary_of"

definition get_dashboard ::
  "worker_env \<Rightarrow> world \<Rightarrow> ((account_summary \<times> holding_read list) result \<times> world) option" where
  "get_dashboard = on_balance (\<lambda>b.
     bind_result (summary_of b) (\<lambda>s. Inr (s, build_holding_list (b_output1 b))))"

definition available_amount :: "(str \<times> str) list \<Rightarrow> int result" where
  "available_amount out =
     bind_result (to_int (item_field out ''ord_psbl_cash'')) (\<lambda>a.
       bind_result (to_int (item_field out ''nrcvb_buy_amt'')) (\<lambda>b. Inr (min a b)))"

definition available_buy :: "worker_env \<Rightarrow> int action" where
  "available_buy env w =
     (case obtain_token env w of
        (Inl e, w') \<Rightarrow> (Inl e, w')
      | (Inr _, w') \<Rightarrow>
          (let (rqs, res) = get_available_buy (e_http env) (s_paper (e_settings env)) (s_account_no (e_settings env))
              (s_account_product_code (e_settings env))
           in (bind_result res available_amount, log_requests rqs w')))"

section \<open>Lemmas\<close>

text \<open>Whole amounts below \<open>2 ^ 53\<close> come through exactly.\<close>

lemma to_int_show_nat:
  assumes "n < 2 ^ 53"
  shows "to_int (show_nat n) = Inr (int n)"
proof -
  have i: "\<bar>int n\<bar> < 2 ^ 53" using assms by simp
  then have "\<bar>of_int (int n) :: rat\<bar> < 2 ^ 53" unfolding of_int_abs [symmetric] by simp
  moreover have "(2 ^ 53 :: rat) < 2 ^ 1024 - 2 ^ 970" by simp
  ultimately have "\<not> float_infinite (of_int (int n))" unfolding float_infinite_def by linarith
  then show ?thesis
    using fl_of_int [OF i] by (simp add: to_int_def parse_decimal_show_nat rat_of_decimal_def int_of_float_def)
qed

text \<open>An operation of the service leaves orders, queue and publications alone and sends inquiries only.\<close>

definition inquires_only :: "world \<Rightarrow> world \<Rightarrow> bool" where
  "inquires_only w w' \<longleftrightarrow> w_db w' = w_db w \<and> w_queue w' = w_queue w \<and> w_published w' = w_published w
     \<and> w_alerts w' = w_alerts w
     \<and> (\<exists>rqs. w_posts w' = w_posts w @ rqs \<and> (\<forall>rq \<in> set rqs. rq_method rq = ''GET''))"

lemma inquires_only_refl [simp]: "inquires_only w w"
  by (simp add: inquires_only_def)

lemma inquires_only_trans:
  assumes "inquires_only u v" and "inquires_only v w"
  shows "inquires_only u w"
proof -
  obtain r1 r2 where "w_posts v = w_posts u @ r1" "\<forall>rq \<in> set r1. rq_method rq = ''GET''"
    "w_posts w = w_posts v @ r2" "\<forall>rq \<in> set r2. rq_method rq = ''GET''"
    using assms unfolding inquires_only_def by blast
  then have "\<exists>rqs. w_posts w = w_posts u @ rqs \<and> (\<forall>rq \<in> set rqs. rq_method rq = ''GET'')"
    by (intro exI [of _ "r1 @ r2"]) auto
  with assms show ?thesis by (simp add: inquires_only_def)
qed

lemma token_inquires: "inquires_only w (snd (obtain_token env w))"
  by (simp add: inquires_only_def step_simps)

lemma log_inquires: "\<forall>rq \<in> set rqs. rq_method rq = ''GET'' \<Longrightarrow> inquires_only w (log_requests rqs w)"
  by (simp add: inquires_only_def log_simps)

lemma available_buy_inquires: "available_buy env w = (r, w') \<Longrightarrow> inquires_only w w'"
  using token_inquires [of w env] inquires_only_trans [OF token_inquires log_inquires [OF available_buy_sends_inquiries]]
  by (auto simp: available_buy_def case_prod_beta Let_def split: prod.splits sum.splits)

lemma available_buy_simps [step_simps]:
  "w_db (snd (available_buy env w)) = w_db w"
  "w_queue (snd (available_buy env w)) = w_queue w"
  using available_buy_inquires [of env w "fst (available_buy env w)" "snd (available_buy env w)"]
  by (simp_all add: inquires_only_def)

lemma on_balance_inquires:
  assumes "on_balance f env w = Some (res, w')"
  shows "inquires_only w w'"
proof -
  obtain t w1 where t: "obtain_token env w = (t, w1)" by (cases "obtain_token env w")
  show ?thesis
  proof (cases t)
    case (Inl e)
    with assms t token_inquires [of w env] show ?thesis by (simp add: on_balance_def get_account_balance_def)
  next
    case (Inr tok)
    with assms t obtain rqs b where g: "get_balance (e_http env) (s_paper (e_settings env)) (s_account_no (e_settings env))
        (s_account_product_code (e_settings env)) = Some (rqs, b)" "w' = log_requests rqs w1"
      by (auto simp: on_balance_def get_account_balance_def)
    show ?thesis
      unfolding g(2) by (rule inquires_only_trans [OF token_inquires [of w env, unfolded t snd_conv] log_inquires [OF balance_sends_inquiries [OF g(1)]]])
  qed
qed

end
