(* ===== verification/Order_Generator.thy ===== *)
theory Order_Generator
  imports Position_Diff Account_Service Submit_Worker
begin

text \<open>
  \<^verbatim>\<open>app/strategy/runtime/order_generator.py\<close> with its dataclasses of
  \<^verbatim>\<open>app/schemas/strategy/trading.py\<close>: the orders of a rebalancing are generated, the sales are
  submitted and awaited, the purchases are recomputed from the cash really there, submitted and
  awaited.  While it waits, other processes act: \<open>ge_others k\<close> is what they do to the world before
  its \<open>k\<close>-th look at the table, and \<open>ge_delay k\<close> the seconds the \<open>k\<close>-th round takes beyond its sleep.
  \<open>ge_uuid n\<close> is the \<open>n\<close>-th \<open>uuid4()\<close>.  An operation threads the number of UUIDs used so far.
  Putting a task on the queue does not fail.  The product of a stored price
  (18 digits) and a quantity (10 digits) is exact in the 28 digits of the decimal context.
\<close>

section \<open>Data\<close>

record order_generator =
  g_order_type :: order_type
  g_account_no :: str
  g_account_product_code :: str
  g_dry_run :: bool
  g_fill_timeout_seconds :: int

record order_request =
  q_order_id :: uuid
  q_stock_code :: str
  q_stock_name :: str
  q_action :: str
  q_quantity :: int
  q_price :: int
  q_order_type :: str
  q_order_kind :: str
  q_rebalance_id :: str
  q_diff_action :: diff_action

record fill_result =
  fr_total_orders :: nat
  fr_filled_orders :: nat
  fr_canceled_orders :: nat
  fr_failed_orders :: nat
  fr_total_filled_amount :: int
  fr_timed_out :: bool
  fr_canceled_by_timeout :: nat

record order_generation_result =
  og_rebalance_id :: str
  og_sell_orders :: "order_request list"
  og_buy_orders :: "order_request list"
  og_skipped :: "(str \<times> str) list"
  og_sell_fill_result :: "fill_result option"
  og_buy_fill_result :: "fill_result option"

record gen_env =
  ge_worker :: worker_env
  ge_uuid :: "nat \<Rightarrow> uuid"
  ge_others :: "nat \<Rightarrow> world \<Rightarrow> world"
  ge_delay :: "nat \<Rightarrow> nat"

definition default_generator :: "settings \<Rightarrow> order_generator" where
  "default_generator st =
     \<lparr>g_order_type = MARKET, g_account_no = s_account_no st, g_account_product_code = ''01'',
      g_dry_run = False, g_fill_timeout_seconds = FILL_TIMEOUT_SECONDS\<rparr>"

definition TERMINAL_STATUSES :: "order_status list" where
  "TERMINAL_STATUSES = [FILLED, FAILED, CANCELED]"

section \<open>Generating the requests\<close>

definition create_order_request ::
  "order_generator \<Rightarrow> uuid \<Rightarrow> position_diff_item \<Rightarrow> str \<Rightarrow> str \<Rightarrow> order_request option" where
  "create_order_request g oid item action rebalance_id =
     (if pd_order_qty item \<le> 0 then None
      else Some \<lparr>q_order_id = oid, q_stock_code = pd_stock_code item, q_stock_name = pd_stock_name item,
             q_action = action, q_quantity = pd_order_qty item,
             q_price = (if g_order_type g = MARKET then 0 else pd_current_price item),
             q_order_type = order_type_value (g_order_type g), q_order_kind = KIND_NEW,
             q_rebalance_id = rebalance_id, q_diff_action = pd_action item\<rparr>)"

fun create_requests ::
  "order_generator \<Rightarrow> (nat \<Rightarrow> uuid) \<Rightarrow> str \<Rightarrow> str \<Rightarrow> str \<Rightarrow> position_diff_item list \<Rightarrow> nat \<Rightarrow>
   order_request list \<times> (str \<times> str) list \<times> nat" where
  "create_requests g uuid4 action rebalance_id reason [] n = ([], [], n)"
| "create_requests g uuid4 action rebalance_id reason (item # items) n =
     (case create_order_request g (uuid4 n) item action rebalance_id of
        Some rq \<Rightarrow> (let (rqs, sk, m) = create_requests g uuid4 action rebalance_id reason items (Suc n)
                    in (rq # rqs, sk, m))
      | None \<Rightarrow> (let (rqs, sk, m) = create_requests g uuid4 action rebalance_id reason items n
                 in (rqs, (pd_stock_code item, reason) # sk, m)))"

definition generate_orders ::
  "order_generator \<Rightarrow> (nat \<Rightarrow> uuid) \<Rightarrow> position_diff_result \<Rightarrow> str option \<Rightarrow> nat \<Rightarrow> order_generation_result \<times> nat" where
  "generate_orders g uuid4 diff_result rebalance_id n =
     (let (rb, n0) = (if truthy rebalance_id then (the rebalance_id, n) else (uuid4 n, Suc n));
          (sells, sk1, n1) = create_requests g uuid4 ACTION_SELL rb ''no sell order created'' (pr_sell_list diff_result) n0;
          (buys, sk2, n2) = create_requests g uuid4 ACTION_BUY rb ''no buy order created'' (pr_buy_list diff_result) n1
      in (\<lparr>og_rebalance_id = rb, og_sell_orders = sells, og_buy_orders = buys, og_skipped = sk1 @ sk2,
           og_sell_fill_result = None, og_buy_fill_result = None\<rparr>, n2))"

section \<open>Recomputing the purchases\<close>

fun buy_requests ::
  "order_generator \<Rightarrow> (nat \<Rightarrow> uuid) \<Rightarrow> rat \<Rightarrow> (str \<times> int) list \<Rightarrow> (str \<times> str) list \<Rightarrow> str \<Rightarrow> str list \<Rightarrow> nat \<Rightarrow>
   order_request list \<times> nat" where
  "buy_requests g uuid4 alloc price_map name_map rebalance_id [] n = ([], n)"
| "buy_requests g uuid4 alloc price_map name_map rebalance_id (code # codes) n =
     (let price = price_of price_map code; qty = whole_shares alloc price
      in if price \<le> 0 \<or> qty \<le> 0 then buy_requests g uuid4 alloc price_map name_map rebalance_id codes n
         else (let (rqs, m) = buy_requests g uuid4 alloc price_map name_map rebalance_id codes (Suc n)
               in (\<lparr>q_order_id = uuid4 n, q_stock_code = code, q_stock_name = name_of name_map code,
                    q_action = ACTION_BUY, q_quantity = qty,
                    q_price = (if g_order_type g = MARKET then 0 else price),
                    q_order_type = order_type_value (g_order_type g), q_order_kind = KIND_NEW,
                    q_rebalance_id = rebalance_id, q_diff_action = BUY\<rparr> # rqs, m)))"

definition recalculate_buy_orders ::
  "order_generator \<Rightarrow> (nat \<Rightarrow> uuid) \<Rightarrow> int \<Rightarrow> str list \<Rightarrow> position_diff_item list \<Rightarrow> (str \<times> int) list \<Rightarrow>
   (str \<times> str) list \<Rightarrow> str \<Rightarrow> nat \<Rightarrow> order_request list \<times> nat" where
  "recalculate_buy_orders g uuid4 available_cash buy_codes hold_list price_map name_map rebalance_id n =
     (if available_cash \<le> 0 \<or> buy_codes = [] then ([], n)
      else let hold_value = sum_list (map pd_current_value hold_list);
               new_buy_codes = filter (\<lambda>c. c \<notin> pd_stock_code ` set hold_list) buy_codes;
               m = length new_buy_codes;
               target = total_new_buy_target (available_cash + hold_value) (length buy_codes) m
           in if new_buy_codes = [] then ([], n)
              else buy_requests g uuid4 (alloc_per_stock available_cash target m) price_map name_map
                     rebalance_id new_buy_codes n)"

definition get_actual_cash :: "worker_env \<Rightarrow> world \<Rightarrow> int \<times> world" where
  "get_actual_cash env w =
     (case available_buy env w of (Inr c, w') \<Rightarrow> (c, w') | (Inl _, w') \<Rightarrow> (0, w'))"

section \<open>Storing and queueing an order\<close>

definition order_of_request :: "order_generator \<Rightarrow> timestamp \<Rightarrow> order_request \<Rightarrow> order" where
  "order_of_request g now rq = (new_order now (q_order_id rq))
     \<lparr>o_stock_code := q_stock_code rq, o_order_pos := q_action rq, o_order_qty := q_quantity rq,
      o_order_price := Some (Dec (q_price rq) 0), o_order_type := q_order_type rq,
      o_order_kind := q_order_kind rq, o_status := PENDING, o_account_no := g_account_no g,
      o_account_product_code := g_account_product_code g,
      o_rebalance_id := (if q_rebalance_id rq = '''' then None else Some (q_rebalance_id rq))\<rparr>"

definition insert_and_queue :: "order_generator \<Rightarrow> timestamp \<Rightarrow> order_request \<Rightarrow> unit action" where
  "insert_and_queue g now rq w =
     (case create_order (w_db w) (order_of_request g now rq) of
        Inl e \<Rightarrow> (Inl e, w)
      | Inr (_, db) \<Rightarrow>
          (let w1 = w\<lparr>w_db := db\<rparr>
           in (Inr (), if g_dry_run g then w1 else enqueue (ProcessOrder (q_order_id rq) 0) w1)))"

fun insert_all :: "order_generator \<Rightarrow> timestamp \<Rightarrow> order_request list \<Rightarrow> unit action" where
  "insert_all g now [] w = (Inr (), w)"
| "insert_all g now (rq # rqs) w =
     (case insert_and_queue g now rq w of
        (Inl e, w') \<Rightarrow> (Inl e, w')
      | (Inr _, w') \<Rightarrow> insert_all g now rqs w')"

section \<open>Waiting for fills\<close>

definition orders_in :: "uuid list \<Rightarrow> world \<Rightarrow> orders" where
  "orders_in order_ids w = filter (\<lambda>r. o_id r \<in> set order_ids) (w_db w)"

text \<open>\<open>int((order.avg_fill_price or 0) * (order.filled_qty or 0))\<close>.\<close>

fun dec_times :: "decimal \<Rightarrow> int \<Rightarrow> decimal result" where
  "dec_times (Dec c x) q = Inr (Dec (c * q) x)"
| "dec_times (DInf neg) q =
     (if q = 0 then Inl (LibError ''InvalidOperation'' ''infinity times zero'') else Inr (DInf (neg \<noteq> (q < 0))))"
| "dec_times DNaN q = Inr DNaN"

definition filled_amount :: "order \<Rightarrow> int result" where
  "filled_amount r =
     (case o_avg_fill_price r of
        None \<Rightarrow> Inr 0
      | Some d \<Rightarrow> bind_result (dec_times d (o_filled_qty r)) int_of_decimal)"

text \<open>One count of the orders into the result, and whether all of them have ended.\<close>

fun tally :: "orders \<Rightarrow> fill_result \<Rightarrow> bool \<Rightarrow> (fill_result \<times> bool) result" where
  "tally [] res ended = Inr (res, ended)"
| "tally (r # rs) res ended =
     (if o_status r = FILLED then
        bind_result (filled_amount r) (\<lambda>a. tally rs (res\<lparr>fr_filled_orders := fr_filled_orders res + 1,
          fr_total_filled_amount := fr_total_filled_amount res + a\<rparr>) ended)
      else if o_status r = CANCELED then
        bind_result (filled_amount r) (\<lambda>a. tally rs (res\<lparr>fr_canceled_orders := fr_canceled_orders res + 1,
          fr_total_filled_amount := fr_total_filled_amount res + a\<rparr>) ended)
      else if o_status r = FAILED then tally rs (res\<lparr>fr_failed_orders := fr_failed_orders res + 1\<rparr>) ended
      else tally rs res False)"

definition clear_counts :: "fill_result \<Rightarrow> fill_result" where
  "clear_counts res = res\<lparr>fr_filled_orders := 0, fr_canceled_orders := 0, fr_failed_orders := 0,
     fr_total_filled_amount := 0\<rparr>"

definition poll_interval :: "int \<Rightarrow> int" where
  "poll_interval elapsed =
     (if elapsed < FILL_POLL_FAST_WINDOW then FILL_POLL_FAST_INTERVAL else FILL_POLL_SLOW_INTERVAL)"

lemma poll_interval_pos: "3 \<le> poll_interval elapsed"
  by (simp add: poll_interval_def FILL_POLL_FAST_INTERVAL_def FILL_POLL_SLOW_INTERVAL_def)

text \<open>
  The polling loop from \<open>elapsed\<close> seconds and \<open>k\<close> looks on: the result, the number of looks and the
  world.  It ends because every sleep takes its time.
\<close>

function poll_fills ::
  "gen_env \<Rightarrow> int \<Rightarrow> uuid list \<Rightarrow> int \<Rightarrow> nat \<Rightarrow> fill_result \<Rightarrow> world \<Rightarrow> fill_result result \<times> nat \<times> world" where
  "poll_fills env timeout order_ids elapsed k res w =
     (if timeout \<le> elapsed then (Inr (res\<lparr>fr_timed_out := True\<rparr>), k, w)
      else let w1 = ge_others env k w
           in case tally (orders_in order_ids w1) (clear_counts res) True of
                Inl e \<Rightarrow> (Inl e, Suc k, w1)
              | Inr (res1, True) \<Rightarrow> (Inr res1, Suc k, w1)
              | Inr (res1, False) \<Rightarrow>
                  poll_fills env timeout order_ids (elapsed + poll_interval elapsed + int (ge_delay env k)) (Suc k) res1 w1)"
  by pat_completeness auto
termination
proof (relation "measure (\<lambda>(env, timeout, order_ids, elapsed, k, res, w). nat (timeout - elapsed))")
  fix env :: gen_env and timeout elapsed :: int and order_ids :: "uuid list" and k :: nat
    and res res1 :: fill_result and w w1 :: world
  assume "\<not> timeout \<le> elapsed"
  then show "((env, timeout, order_ids, elapsed + poll_interval elapsed + int (ge_delay env k), Suc k, res1, w1),
      env, timeout, order_ids, elapsed, k, res, w)
    \<in> measure (\<lambda>(env, timeout, order_ids, elapsed, k, res, w). nat (timeout - elapsed))"
    using poll_interval_pos [of elapsed] by simp
qed simp

declare poll_fills.simps [simp del]

section \<open>Canceling what is not filled\<close>

definition remaining_of :: "order \<Rightarrow> int" where
  "remaining_of r = (if o_remaining_qty r \<noteq> 0 then o_remaining_qty r else o_order_qty r)"

definition needs_cancel :: "order \<Rightarrow> bool" where
  "needs_cancel r = (o_status r \<notin> set TERMINAL_STATUSES \<and> 0 < remaining_of r)"

definition cancel_order_of :: "timestamp \<Rightarrow> uuid \<Rightarrow> order \<Rightarrow> order" where
  "cancel_order_of now oid r = (new_order now oid)
     \<lparr>o_stock_code := o_stock_code r, o_order_pos := o_order_pos r, o_order_qty := remaining_of r,
      o_order_price := Some (Dec 0 0), o_order_type := order_type_value MARKET,
      o_order_kind := KIND_CANCEL, o_status := PENDING, o_account_no := o_account_no r,
      o_account_product_code := o_account_product_code r, o_rebalance_id := o_rebalance_id r,
      o_original_order_id := Some (o_id r), o_original_broker_order_no := o_broker_order_no r,
      o_original_broker_org_no := o_broker_org_no r\<rparr>"

text \<open>
  Each cancellation is flushed (to the open transaction, \<open>pend\<close>) and put on the queue at once;
  the transaction is committed after the loop.
\<close>

fun cancel_loop ::
  "timestamp \<Rightarrow> (nat \<Rightarrow> uuid) \<Rightarrow> orders \<Rightarrow> nat \<Rightarrow> orders \<Rightarrow> world \<Rightarrow> orders result \<times> nat \<times> world" where
  "cancel_loop now uuid4 [] n pend w = (Inr pend, n, w)"
| "cancel_loop now uuid4 (r # rs) n pend w =
     (if \<not> needs_cancel r then cancel_loop now uuid4 rs n pend w
      else case create_order (w_db w @ pend) (cancel_order_of now (uuid4 n) r) of
             Inl e \<Rightarrow> (Inl e, Suc n, w)
           | Inr (row, _) \<Rightarrow>
               cancel_loop now uuid4 rs (Suc n) (pend @ [row]) (enqueue (ProcessOrder (uuid4 n) 0) w))"

definition cancel_unfilled_orders ::
  "timestamp \<Rightarrow> (nat \<Rightarrow> uuid) \<Rightarrow> uuid list \<Rightarrow> nat \<Rightarrow> world \<Rightarrow> nat result \<times> nat \<times> world" where
  "cancel_unfilled_orders now uuid4 order_ids n w =
     (case cancel_loop now uuid4 (orders_in order_ids w) n [] w of
        (Inl e, n', w') \<Rightarrow> (Inl e, n', w')
      | (Inr pend, n', w') \<Rightarrow> (Inr (length pend), n', w'\<lparr>w_db := w_db w' @ pend\<rparr>))"

text \<open>The wait: poll, and after a timeout look again and cancel what has not ended.\<close>

definition new_fill_result :: "nat \<Rightarrow> fill_result" where
  "new_fill_result cnt =
     \<lparr>fr_total_orders = cnt, fr_filled_orders = 0, fr_canceled_orders = 0, fr_failed_orders = 0,
      fr_total_filled_amount = 0, fr_timed_out = False, fr_canceled_by_timeout = 0\<rparr>"

definition wait_for_fills ::
  "gen_env \<Rightarrow> int \<Rightarrow> uuid list \<Rightarrow> nat \<Rightarrow> nat \<Rightarrow> world \<Rightarrow> fill_result result \<times> nat \<times> nat \<times> world" where
  "wait_for_fills env timeout order_ids n k w =
     (case poll_fills env timeout order_ids 0 k (new_fill_result (length order_ids)) w of
        (Inl e, k1, w1) \<Rightarrow> (Inl e, n, k1, w1)
      | (Inr res, k1, w1) \<Rightarrow>
          if \<not> fr_timed_out res then (Inr res, n, k1, w1)
          else let w2 = ge_others env k1 w1;
                   rows = orders_in order_ids w2;
                   res1 = res\<lparr>fr_filled_orders := length (filter (\<lambda>r. o_status r = FILLED) rows)\<rparr>
               in if list_all (\<lambda>r. o_status r \<in> set TERMINAL_STATUSES) rows
                  then (Inr (res1\<lparr>fr_timed_out := False\<rparr>), n, Suc k1, w2)
                  else (case cancel_unfilled_orders (e_now (ge_worker env)) (ge_uuid env) order_ids n
                               (ge_others env (Suc k1) w2) of
                          (Inl e, n1, w3) \<Rightarrow> (Inl e, n1, Suc (Suc k1), w3)
                        | (Inr c, n1, w3) \<Rightarrow>
                            (Inr (res1\<lparr>fr_canceled_by_timeout := c\<rparr>), n1, Suc (Suc k1), w3)))"

section \<open>Submission\<close>

text \<open>The state of one submission: the result so far, UUIDs and looks used, the world.\<close>

record submission =
  su_result :: order_generation_result
  su_uuids :: nat
  su_looks :: nat
  su_world :: world

text \<open>Storing one side's orders, then waiting for them unless this is a dry run.\<close>

definition submit_side ::
  "order_generator \<Rightarrow> gen_env \<Rightarrow> order_request list \<Rightarrow> submission \<Rightarrow> fill_result option result \<times> submission" where
  "submit_side g env rqs s =
     (case insert_all g (e_now (ge_worker env)) rqs (su_world s) of
        (Inl e, w) \<Rightarrow> (Inl e, s\<lparr>su_world := w\<rparr>)
      | (Inr _, w) \<Rightarrow>
          if rqs = [] \<or> g_dry_run g then (Inr None, s\<lparr>su_world := w\<rparr>)
          else (case wait_for_fills env (g_fill_timeout_seconds g) (map q_order_id rqs) (su_uuids s) (su_looks s) w of
                  (res, n, k, w') \<Rightarrow>
                    (bind_result res (\<lambda>f. Inr (Some f)), s\<lparr>su_uuids := n, su_looks := k, su_world := w'\<rparr>)))"

definition recalculates :: "order_generator \<Rightarrow> str list option \<Rightarrow> (str \<times> int) list option \<Rightarrow> bool" where
  "recalculates g buy_codes price_map =
     (\<not> g_dry_run g \<and> buy_codes \<noteq> None \<and> buy_codes \<noteq> Some [] \<and> price_map \<noteq> None \<and> price_map \<noteq> Some [])"

definition the_list :: "'a list option \<Rightarrow> 'a list" where
  "the_list x = (case x of None \<Rightarrow> [] | Some l \<Rightarrow> l)"

text \<open>Step 3, with an account service: the purchases by the actual cash.\<close>

definition recompute_buys ::
  "order_generator \<Rightarrow> gen_env \<Rightarrow> str list option \<Rightarrow> position_diff_item list option \<Rightarrow> (str \<times> int) list option \<Rightarrow>
   (str \<times> str) list option \<Rightarrow> submission \<Rightarrow> submission" where
  "recompute_buys g env buy_codes hold_list price_map name_map s =
     (if \<not> recalculates g buy_codes price_map then s
      else let (cash, w) = get_actual_cash (ge_worker env) (su_world s);
               (buys, n) = recalculate_buy_orders g (ge_uuid env) cash (the_list buy_codes) (the_list hold_list)
                             (the_list price_map) (the_list name_map) (og_rebalance_id (su_result s)) (su_uuids s)
           in s\<lparr>su_result := (su_result s)\<lparr>og_buy_orders := buys\<rparr>, su_uuids := n, su_world := w\<rparr>)"

definition submit_orders ::
  "order_generator \<Rightarrow> gen_env \<Rightarrow> str list option \<Rightarrow> position_diff_item list option \<Rightarrow> (str \<times> int) list option \<Rightarrow>
   (str \<times> str) list option \<Rightarrow> submission \<Rightarrow> unit result \<times> submission" where
  "submit_orders g env buy_codes hold_list price_map name_map s =
     (case submit_side g env (og_sell_orders (su_result s)) s of
        (Inl e, s1) \<Rightarrow> (Inl e, s1)
      | (Inr sell_fill, s1) \<Rightarrow>
          (let s2 = s1\<lparr>su_result := (su_result s1)\<lparr>og_sell_fill_result :=
                      (if sell_fill = None then og_sell_fill_result (su_result s1) else sell_fill)\<rparr>\<rparr>;
               s3 = recompute_buys g env buy_codes hold_list price_map name_map s2
           in case submit_side g env (og_buy_orders (su_result s3)) s3 of
                (Inl e, s4) \<Rightarrow> (Inl e, s4)
              | (Inr buy_fill, s4) \<Rightarrow>
                  (Inr (), s4\<lparr>su_result := (su_result s4)\<lparr>og_buy_fill_result :=
                      (if buy_fill = None then og_buy_fill_result (su_result s4) else buy_fill)\<rparr>\<rparr>)))"

section \<open>Lemmas\<close>

text \<open>What the recomputed purchases cost, at the prices they were computed with.\<close>

definition order_cost :: "(str \<times> int) list \<Rightarrow> order_request list \<Rightarrow> int" where
  "order_cost pm rqs = sum_list (map (\<lambda>q. q_quantity q * price_of pm (q_stock_code q)) rqs)"

lemma buy_requests_cost:
  "order_cost pm (fst (buy_requests g uuid4 alloc pm nm rb codes n))
     = sum_list (map (\<lambda>c. line_value alloc (price_of pm c)) codes)"
  by (induction codes arbitrary: n) (simp_all add: order_cost_def line_value_def Let_def case_prod_beta)

lemma recalculated_cost:
  assumes "cash < 2 ^ 51" "length codes < 2 ^ 53" "\<And>c. price_of pm c < 2 ^ 53"
    and "0 \<le> sum_list (map pd_current_value holds)"
  shows "order_cost pm (fst (recalculate_buy_orders g uuid4 cash codes holds pm nm rb n)) \<le> max 0 cash"
proof -
  define new where "new = filter (\<lambda>c. c \<notin> pd_stock_code ` set holds) codes"
  define P where "P = sum_list (map pd_current_value holds)"
  have len: "length new < 2 ^ 53"
    using assms(2) length_filter_le [of _ codes] unfolding new_def by (rule le_less_trans [rotated])
  consider "cash \<le> 0 \<or> codes = [] \<or> new = []" | "0 < cash" "codes \<noteq> []" "new \<noteq> []" by linarith
  then show ?thesis
  proof cases
    case 1
    then show ?thesis by (auto simp: recalculate_buy_orders_def order_cost_def new_def [symmetric] Let_def)
  next
    case 2
    have "0 \<le> total_new_buy_target (cash + P) (length codes) (length new)"
      unfolding total_new_buy_target_def using 2 assms(4)
      by (auto simp: P_def intro!: binary64.nonneg mult_nonneg_nonneg)
    from lines_within_budget [OF 2(1) assms(1) this 2(3) len assms(3)] 2 show ?thesis
      by (simp add: recalculate_buy_orders_def new_def [symmetric] P_def [symmetric] Let_def buy_requests_cost)
  qed
qed

lemma recompute_buys_result:
  "recalculates g bc pm \<Longrightarrow>
   \<exists>m. og_buy_orders (su_result (recompute_buys g env bc hl pm nm s))
     = fst (recalculate_buy_orders g (ge_uuid env) (fst (get_actual_cash (ge_worker env) (su_world s)))
             (the_list bc) (the_list hl) (the_list pm) (the_list nm) (og_rebalance_id (su_result s)) m)"
  by (auto simp: recompute_buys_def case_prod_beta Let_def)

lemma submit_side_result [simp]: "su_result (snd (submit_side g env rqs s)) = su_result s"
  by (auto simp: submit_side_def split: prod.split sum.split)

lemma submit_orders_buys:
  assumes "fst (submit_orders g env bc hl pm nm s) = Inr ()"
  obtains s2 where "og_buy_orders (su_result (snd (submit_orders g env bc hl pm nm s)))
      = og_buy_orders (su_result (recompute_buys g env bc hl pm nm s2))"
proof -
  obtain f s1 where s1: "submit_side g env (og_sell_orders (su_result s)) s = (Inr f, s1)"
    using assms by (auto simp: submit_orders_def split: prod.splits sum.splits)
  define s2 where "s2 = s1\<lparr>su_result := (su_result s1)\<lparr>og_sell_fill_result :=
      (if f = None then og_sell_fill_result (su_result s1) else f)\<rparr>\<rparr>"
  define s3 where "s3 = recompute_buys g env bc hl pm nm s2"
  obtain f' s4 where s4: "submit_side g env (og_buy_orders (su_result s3)) s3 = (Inr f', s4)"
    using assms s1 by (auto simp: submit_orders_def s2_def s3_def Let_def split: prod.splits sum.splits)
  have "su_result s4 = su_result s3"
    using submit_side_result [of g env "og_buy_orders (su_result s3)" s3] s4 by simp
  then show thesis
    using that [of s2] s1 s4 by (simp add: submit_orders_def s2_def [symmetric] s3_def [symmetric] Let_def)
qed

text \<open>How many looks a wait has left after \<open>elapsed\<close> seconds.\<close>

definition looks_left :: "int \<Rightarrow> int" where
  "looks_left elapsed =
     (if elapsed < 90 then (92 - elapsed) div 3 + 6 else if elapsed < 180 then (194 - elapsed) div 15 else 0)"

lemma looks_left_step:
  assumes "elapsed < 180" "0 \<le> d"
  shows "looks_left (elapsed + poll_interval elapsed + d) + 1 \<le> looks_left elapsed"
proof (cases "elapsed < 90")
  case True
  have "(92 - (elapsed + 3 + d)) div 3 + 1 \<le> (92 - elapsed) div 3"
    using zdiv_mono1 [of "92 - (elapsed + 3 + d) + 3" "92 - elapsed" 3] assms by simp
  moreover have "(194 - (elapsed + 3 + d)) div 15 \<le> 6" if "90 \<le> elapsed + 3 + d"
    using zdiv_mono1 [of "194 - (elapsed + 3 + d)" 104 15] that by simp
  moreover have "1 \<le> (92 - elapsed) div 3"
    using zdiv_mono1 [of 3 "92 - elapsed" 3] True by simp
  ultimately show ?thesis
    using True by (auto simp: looks_left_def poll_interval_def FILL_POLL_FAST_INTERVAL_def FILL_POLL_FAST_WINDOW_def)
next
  case False
  have "(194 - (elapsed + 15 + d)) div 15 + 1 \<le> (194 - elapsed) div 15"
    using zdiv_mono1 [of "194 - (elapsed + 15 + d) + 15" "194 - elapsed" 15] assms by simp
  moreover have "1 \<le> (194 - elapsed) div 15"
    using zdiv_mono1 [of 15 "194 - elapsed" 15] assms by simp
  ultimately show ?thesis
    using False assms by (simp add: looks_left_def poll_interval_def FILL_POLL_SLOW_INTERVAL_def FILL_POLL_FAST_WINDOW_def)
qed

lemma looks_left_nonneg: "0 \<le> looks_left elapsed"
  by (auto simp: looks_left_def pos_imp_zdiv_nonneg_iff)

text \<open>The branches of one round.\<close>

lemma poll_fills_branches:
  "timeout \<le> e \<Longrightarrow> poll_fills env timeout ids e k res w = (Inr (res\<lparr>fr_timed_out := True\<rparr>), k, w)"
  "\<not> timeout \<le> e \<Longrightarrow> tally (orders_in ids (ge_others env k w)) (clear_counts res) True = Inl x \<Longrightarrow>
   poll_fills env timeout ids e k res w = (Inl x, Suc k, ge_others env k w)"
  "\<not> timeout \<le> e \<Longrightarrow> tally (orders_in ids (ge_others env k w)) (clear_counts res) True = Inr (res1, True) \<Longrightarrow>
   poll_fills env timeout ids e k res w = (Inr res1, Suc k, ge_others env k w)"
  "\<not> timeout \<le> e \<Longrightarrow> tally (orders_in ids (ge_others env k w)) (clear_counts res) True = Inr (res1, False) \<Longrightarrow>
   poll_fills env timeout ids e k res w =
     poll_fills env timeout ids (e + poll_interval e + int (ge_delay env k)) (Suc k) res1 (ge_others env k w)"
  by (simp_all add: poll_fills.simps [of env timeout ids e])

lemma tally_cases:
  obtains x where "tally rs res ended = Inl x" | res1 where "tally rs res ended = Inr (res1, True)"
  | res1 where "tally rs res ended = Inr (res1, False)"
proof (cases "tally rs res ended")
  case (Inr p)
  with that show thesis by (cases p, cases "snd p") auto
qed

lemma poll_fills_looks:
  "timeout = 180 \<Longrightarrow>
   int (fst (snd (poll_fills env timeout order_ids elapsed k res w))) \<le> int k + looks_left elapsed"
proof (induction env timeout order_ids elapsed k res w rule: poll_fills.induct)
  case (1 env timeout order_ids elapsed k res w)
  show ?case
  proof (cases "timeout \<le> elapsed")
    case True
    then show ?thesis by (simp add: poll_fills_branches looks_left_nonneg)
  next
    case False
    let ?t = "tally (orders_in order_ids (ge_others env k w)) (clear_counts res) True"
    let ?e = "elapsed + poll_interval elapsed + int (ge_delay env k)"
    have less: "looks_left ?e + 1 \<le> looks_left elapsed" "0 \<le> looks_left ?e"
      using False 1(2) by (auto intro!: looks_left_step looks_left_nonneg)
    show ?thesis
    proof (cases rule: tally_cases [of "orders_in order_ids (ge_others env k w)" "clear_counts res" True])
      case (3 res1)
      have "int (fst (snd (poll_fills env timeout order_ids ?e (Suc k) res1 (ge_others env k w))))
          \<le> int (Suc k) + looks_left ?e"
        using 1(1) [OF False refl 3 refl refl 1(2)] by simp
      with less False 3 show ?thesis by (simp add: poll_fills_branches)
    qed (use less False in \<open>simp_all add: poll_fills_branches\<close>)
  qed
qed

lemma tally_ended:
  "tally rs res ended = Inr (res', True) \<Longrightarrow> ended \<and> list_all (\<lambda>r. o_status r \<in> set TERMINAL_STATUSES) rs"
  by (induction rs res ended rule: tally.induct)
    (auto simp: TERMINAL_STATUSES_def bind_result_Inr_iff split: if_splits)

lemma tally_timed_out:
  "tally rs res ended = Inr (res', b) \<Longrightarrow> fr_timed_out res' = fr_timed_out res"
  by (induction rs res ended rule: tally.induct) (auto simp: bind_result_Inr_iff split: if_splits)

lemma poll_fills_outcome:
  "poll_fills env timeout order_ids elapsed k res w = (Inr res', k', w') \<Longrightarrow> \<not> fr_timed_out res \<Longrightarrow>
   \<not> fr_timed_out res' \<Longrightarrow> list_all (\<lambda>r. o_status r \<in> set TERMINAL_STATUSES) (orders_in order_ids w')"
proof (induction env timeout order_ids elapsed k res w arbitrary: res' rule: poll_fills.induct)
  case (1 env timeout order_ids elapsed k res w)
  show ?case
  proof (cases "timeout \<le> elapsed")
    case True
    with 1 show ?thesis by (auto simp: poll_fills_branches)
  next
    case False
    show ?thesis
    proof (cases rule: tally_cases [of "orders_in order_ids (ge_others env k w)" "clear_counts res" True])
      case (1 x)
      with "1.prems" False show ?thesis by (simp add: poll_fills_branches)
    next
      case (2 res1)
      with "1.prems" False tally_ended [OF 2] show ?thesis by (simp add: poll_fills_branches)
    next
      case (3 res1)
      have "\<not> fr_timed_out res1" using tally_timed_out [OF 3] "1.prems"(2) by (simp add: clear_counts_def)
      with "1.prems" False 3 "1.IH" [OF False refl 3 refl refl] show ?thesis
        by (simp add: poll_fills_branches)
    qed
  qed
qed

text \<open>The cancellations of a list of orders, with the UUIDs from \<open>n\<close> on.\<close>

definition cancel_rows :: "timestamp \<Rightarrow> (nat \<Rightarrow> uuid) \<Rightarrow> nat \<Rightarrow> orders \<Rightarrow> orders" where
  "cancel_rows now uuid4 n rs = map2 (\<lambda>i r. cancel_order_of now (uuid4 i) r) [n..<n + length rs] rs"

lemma cancel_order_id [simp]: "o_id (cancel_order_of now oid r) = oid"
  by (simp add: cancel_order_of_def new_order_def)

lemma cancel_rows_Cons:
  "cancel_rows now uuid4 n (r # rs) = cancel_order_of now (uuid4 n) r # cancel_rows now uuid4 (Suc n) rs"
  by (simp add: cancel_rows_def upt_conv_Cons del: upt_Suc)

lemma cancel_loop_exact:
  assumes "inj uuid4" "\<And>i. n \<le> i \<Longrightarrow> uuid4 i \<notin> o_id ` set (w_db w @ pend)"
  shows "cancel_loop now uuid4 rs n pend w =
    (let rows = cancel_rows now uuid4 n (filter needs_cancel rs)
     in (Inr (pend @ rows), n + length rows, w\<lparr>w_queue := w_queue w @ map (\<lambda>r. ProcessOrder (o_id r) 0) rows\<rparr>))"
  using assms(2)
proof (induction rs arbitrary: n pend w)
  case Nil
  then show ?case by (simp add: cancel_rows_def)
next
  case (Cons r rs)
  show ?case
  proof (cases "needs_cancel r")
    case False
    with Cons show ?thesis by simp
  next
    case True
    let ?row = "cancel_order_of now (uuid4 n) r"
    let ?w = "enqueue (ProcessOrder (uuid4 n) 0) w"
    have "create_order (w_db w @ pend) ?row = Inr (?row, (w_db w @ pend) @ [?row])"
      using Cons.prems [of n] by (simp add: create_order_def)
    moreover have "uuid4 i \<notin> o_id ` set (w_db ?w @ pend @ [?row])" if "Suc n \<le> i" for i
      using Cons.prems [of i] that injD [OF assms(1), of i n] by (auto simp: enqueue_def)
    ultimately show ?thesis
      using True Cons.IH [of "Suc n" ?w "pend @ [?row]"]
      by (simp add: cancel_rows_Cons Let_def enqueue_def)
  qed
qed

section \<open>Properties\<close>

text \<open>
  C8. Recomputed purchases are covered by the cash that is there after the sales: together they cost
  at most the amount the account service answers, rounding included, and an inquiry that fails
  leaves no purchase at all; for amounts below \<open>2 ^ 51\<close> won, prices and numbers of stocks below
  \<open>2 ^ 53\<close>.
\<close>

theorem recomputed_buys_within_cash:
  assumes "recalculates g codes pm" and "fst (get_actual_cash (ge_worker env) (su_world s)) < 2 ^ 51"
    and "length (the_list codes) < 2 ^ 53" and "\<And>c. price_of (the_list pm) c < 2 ^ 53"
    and "0 \<le> sum_list (map pd_current_value (the_list holds))"
  shows "order_cost (the_list pm) (og_buy_orders (su_result (recompute_buys g env codes holds pm nm s)))
      \<le> max 0 (fst (get_actual_cash (ge_worker env) (su_world s)))
    \<and> (\<not> is_ok (fst (available_buy (ge_worker env) (su_world s))) \<longrightarrow>
        og_buy_orders (su_result (recompute_buys g env codes holds pm nm s)) = [])"
proof -
  obtain m where m: "og_buy_orders (su_result (recompute_buys g env codes holds pm nm s))
     = fst (recalculate_buy_orders g (ge_uuid env) (fst (get_actual_cash (ge_worker env) (su_world s)))
             (the_list codes) (the_list holds) (the_list pm) (the_list nm) (og_rebalance_id (su_result s)) m)"
    using recompute_buys_result [OF assms(1)] by blast
  have "fst (get_actual_cash (ge_worker env) (su_world s)) = 0"
    if "\<not> is_ok (fst (available_buy (ge_worker env) (su_world s)))"
    using that by (auto simp: get_actual_cash_def split: prod.splits sum.splits)
  with m show ?thesis
    using recalculated_cost [OF assms(2-5)] by (simp add: recalculate_buy_orders_def)
qed

text \<open>
  C35. Waiting for fills ends: with the default timeout the whole wait, the look that decides after
  the timeout and the look of the cancellation included, reads the table at most 38 times, however the
  other processes change it and however long each look takes; and a wait that ends without the
  timeout flag ends with every awaited order filled, failed or canceled at its last look.
\<close>

theorem fill_wait_bounded:
  "case wait_for_fills env FILL_TIMEOUT_SECONDS ids n k w of
     (res, n', k', w') \<Rightarrow> k' \<le> k + 38
       \<and> (case res of
            Inl _ \<Rightarrow> True
          | Inr f \<Rightarrow> fr_timed_out f \<or> list_all (\<lambda>r. o_status r \<in> set [FILLED, FAILED, CANCELED]) (orders_in ids w'))"
proof -
  obtain res k1 w1 where p: "poll_fills env FILL_TIMEOUT_SECONDS ids 0 k (new_fill_result (length ids)) w = (res, k1, w1)"
    by (cases "poll_fills env FILL_TIMEOUT_SECONDS ids 0 k (new_fill_result (length ids)) w")
  have "looks_left 0 = 36" by (simp add: looks_left_def)
  then have looks: "k1 \<le> k + 36"
    using poll_fills_looks [of FILL_TIMEOUT_SECONDS env ids 0 k "new_fill_result (length ids)" w] p
    by (simp add: FILL_TIMEOUT_SECONDS_def)
  have set_eq: "set [FILLED, FAILED, CANCELED] = set TERMINAL_STATUSES" by (auto simp: TERMINAL_STATUSES_def)
  have ended: "list_all (\<lambda>r. o_status r \<in> set TERMINAL_STATUSES) (orders_in ids w1)"
    if "res = Inr f" "\<not> fr_timed_out f" for f
    using poll_fills_outcome [OF p [unfolded that(1)] _ that(2)] by (simp add: new_fill_result_def)
  show ?thesis
    unfolding set_eq
  proof (cases res)
    case (Inl e)
    with p looks show "case wait_for_fills env FILL_TIMEOUT_SECONDS ids n k w of
       (res, n', k', w') \<Rightarrow> k' \<le> k + 38
         \<and> (case res of Inl _ \<Rightarrow> True
            | Inr f \<Rightarrow> fr_timed_out f \<or> list_all (\<lambda>r. o_status r \<in> set TERMINAL_STATUSES) (orders_in ids w'))"
      by (simp add: wait_for_fills_def)
  next
    case (Inr f)
    with p looks ended show "case wait_for_fills env FILL_TIMEOUT_SECONDS ids n k w of
       (res, n', k', w') \<Rightarrow> k' \<le> k + 38
         \<and> (case res of Inl _ \<Rightarrow> True
            | Inr f \<Rightarrow> fr_timed_out f \<or> list_all (\<lambda>r. o_status r \<in> set TERMINAL_STATUSES) (orders_in ids w'))"
      by (auto simp: wait_for_fills_def Let_def split: prod.split sum.split)
  qed
qed

text \<open>
  C33. After a timeout every awaited order that is not filled, failed or canceled and has a
  quantity left gets exactly one new pending cancellation, for what is left, with the numbers of the
  original, and one submission task; nothing else changes.  (An order whose tracking has given up,
  status \<open>TIMEOUT\<close>, is among them.)
\<close>

theorem unfilled_orders_canceled:
  assumes "inj uuid4" and "\<And>i. n \<le> i \<Longrightarrow> uuid4 i \<notin> o_id ` set (w_db w)"
  shows "let rows = cancel_rows now uuid4 n
           (filter (\<lambda>r. o_id r \<in> set ids \<and> o_status r \<notin> {FILLED, FAILED, CANCELED} \<and> 0 < remaining_of r) (w_db w))
    in cancel_unfilled_orders now uuid4 ids n w =
      (Inr (length rows), n + length rows,
       w\<lparr>w_db := w_db w @ rows, w_queue := w_queue w @ map (\<lambda>r. ProcessOrder (o_id r) 0) rows\<rparr>)"
proof -
  have "filter needs_cancel (orders_in ids w)
      = filter (\<lambda>r. o_id r \<in> set ids \<and> o_status r \<notin> {FILLED, FAILED, CANCELED} \<and> 0 < remaining_of r) (w_db w)"
    unfolding orders_in_def filter_filter
    by (rule filter_cong) (auto simp: needs_cancel_def TERMINAL_STATUSES_def)
  then show ?thesis
    using cancel_loop_exact [OF assms(1), of n w "[]" now "orders_in ids w"] assms(2)
    by (simp add: cancel_unfilled_orders_def Let_def)
qed

section \<open>Witnesses\<close>

definition example_cash_body :: "(str \<times> json) list" where
  "example_cash_body =
     [(''rt_cd'', JStr ''0''), (''msg_cd'', JStr ''OK''), (''msg1'', JStr ''ok''),
      (''output'', JObj (map (\<lambda>f. (f, JStr ''1000'')) available_buy_fields))]"

definition example_gen_env :: "http \<Rightarrow> gen_env" where
  "example_gen_env http =
     \<lparr>ge_worker = example_env http, ge_uuid = (\<lambda>n. CHR ''c'' # show_nat n), ge_others = (\<lambda>_ w. w),
      ge_delay = (\<lambda>_. 0)\<rparr>"

definition example_submission :: submission where
  "example_submission =
     \<lparr>su_result = \<lparr>og_rebalance_id = ''rb'', og_sell_orders = [], og_buy_orders = [], og_skipped = [],
                   og_sell_fill_result = None, og_buy_fill_result = None\<rparr>,
      su_uuids = 0, su_looks = 0, su_world = example_world False\<rparr>"

lemma example_uuid_inj: "inj (\<lambda>n. CHR ''c'' # show_nat n)"
  by (rule injI) (metis digits_val_show_nat list.inject of_nat_eq_iff)

lemma example_env_fields [simp]:
  "e_http (example_env http) = http" "s_paper (e_settings (example_env http))"
  "s_account_no (e_settings (example_env http)) = ''12345678''"
  "s_account_product_code (e_settings (example_env http)) = ''01''"
  by (simp_all add: example_env_def)

lemma example_amount: "available_amount (map (\<lambda>f. (f, ''1000'')) available_buy_fields) = Inr 1000"
proof -
  have "show_nat 1000 = ''1000''" by code_simp
  then have "to_int ''1000'' = Inr 1000" using to_int_show_nat [of 1000] by simp
  then show ?thesis
    by (simp add: available_amount_def item_field_def dict_get_def available_buy_fields_def)
qed

lemma example_cash:
  "fst (get_actual_cash (example_env (example_answer example_cash_body)) (example_world False)) = 1000"
proof -
  have "snd (get_available_buy (example_answer example_cash_body) True ''12345678'' ''01'')
      = Inr (map (\<lambda>f. (f, ''1000'')) available_buy_fields)" by code_simp
  then show ?thesis
    by (simp add: get_actual_cash_def available_buy_def example_obtain example_amount case_prod_beta Let_def)
qed

theorem recomputed_buys_within_cash_witness:
  "order_cost [(''A'', 300), (''B'', 70)]
     (og_buy_orders (su_result (recompute_buys (default_generator \<lparr>s_paper = True, s_account_no = ''1'', s_account_product_code = ''01''\<rparr>)
        (example_gen_env (example_answer example_cash_body)) (Some [''A'', ''B'']) None
        (Some [(''A'', 300), (''B'', 70)]) None example_submission))) \<le> 1000"
proof -
  let ?g = "default_generator \<lparr>s_paper = True, s_account_no = ''1'', s_account_product_code = ''01''\<rparr>"
  let ?pm = "[(''A'', 300), (''B'', 70)] :: (str \<times> int) list"
  have r: "recalculates ?g (Some [''A'', ''B'']) (Some ?pm)"
    by (simp add: recalculates_def default_generator_def)
  have p: "price_of (the_list (Some ?pm)) c < 2 ^ 53" for c
    by (simp add: price_of_def dict_get_def the_list_def)
  have c: "fst (get_actual_cash (ge_worker (example_gen_env (example_answer example_cash_body)))
      (su_world example_submission)) = 1000"
    by (simp add: example_gen_env_def example_submission_def example_cash)
  show ?thesis
    using recomputed_buys_within_cash [OF r, of "example_gen_env (example_answer example_cash_body)"
        example_submission None None] p c
    by (simp add: the_list_def)
qed

theorem unfilled_orders_canceled_witness:
  "fst (cancel_unfilled_orders 0 (\<lambda>n. CHR ''c'' # show_nat n) [''o1''] 0 (example_world False)) = Inr 1"
proof -
  have e: "filter (\<lambda>r. o_id r \<in> set [''o1''] \<and> o_status r \<notin> {FILLED, FAILED, CANCELED} \<and> 0 < remaining_of r)
      (w_db (example_world False)) = [example_order]"
    by (simp add: example_world_def remaining_of_def example_order_def new_order_def)
  have fresh: "CHR ''c'' # show_nat i \<notin> o_id ` set (w_db (example_world False))" for i
    by (simp add: example_world_def example_order_def new_order_def)
  have "length (cancel_rows 0 (\<lambda>n. CHR ''c'' # show_nat n) 0 [example_order]) = 1"
    by (simp add: cancel_rows_def)
  then show ?thesis
    using unfilled_orders_canceled [OF example_uuid_inj fresh, of 0 0 "[''o1'']", unfolded e Let_def]
    by (metis fst_conv)
qed

end
