(* ===== verification/Rebalance_Repository.thy ===== *)
theory Rebalance_Repository
  imports Order_Repository Py_Time
begin

text \<open>
  The \<open>rebalances\<close> table (\<^verbatim>\<open>app/db/models/rebalance.py\<close>) and the queries of
  \<^verbatim>\<open>app/repository/rebalance_repository.py\<close>.  A table is the list of its rows, times are seconds since
  the epoch, days are numbered from the epoch.  The columns \<open>diff_snapshot\<close>, \<open>created_at\<close> and
  \<open>updated_at\<close>, which no code reads or writes, are left out.
\<close>

section \<open>The table\<close>

record rebalance =
  rb_id :: uuid
  rb_strategy_name :: str
  rb_screener_name :: "str option"
  rb_universe_count :: int
  rb_buy_signal_count :: int
  rb_sell_count :: int
  rb_buy_count :: int
  rb_hold_count :: int
  rb_total_sell_value :: int
  rb_total_buy_value :: int
  rb_available_cash_before :: "int option"
  rb_estimated_cash_after :: "int option"
  rb_dry_run :: bool
  rb_status :: rebalance_status
  rb_error_message :: "str option"
  rb_strategy_params :: json
  rb_executed_at :: timestamp
  rb_completed_at :: "timestamp option"

type_synonym rebalances = "rebalance list"

section \<open>Queries\<close>

definition get_rebalances :: "rebalances \<Rightarrow> nat \<Rightarrow> nat \<Rightarrow> rebalances" where
  "get_rebalances db limit offset = take limit (drop offset (sort_key (\<lambda>r. - rb_executed_at r) db))"

definition get_rebalance_by_id :: "rebalances \<Rightarrow> uuid \<Rightarrow> rebalance option" where
  "get_rebalance_by_id db rebalance_id = List.find (\<lambda>r. rb_id r = rebalance_id) db"

definition get_rebalance_count :: "rebalances \<Rightarrow> nat" where
  "get_rebalance_count db = length db"

definition get_completed_rebalance_dates :: "rebalances \<Rightarrow> int \<Rightarrow> int \<Rightarrow> int list" where
  "get_completed_rebalance_dates db start_date end_date =
     sort (filter (\<lambda>d. start_date \<le> d \<and> d \<le> end_date)
       (map (\<lambda>r. kst_date (rb_executed_at r))
         (filter (\<lambda>r. rb_status r = RB_COMPLETED \<and> \<not> rb_dry_run r) db)))"

definition get_last_completed_rebalance_date :: "rebalances \<Rightarrow> int option" where
  "get_last_completed_rebalance_date db =
     (case sort_key (\<lambda>r. - rb_executed_at r) (filter (\<lambda>r. rb_status r = RB_COMPLETED \<and> \<not> rb_dry_run r) db) of
        [] \<Rightarrow> None
      | r # _ \<Rightarrow> Some (kst_date (rb_executed_at r)))"

text \<open>
  \<open>date_trunc('month', executed_at)\<close> works in the time zone of the database session, \<open>session_offset\<close>
  seconds ahead of UTC.
\<close>

definition session_date :: "int \<Rightarrow> timestamp \<Rightarrow> int" where
  "session_date session_offset t = (t + session_offset) div 86400"

definition same_month :: "int \<Rightarrow> int \<Rightarrow> bool" where
  "same_month a b = (year_of a = year_of b \<and> month_of a = month_of b)"

definition has_completed_rebalance_in_month :: "int \<Rightarrow> rebalances \<Rightarrow> int \<Rightarrow> bool" where
  "has_completed_rebalance_in_month session_offset db target_month =
     (filter (\<lambda>r. rb_status r \<in> set [RB_RUNNING, RB_COMPLETED] \<and> \<not> rb_dry_run r
                  \<and> same_month (session_date session_offset (rb_executed_at r)) target_month) db \<noteq> [])"

section \<open>Updates\<close>

text \<open>\<open>update(Rebalance).where(id == ...).values(...)\<close>.\<close>

definition update_rebalance :: "uuid \<Rightarrow> (rebalance \<Rightarrow> rebalance) \<Rightarrow> rebalances \<Rightarrow> rebalances" where
  "update_rebalance rid f db = map (\<lambda>r. if rb_id r = rid then f r else r) db"

section \<open>Lemmas\<close>

lemma last_completed_None:
  "get_last_completed_rebalance_date db = None \<longleftrightarrow> (\<forall>r \<in> set db. rb_status r = RB_COMPLETED \<longrightarrow> rb_dry_run r)"
proof -
  let ?rows = "filter (\<lambda>r. rb_status r = RB_COMPLETED \<and> \<not> rb_dry_run r) db"
  have "get_last_completed_rebalance_date db = None \<longleftrightarrow> sort_key (\<lambda>r. - rb_executed_at r) ?rows = []"
    by (simp add: get_last_completed_rebalance_date_def split: list.split)
  also have "\<dots> \<longleftrightarrow> ?rows = []" by (simp only: length_0_conv [symmetric] length_sort)
  finally show ?thesis unfolding filter_empty_conv by blast
qed

lemma last_completed_latest:
  assumes "get_last_completed_rebalance_date db = Some d"
    and "r \<in> set db" "rb_status r = RB_COMPLETED" "\<not> rb_dry_run r"
  shows "kst_date (rb_executed_at r) \<le> d"
proof -
  let ?rows = "filter (\<lambda>r. rb_status r = RB_COMPLETED \<and> \<not> rb_dry_run r) db"
  obtain x xs where s: "sort_key (\<lambda>r. - rb_executed_at r) ?rows = x # xs" and d: "d = kst_date (rb_executed_at x)"
    using assms(1) by (auto simp: get_last_completed_rebalance_date_def split: list.splits)
  have "r \<in> set (x # xs)" unfolding s [symmetric] using assms(2-4) by simp
  moreover have "sorted (map (\<lambda>r. - rb_executed_at r) (x # xs))"
    unfolding s [symmetric] by (rule sorted_sort_key)
  ultimately have "rb_executed_at r \<le> rb_executed_at x" by auto
  then show ?thesis unfolding d kst_date_def by (intro zdiv_mono1) simp_all
qed

end
