(* ===== verification/Market_Calendar.thy ===== *)
theory Market_Calendar
  imports Py_Time
begin

text \<open>
  \<^verbatim>\<open>app/utils/market_calendar.py\<close>: the KRX calendar and the window a rebalancing may run in.  QuantLib is
  a parameter: \<open>ql holidays\<close> is its South Korean KRX calendar with those holidays added, which
  answers whether a day is a business day and advances a day by a number of business days.
  Days are numbered from the epoch, times of the day are seconds.
\<close>

section \<open>The calendar\<close>

record ql_calendar =
  isBusinessDay :: "int \<Rightarrow> bool"
  advance :: "int \<Rightarrow> int \<Rightarrow> int"

definition KRX_EXTRA_HOLIDAYS :: "int list" where
  "KRX_EXTRA_HOLIDAYS = [day_of 2026 7 17]"

definition KrxCalendar :: "(int list \<Rightarrow> ql_calendar) \<Rightarrow> int list option \<Rightarrow> ql_calendar" where
  "KrxCalendar ql extra_holidays =
     ql (case extra_holidays of None \<Rightarrow> KRX_EXTRA_HOLIDAYS | Some hs \<Rightarrow> hs)"

definition is_business_day :: "ql_calendar \<Rightarrow> int \<Rightarrow> bool" where
  "is_business_day cal d = isBusinessDay cal d"

definition next_business_day :: "ql_calendar \<Rightarrow> int \<Rightarrow> int" where
  "next_business_day cal d = advance cal d 1"

definition previous_business_day :: "ql_calendar \<Rightarrow> int \<Rightarrow> int" where
  "previous_business_day cal d = advance cal d (- 1)"

definition adjust_to_next_business_day :: "ql_calendar \<Rightarrow> int \<Rightarrow> int" where
  "adjust_to_next_business_day cal d = (if is_business_day cal d then d else next_business_day cal d)"

definition add_business_days :: "ql_calendar \<Rightarrow> int \<Rightarrow> int \<Rightarrow> int" where
  "add_business_days cal d n = advance cal d n"

section \<open>The window\<close>

datatype WindowDecision =
    RUN_REBALANCE | SKIP_NOT_BUSINESS_DAY | SKIP_NOT_REBALANCE_DAY | SKIP_OUT_OF_TIME_WINDOW

record rebalance_window =
  rw_calendar :: ql_calendar
  rw_last_rebalance_date :: int
  rw_interval :: int
  rw_start :: int
  rw_end :: int
  rw_max_delay_business_days :: int

text \<open>\<open>RebalanceWindow(calendar, clock, last_rebalance_date)\<close>, the times from the settings.\<close>

definition new_window :: "ql_calendar \<Rightarrow> int \<Rightarrow> int \<Rightarrow> int \<Rightarrow> rebalance_window" where
  "new_window cal last_rebalance_date start_time end_time =
     \<lparr>rw_calendar = cal, rw_last_rebalance_date = last_rebalance_date, rw_interval = 30,
      rw_start = start_time, rw_end = end_time, rw_max_delay_business_days = 2\<rparr>"

definition next_rebalance_date :: "rebalance_window \<Rightarrow> int" where
  "next_rebalance_date win =
     adjust_to_next_business_day (rw_calendar win) (rw_last_rebalance_date win + rw_interval win)"

definition decide :: "rebalance_window \<Rightarrow> int \<Rightarrow> int \<Rightarrow> WindowDecision" where
  "decide win today current_time =
     (let D = next_rebalance_date win;
          delay_end = add_business_days (rw_calendar win) D (rw_max_delay_business_days win)
      in if \<not> is_business_day (rw_calendar win) today then SKIP_NOT_BUSINESS_DAY
         else if is_business_day (rw_calendar win) today \<and> D \<le> today \<and> today \<le> delay_end then
           (if rw_start win \<le> current_time \<and> current_time < rw_end win then RUN_REBALANCE
            else SKIP_OUT_OF_TIME_WINDOW)
         else SKIP_NOT_REBALANCE_DAY)"

section \<open>What QuantLib documents\<close>

text \<open>The business days after \<open>d\<close> up to \<open>e\<close>.\<close>

definition business_days :: "ql_calendar \<Rightarrow> int \<Rightarrow> int \<Rightarrow> int list" where
  "business_days cal d e = filter (isBusinessDay cal) [d + 1..e]"

text \<open>\<open>advance(d, n Days)\<close> for \<open>0 < n\<close> is the \<open>n\<close>-th business day after \<open>d\<close>.\<close>

definition advances_by_business_days :: "ql_calendar \<Rightarrow> bool" where
  "advances_by_business_days cal \<longleftrightarrow>
     (\<forall>d n. 0 < n \<longrightarrow> d < advance cal d n \<and> isBusinessDay cal (advance cal d n)
        \<and> int (length (business_days cal d (advance cal d n))) = n)"

lemma business_days_mono:
  assumes "e \<le> f"
  shows "length (business_days cal d e) \<le> length (business_days cal d f)"
proof (cases "d \<le> e \<and> e < f")
  case True
  then have "[d + 1..f] = [d + 1..e] @ [e + 1..f]"
    using upto_split1 [of "d + 1" "e + 1" f] by simp
  then show ?thesis by (simp add: business_days_def)
next
  case False
  with assms show ?thesis by (cases "e = f") (simp_all add: business_days_def)
qed

text \<open>A business day later than the \<open>n\<close>-th has more than \<open>n\<close> business days up to it.\<close>

lemma business_days_strict:
  assumes "e < f" "isBusinessDay cal f" "d \<le> e"
  shows "length (business_days cal d e) < length (business_days cal d f)"
proof -
  have "[d + 1..f] = [d + 1..f - 1] @ [f]" using assms by (simp add: upto_rec2)
  then have "length (business_days cal d f) = Suc (length (business_days cal d (f - 1)))"
    using assms(2) by (simp add: business_days_def)
  with business_days_mono [of e "f - 1" cal d] assms(1) show ?thesis by simp
qed

lemma within_delay:
  assumes "advances_by_business_days cal" "0 < n" "D \<le> t" "isBusinessDay cal t"
  shows "t \<le> advance cal D n \<longleftrightarrow> int (length (business_days cal D t)) \<le> n"
proof -
  have a: "D < advance cal D n" "int (length (business_days cal D (advance cal D n))) = n"
    using assms(1,2) unfolding advances_by_business_days_def by auto
  show ?thesis
    using business_days_mono [of t "advance cal D n" cal D] business_days_strict [of "advance cal D n" t cal D]
      a assms(4) by (metis leD le_less_linear less_imp_le of_nat_le_iff of_nat_less_iff order_less_le_trans)
qed

lemma first_business_day:
  assumes "advances_by_business_days cal" "\<not> isBusinessDay cal d"
  shows "isBusinessDay cal (advance cal d 1)" "d < advance cal d 1"
    "d \<le> x \<Longrightarrow> x < advance cal d 1 \<Longrightarrow> \<not> isBusinessDay cal x"
proof -
  have a: "d < advance cal d 1" "isBusinessDay cal (advance cal d 1)"
    "length (business_days cal d (advance cal d 1)) = 1"
    using assms(1) unfolding advances_by_business_days_def by (metis zero_less_one of_nat_eq_1_iff)+
  then show "isBusinessDay cal (advance cal d 1)" "d < advance cal d 1" by simp_all
  assume x: "d \<le> x" "x < advance cal d 1"
  show "\<not> isBusinessDay cal x"
  proof
    assume b: "isBusinessDay cal x"
    with assms(2) x have dx: "d < x" by (cases "d = x") auto
    have "length (business_days cal d x) < 1"
      using business_days_strict [of x "advance cal d 1" cal d] a x by simp
    moreover have "x \<in> set (business_days cal d x)" using dx b by (simp add: business_days_def)
    ultimately show False by (cases "business_days cal d x") simp_all
  qed
qed

end
