(* ===== verification/Rebalance_Executor.thy ===== *)
theory Rebalance_Executor
  imports Rebalance_Repository Order_Generator
begin

text \<open>
  \<^verbatim>\<open>app/strategy/runtime/rebalance_executor.py\<close>, \<^verbatim>\<open>app/strategy/runtime/executor_registry.py\<close> and
  \<^verbatim>\<open>app/services/rebalance/rebalance_orchestrator.py\<close>: a strategy's result becomes a position
  difference, orders and a row of \<open>rebalances\<close>.  The strategy is a parameter, from the fiscal
  year to its result.  The new row is flushed before the first order and committed with the first
  order, or at the end when there is none.  A failed commit leaves the session unusable until it
  is rolled back, so the handler's own update is swallowed then.  The result is \<open>None\<close> when the
  broker never stops paging the balance.
\<close>

section \<open>Data\<close>

datatype strategy_type = StrategyREBALANCE | StrategyDIRECT_TRADE

text \<open>The keys of \<open>StrategyResult.metadata\<close> that are read, with their absence.\<close>

record strategy_result =
  sr_strategy_type :: strategy_type
  sr_strategy_name :: str
  sr_orders :: "trade_intent list"
  sr_universe_count :: "int option"
  sr_screener_name :: "str option"
  sr_strategy_params :: "json option"

record rebalance_result =
  rr_rebalance_id :: str
  rr_universe_count :: int
  rr_signal_buy_count :: nat
  rr_diff_result :: "position_diff_result option"
  rr_order_result :: "order_generation_result option"
  rr_dry_run :: bool
  rr_success :: bool
  rr_error_message :: str

record rworld =
  rw_world :: world
  rw_rebalances :: rebalances
  rw_rebalance_alerts :: "rebalance_result list"

section \<open>Reading the intents and the account\<close>

definition buy_intents :: "strategy_result \<Rightarrow> trade_intent list" where
  "buy_intents sr = filter (\<lambda>x. ti_side x = SideBUY) (sr_orders sr)"

definition intent_names :: "trade_intent list \<Rightarrow> (str \<times> str) list" where
  "intent_names intents = dict_of (map (\<lambda>x. (ti_stock_code x, ti_stock_name x)) intents)"

definition intent_prices :: "trade_intent list \<Rightarrow> (str \<times> int) list" where
  "intent_prices intents =
     dict_of (List.map_filter (\<lambda>x. map_option (\<lambda>p. (ti_stock_code x, p)) (ti_price_hint x)) intents)"

fun current_holdings_of :: "holding_read list \<Rightarrow> current_holding list result" where
  "current_holdings_of [] = Inr []"
| "current_holdings_of (h # hs) =
     bind_result (py_int (hr_holding_qty h)) (\<lambda>q.
       bind_result (py_int (hr_current_price h)) (\<lambda>p.
         bind_result (py_int (hr_evaluation_amount h)) (\<lambda>v.
           bind_result (current_holdings_of hs) (\<lambda>rest.
             Inr (\<lparr>h_stock_code = hr_stock_code h, h_stock_name = hr_stock_name h, h_quantity = q,
                   h_current_price = p, h_eval_amount = v\<rparr> # rest)))))"

text \<open>Steps 3 and 4: the account and the difference; the cash is answered with it.\<close>

definition DEFAULT_CASH_BUFFER_RATIO :: rat where
  "DEFAULT_CASH_BUFFER_RATIO = fl (2 / 100)"

definition plan_rebalance ::
  "worker_env \<Rightarrow> strategy_result \<Rightarrow> world \<Rightarrow> ((position_diff_result \<times> int) result \<times> world) option" where
  "plan_rebalance env sr w =
     (case get_holding_list env w of
        None \<Rightarrow> None
      | Some (Inl e, w1) \<Rightarrow> Some (Inl e, w1)
      | Some (Inr holdings_raw, w1) \<Rightarrow>
          (case current_holdings_of holdings_raw of
             Inl e \<Rightarrow> Some (Inl e, w1)
           | Inr holdings \<Rightarrow>
               (case available_buy env w1 of
                  (Inl e, w2) \<Rightarrow> Some (Inl e, w2)
                | (Inr cash, w2) \<Rightarrow>
                    (let intents = buy_intents sr in
                     Some (Inr (calculate DEFAULT_CASH_BUFFER_RATIO (map ti_stock_code intents) (Some (sr_orders sr))
                                  holdings cash (intent_prices intents) (Some (intent_names intents)), cash), w2)))))"

section \<open>The row of the rebalancing\<close>

definition new_rebalance ::
  "timestamp \<Rightarrow> str \<Rightarrow> strategy_result \<Rightarrow> position_diff_result \<Rightarrow> int \<Rightarrow> bool \<Rightarrow> rebalance" where
  "new_rebalance now rid sr diff cash dry_run =
     \<lparr>rb_id = rid, rb_strategy_name = sr_strategy_name sr, rb_screener_name = sr_screener_name sr,
      rb_universe_count = (case sr_universe_count sr of None \<Rightarrow> 0 | Some n \<Rightarrow> n),
      rb_buy_signal_count = int (length (buy_intents sr)),
      rb_sell_count = int (length (pr_sell_list diff)), rb_buy_count = int (length (pr_buy_list diff)),
      rb_hold_count = int (length (pr_hold_list diff)),
      rb_total_sell_value = pr_total_sell_value diff, rb_total_buy_value = pr_total_buy_value diff,
      rb_available_cash_before = Some cash, rb_estimated_cash_after = Some (pr_estimated_cash_after diff),
      rb_dry_run = dry_run, rb_status = RB_RUNNING, rb_error_message = None,
      rb_strategy_params = (case sr_strategy_params sr of None \<Rightarrow> JObj [] | Some j \<Rightarrow> j),
      rb_executed_at = now, rb_completed_at = None\<rparr>"

definition session_failed :: "exn \<Rightarrow> bool" where
  "session_failed e = (case e of LibError c _ \<Rightarrow> c = ''IntegrityError'' | _ \<Rightarrow> False)"

definition mark_failed :: "str \<Rightarrow> exn \<Rightarrow> rebalances \<Rightarrow> rebalances" where
  "mark_failed rid e db =
     (if session_failed e then db
      else update_rebalance rid (\<lambda>r. r\<lparr>rb_status := RB_FAILED, rb_error_message := Some (exn_str e)\<rparr>) db)"

definition mark_completed :: "timestamp \<Rightarrow> str \<Rightarrow> rebalances \<Rightarrow> rebalances" where
  "mark_completed now rid db =
     update_rebalance rid (\<lambda>r. r\<lparr>rb_status := RB_COMPLETED, rb_completed_at := Some now\<rparr>) db"

section \<open>The executor\<close>

definition new_rebalance_result :: "str \<Rightarrow> strategy_result \<Rightarrow> bool \<Rightarrow> rebalance_result" where
  "new_rebalance_result rid sr dry_run =
     \<lparr>rr_rebalance_id = rid,
      rr_universe_count = (case sr_universe_count sr of None \<Rightarrow> 0 | Some n \<Rightarrow> n),
      rr_signal_buy_count = length (buy_intents sr), rr_diff_result = None, rr_order_result = None,
      rr_dry_run = dry_run, rr_success = False, rr_error_message = ''''\<rparr>"

text \<open>Step 5: the row, the orders, the submission and the completion.\<close>

definition execute_orders ::
  "order_generator \<Rightarrow> gen_env \<Rightarrow> strategy_result \<Rightarrow> position_diff_result \<Rightarrow> int \<Rightarrow> str \<Rightarrow> rebalance_result \<Rightarrow>
   rworld \<Rightarrow> rebalance_result \<times> rworld" where
  "execute_orders g env sr diff cash rid res w =
     (let now = e_now (ge_worker env);
          intents = buy_intents sr;
          (orders, n) = generate_orders g (ge_uuid env) diff (Some rid) 1;
          (out, s) = submit_orders g env (Some (map ti_stock_code intents)) (Some (pr_hold_list diff))
                       (Some (intent_prices intents)) (Some (intent_names intents))
                       \<lparr>su_result = orders, su_uuids = n, su_looks = 0, su_world = rw_world w\<rparr>;
          committed = (w_db (su_world s) \<noteq> w_db (rw_world w));
          table = rw_rebalances w @ [new_rebalance now rid sr diff cash False];
          res1 = res\<lparr>rr_order_result := Some (su_result s)\<rparr>
      in case out of
           Inr _ \<Rightarrow> (res1\<lparr>rr_success := True\<rparr>,
                     w\<lparr>rw_world := su_world s, rw_rebalances := mark_completed now rid table\<rparr>)
         | Inl e \<Rightarrow> (res1\<lparr>rr_error_message := exn_str e\<rparr>,
                     w\<lparr>rw_world := su_world s,
                       rw_rebalances := (if session_failed e \<and> \<not> committed then rw_rebalances w
                                         else mark_failed rid e table)\<rparr>))"

definition send_rebalance_alert :: "rebalance_result \<Rightarrow> rworld \<Rightarrow> rworld" where
  "send_rebalance_alert res w = w\<lparr>rw_rebalance_alerts := rw_rebalance_alerts w @ [res]\<rparr>"

text \<open>A dry run returns inside the \<open>try\<close>, without the alert.\<close>

definition submit_rebalance ::
  "order_generator \<Rightarrow> gen_env \<Rightarrow> strategy_result \<Rightarrow> bool \<Rightarrow> rworld \<Rightarrow> (rebalance_result \<times> rworld) option" where
  "submit_rebalance g env sr dry_run w =
     (let rid = ge_uuid env 0;
          res = new_rebalance_result rid sr dry_run
      in case plan_rebalance (ge_worker env) sr (rw_world w) of
           None \<Rightarrow> None
         | Some (Inl e, w1) \<Rightarrow>
             (let res1 = res\<lparr>rr_error_message := exn_str e\<rparr>
              in Some (res1, send_rebalance_alert res1
                   (w\<lparr>rw_world := w1, rw_rebalances := mark_failed rid e (rw_rebalances w)\<rparr>)))
         | Some (Inr (diff, cash), w1) \<Rightarrow>
             (let res1 = res\<lparr>rr_diff_result := Some diff\<rparr>
              in if dry_run then Some (res1\<lparr>rr_success := True\<rparr>, w\<lparr>rw_world := w1\<rparr>)
                 else let (res2, w2) =
                        (if rid \<in> rb_id ` set (rw_rebalances w)
                         then (res1\<lparr>rr_error_message := ''duplicate key value violates unique constraint''\<rparr>,
                               w\<lparr>rw_world := w1\<rparr>)
                         else execute_orders g env sr diff cash rid res1 (w\<lparr>rw_world := w1\<rparr>))
                      in Some (res2, send_rebalance_alert res2 w2)))"

section \<open>The orchestrator\<close>

text \<open>\<open>_infer_latest_available_fiscal_year\<close> of a day in Seoul.\<close>

definition infer_latest_available_fiscal_year :: "int \<Rightarrow> int" where
  "infer_latest_available_fiscal_year today =
     (let y = year_of today in if day_of y 4 15 \<le> today then y - 1 else y - 2)"

definition get_executor ::
  "strategy_type \<Rightarrow> settings \<Rightarrow> order_generator result" where
  "get_executor t st =
     (case t of
        StrategyREBALANCE \<Rightarrow> Inr (default_generator st)
      | StrategyDIRECT_TRADE \<Rightarrow> Inl (ValueError ''unsupported strategy type''))"

definition orchestrate ::
  "gen_env \<Rightarrow> strategy_type \<Rightarrow> (int \<Rightarrow> strategy_result result) \<Rightarrow> int option \<Rightarrow> bool \<Rightarrow> rworld \<Rightarrow>
   ((strategy_result \<times> rebalance_result) result \<times> rworld) option" where
  "orchestrate env stype strategy year dry_run w =
     (let y = (case year of None \<Rightarrow> infer_latest_available_fiscal_year (kst_date (e_now (ge_worker env))) | Some y \<Rightarrow> y)
      in case strategy y of
           Inl e \<Rightarrow> Some (Inl e, w)
         | Inr sr \<Rightarrow>
             (case get_executor stype (e_settings (ge_worker env)) of
                Inl e \<Rightarrow> Some (Inl e, w)
              | Inr g \<Rightarrow> map_option (\<lambda>(res, w'). (Inr (sr, res), w')) (submit_rebalance g env sr dry_run w)))"

section \<open>Lemmas\<close>

text \<open>A run that does not get to planning leaves orders, queue and requests as they are.\<close>

definition same_orders :: "world \<Rightarrow> world \<Rightarrow> bool" where
  "same_orders w w' \<longleftrightarrow> w_db w' = w_db w \<and> w_queue w' = w_queue w \<and> w_posts w' = w_posts w"

text \<open>Planning sends inquiries only.\<close>

lemma plan_inquires:
  assumes "plan_rebalance env sr w = Some (r, w')"
  shows "inquires_only w w'"
proof -
  obtain r1 w1 where h: "get_holding_list env w = Some (r1, w1)"
    using assms by (cases "get_holding_list env w") (auto simp: plan_rebalance_def)
  obtain r2 w2 where c: "available_buy env w1 = (r2, w2)" by (cases "available_buy env w1")
  have "w' = w1 \<or> w' = w2"
    using assms h c by (auto simp: plan_rebalance_def Let_def split: sum.splits)
  with on_balance_inquires [OF h [unfolded get_holding_list_def]] available_buy_inquires [OF c] inquires_only_trans
  show ?thesis by blast
qed

lemma update_rebalance_other:
  "rid \<notin> rb_id ` set db \<Longrightarrow> update_rebalance rid f (db @ rows) = db @ update_rebalance rid f rows"
  by (induction db) (auto simp: update_rebalance_def)

lemma update_rebalance_absent: "rid \<notin> rb_id ` set db \<Longrightarrow> update_rebalance rid f db = db"
  using update_rebalance_other [of rid db f "[]"] by (simp add: update_rebalance_def)

lemma mark_failed_absent: "rid \<notin> rb_id ` set db \<Longrightarrow> mark_failed rid e db = db"
  by (simp add: mark_failed_def update_rebalance_absent)

lemma execute_orders_table:
  assumes "rid \<notin> rb_id ` set (rw_rebalances w)"
    and "execute_orders g env sr diff cash rid res w = (res', w')" and "\<not> rr_success res"
  shows "rr_success res' \<Longrightarrow> rw_rebalances w' = rw_rebalances w
      @ [(new_rebalance (e_now (ge_worker env)) rid sr diff cash False)
           \<lparr>rb_status := RB_COMPLETED, rb_completed_at := Some (e_now (ge_worker env))\<rparr>]"
    and "rr_success res' \<or> rw_rebalances w' = rw_rebalances w
      \<or> (\<exists>st m. st \<noteq> RB_COMPLETED \<and> rw_rebalances w' = rw_rebalances w
          @ [(new_rebalance (e_now (ge_worker env)) rid sr diff cash False)\<lparr>rb_status := st, rb_error_message := m\<rparr>])"
    and "rw_rebalance_alerts w' = rw_rebalance_alerts w"
    and "rr_diff_result res' = rr_diff_result res" "rr_rebalance_id res' = rr_rebalance_id res"
proof -
  let ?row = "new_rebalance (e_now (ge_worker env)) rid sr diff cash False"
  have id: "rb_id ?row = rid" by (simp add: new_rebalance_def)
  note new = update_rebalance_other [OF assms(1)]
  obtain orders n where o: "generate_orders g (ge_uuid env) diff (Some rid) 1 = (orders, n)"
    by (cases "generate_orders g (ge_uuid env) diff (Some rid) 1")
  obtain out s where s: "submit_orders g env (Some (map ti_stock_code (buy_intents sr))) (Some (pr_hold_list diff))
      (Some (intent_prices (buy_intents sr))) (Some (intent_names (buy_intents sr)))
      \<lparr>su_result = orders, su_uuids = n, su_looks = 0, su_world = rw_world w\<rparr> = (out, s)"
    by (cases "submit_orders g env (Some (map ti_stock_code (buy_intents sr))) (Some (pr_hold_list diff))
      (Some (intent_prices (buy_intents sr))) (Some (intent_names (buy_intents sr)))
      \<lparr>su_result = orders, su_uuids = n, su_looks = 0, su_world = rw_world w\<rparr>")
  note run = assms(2) [unfolded execute_orders_def Let_def o s prod.case]
  have completed: "rw_rebalances w' = rw_rebalances w @ [?row\<lparr>rb_status := RB_COMPLETED, rb_completed_at := Some (e_now (ge_worker env))\<rparr>]"
    if "out = Inr u" for u
    using run that by (auto simp: mark_completed_def new id) (simp add: update_rebalance_def id)
  have failed: "rw_rebalances w' = rw_rebalances w \<or>
      (\<exists>st m. st \<noteq> RB_COMPLETED \<and> rw_rebalances w' = rw_rebalances w @ [?row\<lparr>rb_status := st, rb_error_message := m\<rparr>])"
    if "out = Inl e" for e
  proof (cases "session_failed e")
    case True
    have "?row\<lparr>rb_status := RB_RUNNING, rb_error_message := None\<rparr> = ?row" by (simp add: new_rebalance_def)
    then have "\<exists>st m. st \<noteq> RB_COMPLETED \<and> rw_rebalances w @ [?row]
        = rw_rebalances w @ [?row\<lparr>rb_status := st, rb_error_message := m\<rparr>]"
      by (metis rebalance_status.distinct(1))
    moreover have "rw_rebalances w' = rw_rebalances w \<or> rw_rebalances w' = rw_rebalances w @ [?row]"
      using True run that by (auto simp: mark_failed_def split: if_splits)
    ultimately show ?thesis by metis
  next
    case False
    then have "rw_rebalances w' = rw_rebalances w @ [?row\<lparr>rb_status := RB_FAILED, rb_error_message := Some (exn_str e)\<rparr>]"
      using run that by (auto simp: mark_failed_def new) (simp add: update_rebalance_def id)
    then show ?thesis by (metis rebalance_status.distinct(5))
  qed
  have success: "rr_success res' \<longleftrightarrow> (\<exists>u. out = Inr u)"
    using run assms(3) by (auto split: sum.splits)
  show "rr_success res' \<Longrightarrow> rw_rebalances w' = rw_rebalances w
      @ [?row\<lparr>rb_status := RB_COMPLETED, rb_completed_at := Some (e_now (ge_worker env))\<rparr>]"
    using completed success by blast
  show "rr_success res' \<or> rw_rebalances w' = rw_rebalances w
      \<or> (\<exists>st m. st \<noteq> RB_COMPLETED \<and> rw_rebalances w' = rw_rebalances w
          @ [?row\<lparr>rb_status := st, rb_error_message := m\<rparr>])"
    using failed success by (cases out) auto
  show "rw_rebalance_alerts w' = rw_rebalance_alerts w"
    "rr_diff_result res' = rr_diff_result res" "rr_rebalance_id res' = rr_rebalance_id res"
    using run by (auto split: sum.splits)
qed

section \<open>Property\<close>

lemma new_rebalance_id [simp]: "rb_id (new_rebalance now rid sr diff cash dry) = rid"
  by (simp add: new_rebalance_def)

lemma new_result_fields [simp]:
  "\<not> rr_success (new_rebalance_result rid sr dry)" "rr_rebalance_id (new_rebalance_result rid sr dry) = rid"
  by (simp_all add: new_rebalance_result_def)

text \<open>
  C18. The row of a rebalancing tells its outcome.  No run changes an earlier row.  When the plan fails
  (account, cash or holdings cannot be read), dry run or not, the run fails with that error, no row is
  written and the broker got inquiries only.  When the plan succeeds, a dry run succeeds, writes no
  row and sends inquiries only; a real run that succeeds adds the row of its plan as
  \<open>COMPLETED\<close>, and one that fails adds none, or that row with a status that is not \<open>COMPLETED\<close>.
\<close>

theorem rebalance_row_tells_outcome:
  assumes "ge_uuid env 0 \<notin> rb_id ` set (rw_rebalances w)"
    and "submit_rebalance g env sr dry_run w = Some (res, w')"
  shows "case plan_rebalance (ge_worker env) sr (rw_world w) of
      None \<Rightarrow> False
    | Some (Inl e, w1) \<Rightarrow>
        \<not> rr_success res \<and> rr_error_message res = exn_str e \<and> rw_rebalances w' = rw_rebalances w
        \<and> rw_world w' = w1 \<and> inquires_only (rw_world w) w1
    | Some (Inr (diff, cash), w1) \<Rightarrow>
        rr_diff_result res = Some diff \<and> rr_rebalance_id res = ge_uuid env 0
        \<and> (let row = new_rebalance (e_now (ge_worker env)) (ge_uuid env 0) sr diff cash False
           in if dry_run
              then rr_success res \<and> rw_rebalances w' = rw_rebalances w
                \<and> rw_world w' = w1 \<and> inquires_only (rw_world w) w1
              else if rr_success res
              then rw_rebalances w' = rw_rebalances w
                @ [row\<lparr>rb_status := RB_COMPLETED, rb_completed_at := Some (e_now (ge_worker env))\<rparr>]
              else rw_rebalances w' = rw_rebalances w
                \<or> (\<exists>st m. st \<noteq> RB_COMPLETED
                     \<and> rw_rebalances w' = rw_rebalances w @ [row\<lparr>rb_status := st, rb_error_message := m\<rparr>]))"
proof -
  let ?rid = "ge_uuid env 0"
  let ?res = "new_rebalance_result ?rid sr dry_run"
  obtain out w1 where p: "plan_rebalance (ge_worker env) sr (rw_world w) = Some (out, w1)"
    using assms(2) by (cases "plan_rebalance (ge_worker env) sr (rw_world w)") (auto simp: submit_rebalance_def Let_def)
  note reads = plan_inquires [OF p]
  show ?thesis
  proof (cases out)
    case (Inl e)
    with assms p reads show ?thesis
      by (auto simp: submit_rebalance_def Let_def send_rebalance_alert_def mark_failed_absent)
  next
    case (Inr dc)
    obtain diff cash where dc: "dc = (diff, cash)" by (cases dc)
    let ?res1 = "?res\<lparr>rr_diff_result := Some diff\<rparr>"
    show ?thesis
    proof (cases dry_run)
      case True
      with assms(2) p Inr dc reads show ?thesis by (auto simp: submit_rebalance_def Let_def)
    next
      case False
      obtain res2 w2 where x: "execute_orders g env sr diff cash ?rid ?res1 (w\<lparr>rw_world := w1\<rparr>) = (res2, w2)"
        by (cases "execute_orders g env sr diff cash ?rid ?res1 (w\<lparr>rw_world := w1\<rparr>)")
      have r: "res = res2" "rw_rebalances w' = rw_rebalances w2"
        using assms p Inr dc False x by (auto simp: submit_rebalance_def Let_def send_rebalance_alert_def)
      have "\<not> rr_success ?res1" "?rid \<notin> rb_id ` set (rw_rebalances (w\<lparr>rw_world := w1\<rparr>))" using assms(1) by simp_all
      note t = execute_orders_table [OF this(2) x this(1)]
      show ?thesis
      proof (cases "rr_success res")
        case True
        with t(1,4,5) r p Inr dc False show ?thesis by simp
      next
        case failed: False
        with t(2,4,5) r p Inr dc False show ?thesis by simp
      qed
    qed
  qed
qed

section \<open>Witness\<close>

definition example_account :: http where
  "example_account rq k =
     (if rq_endpoint rq = ''/uapi/domestic-stock/v1/trading/inquire-balance''
      then Response 200 (Some (JObj (example_page '''' [example_row ''A'']))) '''' ''''
      else Response 200 (Some (JObj example_cash_body)) '''' '''')"

definition example_strategy :: strategy_result where
  "example_strategy =
     \<lparr>sr_strategy_type = StrategyREBALANCE, sr_strategy_name = ''PM'', sr_orders = [], sr_universe_count = Some 3,
      sr_screener_name = None, sr_strategy_params = None\<rparr>"

definition example_rworld :: "bool \<Rightarrow> rworld" where
  "example_rworld kill = \<lparr>rw_world = example_world kill, rw_rebalances = [], rw_rebalance_alerts = []\<rparr>"

lemma example_holdings_read:
  "\<exists>hs rqs. get_holding_list (example_env example_account) (example_world False) = Some (Inr hs, log_requests rqs (example_world False))
     \<and> is_ok (current_holdings_of hs)"
proof -
  have s: "serves example_account (balance_request True ''12345678'' ''01'') 0 '''' '''' [example_page '''' [example_row ''A'']]"
    by code_simp
  have "AList.update ''output1'' (JList (page_rows (example_page '''' [example_row ''A'']))) (example_page '''' [example_row ''A''])
      = example_page '''' [example_row ''A'']" by code_simp
  then obtain more where "get_balance example_account True ''12345678'' ''01'' =
      Some (more, BalanceResponse (example_page '''' [example_row ''A'']))"
    using balance_loop_serves [of example_account "balance_request True ''12345678'' ''01''" "[]" "''''" "''''"
        "[example_page '''' [example_row ''A'']]" "[]"] s
    by (auto simp: get_balance_def simp del: serves.simps)
  moreover have "case BalanceResponse (example_page '''' [example_row ''A'']) of
      Inl _ \<Rightarrow> False | Inr b \<Rightarrow> is_ok (current_holdings_of (build_holding_list (b_output1 b)))" by code_simp
  ultimately show ?thesis
    by (auto simp: get_holding_list_def on_balance_def get_account_balance_def example_obtain split: sum.splits)
qed

lemma example_cash_read:
  "\<exists>w2. available_buy (example_env example_account) (log_requests rqs (example_world False)) = (Inr 1000, w2)"
proof -
  have "snd (get_available_buy example_account True ''12345678'' ''01'')
      = Inr (map (\<lambda>f. (f, ''1000'')) available_buy_fields)" by code_simp
  then show ?thesis
    by (simp add: available_buy_def obtain_after_log example_obtain example_amount case_prod_beta Let_def)
qed

text \<open>The plan of the example succeeds; against a broker that is not reached it fails.\<close>

lemma example_plan:
  "\<exists>diff w2. plan_rebalance (example_env example_account) example_strategy (example_world False) = Some (Inr (diff, 1000), w2)"
proof -
  obtain hs rqs where h: "get_holding_list (example_env example_account) (example_world False)
      = Some (Inr hs, log_requests rqs (example_world False))" "is_ok (current_holdings_of hs)"
    using example_holdings_read by blast
  obtain w2 where "available_buy (example_env example_account) (log_requests rqs (example_world False)) = (Inr 1000, w2)"
    using example_cash_read by blast
  with h show ?thesis by (cases "current_holdings_of hs") (auto simp: plan_rebalance_def Let_def)
qed

lemma unreachable_plan:
  "\<exists>e w2. plan_rebalance (example_env (\<lambda>_ _. NetworkError ''down'')) example_strategy (example_world False) = Some (Inl e, w2)"
proof -
  have "\<exists>rqs e. get_balance (\<lambda>_ _. NetworkError ''down'') True ''12345678'' ''01'' = Some (rqs, Inl e)"
    by (simp add: get_balance_def balance_loop.simps attempts)
  then show ?thesis
    by (auto simp: plan_rebalance_def get_holding_list_def on_balance_def get_account_balance_def example_obtain)
qed

text \<open>An account that holds nothing: a real run without targets has nothing to order and succeeds.\<close>

definition empty_account :: http where
  "empty_account rq k =
     (if rq_endpoint rq = ''/uapi/domestic-stock/v1/trading/inquire-balance''
      then Response 200 (Some (JObj (example_page '''' []))) '''' ''''
      else Response 200 (Some (JObj example_cash_body)) '''' '''')"

lemma idle_plan:
  "\<exists>diff w2. plan_rebalance (example_env empty_account) example_strategy (example_world False) = Some (Inr (diff, 1000), w2)
     \<and> pr_sell_list diff = [] \<and> pr_buy_list diff = []"
proof -
  have s: "serves empty_account (balance_request True ''12345678'' ''01'') 0 '''' '''' [example_page '''' []]"
    by code_simp
  have "AList.update ''output1'' (JList (page_rows (example_page '''' []))) (example_page '''' []) = example_page '''' []"
    by code_simp
  then obtain more where "get_balance empty_account True ''12345678'' ''01'' = Some (more, BalanceResponse (example_page '''' []))"
    using balance_loop_serves [of empty_account "balance_request True ''12345678'' ''01''" "[]" "''''" "''''"
        "[example_page '''' []]" "[]"] s
    by (auto simp: get_balance_def simp del: serves.simps)
  moreover have "case BalanceResponse (example_page '''' []) of Inl _ \<Rightarrow> False | Inr b \<Rightarrow> b_output1 b = []" by code_simp
  ultimately obtain rqs where h: "get_holding_list (example_env empty_account) (example_world False)
      = Some (Inr [], log_requests rqs (example_world False))"
    by (auto simp: get_holding_list_def on_balance_def get_account_balance_def example_obtain build_holding_list_def
        split: sum.splits)
  have "snd (get_available_buy empty_account True ''12345678'' ''01'')
      = Inr (map (\<lambda>f. (f, ''1000'')) available_buy_fields)" by code_simp
  then have "\<exists>w2. available_buy (example_env empty_account) (log_requests rqs (example_world False)) = (Inr 1000, w2)"
    by (simp add: available_buy_def obtain_after_log example_obtain example_amount case_prod_beta Let_def)
  with h show ?thesis
    by (auto simp: plan_rebalance_def Let_def buy_intents_def example_strategy_def calculate_def holding_map_def dict_of_def)
qed

lemma idle_run:
  "\<exists>res w'. submit_rebalance (default_generator \<lparr>s_paper = True, s_account_no = ''1'', s_account_product_code = ''01''\<rparr>)
      (example_gen_env empty_account) example_strategy False (example_rworld False) = Some (res, w') \<and> rr_success res"
proof -
  obtain diff w2 where p: "plan_rebalance (example_env empty_account) example_strategy (example_world False)
      = Some (Inr (diff, 1000), w2)" "pr_sell_list diff = []" "pr_buy_list diff = []" using idle_plan by blast
  then show ?thesis
    by (simp add: submit_rebalance_def example_gen_env_def example_rworld_def Let_def execute_orders_def generate_orders_def
        submit_orders_def submit_side_def recompute_buys_def recalculates_def buy_intents_def example_strategy_def)
qed

text \<open>A dry run that succeeds, a real run whose plan fails, and a real run that succeeds.\<close>

theorem rebalance_row_tells_outcome_witness:
  "(\<exists>res w'. submit_rebalance (default_generator \<lparr>s_paper = True, s_account_no = ''1'', s_account_product_code = ''01''\<rparr>)
        (example_gen_env example_account) example_strategy True (example_rworld False) = Some (res, w')
      \<and> rr_success res \<and> rw_rebalances w' = [])
   \<and> (\<exists>res w'. submit_rebalance (default_generator \<lparr>s_paper = True, s_account_no = ''1'', s_account_product_code = ''01''\<rparr>)
        (example_gen_env (\<lambda>_ _. NetworkError ''down'')) example_strategy False (example_rworld False) = Some (res, w')
      \<and> \<not> rr_success res \<and> rw_rebalances w' = [])
   \<and> (\<exists>res w'. submit_rebalance (default_generator \<lparr>s_paper = True, s_account_no = ''1'', s_account_product_code = ''01''\<rparr>)
        (example_gen_env empty_account) example_strategy False (example_rworld False) = Some (res, w')
      \<and> rr_success res \<and> map rb_status (rw_rebalances w') = [RB_COMPLETED])"
proof -
  let ?g = "default_generator \<lparr>s_paper = True, s_account_no = ''1'', s_account_product_code = ''01''\<rparr>"
  let ?out = "example_gen_env (\<lambda>_ _. NetworkError ''down'')" and ?env = "example_gen_env example_account"
  have fresh: "ge_uuid env 0 \<notin> rb_id ` set (rw_rebalances (example_rworld False))" for env
    by (simp add: example_rworld_def)
  have same: "ge_worker (example_gen_env h) = example_env h" "rw_world (example_rworld False) = example_world False" for h
    by (simp_all add: example_gen_env_def example_rworld_def)
  obtain diff w2 where p: "plan_rebalance (example_env example_account) example_strategy (example_world False)
      = Some (Inr (diff, 1000), w2)" using example_plan by blast
  then obtain res w' where r: "submit_rebalance ?g ?env example_strategy True (example_rworld False) = Some (res, w')"
    by (simp add: submit_rebalance_def same Let_def)
  obtain e w3 where q: "plan_rebalance (example_env (\<lambda>_ _. NetworkError ''down'')) example_strategy (example_world False)
      = Some (Inl e, w3)" using unreachable_plan by blast
  then obtain res2 w2' where r2: "submit_rebalance ?g ?out example_strategy False (example_rworld False) = Some (res2, w2')"
    by (simp add: submit_rebalance_def same Let_def)
  from rebalance_row_tells_outcome [OF fresh r] p have "rr_success res \<and> rw_rebalances w' = []"
    by (simp add: same Let_def) (simp add: example_rworld_def)
  moreover from rebalance_row_tells_outcome [OF fresh r2] q have "\<not> rr_success res2 \<and> rw_rebalances w2' = []"
    by (simp add: same) (simp add: example_rworld_def)
  moreover obtain res3 w3' where r3: "submit_rebalance ?g (example_gen_env empty_account) example_strategy False
      (example_rworld False) = Some (res3, w3')" "rr_success res3" using idle_run by blast
  obtain diff3 w3 where "plan_rebalance (example_env empty_account) example_strategy (example_world False)
      = Some (Inr (diff3, 1000), w3)" using idle_plan by blast
  with rebalance_row_tells_outcome [OF fresh r3(1)] r3(2) have "map rb_status (rw_rebalances w3') = [RB_COMPLETED]"
    by (simp add: same Let_def) (simp add: example_rworld_def)
  ultimately show ?thesis using r r2 r3 by (elim conjE, intro conjI exI) assumption+
qed

end
