(* ===== verification/Tasks_Rebalance.thy ===== *)
theory Tasks_Rebalance
  imports Rebalance_Executor Market_Calendar
begin

text \<open>
  The automatic rebalancing, \<^verbatim>\<open>app/worker/tasks_rebalance.py\<close>, with its schedule in
  \<^verbatim>\<open>app/worker/celery_app.py\<close>: the kill switch, the distributed lock, the last rebalancing, the window and
  the month's rows are gates before the orchestrator runs.  One run happens at one time; the
  alert's Korean texts are ASCII here.  \<open>None\<close> is a run whose balance inquiry never ends.
\<close>

section \<open>Environment\<close>

definition REBALANCE_LOCK_KEY :: str where "REBALANCE_LOCK_KEY = ''lock:rebalance:auto''"
definition REBALANCE_LOCK_TTL_SECONDS :: int where "REBALANCE_LOCK_TTL_SECONDS = 600"

record rebalance_env =
  re_gen :: gen_env
  re_quantlib :: "int list \<Rightarrow> ql_calendar"
  re_start_time :: int
  re_end_time :: int
  re_session_offset :: int
  re_strategy_type :: strategy_type
  re_strategy :: "int \<Rightarrow> strategy_result result"
  re_release_fails :: bool

definition re_now :: "rebalance_env \<Rightarrow> timestamp" where
  "re_now env = e_now (ge_worker (re_gen env))"

text \<open>The beat entry: \<open>dry_run=False\<close>, \<open>force=True\<close>.\<close>

definition beat_kwargs :: "bool \<times> bool" where
  "beat_kwargs = (False, True)"

section \<open>The run\<close>

definition rebalance_alert :: "str \<Rightarrow> str \<Rightarrow> rworld \<Rightarrow> rworld" where
  "rebalance_alert order_id message w =
     w\<lparr>rw_world := send_alert \<lparr>al_stock_code = ''-'', al_order_id = order_id, al_action = ''REBALANCE'',
                              al_message = message\<rparr> (rw_world w)\<rparr>"

definition window_decision :: "rebalance_env \<Rightarrow> int \<Rightarrow> WindowDecision" where
  "window_decision env last_rebalance_date =
     decide (new_window (KrxCalendar (re_quantlib env) None) last_rebalance_date (re_start_time env) (re_end_time env))
       (kst_date (re_now env)) ((re_now env + 9 * 3600) mod 86400)"

definition run_orchestrator :: "rebalance_env \<Rightarrow> bool \<Rightarrow> rworld \<Rightarrow> (unit result \<times> rworld) option" where
  "run_orchestrator env dry_run w =
     (case orchestrate (re_gen env) (re_strategy_type env) (re_strategy env) None dry_run w of
        None \<Rightarrow> None
      | Some (Inl e, w') \<Rightarrow>
          Some (Inr (), rebalance_alert ''-'' (''automatic rebalancing failed - exception: '' @ exn_str e) w')
      | Some (Inr (_, res), w') \<Rightarrow>
          Some (Inr (),
            if rr_success res then w'
            else rebalance_alert (if rr_rebalance_id res = '''' then ''-'' else rr_rebalance_id res)
                   (''automatic rebalancing failed: '' @ rr_error_message res) w'))"

definition execute_under_lock :: "rebalance_env \<Rightarrow> bool \<Rightarrow> bool \<Rightarrow> rworld \<Rightarrow> (unit result \<times> rworld) option" where
  "execute_under_lock env dry_run force w =
     (case get_last_completed_rebalance_date (rw_rebalances w) of
        None \<Rightarrow> Some (Inr (), w)
      | Some last_rebalance_date \<Rightarrow>
          if window_decision env last_rebalance_date \<noteq> RUN_REBALANCE then Some (Inr (), w)
          else if \<not> force
                  \<and> has_completed_rebalance_in_month (re_session_offset env) (rw_rebalances w) (kst_date (re_now env))
          then Some (Inr (), w)
          else run_orchestrator env dry_run w)"

text \<open>The body as the lock takes it: a run that never ends is the result \<open>None\<close>.\<close>

definition locked_body :: "rebalance_env \<Rightarrow> bool \<Rightarrow> bool \<Rightarrow> rworld \<Rightarrow> unit option result \<times> rworld" where
  "locked_body env dry_run force w =
     (case execute_under_lock env dry_run force w of
        None \<Rightarrow> (Inr None, w)
      | Some (res, w') \<Rightarrow> (bind_result res (\<lambda>_. Inr (Some ())), w'))"

definition get_redis :: "rworld \<Rightarrow> redis" where
  "get_redis w = w_redis (rw_world w)"

definition put_redis :: "redis \<Rightarrow> rworld \<Rightarrow> rworld" where
  "put_redis r w = w\<lparr>rw_world := (rw_world w)\<lparr>w_redis := r\<rparr>\<rparr>"

definition execute_rebalance :: "rebalance_env \<Rightarrow> bool \<Rightarrow> bool \<Rightarrow> rworld \<Rightarrow> (unit result \<times> rworld) option" where
  "execute_rebalance env dry_run force w =
     (if kill_switch_is_on (re_now env) (get_redis w)
      then Some (Inr (), rebalance_alert ''-'' ''the kill switch was on when the automatic rebalancing was triggered'' w)
      else case distributed_lock get_redis put_redis (re_now env) REBALANCE_LOCK_KEY REBALANCE_LOCK_TTL_SECONDS
                  (re_release_fails env) (locked_body env dry_run force) w of
             (Inl (LockAcquisitionError _), w') \<Rightarrow> Some (Inr (), w')
           | (Inl e, w') \<Rightarrow> Some (Inl e, w')
           | (Inr None, w') \<Rightarrow> None
           | (Inr (Some _), w') \<Rightarrow> Some (Inr (), w'))"

interpretation rebalance_lock: mutex
  "\<lambda>t r. acquire_lock t r REBALANCE_LOCK_KEY REBALANCE_LOCK_TTL_SECONDS" "\<lambda>r. release_lock r REBALANCE_LOCK_KEY"
  "locked REBALANCE_LOCK_KEY" REBALANCE_LOCK_TTL_SECONDS
  by (rule redis_mutex) (simp add: REBALANCE_LOCK_TTL_SECONDS_def)

section \<open>Gates\<close>

text \<open>When the orchestrator is reached.\<close>

definition gates_open :: "rebalance_env \<Rightarrow> bool \<Rightarrow> rworld \<Rightarrow> bool" where
  "gates_open env force w \<longleftrightarrow>
     \<not> kill_switch_is_on (re_now env) (get_redis w) \<and> \<not> locked REBALANCE_LOCK_KEY (re_now env) (get_redis w)
     \<and> (case get_last_completed_rebalance_date (rw_rebalances w) of
          None \<Rightarrow> False
        | Some d \<Rightarrow> window_decision env d = RUN_REBALANCE
            \<and> (force \<or> \<not> has_completed_rebalance_in_month (re_session_offset env) (rw_rebalances w) (kst_date (re_now env))))"

text \<open>A window that says run.\<close>

lemma window_run:
  assumes "advances_by_business_days cal"
  shows "decide (new_window cal prev s e) today t = RUN_REBALANCE \<longleftrightarrow>
    (\<exists>D. prev + 30 \<le> D \<and> isBusinessDay cal D \<and> (\<forall>x. prev + 30 \<le> x \<and> x < D \<longrightarrow> \<not> isBusinessDay cal x)
       \<and> D \<le> today \<and> isBusinessDay cal today \<and> length (business_days cal D today) \<le> 2 \<and> s \<le> t \<and> t < e)"
    (is "?run \<longleftrightarrow> (\<exists>D. ?first D \<and> ?rest D)")
proof -
  define D where "D = next_rebalance_date (new_window cal prev s e)"
  have D: "prev + 30 \<le> D" "isBusinessDay cal D" "\<And>x. prev + 30 \<le> x \<Longrightarrow> x < D \<Longrightarrow> \<not> isBusinessDay cal x"
    using first_business_day [OF assms, of "prev + 30"]
    by (auto simp: D_def next_rebalance_date_def new_window_def adjust_to_next_business_day_def
        is_business_day_def next_business_day_def split: if_splits)
  have unique: "D' = D" if "prev + 30 \<le> D'" "isBusinessDay cal D'"
    "\<forall>x. prev + 30 \<le> x \<and> x < D' \<longrightarrow> \<not> isBusinessDay cal x" for D'
    using that D by (metis not_less_iff_gr_or_eq)
  have "?run \<longleftrightarrow> isBusinessDay cal today \<and> D \<le> today \<and> today \<le> advance cal D 2 \<and> s \<le> t \<and> t < e"
    by (auto simp: decide_def D_def [symmetric] Let_def)
      (auto simp: new_window_def is_business_day_def add_business_days_def)
  also have "\<dots> \<longleftrightarrow> isBusinessDay cal today \<and> D \<le> today \<and> length (business_days cal D today) \<le> 2 \<and> s \<le> t \<and> t < e"
    using within_delay [OF assms, of 2 D today] by auto
  finally show ?thesis using D unique by metis
qed

section \<open>Properties\<close>

text \<open>
  C17. The automatic rebalancing passes through its gates only: with the kill switch on, the lock
  taken, no completed rebalancing yet, the window closed, or (unless forced) a running or
  completed rebalancing of this month, the run ends normally and leaves rows, orders, queue and
  requests as they were.
\<close>

theorem automatic_rebalance_gated:
  assumes "\<not> gates_open env force w"
  shows "\<exists>w'. execute_rebalance env dry_run force w = Some (Inr (), w')
    \<and> rw_rebalances w' = rw_rebalances w \<and> same_orders (rw_world w) (rw_world w')"
proof (cases "kill_switch_is_on (re_now env) (get_redis w)")
  case True
  then show ?thesis
    by (simp add: execute_rebalance_def rebalance_alert_def same_orders_def send_alert_def)
next
  case on: False
  show ?thesis
  proof (cases "acquire_lock (re_now env) (get_redis w) REBALANCE_LOCK_KEY REBALANCE_LOCK_TTL_SECONDS")
    case (Pair ok r)
    have ok: "ok \<longleftrightarrow> \<not> locked REBALANCE_LOCK_KEY (re_now env) (get_redis w)"
      using acquire_lock_fst [of "re_now env" "get_redis w" REBALANCE_LOCK_KEY REBALANCE_LOCK_TTL_SECONDS] Pair by simp
    show ?thesis
    proof (cases ok)
      case False
      with Pair on show ?thesis
        by (simp add: execute_rebalance_def distributed_lock_def same_orders_def)
    next
      case True
      have "rw_rebalances (put_redis r w) = rw_rebalances w" by (simp add: put_redis_def)
      then have "locked_body env dry_run force (put_redis r w) = (Inr (Some ()), put_redis r w)"
        using assms on ok True
        by (simp add: gates_open_def locked_body_def execute_under_lock_def split: option.splits)
      with Pair on True show ?thesis
        by (simp add: execute_rebalance_def distributed_lock_def put_redis_def get_redis_def same_orders_def)
    qed
  qed
qed

text \<open>
  C37. The window is open exactly from the first business day at least 30 days after the last
  rebalancing, on business days, up to two business days later, within the time of day; for a
  calendar that advances by business days, as QuantLib documents.
\<close>

theorem rebalance_window_exact:
  assumes "advances_by_business_days (KrxCalendar (re_quantlib env) None)"
  shows "window_decision env prev = RUN_REBALANCE \<longleftrightarrow>
    (\<exists>D. prev + 30 \<le> D \<and> isBusinessDay (KrxCalendar (re_quantlib env) None) D
       \<and> (\<forall>x. prev + 30 \<le> x \<and> x < D \<longrightarrow> \<not> isBusinessDay (KrxCalendar (re_quantlib env) None) x)
       \<and> D \<le> kst_date (re_now env) \<and> isBusinessDay (KrxCalendar (re_quantlib env) None) (kst_date (re_now env))
       \<and> length (business_days (KrxCalendar (re_quantlib env) None) D (kst_date (re_now env))) \<le> 2
       \<and> re_start_time env \<le> (re_now env + 9 * 3600) mod 86400 \<and> (re_now env + 9 * 3600) mod 86400 < re_end_time env)"
  unfolding window_decision_def using window_run [OF assms] by blast

section \<open>Witnesses\<close>

definition every_day :: ql_calendar where
  "every_day = \<lparr>isBusinessDay = (\<lambda>_. True), advance = (\<lambda>d n. d + n)\<rparr>"

definition example_rebalance_env :: rebalance_env where
  "example_rebalance_env =
     \<lparr>re_gen = example_gen_env example_account, re_quantlib = (\<lambda>_. every_day), re_start_time = 9 * 3600,
      re_end_time = 10 * 3600, re_session_offset = 0, re_strategy_type = StrategyREBALANCE,
      re_strategy = (\<lambda>_. Inr example_strategy), re_release_fails = False\<rparr>"

lemma every_day_advances: "advances_by_business_days every_day"
  by (simp add: advances_by_business_days_def every_day_def business_days_def)

theorem automatic_rebalance_gated_witness:
  "\<exists>w'. execute_rebalance example_rebalance_env False True (example_rworld True) = Some (Inr (), w')
    \<and> rw_rebalances w' = [] \<and> w_posts (rw_world w') = []"
proof -
  have "\<not> gates_open example_rebalance_env True (example_rworld True)"
    by (simp add: gates_open_def get_last_completed_rebalance_date_def example_rworld_def)
  from automatic_rebalance_gated [OF this, of False] show ?thesis
    by (auto simp: example_rworld_def same_orders_def example_world_def)
qed

theorem rebalance_window_exact_witness:
  "window_decision example_rebalance_env (kst_date (re_now example_rebalance_env) - 29) \<noteq> RUN_REBALANCE"
proof -
  have "advances_by_business_days (KrxCalendar (re_quantlib example_rebalance_env) None)"
    by (simp add: KrxCalendar_def example_rebalance_env_def every_day_advances)
  from rebalance_window_exact [OF this, of "kst_date (re_now example_rebalance_env) - 29"] show ?thesis by auto
qed

end
