(* ===== verification/Recovery.thy ===== *)
theory Recovery
  imports Worker_World
begin

text \<open>
  Recovery after a restart, \<^verbatim>\<open>app/worker/recovery.py\<close> and \<^verbatim>\<open>app/worker/tasks_recovery.py\<close>, and the task
  routing and worker start of \<^verbatim>\<open>app/worker/celery_app.py\<close>.
\<close>

section \<open>Routing\<close>

definition task_default_queue :: str where "task_default_queue = ''orders.submit''"

definition task_routes :: "(str \<times> str) list" where
  "task_routes =
     [(''app.worker.tasks_order.process_order'', ''orders.submit''),
      (''app.worker.tasks_order_status.process_order_status'', ''orders.track''),
      (''app.worker.tasks_recovery.recover_orders'', ''orders.recovery''),
      (''app.worker.tasks_rebalance.execute_rebalance'', ''rebalance''),
      (''app.worker.tasks_snapshot.capture_rebalance_snapshot'', ''orders.track'')]"

definition queue_of :: "str \<Rightarrow> str" where
  "queue_of name = (case dict_get task_routes name of None \<Rightarrow> task_default_queue | Some q \<Rightarrow> q)"

text \<open>Whether a starting worker registers the recovery task.\<close>

definition on_worker_ready :: "str option \<Rightarrow> bool" where
  "on_worker_ready hostname = (take 8 (or_text hostname '''') = ''worker3@'')"

section \<open>Recovery\<close>

definition RECOVERY_LOCK_KEY :: str where "RECOVERY_LOCK_KEY = ''autotrading:recovery:startup''"
definition RECOVERY_LOCK_TTL_SECONDS :: int where "RECOVERY_LOCK_TTL_SECONDS = 300"

definition recover_submit_orders :: "world \<Rightarrow> world" where
  "recover_submit_orders w =
     fold (\<lambda>r. enqueue (ProcessOrder (o_id r) 0)) (get_recoverable_submit_orders (w_db w)) w"

definition recover_tracking_orders :: "world \<Rightarrow> world" where
  "recover_tracking_orders w =
     fold (\<lambda>r. enqueue (TrackOrder (o_id r) 0 None 0)) (get_recoverable_tracking_orders (w_db w)) w"

text \<open>\<open>recover_all_orders\<close>; a refused lock is logged and skipped.\<close>

definition recover_all_orders :: "timestamp \<Rightarrow> bool \<Rightarrow> unit action" where
  "recover_all_orders now release_fails w =
     (case distributed_lock w_redis (\<lambda>r w. w\<lparr>w_redis := r\<rparr>) now RECOVERY_LOCK_KEY RECOVERY_LOCK_TTL_SECONDS
             release_fails (\<lambda>w. (Inr (), recover_tracking_orders (recover_submit_orders w))) w of
        (Inl (LockAcquisitionError _), w') \<Rightarrow> (Inr (), w')
      | (res, w') \<Rightarrow> (res, w'))"

interpretation recovery_lock: mutex
  "\<lambda>t r. acquire_lock t r RECOVERY_LOCK_KEY RECOVERY_LOCK_TTL_SECONDS" "\<lambda>r. release_lock r RECOVERY_LOCK_KEY"
  "locked RECOVERY_LOCK_KEY" RECOVERY_LOCK_TTL_SECONDS
  by (rule redis_mutex) (simp add: RECOVERY_LOCK_TTL_SECONDS_def)

section \<open>Lemmas\<close>

lemma fold_enqueue: "fold (\<lambda>r. enqueue (f r)) rows w = w\<lparr>w_queue := w_queue w @ map f rows\<rparr>"
  by (induction rows arbitrary: w) (simp_all add: enqueue_def)

text \<open>What the recovery puts on the queue.\<close>

definition recovery_tasks :: "orders \<Rightarrow> task list" where
  "recovery_tasks db =
     map (\<lambda>r. ProcessOrder (o_id r) 0) (get_recoverable_submit_orders db)
     @ map (\<lambda>r. TrackOrder (o_id r) 0 None 0) (get_recoverable_tracking_orders db)"

lemma recover_both:
  "recover_tracking_orders (recover_submit_orders w) = w\<lparr>w_queue := w_queue w @ recovery_tasks (w_db w)\<rparr>"
  by (simp add: recover_tracking_orders_def recover_submit_orders_def fold_enqueue recovery_tasks_def)

lemma recovery_run:
  assumes "\<not> locked RECOVERY_LOCK_KEY now (w_redis w)"
  shows "\<exists>redis. recover_all_orders now rf w = (Inr (), w\<lparr>w_redis := redis, w_queue := w_queue w @ recovery_tasks (w_db w)\<rparr>)"
proof -
  obtain ok red where a: "acquire_lock now (w_redis w) RECOVERY_LOCK_KEY RECOVERY_LOCK_TTL_SECONDS = (ok, red)"
    by (cases "acquire_lock now (w_redis w) RECOVERY_LOCK_KEY RECOVERY_LOCK_TTL_SECONDS")
  with assms acquire_lock_fst [of now "w_redis w" RECOVERY_LOCK_KEY RECOVERY_LOCK_TTL_SECONDS] have ok by simp
  with a have "recover_all_orders now rf w =
      (Inr (), w\<lparr>w_redis := if rf then red else release_lock red RECOVERY_LOCK_KEY,
                 w_queue := w_queue w @ recovery_tasks (w_db w)\<rparr>)"
    by (simp add: recover_all_orders_def distributed_lock_def recover_both)
  then show ?thesis by blast
qed

text \<open>How often a list queues a task of one order.\<close>

lemma count_tasks:
  "inj task_of \<Longrightarrow> count_list (map (\<lambda>r. task_of (o_id r)) rows) (task_of k) = length (filter (\<lambda>r. o_id r = k) rows)"
  by (induction rows) (auto dest: injD)

lemma count_other_task:
  "(\<And>i. task_of i \<noteq> t) \<Longrightarrow> count_list (map (\<lambda>r. task_of (o_id r)) rows) t = 0"
  by (induction rows) auto

lemma filter_id_distinct:
  "distinct (map o_id db) \<Longrightarrow> r \<in> set db \<Longrightarrow> length (filter (\<lambda>x. o_id x = o_id r \<and> P x) db) = (if P r then 1 else 0)"
proof (induction db)
  case (Cons x xs)
  show ?case
  proof (cases "x = r")
    case True
    have "o_id y \<noteq> o_id r" if "y \<in> set xs" for y
      using Cons.prems(1) True imageI [OF that, of o_id] by auto
    then have "filter (\<lambda>x. o_id x = o_id r \<and> P x) xs = []" by (simp add: filter_empty_conv)
    with True show ?thesis by simp
  next
    case False
    with Cons show ?thesis by force
  qed
qed simp

lemma selected_once:
  assumes "distinct (map o_id db)" "r \<in> set db"
  shows "length (filter (\<lambda>x. o_id x = o_id r) (sort_key f (filter P db))) = (if P r then 1 else 0)"
  using filter_id_distinct [OF assms, of P] by (simp add: filter_sort conj_commute)

section \<open>Property\<close>

text \<open>
  C19. Recovery after a restart: if no other instance is recovering, every pending order is put on
  the submission queue once, every order that is with the broker under a number once on the tracking
  queue, nothing else is queued or changed, and the lock is free afterwards (unless its release
  fails); if another instance holds the lock, nothing happens.
\<close>

theorem recovery_requeues_exactly:
  assumes "distinct (map o_id (w_db w))" and "r \<in> set (w_db w)"
  shows "(locked RECOVERY_LOCK_KEY now (w_redis w) \<longrightarrow> recover_all_orders now rf w = (Inr (), w))
    \<and> (\<not> locked RECOVERY_LOCK_KEY now (w_redis w) \<longrightarrow>
        (\<exists>redis tasks. recover_all_orders now rf w = (Inr (), w\<lparr>w_redis := redis, w_queue := w_queue w @ tasks\<rparr>)
          \<and> count_list tasks (ProcessOrder (o_id r) 0) = (if o_status r = PENDING then 1 else 0)
          \<and> count_list tasks (TrackOrder (o_id r) 0 None 0)
              = (if o_status r \<in> {REQUESTED, ACCEPTED, PARTIAL_FILLED} \<and> o_broker_order_no r \<noteq> None then 1 else 0)
          \<and> length tasks = length (get_recoverable_submit_orders (w_db w)) + length (get_recoverable_tracking_orders (w_db w))
          \<and> (rf \<or> \<not> locked RECOVERY_LOCK_KEY t redis)))"
proof -
  obtain ok red where a: "acquire_lock now (w_redis w) RECOVERY_LOCK_KEY RECOVERY_LOCK_TTL_SECONDS = (ok, red)"
    by (cases "acquire_lock now (w_redis w) RECOVERY_LOCK_KEY RECOVERY_LOCK_TTL_SECONDS")
  have ok: "ok \<longleftrightarrow> \<not> locked RECOVERY_LOCK_KEY now (w_redis w)"
    using a acquire_lock_fst [of now "w_redis w" RECOVERY_LOCK_KEY RECOVERY_LOCK_TTL_SECONDS] by simp
  let ?tasks = "recovery_tasks (w_db w)"
  let ?red = "if rf then red else release_lock red RECOVERY_LOCK_KEY"
  have run: "recover_all_orders now rf w =
      (Inr (), if ok then w\<lparr>w_redis := ?red, w_queue := w_queue w @ ?tasks\<rparr> else w)"
    using a by (simp add: recover_all_orders_def distributed_lock_def recover_both)
  have submit: "inj (\<lambda>k. ProcessOrder k 0)" and track: "inj (\<lambda>k. TrackOrder k 0 None 0)"
    by (simp_all add: inj_def)
  have "count_list ?tasks (ProcessOrder (o_id r) 0) = (if o_status r = PENDING then 1 else 0)"
    using selected_once [OF assms, of o_created_at "\<lambda>r. o_status r = PENDING"]
    by (simp add: recovery_tasks_def get_recoverable_submit_orders_def count_tasks [OF submit]
        count_other_task [of "\<lambda>k. TrackOrder k 0 None 0"])
  moreover have "count_list ?tasks (TrackOrder (o_id r) 0 None 0)
      = (if o_status r \<in> {REQUESTED, ACCEPTED, PARTIAL_FILLED} \<and> o_broker_order_no r \<noteq> None then 1 else 0)"
    using selected_once [OF assms, of o_created_at
        "\<lambda>r. o_status r \<in> set [REQUESTED, ACCEPTED, PARTIAL_FILLED] \<and> o_broker_order_no r \<noteq> None"]
    by (simp add: recovery_tasks_def get_recoverable_tracking_orders_def count_tasks [OF track]
        count_other_task [of "\<lambda>k. ProcessOrder k 0"])
  moreover have "length ?tasks = length (get_recoverable_submit_orders (w_db w)) + length (get_recoverable_tracking_orders (w_db w))"
    by (simp add: recovery_tasks_def)
  moreover have "rf \<or> \<not> locked RECOVERY_LOCK_KEY t ?red"
    by (simp add: locked_def release_lock_def)
  ultimately have "recover_all_orders now rf w = (Inr (), w\<lparr>w_redis := ?red, w_queue := w_queue w @ ?tasks\<rparr>)
      \<and> count_list ?tasks (ProcessOrder (o_id r) 0) = (if o_status r = PENDING then 1 else 0)
      \<and> count_list ?tasks (TrackOrder (o_id r) 0 None 0)
          = (if o_status r \<in> {REQUESTED, ACCEPTED, PARTIAL_FILLED} \<and> o_broker_order_no r \<noteq> None then 1 else 0)
      \<and> length ?tasks = length (get_recoverable_submit_orders (w_db w)) + length (get_recoverable_tracking_orders (w_db w))
      \<and> (rf \<or> \<not> locked RECOVERY_LOCK_KEY t ?red)" if "ok"
    using that run by (intro conjI) (simp_all only: if_True)
  then show ?thesis using run ok by (intro conjI impI) (simp, blast)
qed

text \<open>One pending order, nobody recovering.\<close>

definition recovery_example :: world where
  "recovery_example =
     \<lparr>w_db = [new_order 0 ''a''], w_redis = Map.empty, w_token_requests = [], w_posts = [], w_queue = [],
      w_published = [], w_alerts = []\<rparr>"

theorem recovery_requeues_exactly_witness:
  "\<exists>redis tasks. recover_all_orders 7 False recovery_example
       = (Inr (), recovery_example\<lparr>w_redis := redis, w_queue := tasks\<rparr>)
     \<and> count_list tasks (ProcessOrder ''a'' 0) = 1 \<and> length tasks = 1"
proof -
  have w: "distinct (map o_id (w_db recovery_example))" "new_order 0 ''a'' \<in> set (w_db recovery_example)"
    "\<not> locked RECOVERY_LOCK_KEY 7 (w_redis recovery_example)"
    by (simp_all add: recovery_example_def locked_def redis_get_def)
  have "get_recoverable_submit_orders (w_db recovery_example) = [new_order 0 ''a'']"
    "get_recoverable_tracking_orders (w_db recovery_example) = []" "w_queue recovery_example = []"
    "o_id (new_order 0 ''a'') = ''a''" "o_status (new_order 0 ''a'') = PENDING"
    by (simp_all add: recovery_example_def get_recoverable_submit_orders_def get_recoverable_tracking_orders_def new_order_def)
  with recovery_requeues_exactly [OF w(1,2), of 7 False 7] w(3) show ?thesis by auto
qed

end
