(* ===== verification/Pipeline.thy ===== *)
theory Pipeline
  imports Track_Worker Recovery
begin

text \<open>
  The order pipeline as a whole: any number of worker processes run the handlers of
  \<^verbatim>\<open>app/worker/tasks_order.py\<close> and \<^verbatim>\<open>app/worker/tasks_order_status.py\<close> at the same time, tasks are
  delivered late, twice or for any order, new orders arrive, the recovery runs, and a worker may die
  at any point.  A step is one transaction or one exchange with the broker, so the handlers
  interleave between them; each step has an environment (time, answers) of its own.
\<close>

section \<open>The state\<close>

text \<open>What a worker holds between two steps.\<close>

datatype phase =
    Idle
  | Claimed order
  | Prepared order
  | Answered order "order_response result"
  | Inquired order nat timestamp int "daily_response result"

text \<open>
  The world, the phase of each worker, and the history of the successful submissions: the order of
  every call of \<open>submit_order\<close> that gave its worker a success answer, one entry per call.  The
  history is kept for the statements only; no handler reads it.  What the broker did behind one
  call is not in it: \<open>cash_loop\<close> posts again after a lost answer (\<open>KIS_Order\<close>), so one call may
  stand for two orders at the broker.
\<close>

record pipeline =
  pl_world :: world
  pl_phase :: "nat \<Rightarrow> phase"
  pl_succeeded :: "uuid list"

fun submitting :: "phase \<Rightarrow> order option" where
  "submitting (Claimed row) = Some row"
| "submitting (Prepared row) = Some row"
| "submitting (Answered row _) = Some row"
| "submitting _ = None"

text \<open>The worker holds the order without a success answer.\<close>

fun unaccepted :: "phase \<Rightarrow> bool" where
  "unaccepted (Answered _ (Inr _)) = False"
| "unaccepted _ = True"

section \<open>The second half of a tracking run\<close>

text \<open>What \<open>process_order_status\<close> does after the inquiry, in the world of that moment.\<close>

definition conclude_tracking ::
  "worker_env \<Rightarrow> order \<Rightarrow> nat \<Rightarrow> timestamp \<Rightarrow> int \<Rightarrow> daily_response result \<Rightarrow> unit action" where
  "conclude_tracking env row attempt first_tracked_at elapsed_seconds answer w =
     (case (case answer of
              Inl e \<Rightarrow> (Inl e, w)
            | Inr r \<Rightarrow>
                (case read_tracking row r w of
                   Inl e \<Rightarrow> (Inl e, w)
                 | Inr sn \<Rightarrow>
                     (case store_tracking env row sn w of
                        (None, w2) \<Rightarrow> (Inr (), w2)
                      | (Some row', w2) \<Rightarrow>
                          (case propagate_to_parent env row' sn w2 of
                             (Inl e, w3) \<Rightarrow> (Inl e, w3)
                           | (Inr False, w3) \<Rightarrow> (Inr (), w3)
                           | (Inr True, w3) \<Rightarrow>
                               (Inr (), finish_tracking env row' sn attempt first_tracked_at elapsed_seconds w3))))) of
        (Inr _, w1) \<Rightarrow> (Inr (), w1)
      | (Inl e, w1) \<Rightarrow> handle_tracking_failure env row attempt first_tracked_at elapsed_seconds e w1)"

lemma process_order_status_split:
  assumes "get_order_by_id (w_db w) oid = Some row" and "o_status row \<in> set TRACKING_TARGET_STATUSES"
    and "truthy (o_broker_order_no row)"
  shows "process_order_status env oid attempt (Some ft) w =
     (let (answer, w1) = inquire_order env row w
      in conclude_tracking env row attempt ft (max (e_now env - ft) 0) answer w1)"
  by (cases "inquire_order env row w"; cases "fst (inquire_order env row w)")
    (simp_all add: process_order_status_tracked [OF assms] track_order_def conclude_tracking_def)

section \<open>Steps\<close>

inductive pl_step :: "pipeline \<Rightarrow> pipeline \<Rightarrow> bool" where
  claim: "pl_phase s i = Idle \<Longrightarrow> claim_order env oid (pl_world s) = (Some row, w') \<Longrightarrow>
    pl_step s (s\<lparr>pl_world := w', pl_phase := (pl_phase s)(i := Claimed row)\<rparr>)"
| claim_nothing: "claim_order env oid (pl_world s) = (None, w') \<Longrightarrow> pl_step s (s\<lparr>pl_world := w'\<rparr>)"
| prepare: "pl_phase s i = Claimed row \<Longrightarrow> prepare_submission env row (pl_world s) = (res, w') \<Longrightarrow>
    pl_step s (s\<lparr>pl_world := w', pl_phase := (pl_phase s)(i :=
       (case res of Inr _ \<Rightarrow> Prepared row | Inl e \<Rightarrow> Answered row (Inl e)))\<rparr>)"
| submit: "pl_phase s i = Prepared row \<Longrightarrow> submit_order env row (pl_world s) = (res, w') \<Longrightarrow>
    pl_step s (s\<lparr>pl_world := w', pl_phase := (pl_phase s)(i := Answered row res),
       pl_succeeded := (case res of Inr _ \<Rightarrow> pl_succeeded s @ [o_id row] | Inl _ \<Rightarrow> pl_succeeded s)\<rparr>)"
| record_answer: "pl_phase s i = Answered row (Inr resp) \<Longrightarrow>
    pl_step s (s\<lparr>pl_world := record_submission env row resp (pl_world s), pl_phase := (pl_phase s)(i := Idle)\<rparr>)"
| handle: "pl_phase s i = Answered row (Inl e) \<Longrightarrow>
    pl_step s (s\<lparr>pl_world := snd (handle_failure env (o_id row) row e (pl_world s)), pl_phase := (pl_phase s)(i := Idle)\<rparr>)"
| inquire: "pl_phase s i = Idle \<Longrightarrow> get_order_by_id (w_db (pl_world s)) oid = Some row \<Longrightarrow>
    o_status row \<in> set TRACKING_TARGET_STATUSES \<Longrightarrow> truthy (o_broker_order_no row) \<Longrightarrow>
    inquire_order env row (pl_world s) = (answer, w') \<Longrightarrow>
    pl_step s (s\<lparr>pl_world := w', pl_phase := (pl_phase s)(i := Inquired row attempt ft (max (e_now env - ft) 0) answer)\<rparr>)"
| conclude: "pl_phase s i = Inquired row attempt ft el answer \<Longrightarrow>
    pl_step s (s\<lparr>pl_world := snd (conclude_tracking env row attempt ft el answer (pl_world s)),
       pl_phase := (pl_phase s)(i := Idle)\<rparr>)"
| new_order: "o_status row = PENDING \<Longrightarrow> create_order (w_db (pl_world s)) row = Inr (row', db') \<Longrightarrow>
    pl_step s (s\<lparr>pl_world := (pl_world s)\<lparr>w_db := db', w_queue := tasks\<rparr>\<rparr>)"
| recover: "pl_step s (s\<lparr>pl_world := snd (recover_all_orders now rf (pl_world s))\<rparr>)"
| crash: "pl_step s (s\<lparr>pl_phase := (pl_phase s)(i := Idle)\<rparr>)"

inductive_cases pl_stepE: "pl_step s t"

text \<open>A start: all workers idle, nothing submitted yet, a table with unique ids.\<close>

definition pl_init :: "pipeline \<Rightarrow> bool" where
  "pl_init s \<longleftrightarrow> (\<forall>i. pl_phase s i = Idle) \<and> pl_succeeded s = [] \<and> distinct (map o_id (w_db (pl_world s)))"

inductive pl_reach :: "pipeline \<Rightarrow> bool" where
  init: "pl_init s \<Longrightarrow> pl_reach s"
| step: "pl_reach s \<Longrightarrow> pl_step s t \<Longrightarrow> pl_reach t"

section \<open>Frames\<close>

text \<open>Tracking leaves alone what the broker does not have, and never sends an order back.\<close>

definition broker_only :: "orders \<Rightarrow> orders \<Rightarrow> bool" where
  "broker_only db db' \<longleftrightarrow> map o_id db' = map o_id db
     \<and> (\<forall>k r. get_order_by_id db k = Some r \<longrightarrow>
          (\<exists>r'. get_order_by_id db' k = Some r' \<and> (if REQUESTED \<le> o_status r then REQUESTED \<le> o_status r' else r' = r)))"

lemma broker_only_refl [simp]: "broker_only db db"
  by (simp add: broker_only_def)

lemma broker_only_trans:
  assumes "broker_only a b" and "broker_only b c"
  shows "broker_only a c"
proof -
  have "\<exists>r''. get_order_by_id c k = Some r'' \<and> (if REQUESTED \<le> o_status r then REQUESTED \<le> o_status r'' else r'' = r)"
    if k: "get_order_by_id a k = Some r" for k r
  proof -
    obtain r' where r': "get_order_by_id b k = Some r'" "if REQUESTED \<le> o_status r then REQUESTED \<le> o_status r' else r' = r"
      using assms(1) k unfolding broker_only_def by blast
    obtain r'' where "get_order_by_id c k = Some r''" "if REQUESTED \<le> o_status r' then REQUESTED \<le> o_status r'' else r'' = r'"
      using assms(2) r'(1) unfolding broker_only_def by blast
    with r'(2) show ?thesis by (auto split: if_splits)
  qed
  with assms show ?thesis by (simp add: broker_only_def)
qed

lemma tracked_ge: "s \<in> set TRACKING_TARGET_STATUSES \<Longrightarrow> REQUESTED \<le> s"
  by (simp add: tracked_iff)

text \<open>A guarded update from tracked statuses to one the broker knows is such a frame.\<close>

context guarded_update
begin

lemma execute_broker_only:
  assumes "set expected \<subseteq> set TRACKING_TARGET_STATUSES" and "REQUESTED \<le> target"
  shows "broker_only db (snd (execute stmt db))"
  unfolding broker_only_def
  using assms tracked_ge by (auto simp: execute_ids lookup_hit where_iff sets_status)

end

lemma tracking_broker_only:
  "REQUESTED \<le> ts_next_status sn \<Longrightarrow> broker_only db (snd (execute (tracking_stmt now row sn) db))"
  unfolding tracking_stmt_def by (rule upd_track.execute_broker_only) auto

lemma timeout_broker_only: "broker_only db (snd (execute (timeout_stmt now row sn el) db))"
  unfolding timeout_stmt_def by (rule upd_track.execute_broker_only) (auto simp: less_eq_order_status_def)

lemma handle_tracking_broker_only:
  "broker_only (w_db w) (w_db (snd (handle_tracking_failure env row attempt ft el e w)))"
proof -
  have f: "broker_only (w_db w) (w_db (snd (store_tracking_failure env row (Some TRACKING_TARGET_STATUSES) rc mc m1 pl al w)))"
    for rc mc m1 pl al
    using upd_failure.execute_broker_only [of TRACKING_TARGET_STATUSES FAILED "w_db w" "e_now env" "o_id row" "Some rc"
        "Some mc" "Some m1" "Some pl"]
    by (simp add: store_tracking_failure_def failure_stmt_def update_order_failure_result_def step_simps Let_def
        less_eq_order_status_def)
  have n: "snd (store_tracking_failure env row None rc mc m1 pl al w) = w" for rc mc m1 pl al
    by (simp add: store_tracking_failure_def update_order_failure_result_def)
  show ?thesis
    by (cases e)
      (simp_all add: handle_tracking_failure_def requeue_order_tracking_def step_simps f n split: option.split)
qed

lemma store_tracking_cases:
  assumes "store_tracking env row sn w = (res, w2)"
  shows "w_db w2 = w_db w \<or> w_db w2 = snd (execute (tracking_stmt (e_now env) row sn) (w_db w))"
    "res = Some row' \<Longrightarrow> row' = tracked_row (e_now env) row sn"
  using assms
  by (auto simp: store_tracking_def tracked_row_def Let_def commit_stmt_def case_prod_beta split: if_splits)

lemma finish_broker_only: "broker_only (w_db w) (w_db (finish_tracking env row sn attempt ft el w))"
  by (simp add: finish_db timeout_broker_only)

lemma conclude_broker_only:
  assumes "REQUESTED \<le> o_status row"
  shows "broker_only (w_db w) (w_db (snd (conclude_tracking env row attempt ft el answer w)))"
proof (cases answer)
  case (Inl e)
  then show ?thesis by (simp add: conclude_tracking_def handle_tracking_broker_only)
next
  case (Inr r)
  show ?thesis
  proof (cases "read_tracking row r w")
    case (Inl e)
    with \<open>answer = Inr r\<close> show ?thesis by (simp add: conclude_tracking_def handle_tracking_broker_only)
  next
    case (Inr sn)
    note read = this
    obtain res w2 where st: "store_tracking env row sn w = (res, w2)" by (cases "store_tracking env row sn w")
    have 2: "broker_only (w_db w) (w_db w2)"
      using store_tracking_cases(1) [OF st] tracking_broker_only [OF read_tracking_ge [OF read assms]] by auto
    show ?thesis
    proof (cases res)
      case None
      with \<open>answer = Inr r\<close> read st 2 show ?thesis by (simp add: conclude_tracking_def)
    next
      case (Some row')
      then have row': "row' = tracked_row (e_now env) row sn" using store_tracking_cases(2) [OF st] by simp
      obtain pr w3 where p: "propagate_to_parent env row' sn w2 = (pr, w3)" by (cases "propagate_to_parent env row' sn w2")
      then have "w3 = w2" using propagate_nothing [of row' sn env w2] row' by simp
      with \<open>answer = Inr r\<close> read st Some p 2 broker_only_trans [OF 2 handle_tracking_broker_only]
        broker_only_trans [OF 2 finish_broker_only] show ?thesis
        by (cases pr) (auto simp: conclude_tracking_def split: bool.split)
    qed
  qed
qed

text \<open>The status of an order in the table.\<close>

definition status_of :: "orders \<Rightarrow> uuid \<Rightarrow> order_status option" where
  "status_of db k = map_option o_status (get_order_by_id db k)"

lemma broker_only_status:
  assumes "broker_only db db'"
  shows "status_of db k = Some PROCESSING \<Longrightarrow> status_of db' k = Some PROCESSING"
    "status_of db k \<notin> {None, Some PENDING} \<Longrightarrow> status_of db' k \<notin> {None, Some PENDING}"
proof -
  have b: "\<exists>r'. get_order_by_id db' k = Some r' \<and> (if REQUESTED \<le> o_status r then REQUESTED \<le> o_status r' else r' = r)"
    if "get_order_by_id db k = Some r" for r
    using assms that unfolding broker_only_def by blast
  show "status_of db' k = Some PROCESSING" if "status_of db k = Some PROCESSING"
    using that b by (force simp: status_of_def less_eq_order_status_def)
  show "status_of db' k \<notin> {None, Some PENDING}" if "status_of db k \<notin> {None, Some PENDING}"
    using that b by (force simp: status_of_def less_eq_order_status_def split: if_splits)
qed

text \<open>What the steps of a submission change in the table.\<close>

lemma record_status:
  "k \<noteq> o_id row \<Longrightarrow> status_of (w_db (record_submission env row resp w)) k = status_of (w_db w) k"
  "status_of (w_db w) k \<notin> {None, Some PENDING} \<Longrightarrow>
   status_of (w_db (record_submission env row resp w)) k \<notin> {None, Some PENDING}"
proof -
  define sn where "sn = extract_order_snapshot (e_now env) resp (o_order_qty row)"
  define st where "st = update_order_submit_result (e_now env) (o_id row) (Some (sn_rt_cd sn)) (Some (sn_msg_cd sn))
        (Some (sn_msg1 sn)) (sn_broker_org_no sn) (sn_broker_order_no sn) (sn_submitted_at sn)
        (Some (sn_payload sn)) (sn_next_status sn) (Some (sn_remaining_qty sn))"
  have n: "sn_next_status sn \<noteq> PENDING" using snapshot_any_status [of "e_now env" resp "o_order_qty row"] by (auto simp: sn_def)
  have db: "w_db (record_submission env row resp w) = w_db w \<or> w_db (record_submission env row resp w) = snd (execute st (w_db w))"
    by (auto simp: record_submission_def Let_def sn_def [symmetric] st_def [symmetric] case_prod_beta step_simps)
  show "k \<noteq> o_id row \<Longrightarrow> status_of (w_db (record_submission env row resp w)) k = status_of (w_db w) k"
    using db by (auto simp: status_of_def st_def upd_submit.lookup_other)
  have "status_of (snd (execute st (w_db w))) k \<notin> {None, Some PENDING}" if "status_of (w_db w) k \<notin> {None, Some PENDING}"
    using that n by (auto simp: status_of_def st_def upd_submit.lookup_hit upd_submit.sets_status)
  with db show "status_of (w_db w) k \<notin> {None, Some PENDING} \<Longrightarrow>
     status_of (w_db (record_submission env row resp w)) k \<notin> {None, Some PENDING}" by auto
qed

lemma handle_status:
  "k \<noteq> o_id row \<Longrightarrow> status_of (w_db (snd (handle_failure env oid row e w))) k = status_of (w_db w) k"
  by (auto simp: handle_failure_def handle_kis_error_def handle_exception_raises store_failure_raises step_simps
      status_of_def upd_status.lookup_other Let_def split: exn.split sum.split bool.split)

lemma claim_status:
  assumes "claim_order env oid w = (res, w')"
  shows "res = None \<Longrightarrow> status_of (w_db w') k = status_of (w_db w) k"
    "distinct (map o_id (w_db w)) \<Longrightarrow> res = Some row \<Longrightarrow>
       o_id row = oid \<and> status_of (w_db w) oid = Some PENDING \<and> status_of (w_db w') oid = Some PROCESSING
       \<and> (k \<noteq> oid \<longrightarrow> status_of (w_db w') k = status_of (w_db w) k)"
proof -
  show "res = None \<Longrightarrow> status_of (w_db w') k = status_of (w_db w) k"
    using assms upd_status.execute_none
    by (auto simp: claim_order_def Let_def commit_stmt_def case_prod_beta split: option.splits if_splits)
  assume d: "distinct (map o_id (w_db w))" and "res = Some row"
  with assms obtain r where r: "get_order_by_id (w_db w) oid = Some r"
    by (auto simp: claim_order_def split: option.splits)
  have id: "o_id r = oid" using r lookup_id by blast
  have pend: "o_status r = PENDING"
  proof (rule ccontr)
    assume "o_status r \<noteq> PENDING"
    then have "\<not> fst (execute (update_order_status (e_now env) oid [PENDING] PROCESSING) (w_db w))"
      using upd_status.misses_unexpected [OF d r] by simp
    with assms r id \<open>res = Some row\<close> show False
      by (auto simp: claim_order_def Let_def commit_stmt_def case_prod_beta split: if_splits)
  qed
  have c: "row = claimed_row env r" "w' = claimed env oid w"
    using claim_order_pending [OF r pend, of env] assms \<open>res = Some row\<close> by auto
  show "o_id row = oid \<and> status_of (w_db w) oid = Some PENDING \<and> status_of (w_db w') oid = Some PROCESSING
       \<and> (k \<noteq> oid \<longrightarrow> status_of (w_db w') k = status_of (w_db w) k)"
    using c id pend r claimed_lookup [OF r pend] by (simp add: status_of_def claimed_other)
qed

lemma create_status:
  assumes "create_order db row = Inr (row', db')" and "status_of db k \<noteq> None"
  shows "status_of db' k = status_of db k"
  using assms(2) create_order_ok [OF assms(1)] find_append_Some [of "\<lambda>r. o_id r = k" db]
  by (auto simp: status_of_def get_order_by_id_def)

section \<open>The invariant\<close>

text \<open>
  The table holds one row per id; whoever is submitting an order holds it alone, and its row is
  \<open>PROCESSING\<close>; an accepted order is not \<open>PENDING\<close>, and nobody holds it before an acceptance; the
  accepted orders are distinct.
\<close>

definition pl_inv :: "pipeline \<Rightarrow> bool" where
  "pl_inv s \<longleftrightarrow>
     distinct (map o_id (w_db (pl_world s)))
   \<and> (\<forall>i row. submitting (pl_phase s i) = Some row \<longrightarrow> status_of (w_db (pl_world s)) (o_id row) = Some PROCESSING)
   \<and> (\<forall>i j row row'. submitting (pl_phase s i) = Some row \<longrightarrow> submitting (pl_phase s j) = Some row' \<longrightarrow>
        o_id row = o_id row' \<longrightarrow> i = j)
   \<and> (\<forall>k \<in> set (pl_succeeded s). status_of (w_db (pl_world s)) k \<notin> {None, Some PENDING})
   \<and> (\<forall>i row. submitting (pl_phase s i) = Some row \<longrightarrow> unaccepted (pl_phase s i) \<longrightarrow> o_id row \<notin> set (pl_succeeded s))
   \<and> (\<forall>i row a f e r. pl_phase s i = Inquired row a f e r \<longrightarrow> REQUESTED \<le> o_status row)
   \<and> distinct (pl_succeeded s)"

lemma pl_invD:
  assumes "pl_inv s"
  shows "distinct (map o_id (w_db (pl_world s)))"
    "submitting (pl_phase s i) = Some row \<Longrightarrow> status_of (w_db (pl_world s)) (o_id row) = Some PROCESSING"
    "submitting (pl_phase s i) = Some row \<Longrightarrow> submitting (pl_phase s j) = Some row' \<Longrightarrow> o_id row = o_id row' \<Longrightarrow> i = j"
    "k \<in> set (pl_succeeded s) \<Longrightarrow> status_of (w_db (pl_world s)) k \<notin> {None, Some PENDING}"
    "submitting (pl_phase s i) = Some row \<Longrightarrow> unaccepted (pl_phase s i) \<Longrightarrow> o_id row \<notin> set (pl_succeeded s)"
    "pl_phase s i = Inquired row a f e r \<Longrightarrow> REQUESTED \<le> o_status row"
    "distinct (pl_succeeded s)"
  using assms unfolding pl_inv_def by blast+

text \<open>
  A step that accepts nothing and after which each worker holds what it held, or nothing, keeps the
  invariant if held orders stay \<open>PROCESSING\<close> and accepted ones do not become \<open>PENDING\<close>.
\<close>

lemma pl_inv_frame:
  assumes "pl_inv s" and acc: "pl_succeeded t = pl_succeeded s"
    and ids: "distinct (map o_id (w_db (pl_world t)))"
    and ph: "\<And>i. submitting (pl_phase t i) = None \<or>
        submitting (pl_phase t i) = submitting (pl_phase s i) \<and> unaccepted (pl_phase t i) = unaccepted (pl_phase s i)"
    and inq: "\<And>i row a f e r. pl_phase t i = Inquired row a f e r \<Longrightarrow> REQUESTED \<le> o_status row"
    and held: "\<And>i row. submitting (pl_phase t i) = Some row \<Longrightarrow> submitting (pl_phase s i) = Some row \<Longrightarrow>
        status_of (w_db (pl_world s)) (o_id row) = Some PROCESSING \<Longrightarrow> status_of (w_db (pl_world t)) (o_id row) = Some PROCESSING"
    and accepted: "\<And>k. k \<in> set (pl_succeeded s) \<Longrightarrow> status_of (w_db (pl_world s)) k \<notin> {None, Some PENDING} \<Longrightarrow>
        status_of (w_db (pl_world t)) k \<notin> {None, Some PENDING}"
  shows "pl_inv t"
proof -
  note inv = pl_invD [OF assms(1)]
  have same: "submitting (pl_phase s i) = Some row \<and> unaccepted (pl_phase t i) = unaccepted (pl_phase s i)"
    if "submitting (pl_phase t i) = Some row" for i row
    using ph [of i] that by auto
  show ?thesis
    unfolding pl_inv_def
  proof (intro conjI allI impI ballI)
    show "distinct (map o_id (w_db (pl_world t)))" by (rule ids)
  next
    fix i row assume "submitting (pl_phase t i) = Some row"
    with same show "status_of (w_db (pl_world t)) (o_id row) = Some PROCESSING" using held inv(2) by blast
  next
    fix i j row row'
    assume "submitting (pl_phase t i) = Some row" "submitting (pl_phase t j) = Some row'" "o_id row = o_id row'"
    with same show "i = j" using inv(3) by blast
  next
    fix k assume "k \<in> set (pl_succeeded t)"
    then show "status_of (w_db (pl_world t)) k \<notin> {None, Some PENDING}" using accepted inv(4) acc by auto
  next
    fix i row assume "submitting (pl_phase t i) = Some row" "unaccepted (pl_phase t i)"
    with same show "o_id row \<notin> set (pl_succeeded t)" using inv(5) acc by auto
  next
    fix i row a f e r assume "pl_phase t i = Inquired row a f e r"
    then show "REQUESTED \<le> o_status row" by (rule inq)
  next
    show "distinct (pl_succeeded t)" using inv(7) acc by simp
  qed
qed

section \<open>Every step keeps the invariant\<close>

lemma recover_db: "w_db (snd (recover_all_orders now rf w)) = w_db w"
  by (simp add: recover_all_orders_def distributed_lock_def recover_both case_prod_beta Let_def
      split: sum.split exn.split)

lemma conclude_frame:
  assumes "pl_inv s" and "pl_phase s i = Inquired row attempt ft el answer"
  shows "broker_only (w_db (pl_world s)) (w_db (snd (conclude_tracking env row attempt ft el answer (pl_world s))))"
  using pl_invD(6) [OF assms] by (rule conclude_broker_only)

lemma claim_keeps:
  assumes "pl_inv s" and "pl_phase s i = Idle" and cl: "claim_order env oid (pl_world s) = (Some row, w')"
  shows "pl_inv (s\<lparr>pl_world := w', pl_phase := (pl_phase s)(i := Claimed row)\<rparr>)"
proof -
  note inv = pl_invD [OF assms(1)]
  note c = claim_status(2) [OF cl inv(1) refl]
  have other: "o_id row' \<noteq> oid" if "submitting (pl_phase s j) = Some row'" for j row'
    using inv(2) [OF that] c [of oid] by auto
  have notin: "oid \<notin> set (pl_succeeded s)"
    using inv(4) [of oid] c [of oid] by auto
  have ids: "distinct (map o_id (w_db w'))"
    using db_evolves_ids [OF claim_evolves [of "pl_world s" env oid]] cl inv(1) by simp
  have st: "status_of (w_db w') k = (if k = oid then Some PROCESSING else status_of (w_db (pl_world s)) k)" for k
    using c [of k] by simp
  have id: "o_id row = oid" using c [of oid] by simp
  show ?thesis
    unfolding pl_inv_def
  proof (intro conjI allI impI ballI, goal_cases)
    case 1 show ?case using ids by simp
  next
    case (2 j row') then show ?case using inv(2) st id by (auto split: if_splits)
  next
    case (3 j j' row1 row2) then show ?case using inv(3) other id by (auto split: if_splits)
  next
    case (4 k) then show ?case using inv(4) [of k] st by auto
  next
    case (5 j row') then show ?case using inv(5) notin id by (auto split: if_splits)
  next
    case (6 j row' a f e r) then show ?case using inv(6) by (auto split: if_splits)
  next
    case 7 show ?case using inv(7) by simp
  qed
qed

lemma submit_keeps:
  assumes "pl_inv s" and prep: "pl_phase s i = Prepared row" and sub: "submit_order env row (pl_world s) = (res, w')"
  shows "pl_inv (s\<lparr>pl_world := w', pl_phase := (pl_phase s)(i := Answered row res),
       pl_succeeded := (case res of Inr _ \<Rightarrow> pl_succeeded s @ [o_id row] | Inl _ \<Rightarrow> pl_succeeded s)\<rparr>)"
proof -
  note inv = pl_invD [OF assms(1)]
  have db: "w_db w' = w_db (pl_world s)" using submit_db(1) [of env row "pl_world s"] sub by simp
  have row: "submitting (pl_phase s i) = Some row" "unaccepted (pl_phase s i)" using prep by simp_all
  have notin: "o_id row \<notin> set (pl_succeeded s)" using inv(5) [OF row] .
  have proc: "status_of (w_db (pl_world s)) (o_id row) = Some PROCESSING" using inv(2) [OF row(1)] .
  have alone: "o_id row' \<noteq> o_id row" if "submitting (pl_phase s j) = Some row'" "j \<noteq> i" for j row'
    using inv(3) [OF that(1) row(1)] that(2) by auto
  show ?thesis
    unfolding pl_inv_def
  proof (intro conjI allI impI ballI, goal_cases)
    case 1 show ?case using inv(1) db by simp
  next
    case (2 j row') then show ?case using inv(2) proc db by (auto split: if_splits)
  next
    case (3 j j' row1 row2)
    then show ?case using inv(3) alone [of j row1] alone [of j' row2] by (auto split: if_splits)
  next
    case (4 k) then show ?case using inv(4) [of k] proc db by (auto split: sum.splits)
  next
    case (5 j row') then show ?case using inv(5) notin alone by (auto split: if_splits sum.splits)
  next
    case (6 j row' a f e r) then show ?case using inv(6) by (auto split: if_splits)
  next
    case 7 show ?case using inv(7) notin by (auto split: sum.split)
  qed
qed

lemma pl_step_keeps:
  assumes "pl_step s t" and "pl_inv s"
  shows "pl_inv t"
proof -
  note inv = pl_invD [OF assms(2)]
  show ?thesis
    using assms(1)
  proof cases
    case (claim i env oid row w')
    with claim_keeps [OF assms(2)] show ?thesis by simp
  next
    case (claim_nothing env oid w')
    have "status_of (w_db w') k = status_of (w_db (pl_world s)) k" for k
      using claim_status(1) [OF claim_nothing(2)] by simp
    moreover have "distinct (map o_id (w_db w'))"
      using db_evolves_ids [OF claim_evolves [of "pl_world s" env oid]] claim_nothing(2) inv(1) by simp
    ultimately show ?thesis
      using claim_nothing(1) inv(6) by (intro pl_inv_frame [OF assms(2)]) auto
  next
    case (prepare i row env res w')
    have "w_db w' = w_db (pl_world s)" using prepare_db(1) [of env row "pl_world s"] prepare(3) by simp
    with prepare(1,2) inv(1,6) show ?thesis
      by (intro pl_inv_frame [OF assms(2)]) (auto split: if_splits sum.splits)
  next
    case (submit i row env res w')
    with submit_keeps [OF assms(2)] show ?thesis by simp
  next
    case (record_answer i row resp env)
    have "o_id row' \<noteq> o_id row" if "submitting (pl_phase s j) = Some row'" "j \<noteq> i" for j row'
      using inv(3) [OF that(1), of i row] record_answer(2) that(2) by auto
    with record_answer(1,2) inv(1,6) record_status [where env = env and row = row and resp = resp]
      db_evolves_ids [OF record_evolves] show ?thesis
      by (intro pl_inv_frame [OF assms(2)]) (auto split: if_splits)
  next
    case (handle i row e env)
    have alone: "o_id row' \<noteq> o_id row" if "submitting (pl_phase s j) = Some row'" "j \<noteq> i" for j row'
      using inv(3) [OF that(1), of i row] handle(2) that(2) by auto
    have "k \<noteq> o_id row" if "k \<in> set (pl_succeeded s)" for k
      using inv(5) [of i row] handle(2) that by auto
    with alone handle(1,2) inv(1,6) handle_status [where env = env and row = row and e = e]
      db_evolves_ids [OF handle_evolves] show ?thesis
      by (intro pl_inv_frame [OF assms(2)]) (auto split: if_splits)
  next
    case (inquire i oid row env answer w' attempt ft)
    have "w_db w' = w_db (pl_world s)" using inquire_simps(1) [of env row "pl_world s"] inquire(6) by simp
    with inquire(1,2,4) inv(1,6) tracked_ge show ?thesis
      by (intro pl_inv_frame [OF assms(2)]) (auto split: if_splits)
  next
    case (conclude i row attempt ft el answer env)
    note frame = conclude_frame [OF assms(2) conclude(2), of env]
    with conclude(1,2) inv(1,6) broker_only_status [OF frame] show ?thesis
      by (intro pl_inv_frame [OF assms(2)]) (auto simp: broker_only_def split: if_splits)
  next
    case (new_order row row' db' tasks)
    with create_order_ok [OF new_order(3)] create_status [OF new_order(3)] inv(1,6) show ?thesis
      by (intro pl_inv_frame [OF assms(2)]) auto
  next
    case (recover now rf)
    with inv(1,6) show ?thesis by (intro pl_inv_frame [OF assms(2)]) (auto simp: recover_db)
  next
    case (crash i)
    with inv(1,6) show ?thesis by (intro pl_inv_frame [OF assms(2)]) (auto split: if_splits)
  qed
qed

lemma pl_reach_inv: "pl_reach s \<Longrightarrow> pl_inv s"
proof (induction rule: pl_reach.induct)
  case (init s)
  then show ?case by (simp add: pl_init_def pl_inv_def)
next
  case (step s t)
  then show ?case using pl_step_keeps by blast
qed

section \<open>The abstract pipeline\<close>

text \<open>
  What the pipeline promises for an order: it waits, one worker at a time takes it, and it is then
  given back without a success answer or handed to the tracking; only an order that is taken gets
  a success answer, and only once.
\<close>

datatype life = Unknown | Waiting | InFlight | Handed

inductive life_step :: "(uuid \<Rightarrow> life) \<times> uuid list \<Rightarrow> (uuid \<Rightarrow> life) \<times> uuid list \<Rightarrow> bool" where
  publish: "L k = Unknown \<Longrightarrow> life_step (L, A) (L(k := Waiting), A)"
| take_order: "L k = Waiting \<Longrightarrow> life_step (L, A) (L(k := InFlight), A)"
| succeed: "L k = InFlight \<Longrightarrow> k \<notin> set A \<Longrightarrow> life_step (L, A) (L, A @ [k])"
| give_back: "L k = InFlight \<Longrightarrow> k \<notin> set A \<Longrightarrow> life_step (L, A) (L(k := Waiting), A)"
| hand_over: "L k = InFlight \<Longrightarrow> life_step (L, A) (L(k := Handed), A)"

text \<open>The abstraction of a state.\<close>

definition life_of :: "order_status option \<Rightarrow> life" where
  "life_of st = (case st of None \<Rightarrow> Unknown | Some PENDING \<Rightarrow> Waiting | Some PROCESSING \<Rightarrow> InFlight | Some _ \<Rightarrow> Handed)"

definition lives :: "orders \<Rightarrow> uuid \<Rightarrow> life" where
  "lives db k = life_of (status_of db k)"

definition pl_abs :: "pipeline \<Rightarrow> (uuid \<Rightarrow> life) \<times> uuid list" where
  "pl_abs s = (lives (w_db (pl_world s)), pl_succeeded s)"

lemma life_of_iff:
  "life_of st = Unknown \<longleftrightarrow> st = None" "life_of st = Waiting \<longleftrightarrow> st = Some PENDING"
  "life_of st = InFlight \<longleftrightarrow> st = Some PROCESSING" "life_of st = Handed \<longleftrightarrow> (\<exists>x. st = Some x \<and> REQUESTED \<le> x)"
  by (auto simp: life_of_def less_eq_order_status_def split: option.split order_status.split)

lemma lives_update:
  "(\<And>j. j \<noteq> k \<Longrightarrow> status_of db' j = status_of db j) \<Longrightarrow> lives db' = (lives db)(k := life_of (status_of db' k))"
  by (auto simp: lives_def)

lemma lives_same: "(\<And>j. status_of db' j = status_of db j) \<Longrightarrow> lives db' = lives db"
  by (auto simp: lives_def)

lemma find_None_ids: "map o_id db' = map o_id db \<Longrightarrow> status_of db k = None \<Longrightarrow> status_of db' k = None"
proof -
  assume "map o_id db' = map o_id db" "status_of db k = None"
  then have "k \<notin> set (map o_id db')" by (auto simp: status_of_def get_order_by_id_def find_None_iff)
  then show "status_of db' k = None" by (auto simp: status_of_def get_order_by_id_def find_None_iff)
qed

lemma broker_only_lives:
  assumes "broker_only db db'"
  shows "lives db' = lives db"
proof
  fix k
  show "lives db' k = lives db k"
  proof (cases "get_order_by_id db k")
    case None
    then have "status_of db' k = None" "status_of db k = None"
      using assms find_None_ids [of db' db k] by (simp_all add: broker_only_def status_of_def)
    then show ?thesis by (simp add: lives_def)
  next
    case (Some r)
    then obtain r' where r': "get_order_by_id db' k = Some r'"
      "if REQUESTED \<le> o_status r then REQUESTED \<le> o_status r' else r' = r"
      using assms unfolding broker_only_def by blast
    show ?thesis
    proof (cases "REQUESTED \<le> o_status r")
      case True
      with r' Some have "life_of (status_of db' k) = Handed" "life_of (status_of db k) = Handed"
        by (simp_all add: life_of_iff status_of_def)
      then show ?thesis by (simp add: lives_def)
    next
      case False
      with r' Some show ?thesis by (simp add: lives_def status_of_def)
    qed
  qed
qed

lemma handle_own_status:
  assumes "status_of (w_db w) (o_id row) = Some PROCESSING"
  shows "status_of (w_db (snd (handle_failure env oid row e w))) (o_id row) \<in> {Some PROCESSING, Some PENDING}"
proof -
  obtain r where r: "get_order_by_id (w_db w) (o_id row) = Some r" "o_status r = PROCESSING"
    using assms by (auto simp: status_of_def)
  have "status_of (snd (execute (update_order_status (e_now env) (o_id row) [PROCESSING] PENDING) (w_db w))) (o_id row) = Some PENDING"
    using upd_status.status_after [OF r(1), of "e_now env" "[PROCESSING]" PENDING] r(2) by (simp add: status_of_def)
  then show ?thesis
    using assms
    by (auto simp: handle_failure_def handle_kis_error_def handle_exception_raises store_failure_raises step_simps Let_def
        split: exn.split sum.split bool.split)
qed

lemma pl_refines:
  assumes "pl_inv s" and "pl_step s t"
  shows "pl_abs t = pl_abs s \<or> life_step (pl_abs s) (pl_abs t)"
proof -
  note inv = pl_invD [OF assms(1)]
  show ?thesis
    using assms(2)
  proof cases
    case (claim i env oid row w')
    note c = claim_status(2) [OF claim(3) inv(1) refl]
    have "lives (w_db w') = (lives (w_db (pl_world s)))(oid := InFlight)"
      using c lives_update [of oid "w_db w'" "w_db (pl_world s)"] by (simp add: life_of_def)
    moreover have "lives (w_db (pl_world s)) oid = Waiting" using c by (simp add: lives_def life_of_def)
    ultimately show ?thesis using claim(1) life_step.take_order by (simp add: pl_abs_def)
  next
    case (claim_nothing env oid w')
    with lives_same [of "w_db w'"] claim_status(1) [OF claim_nothing(2)] show ?thesis by (simp add: pl_abs_def)
  next
    case (prepare i row env res w')
    with prepare_db(1) [of env row "pl_world s"] show ?thesis by (simp add: pl_abs_def)
  next
    case (submit i row env res w')
    have "w_db w' = w_db (pl_world s)" using submit_db(1) [of env row "pl_world s"] submit(3) by simp
    moreover have "lives (w_db (pl_world s)) (o_id row) = InFlight" "o_id row \<notin> set (pl_succeeded s)"
      using inv(2,5) [of i row] submit(2) by (simp_all add: lives_def life_of_def)
    ultimately show ?thesis using submit(1) life_step.succeed by (cases res) (simp_all add: pl_abs_def)
  next
    case (record_answer i row resp env)
    let ?db = "w_db (record_submission env row resp (pl_world s))"
    have p: "status_of (w_db (pl_world s)) (o_id row) = Some PROCESSING" using inv(2) [of i row] record_answer(2) by simp
    then have "life_of (status_of ?db (o_id row)) \<in> {InFlight, Handed}"
      using record_status(2) [of "pl_world s" "o_id row" env row resp]
      by (cases "life_of (status_of ?db (o_id row))") (auto simp: life_of_iff)
    moreover have "lives ?db = (lives (w_db (pl_world s)))(o_id row := life_of (status_of ?db (o_id row)))"
      by (rule lives_update) (rule record_status(1))
    moreover have "lives (w_db (pl_world s)) (o_id row) = InFlight" using p by (simp add: lives_def life_of_def)
    ultimately show ?thesis using record_answer(1) life_step.hand_over by (auto simp: pl_abs_def fun_upd_idem)
  next
    case (handle i row e env)
    let ?db = "w_db (snd (handle_failure env (o_id row) row e (pl_world s)))"
    have p: "status_of (w_db (pl_world s)) (o_id row) = Some PROCESSING" "o_id row \<notin> set (pl_succeeded s)"
      using inv(2,5) [of i row] handle(2) by simp_all
    then have "life_of (status_of ?db (o_id row)) \<in> {InFlight, Waiting}"
      using handle_own_status [OF p(1), of env "o_id row" e] by (auto simp: life_of_def)
    moreover have "lives ?db = (lives (w_db (pl_world s)))(o_id row := life_of (status_of ?db (o_id row)))"
      by (rule lives_update) (rule handle_status)
    moreover have "lives (w_db (pl_world s)) (o_id row) = InFlight" using p by (simp add: lives_def life_of_def)
    ultimately show ?thesis using handle(1) p(2) life_step.give_back by (auto simp: pl_abs_def fun_upd_idem)
  next
    case (inquire i oid row env answer w' attempt ft)
    with inquire_simps(1) [of env row "pl_world s"] show ?thesis by (simp add: pl_abs_def)
  next
    case (conclude i row attempt ft el answer env)
    with broker_only_lives [OF conclude_frame [OF assms(1) conclude(2), of env]] show ?thesis by (simp add: pl_abs_def)
  next
    case (new_order row row' db' tasks)
    have n: "status_of (w_db (pl_world s)) (o_id row) = None"
      using new_order(3)
      by (auto simp: create_order_def status_of_def get_order_by_id_def find_None_iff split: if_splits) (metis image_eqI)
    have d: "db' = w_db (pl_world s) @ [row]" using create_order_ok [OF new_order(3)] by simp
    have st: "status_of db' k = (if k = o_id row then Some PENDING else status_of (w_db (pl_world s)) k)" for k
    proof (cases "status_of (w_db (pl_world s)) k")
      case None
      then have "List.find (\<lambda>r. o_id r = k) (w_db (pl_world s)) = None" by (simp add: status_of_def get_order_by_id_def)
      with None new_order(2) d show ?thesis
        by (simp add: status_of_def get_order_by_id_def find_append_None)
    next
      case (Some x)
      with create_status [OF new_order(3), of k] n show ?thesis by auto
    qed
    have "lives db' = (lives (w_db (pl_world s)))(o_id row := Waiting)"
      using st by (auto simp: lives_def life_of_def)
    moreover have "lives (w_db (pl_world s)) (o_id row) = Unknown" using n by (simp add: lives_def life_of_def)
    ultimately show ?thesis using new_order(1) life_step.publish by (simp add: pl_abs_def)
  next
    case (recover now rf)
    then show ?thesis by (simp add: pl_abs_def recover_db)
  next
    case (crash i)
    then show ?thesis by (simp add: pl_abs_def)
  qed
qed

section \<open>Properties\<close>

text \<open>
  C2. The pipeline of concurrent workers refines the abstract one: every step of any worker, of the
  recovery, of a crash or of a new order, in a state that can be reached, is one abstract step or
  changes nothing the abstraction shows.
\<close>

theorem pipeline_refines_lifecycle:
  assumes "pl_reach s" and "pl_step s t"
  shows "pl_abs t = pl_abs s \<or> life_step (pl_abs s) (pl_abs t)"
  using pl_refines [OF pl_reach_inv [OF assms(1)] assms(2)] .

text \<open>
  C1. However workers interleave, tasks are redelivered, recoveries run and workers die: once a
  submission of an order has been answered with success, the order is never \<open>PENDING\<close> again and no
  worker holds it before its request (in the phases \<open>Claimed\<close> and \<open>Prepared\<close>, from which alone
  \<open>submit_order\<close> is called), so no second call submits it; each order has at most one such answer;
  two workers never have the same order at the same time; the ids stay unique.  The statement
  counts calls of \<open>submit_order\<close>: the requests \<open>cash_loop\<close> repeats within one call after a lost
  answer are not excluded.
\<close>

theorem no_submission_after_success:
  assumes "pl_reach s"
  shows "(\<forall>k \<in> set (pl_succeeded s). status_of (w_db (pl_world s)) k \<notin> {None, Some PENDING})
    \<and> (\<forall>i row. pl_phase s i \<in> {Claimed row, Prepared row} \<longrightarrow> o_id row \<notin> set (pl_succeeded s))
    \<and> distinct (pl_succeeded s)
    \<and> (\<forall>i j row row'. submitting (pl_phase s i) = Some row \<and> submitting (pl_phase s j) = Some row'
         \<and> o_id row = o_id row' \<longrightarrow> i = j)
    \<and> distinct (map o_id (w_db (pl_world s)))"
proof -
  note inv = pl_invD [OF pl_reach_inv [OF assms]]
  have "o_id row \<notin> set (pl_succeeded s)" if "pl_phase s i \<in> {Claimed row, Prepared row}" for i row
    using that inv(5) [of i row] by auto
  with inv show ?thesis by blast
qed

text \<open>A worker submits the pending order of the example, and the answer is a success.\<close>

definition pipeline_example :: pipeline where
  "pipeline_example = \<lparr>pl_world = example_world False, pl_phase = (\<lambda>_. Idle), pl_succeeded = []\<rparr>"

lemma example_start: "pl_reach pipeline_example"
  by (rule pl_reach.init) (simp add: pl_init_def pipeline_example_def)

lemma example_claim:
  "pl_step pipeline_example (pipeline_example\<lparr>
     pl_world := claimed (example_env http) ''o1'' (example_world False),
     pl_phase := (\<lambda>_. Idle)(0 := Claimed (claimed_row (example_env http) example_order))\<rparr>)"
  using pl_step.claim [of pipeline_example 0 "example_env http" "''o1''" "claimed_row (example_env http) example_order"
      "claimed (example_env http) ''o1'' (example_world False)"]
    claim_order_pending [OF example_lookup example_pending, of "example_env http" False]
  by (simp add: pipeline_example_def)

lemma example_succeeded:
  "\<exists>s. pl_reach s \<and> pl_succeeded s = [''o1''] \<and> submitting (pl_phase s 0) \<noteq> None"
proof -
  let ?env = "example_env (example_answer accepted_body)"
  let ?row = "claimed_row ?env example_order"
  define s1 where "s1 = pipeline_example\<lparr>pl_world := claimed ?env ''o1'' (example_world False),
     pl_phase := (\<lambda>_. Idle)(0 := Claimed ?row)\<rparr>"
  have 1: "pl_reach s1" unfolding s1_def by (rule pl_reach.step [OF example_start example_claim])
  obtain w2 where w2: "prepare_submission ?env ?row (pl_world s1) = (Inr (), w2)"
    using prepare_claimed [of ?env ?row "''o1''" "example_world False"]
    by (cases "prepare_submission ?env ?row (pl_world s1)")
      (simp add: s1_def example_obtain check_kill_switch_def example_kill)
  define s2 where "s2 = s1\<lparr>pl_world := w2, pl_phase := (pl_phase s1)(0 := Prepared ?row)\<rparr>"
  have 2: "pl_reach s2"
    using pl_reach.step [OF 1 pl_step.prepare [of s1 0 ?row ?env "Inr ()" w2]] w2 by (simp add: s1_def s2_def)
  obtain resp w3 where w3: "submit_order ?env ?row (pl_world s2) = (Inr resp, w3)"
    by (simp add: submit_order_def example_calls(1))
  have "o_id ?row = ''o1''" by (simp add: example_order_def new_order_def)
  moreover have "pl_reach (s2\<lparr>pl_world := w3, pl_phase := (pl_phase s2)(0 := Answered ?row (Inr resp)),
       pl_succeeded := pl_succeeded s2 @ [o_id ?row]\<rparr>)"
    using pl_reach.step [OF 2 pl_step.submit [of s2 0 ?row ?env "Inr resp" w3]] w3 by (simp add: s2_def)
  ultimately show ?thesis
    by (intro exI [of _ "s2\<lparr>pl_world := w3, pl_phase := (pl_phase s2)(0 := Answered ?row (Inr resp)),
       pl_succeeded := pl_succeeded s2 @ [o_id ?row]\<rparr>"]) (simp add: s1_def s2_def pipeline_example_def)
qed

theorem no_submission_after_success_witness:
  "\<exists>s. pl_reach s \<and> pl_succeeded s = [''o1''] \<and> submitting (pl_phase s 0) \<noteq> None
     \<and> status_of (w_db (pl_world s)) ''o1'' \<notin> {None, Some PENDING}
     \<and> distinct (map o_id (w_db (pl_world s)))"
proof -
  obtain s where s: "pl_reach s" "pl_succeeded s = [''o1'']" "submitting (pl_phase s 0) \<noteq> None"
    using example_succeeded by blast
  from no_submission_after_success [OF s(1)] s(2) have
    "status_of (w_db (pl_world s)) ''o1'' \<notin> {None, Some PENDING}" "distinct (map o_id (w_db (pl_world s)))" by simp_all
  with s show ?thesis by blast
qed

theorem pipeline_refines_lifecycle_witness:
  "\<exists>t. pl_step pipeline_example t \<and> pl_phase t 0 \<noteq> Idle
     \<and> (pl_abs t = pl_abs pipeline_example \<or> life_step (pl_abs pipeline_example) (pl_abs t))"
  using example_claim [of "example_answer accepted_body"]
    pipeline_refines_lifecycle [OF example_start example_claim [of "example_answer accepted_body"]]
  by (intro exI conjI) (assumption, simp_all)

section \<open>A stale tracking\<close>

text \<open>
  The statuses the tracking update expects are those reachable from the loaded status, not those
  from which the new status may be reached: a slow tracking that loaded an \<open>ACCEPTED\<close> order takes it
  back from \<open>PARTIAL_FILLED\<close> to \<open>ACCEPTED\<close>.
\<close>

lemma stale_tracking_goes_back:
  assumes "o_id row = o_id r" and "o_status row = ACCEPTED" and "o_status r = PARTIAL_FILLED"
    and "ts_next_status sn = ACCEPTED"
  shows "map o_status (snd (execute (tracking_stmt now row sn) [r])) = [ACCEPTED]"
  using assms
  by (simp add: execute_def tracking_stmt_where can_transition_def TERMINAL_STATES_def TRACKING_TARGET_STATUSES_def)
    (simp add: tracking_stmt_def update_order_tracking_result_def)

end
