(* ===== verification/Order_Api.thy ===== *)
theory Order_Api
  imports Submit_Worker
begin

text \<open>
  The intake of orders, \<^verbatim>\<open>app/api/router_order.py\<close>: the four endpoints with their validations, and the
  kill switch endpoints of \<^verbatim>\<open>app/api/router_safety.py\<close>.  FastAPI parses the query parameters; a new id
  (\<open>uuid4\<close>) is an argument.  The Korean texts of the errors and answers are ASCII here.
\<close>

section \<open>Answers\<close>

text \<open>\<open>HTTPException(status_code, detail)\<close>, or an exception that becomes a server error.\<close>

datatype api_error = HTTPException int str | Raised exn

type_synonym 'a answer = "api_error + 'a"

record order_answer =
  an_order_id :: str
  an_status :: order_status
  an_message :: str

section \<open>Validation\<close>

text \<open>\<open>price != Decimal("0")\<close> and \<open>price <= Decimal("0")\<close>; an ordering comparison with NaN raises.\<close>

fun decimal_nonzero :: "decimal \<Rightarrow> bool" where
  "decimal_nonzero (Dec c e) = (c \<noteq> 0)"
| "decimal_nonzero (DInf neg) = True"
| "decimal_nonzero DNaN = True"

fun decimal_not_positive :: "decimal \<Rightarrow> bool answer" where
  "decimal_not_positive (Dec c e) = Inr (c \<le> 0)"
| "decimal_not_positive (DInf neg) = Inr neg"
| "decimal_not_positive DNaN = Inl (Raised (LibError ''InvalidOperation'' ''comparison involving NaN''))"

definition validate_price :: "str \<Rightarrow> order_type \<Rightarrow> decimal \<Rightarrow> unit answer" where
  "validate_price what ty price =
     (case ty of
        MARKET \<Rightarrow> if decimal_nonzero price then Inl (HTTPException 400 (''the price of a market '' @ what @ '' must be 0''))
                  else Inr ()
      | LIMIT \<Rightarrow> (case decimal_not_positive price of
                    Inl e \<Rightarrow> Inl e
                  | Inr True \<Rightarrow> Inl (HTTPException 400 (''the price of a limit '' @ what @ '' must be positive''))
                  | Inr False \<Rightarrow> Inr ())
      | CONDITIONAL \<Rightarrow> Inl (HTTPException 400 ''unsupported order_type''))"

definition validate_order_request :: "str \<Rightarrow> int \<Rightarrow> order_type \<Rightarrow> decimal \<Rightarrow> unit answer" where
  "validate_order_request stock_code quantity ty price =
     (if \<not> isdigit stock_code \<or> length stock_code \<noteq> 6
      then Inl (HTTPException 400 ''stock_code must be a 6-digit number'')
      else if quantity \<le> 0 then Inl (HTTPException 400 ''quantity must be at least 1'')
      else validate_price ''order'' ty price)"

definition validate_cancel_request :: "str \<Rightarrow> int \<Rightarrow> unit answer" where
  "validate_cancel_request order_id quantity =
     (if strip order_id = [] then Inl (HTTPException 400 ''order_id is required'')
      else if quantity \<le> 0 then Inl (HTTPException 400 ''the quantity to cancel must be at least 1'')
      else Inr ())"

definition validate_revise_request :: "str \<Rightarrow> int \<Rightarrow> order_type \<Rightarrow> decimal \<Rightarrow> unit answer" where
  "validate_revise_request order_id quantity ty price =
     (if strip order_id = [] then Inl (HTTPException 400 ''order_no is required'')
      else if quantity \<le> 0 then Inl (HTTPException 400 ''the quantity to revise must be at least 1'')
      else validate_price ''revision'' ty price)"

definition validate_original_order_for_modify_cancel :: "order option \<Rightarrow> order answer" where
  "validate_original_order_for_modify_cancel original_order =
     (case original_order of
        None \<Rightarrow> Inl (HTTPException 404 ''original order not found'')
      | Some r \<Rightarrow>
          if o_order_kind r \<notin> {KIND_NEW, KIND_MODIFY}
          then Inl (HTTPException 400 ''the original must be a new order or a revision'')
          else if o_status r \<notin> {ACCEPTED, PARTIAL_FILLED}
          then Inl (HTTPException 400 ''only accepted or partially filled orders can be revised or canceled'')
          else if \<not> truthy (o_broker_order_no r) \<or> \<not> truthy (o_broker_org_no r)
          then Inl (HTTPException 400 ''an order without a broker number cannot be revised or canceled'')
          else if o_remaining_qty r \<le> 0
          then Inl (HTTPException 400 ''nothing remains of the order'')
          else Inr r)"

section \<open>Storing and queueing\<close>

text \<open>What the endpoints share: insert and commit, publish, queue unless it is a dry run, answer.\<close>

definition accept_order :: "bool \<Rightarrow> order \<Rightarrow> str \<Rightarrow> world \<Rightarrow> order_answer answer \<times> world" where
  "accept_order dry_run row message w =
     (case create_order (w_db w) row of
        Inl e \<Rightarrow> (Inl (Raised e), w)
      | Inr (order, db) \<Rightarrow>
          (let w1 = publish_order_update (o_id order) (w\<lparr>w_db := db\<rparr>);
               w2 = (if dry_run then w1 else enqueue (ProcessOrder (o_id order) 0) w1)
           in (Inr \<lparr>an_order_id = o_id order, an_status = o_status order, an_message = message\<rparr>, w2)))"

section \<open>Endpoints\<close>

text \<open>The row of a new order.\<close>

definition intake_order :: "worker_env \<Rightarrow> uuid \<Rightarrow> str \<Rightarrow> str \<Rightarrow> int \<Rightarrow> order_type \<Rightarrow> decimal \<Rightarrow> order" where
  "intake_order env oid action stock_code quantity ty price =
     (new_order (e_now env) oid)
       \<lparr>o_account_no := s_account_no (e_settings env), o_account_product_code := s_account_product_code (e_settings env),
        o_market := ''KRX'', o_stock_code := stock_code, o_order_pos := action, o_order_kind := KIND_NEW,
        o_order_type := order_type_value ty, o_order_price := Some price, o_order_qty := quantity,
        o_remaining_qty := quantity, o_status := PENDING\<rparr>"

definition api_buy ::
  "worker_env \<Rightarrow> uuid \<Rightarrow> str \<Rightarrow> int \<Rightarrow> order_type \<Rightarrow> decimal \<Rightarrow> bool \<Rightarrow> world \<Rightarrow> order_answer answer \<times> world" where
  "api_buy env oid stock_code quantity ty price dry_run w =
     (case validate_order_request stock_code quantity ty price of
        Inl e \<Rightarrow> (Inl e, w)
      | Inr _ \<Rightarrow> accept_order dry_run (intake_order env oid ACTION_BUY stock_code quantity ty price)
                   ''the buy order was received'' w)"

definition api_sell ::
  "worker_env \<Rightarrow> uuid \<Rightarrow> str \<Rightarrow> int \<Rightarrow> order_type \<Rightarrow> decimal \<Rightarrow> bool \<Rightarrow> world \<Rightarrow> order_answer answer \<times> world" where
  "api_sell env oid stock_code quantity ty price dry_run w =
     (case validate_order_request stock_code quantity ty price of
        Inl e \<Rightarrow> (Inl e, w)
      | Inr _ \<Rightarrow> accept_order dry_run (intake_order env oid ACTION_SELL stock_code quantity ty price)
                   ''the sell order was received'' w)"

text \<open>The row of a cancellation or revision; the quantity is what remains when it is asked for, else as asked.\<close>

definition child_qty :: "order \<Rightarrow> int \<Rightarrow> int" where
  "child_qty original_order quantity =
     (if o_remaining_qty original_order = quantity then o_remaining_qty original_order else quantity)"

definition child_order :: "worker_env \<Rightarrow> uuid \<Rightarrow> order \<Rightarrow> str \<Rightarrow> str \<Rightarrow> decimal option \<Rightarrow> int \<Rightarrow> order" where
  "child_order env oid original_order kind ty price quantity =
     (new_order (e_now env) oid)
       \<lparr>o_account_no := o_account_no original_order, o_account_product_code := o_account_product_code original_order,
        o_market := o_market original_order, o_stock_code := o_stock_code original_order,
        o_order_pos := o_order_pos original_order, o_order_kind := kind, o_order_type := ty, o_order_price := price,
        o_order_qty := quantity, o_remaining_qty := quantity, o_status := PENDING,
        o_original_order_id := Some (o_id original_order),
        o_original_broker_order_no := o_broker_order_no original_order,
        o_original_broker_org_no := o_broker_org_no original_order\<rparr>"

definition api_cancel ::
  "worker_env \<Rightarrow> uuid \<Rightarrow> str \<Rightarrow> int \<Rightarrow> bool \<Rightarrow> world \<Rightarrow> order_answer answer \<times> world" where
  "api_cancel env oid order_id quantity dry_run w =
     (case validate_cancel_request order_id quantity of
        Inl e \<Rightarrow> (Inl e, w)
      | Inr _ \<Rightarrow>
          (case get_order_by_id (w_db w) order_id of
             None \<Rightarrow> (Inl (HTTPException 404 (''order id not found: '' @ order_id)), w)
           | Some original_order \<Rightarrow>
               (case validate_original_order_for_modify_cancel (Some original_order) of
                  Inl e \<Rightarrow> (Inl e, w)
                | Inr _ \<Rightarrow>
                    accept_order dry_run
                      (child_order env oid original_order KIND_CANCEL (o_order_type original_order) None
                         (child_qty original_order quantity))
                      ''the cancellation was received'' w)))"

definition api_revise ::
  "worker_env \<Rightarrow> uuid \<Rightarrow> str \<Rightarrow> int \<Rightarrow> order_type \<Rightarrow> decimal \<Rightarrow> bool \<Rightarrow> world \<Rightarrow> order_answer answer \<times> world" where
  "api_revise env oid order_no quantity ty price dry_run w =
     (case validate_revise_request order_no quantity ty price of
        Inl e \<Rightarrow> (Inl e, w)
      | Inr _ \<Rightarrow>
          (case get_order_by_id (w_db w) order_no of
             None \<Rightarrow> (Inl (HTTPException 404 ''original order not found''), w)
           | Some original_order \<Rightarrow>
               (case validate_original_order_for_modify_cancel (Some original_order) of
                  Inl e \<Rightarrow> (Inl e, w)
                | Inr _ \<Rightarrow>
                    accept_order dry_run
                      (child_order env oid original_order KIND_MODIFY (order_type_value ty)
                         (Some (if ty = MARKET then Dec 0 0 else price)) (child_qty original_order quantity))
                      ''the revision was received'' w)))"

section \<open>The kill switch endpoints\<close>

definition api_get_kill_switch :: "worker_env \<Rightarrow> world \<Rightarrow> bool \<times> str" where
  "api_get_kill_switch env w = kill_switch_get_state (e_now env) (w_redis w)"

definition api_update_kill_switch :: "worker_env \<Rightarrow> bool \<Rightarrow> world \<Rightarrow> (bool \<times> str) \<times> world" where
  "api_update_kill_switch env enabled w =
     (let w' = w\<lparr>w_redis := kill_switch_set_state (e_now env) (w_redis w) enabled\<rparr>
      in (kill_switch_get_state (e_now env) (w_redis w'), w'))"

text \<open>The answer tells the new state, which every worker then sees.\<close>

lemma update_kill_switch_effect:
  "api_update_kill_switch env enabled w = (s, w') \<Longrightarrow>
     fst s = enabled \<and> kill_switch_is_on t (w_redis w') = enabled \<and> w_db w' = w_db w \<and> w_queue w' = w_queue w"
  by (auto simp: api_update_kill_switch_def Let_def kill_switch_get_state_def kill_switch.read_write)

section \<open>The contract of an intake\<close>

text \<open>
  What the four endpoints share: a request is refused and leaves the world, or a well-formed
  pending order of the given id and quantity is accepted.
\<close>

definition wf_intake :: "uuid \<Rightarrow> int \<Rightarrow> order \<Rightarrow> bool" where
  "wf_intake oid quantity r \<longleftrightarrow>
     o_id r = oid \<and> o_status r = PENDING \<and> o_order_qty r = quantity \<and> 0 < quantity \<and> o_remaining_qty r = quantity
     \<and> o_filled_qty r = 0"

locale order_intake =
  fixes endpoint :: "bool \<Rightarrow> world \<Rightarrow> order_answer answer \<times> world" and oid :: uuid and quantity :: int
  assumes refuses_or_accepts:
    "(\<exists>e. endpoint dry_run w = (Inl e, w))
     \<or> (\<exists>r message. wf_intake oid quantity r \<and> endpoint dry_run w = accept_order dry_run r message w)"
begin

lemma effect:
  "case endpoint dry_run w of
     (Inl e, w') \<Rightarrow> w' = w
   | (Inr a, w') \<Rightarrow> \<exists>r. wf_intake oid quantity r \<and> oid \<notin> o_id ` set (w_db w) \<and> w_db w' = w_db w @ [r]
       \<and> w_queue w' = w_queue w @ (if dry_run then [] else [ProcessOrder oid 0])
       \<and> w_posts w' = w_posts w \<and> an_order_id a = oid"
  using refuses_or_accepts [of dry_run w]
proof
  assume "\<exists>r message. wf_intake oid quantity r \<and> endpoint dry_run w = accept_order dry_run r message w"
  then obtain r message where r: "wf_intake oid quantity r" "endpoint dry_run w = accept_order dry_run r message w"
    by blast
  show ?thesis
  proof (cases "oid \<in> o_id ` set (w_db w)")
    case True
    with r show ?thesis by (auto simp: accept_order_def create_order_def wf_intake_def)
  next
    case False
    with r show ?thesis by (auto simp: accept_order_def create_order_def step_simps wf_intake_def Let_def)
  qed
qed auto

end

lemma validated_request:
  "validate_order_request code q ty price = Inr u \<Longrightarrow>
   0 < q \<and> length code = 6 \<and> list_all is_digit code
   \<and> (ty = MARKET \<and> \<not> decimal_nonzero price \<or> ty = LIMIT \<and> decimal_not_positive price = Inr False)"
  by (auto simp: validate_order_request_def validate_price_def isdigit_def
      split: if_splits order_type.splits sum.splits bool.splits)

lemma child_qty_is [simp]: "child_qty r q = q"
  by (simp add: child_qty_def)

lemma wf_new: "0 < q \<Longrightarrow> wf_intake oid q (intake_order env oid act code q ty price)"
  by (simp add: wf_intake_def intake_order_def new_order_def)

lemma validated_qty: "validate_order_request code q ty price = Inr u \<Longrightarrow> 0 < q"
  using validated_request by blast

interpretation intake_buy: order_intake "\<lambda>d. api_buy env oid code q ty price d" oid q
  for env oid code q ty price
  by unfold_locales (use wf_new validated_qty in \<open>fastforce simp: api_buy_def split: sum.split\<close>)

interpretation intake_sell: order_intake "\<lambda>d. api_sell env oid code q ty price d" oid q
  for env oid code q ty price
  by unfold_locales (use wf_new validated_qty in \<open>fastforce simp: api_sell_def split: sum.split\<close>)

lemma wf_child: "0 < q \<Longrightarrow> wf_intake oid q (child_order env oid r kind ty price q)"
  by (simp add: wf_intake_def child_order_def new_order_def)

interpretation intake_cancel: order_intake "\<lambda>d. api_cancel env oid k q d" oid q
  for env oid k q
proof
  fix d w
  have "validate_cancel_request k q = Inr u \<Longrightarrow> 0 < q" for u
    by (simp add: validate_cancel_request_def split: if_splits)
  then show "(\<exists>e. api_cancel env oid k q d w = (Inl e, w))
     \<or> (\<exists>r message. wf_intake oid q r \<and> api_cancel env oid k q d w = accept_order d r message w)"
    using wf_child by (fastforce simp: api_cancel_def split: sum.split option.split)
qed

interpretation intake_revise: order_intake "\<lambda>d. api_revise env oid k q ty price d" oid q
  for env oid k q ty price
proof
  fix d w
  have "validate_revise_request k q ty price = Inr u \<Longrightarrow> 0 < q" for u
    by (simp add: validate_revise_request_def split: if_splits)
  then show "(\<exists>e. api_revise env oid k q ty price d w = (Inl e, w))
     \<or> (\<exists>r message. wf_intake oid q r \<and> api_revise env oid k q ty price d w = accept_order d r message w)"
    using wf_child by (fastforce simp: api_revise_def split: sum.split option.split)
qed

section \<open>From the intake to the broker\<close>

text \<open>
  The price of a limit order on the wire: the worker cuts it to whole won (\<open>int(Decimal(price))\<close>), so
  the fraction of a price is lost without a word.
\<close>

definition wire_price :: "order_type \<Rightarrow> decimal \<Rightarrow> str" where
  "wire_price ty price =
     (case (ty, price) of
        (LIMIT, Dec c x) \<Rightarrow> show_int (if 0 \<le> x then c * 10 ^ nat x else c div 10 ^ nat (- x))
      | _ \<Rightarrow> ''0'')"

lemma str_price_limit: "0 < c \<Longrightarrow> str_price (show_decimal (Dec c x)) = Inr (wire_price LIMIT (Dec c x))"
  by (simp add: str_price_def decimal_text_roundtrip wire_price_def del: show_decimal.simps)

lemma price_text_present: "0 < c \<Longrightarrow> show_decimal (Dec c x) \<notin> {[], ''0''}"
proof -
  assume "0 < c"
  moreover have "parse_decimal [] = None" "parse_decimal ''0'' = Some (Dec 0 0)" by code_simp+
  ultimately show ?thesis using decimal_text_roundtrip [of c x] by auto
qed

lemma order_type_read: "ORDER_TYPE (order_type_value ty) = Inr ty"
  by (cases ty) (simp_all add: ORDER_TYPE_def)

lemma cash_loop_sends: "as \<noteq> [] \<Longrightarrow> 0 < fst (cash_loop label stg send as)"
  by (cases as) (simp_all add: case_prod_beta Let_def split: http_outcome.split)

lemma cash_order_posts:
  assumes "str_qty q = Inr q'" and "str_price p = Inr p'"
  shows "set (fst (cash_order http label stg mk q p)) = {mk q' p'}"
proof -
  have "0 < fst (cash_loop label stg (http (mk q' p')) [0..<HTTP_RETRY_COUNT])"
    by (rule cash_loop_sends) (simp add: attempts)
  with assms show ?thesis
    by (auto simp: cash_order_def case_prod_beta Let_def simp del: cash_loop.simps)
qed

text \<open>The parameters of a validated request as the broker reads them.\<close>

definition wire_mode :: "order_type \<Rightarrow> str" where
  "wire_mode ty = (if ty = MARKET then ORD_DVSN_MARKET else ORD_DVSN_LIMIT)"

lemma validated_params:
  assumes "validate_order_request code q ty price = Inr u" and "ty = LIMIT \<Longrightarrow> price = Dec c x"
  shows "validate_order_inputs code ty (Some (show_price (Some price))) = Inr ()"
    "\<exists>p. resolve_order_params ty (show_price (Some price)) = (wire_mode ty, p)
       \<and> str_price p = Inr (wire_price ty price)"
    "str_qty (show_int q) = Inr (show_int q)"
proof -
  note v = validated_request [OF assms(1)]
  have code: "strip code = code" using v strip_digits by blast
  show "str_qty (show_int q) = Inr (show_int q)" using v by (simp add: show_int_def)
  show "validate_order_inputs code ty (Some (show_price (Some price))) = Inr ()"
  proof (cases "ty = LIMIT")
    case True
    with v assms(2) have c: "0 < c" "price = Dec c x" by auto
    then have "show_price (Some price) \<notin> {[], ''0''}"
      using price_text_present [of c x] by (simp add: show_price_def del: show_decimal.simps)
    then show ?thesis
      using True v code
      by (auto simp: validate_order_inputs_def validate_stock_code_def isdigit_def no_price_def Let_def)
  next
    case False
    with v code show ?thesis
      by (auto simp: validate_order_inputs_def validate_stock_code_def isdigit_def Let_def)
  qed
  show "\<exists>p. resolve_order_params ty (show_price (Some price)) = (wire_mode ty, p)
       \<and> str_price p = Inr (wire_price ty price)"
  proof (cases "ty = LIMIT")
    case True
    with v assms(2) have c: "0 < c" "price = Dec c x" by auto
    then show ?thesis using True str_price_limit [of c x]
      by (simp add: resolve_order_params_def wire_mode_def show_price_def del: show_decimal.simps)
  next
    case False
    with v show ?thesis by (auto simp: resolve_order_params_def wire_mode_def str_price_zero wire_price_def)
  qed
qed

lemma intake_posts:
  assumes "validate_order_request code q ty price = Inr u" and "ty = LIMIT \<Longrightarrow> price = Dec c x"
  shows "set (fst (call_broker wenv db (claimed_row wenv (intake_order env oid ACTION_BUY code q ty price)))) =
      {buy_request (s_paper (e_settings wenv)) (s_account_no (e_settings wenv)) (s_account_product_code (e_settings wenv))
         (wire_mode ty) code (show_int q) (wire_price ty price) EXCG_KRX}"
    "set (fst (call_broker wenv db (claimed_row wenv (intake_order env oid ACTION_SELL code q ty price)))) =
      {sell_request (s_paper (e_settings wenv)) (s_account_no (e_settings wenv)) (s_account_product_code (e_settings wenv))
         (wire_mode ty) code (show_int q) (wire_price ty price) EXCG_KRX}"
proof -
  obtain p where p: "resolve_order_params ty (show_price (Some price)) = (wire_mode ty, p)"
    "str_price p = Inr (wire_price ty price)"
    using validated_params(2) [OF assms] by blast
  note params = validated_params(1) [OF assms] p(1) validated_params(3) [OF assms] p(2)
  show "set (fst (call_broker wenv db (claimed_row wenv (intake_order env oid ACTION_BUY code q ty price)))) =
      {buy_request (s_paper (e_settings wenv)) (s_account_no (e_settings wenv)) (s_account_product_code (e_settings wenv))
         (wire_mode ty) code (show_int q) (wire_price ty price) EXCG_KRX}"
    using params cash_order_posts
    by (simp add: call_broker_def submit_new_def claimed_row_def intake_order_def kind_defs order_type_read Let_def
        buy_domestic_stock_def buy_domestic_stock_by_cash_def then_check_def)
  show "set (fst (call_broker wenv db (claimed_row wenv (intake_order env oid ACTION_SELL code q ty price)))) =
      {sell_request (s_paper (e_settings wenv)) (s_account_no (e_settings wenv)) (s_account_product_code (e_settings wenv))
         (wire_mode ty) code (show_int q) (wire_price ty price) EXCG_KRX}"
    using params cash_order_posts
    by (simp add: call_broker_def submit_new_def claimed_row_def intake_order_def kind_defs order_type_read Let_def
        sell_domestic_stock_def sell_domestic_stock_by_cash_def then_check_def)
qed

section \<open>Properties\<close>

lemma every_intake:
  assumes "endpoint \<in> {api_buy env oid code q ty price, api_sell env oid code q ty price,
                       api_cancel env oid k q, api_revise env oid k q ty price}"
  shows "order_intake endpoint oid q"
  using assms intake_buy.order_intake_axioms intake_sell.order_intake_axioms intake_cancel.order_intake_axioms
    intake_revise.order_intake_axioms by auto

text \<open>
  C12. Every endpoint either refuses and leaves the world as it was, or stores exactly one new
  pending order under the new id, with the positive quantity asked for and all of it remaining,
  queues exactly one submission unless it is a dry run, and sends the broker nothing.
\<close>

theorem intake_effect:
  assumes "endpoint \<in> {api_buy env oid code q ty price, api_sell env oid code q ty price,
                       api_cancel env oid k q, api_revise env oid k q ty price}"
  shows "case endpoint dry_run w of
     (Inl e, w') \<Rightarrow> w' = w
   | (Inr a, w') \<Rightarrow> \<exists>r. wf_intake oid q r \<and> oid \<notin> o_id ` set (w_db w) \<and> w_db w' = w_db w @ [r]
       \<and> w_queue w' = w_queue w @ (if dry_run then [] else [ProcessOrder oid 0])
       \<and> w_posts w' = w_posts w \<and> an_order_id a = oid"
  by (rule order_intake.effect [OF every_intake [OF assms]])

text \<open>
  C5. From the intake to the wire: an order accepted by the buy or the sell endpoint is in the
  table, pending, and when worker 1 submits it under any settings, every request it posts is one
  and the same order, with the side, the code, the quantity and the mode the caller asked for.
  The price posted for a limit order is the price asked for cut to whole won, which is that price
  when it is a whole number and a lower one otherwise; a market order posts 0.  The limit price has
  at most the four decimals the column keeps.
\<close>

theorem intake_reaches_broker:
  assumes "api_buy env oid code q ty price dry_run w = (Inr a, w1) \<or> api_sell env oid code q ty price dry_run w = (Inr a, w1)"
    and "ty = LIMIT \<Longrightarrow> price = Dec c x \<and> - 4 \<le> x"
  shows "\<exists>r. get_order_by_id (w_db w1) oid = Some r \<and> o_status r = PENDING
     \<and> set (fst (call_broker wenv db (claimed_row wenv r))) =
         {(if o_order_pos r = ACTION_BUY then buy_request else sell_request)
            (s_paper (e_settings wenv)) (s_account_no (e_settings wenv)) (s_account_product_code (e_settings wenv))
            (if ty = MARKET then ''01'' else ''00'') code (show_int q)
            (if ty = MARKET then ''0'' else show_int (if 0 \<le> x then c * 10 ^ nat x else c div 10 ^ nat (- x))) ''KRX''}
     \<and> (o_order_pos r = ACTION_BUY \<longleftrightarrow> api_buy env oid code q ty price dry_run w = (Inr a, w1))"
proof -
  have v: "validate_order_request code q ty price = Inr ()"
    using assms(1) by (auto simp: api_buy_def api_sell_def split: sum.splits)
  define mk where "mk act = intake_order env oid act code q ty price" for act
  have found: "get_order_by_id (w_db w1) oid = Some (mk act)"
    if "accept_order dry_run (mk act) m w = (Inr a, w1)" for act m
  proof -
    have id: "o_id (mk act) = oid" by (simp add: mk_def intake_order_def new_order_def)
    have fresh: "oid \<notin> o_id ` set (w_db w)" and db: "w_db w1 = w_db w @ [mk act]"
      using that id by (auto simp: accept_order_def create_order_def step_simps Let_def split: if_splits)
    from fresh have "List.find (\<lambda>r. o_id r = oid) (w_db w) = None" by (auto simp: find_None_iff)
    with id show ?thesis by (simp add: get_order_by_id_def db find_append_None)
  qed
  have pos: "o_order_pos (mk act) = act" "o_status (mk act) = PENDING" for act
    by (simp_all add: mk_def intake_order_def)
  have differ: "\<not> (api_buy env oid code q ty price dry_run w = (Inr a, w1)
       \<and> api_sell env oid code q ty price dry_run w = (Inr a, w1))"
    using found [of ACTION_BUY] found [of ACTION_SELL] pos(1) [of ACTION_BUY] pos(1) [of ACTION_SELL] v
    by (auto simp: api_buy_def api_sell_def mk_def kind_defs)
  have "ty = LIMIT \<Longrightarrow> price = Dec c x" using assms(2) by blast
  note posts = intake_posts [OF v this, where wenv = wenv and db = db and env = env and oid = oid,
      unfolded mk_def [symmetric] wire_mode_def ORD_DVSN_MARKET_def ORD_DVSN_LIMIT_def EXCG_KRX_def]
  have "ty = MARKET \<or> ty = LIMIT" using validated_request [OF v] by blast
  then have price: "wire_price ty price =
      (if ty = MARKET then ''0'' else show_int (if 0 \<le> x then c * 10 ^ nat x else c div 10 ^ nat (- x)))"
    using assms(2) by (auto simp: wire_price_def)
  from assms(1) show ?thesis
  proof
    assume buy: "api_buy env oid code q ty price dry_run w = (Inr a, w1)"
    then have "get_order_by_id (w_db w1) oid = Some (mk ACTION_BUY)"
      using found v by (auto simp: api_buy_def mk_def)
    with buy posts(1) pos price show ?thesis by (intro exI [of _ "mk ACTION_BUY"]) simp
  next
    assume sell: "api_sell env oid code q ty price dry_run w = (Inr a, w1)"
    then have "get_order_by_id (w_db w1) oid = Some (mk ACTION_SELL)"
      using found v by (auto simp: api_sell_def mk_def)
    moreover have "ACTION_SELL \<noteq> ACTION_BUY" by (simp add: kind_defs)
    ultimately show ?thesis using sell differ posts(2) pos price by (intro exI [of _ "mk ACTION_SELL"]) simp
  qed
qed

text \<open>
  A cancellation of more than remains is accepted by the endpoint, but worker 1 sends nothing for
  it and raises: the two checks disagree.
\<close>

lemma overlarge_cancellation:
  assumes "get_order_by_id (w_db w) k = Some r" and "o_order_kind r = KIND_NEW" and "o_status r = ACCEPTED"
    and "truthy (o_broker_order_no r)" and "truthy (o_broker_org_no r)"
    and "0 < o_remaining_qty r" and "o_remaining_qty r < q" and "strip k \<noteq> []" and "k \<noteq> []"
    and "oid \<notin> o_id ` set (w_db w)"
  shows "\<exists>a w1 c. api_cancel env oid k q False w = (Inr a, w1) \<and> get_order_by_id (w_db w1) oid = Some c
     \<and> w_queue w1 = w_queue w @ [ProcessOrder oid 0]
     \<and> call_broker wenv (w_db w1) (claimed_row wenv c)
         = ([], Inl (ValueError ''[cancel] the quantity exceeds what remains''))"
proof -
  define c where "c = child_order env oid r KIND_CANCEL (o_order_type r) None q"
  define w1 where "w1 = enqueue (ProcessOrder oid 0) (publish_order_update oid (w\<lparr>w_db := w_db w @ [c]\<rparr>))"
  have c: "o_id c = oid" "o_order_kind c = KIND_CANCEL" "o_order_qty c = q" "o_original_order_id c = Some k"
    "o_original_broker_order_no c = o_broker_order_no r" "o_original_broker_org_no c = o_broker_org_no r"
    using lookup_id [OF assms(1)] by (simp_all add: c_def child_order_def new_order_def)
  have "validate_cancel_request k q = Inr ()"
    using assms(6,7,8) by (simp add: validate_cancel_request_def)
  moreover have "validate_original_order_for_modify_cancel (Some r) = Inr r"
    using assms(2-6) by (simp add: validate_original_order_for_modify_cancel_def)
  ultimately have api: "\<exists>a. api_cancel env oid k q False w = (Inr a, w1)"
    using assms(1,10) c(1) by (simp add: api_cancel_def accept_order_def create_order_def c_def [symmetric] w1_def Let_def)
  have db: "w_db w1 = w_db w @ [c]" and queue: "w_queue w1 = w_queue w @ [ProcessOrder oid 0]"
    by (simp_all add: w1_def step_simps)
  have "List.find (\<lambda>x. o_id x = oid) (w_db w) = None" using assms(10) by (auto simp: find_None_iff)
  then have found: "get_order_by_id (w_db w1) oid = Some c"
    by (simp add: get_order_by_id_def db find_append_None c(1))
  have "get_order_by_id (w_db w1) k = Some r"
    using assms(1) by (simp add: get_order_by_id_def db find_append_Some)
  then have "call_broker wenv (w_db w1) (claimed_row wenv c)
      = ([], Inl (ValueError ''[cancel] the quantity exceeds what remains''))"
    using c assms(4-7,9)
    by (simp add: call_broker_def submit_cancel_def parent_of_child_def claimed_row_def kind_defs)
  with api found queue show ?thesis by blast
qed

section \<open>Witnesses\<close>

definition working_order :: order where
  "working_order = example_order\<lparr>o_status := ACCEPTED, o_broker_order_no := Some ''0000001234'',
     o_broker_org_no := Some ''00950'', o_remaining_qty := 7\<rparr>"

definition working_world :: world where
  "working_world = (example_world False)\<lparr>w_db := [working_order]\<rparr>"

theorem intake_effect_witness:
  "case api_buy (example_env (\<lambda>_ _. NetworkError '''')) ''o2'' ''005930'' 7 MARKET (Dec 0 0) False working_world of
     (Inl e, w') \<Rightarrow> w' = working_world
   | (Inr a, w') \<Rightarrow> length (w_db w') = 2 \<and> w_queue w' = [ProcessOrder ''o2'' 0]"
  using intake_effect [where endpoint = "api_buy (example_env (\<lambda>_ _. NetworkError '''')) ''o2'' ''005930'' 7 MARKET (Dec 0 0)"
      and env = "example_env (\<lambda>_ _. NetworkError '''')" and oid = "''o2''" and code = "''005930''" and q = 7
      and ty = MARKET and price = "Dec 0 0" and dry_run = False and w = working_world]
  by (auto split: sum.splits simp: working_world_def example_world_def)

theorem intake_reaches_broker_witness:
  "\<exists>(w1::world) r. get_order_by_id (w_db w1) ''o2'' = Some r
     \<and> set (fst (call_broker (example_env (\<lambda>_ _. NetworkError '''')) [] (claimed_row (example_env (\<lambda>_ _. NetworkError '''')) r)))
         = {buy_request True ''12345678'' ''01'' ''00'' ''005930'' (show_int 7) (show_int 70000) ''KRX''}"
proof -
  let ?env = "example_env (\<lambda>_ _. NetworkError '''')"
  have "validate_order_request ''005930'' 7 LIMIT (Dec 700005 (- 1)) = Inr ()"
    by (simp add: validate_order_request_def validate_price_def isdigit_def is_digit_def)
  then have "\<exists>a w1. api_buy ?env ''o2'' ''005930'' 7 LIMIT (Dec 700005 (- 1)) False working_world = (Inr a, w1)"
    by (simp add: api_buy_def accept_order_def create_order_def intake_order_def new_order_def working_world_def
        working_order_def example_order_def Let_def)
  then obtain a w1 where buy: "api_buy ?env ''o2'' ''005930'' 7 LIMIT (Dec 700005 (- 1)) False working_world = (Inr a, w1)"
    by blast
  have price: "Dec 700005 (- 1) = Dec 700005 (- 1) \<and> - 4 \<le> (- 1 :: int)" by simp
  from intake_reaches_broker [OF disjI1 [OF buy] price, of ?env "[]"] buy
  obtain r where "get_order_by_id (w_db w1) ''o2'' = Some r" "o_order_pos r = ACTION_BUY"
    "set (fst (call_broker ?env [] (claimed_row ?env r))) =
       {(if o_order_pos r = ACTION_BUY then buy_request else sell_request) (s_paper (e_settings ?env))
          (s_account_no (e_settings ?env)) (s_account_product_code (e_settings ?env))
          (if LIMIT = MARKET then ''01'' else ''00'') ''005930'' (show_int 7) (if LIMIT = MARKET then ''0'' else show_int (if 0 \<le> (- 1 :: int) then 700005 * 10 ^ nat (- 1) else 700005 div 10 ^ nat (- (- 1)))) ''KRX''}"
    by blast
  moreover have "s_paper (e_settings ?env) = True" "s_account_no (e_settings ?env) = ''12345678''"
    "s_account_product_code (e_settings ?env) = ''01''"
    by (simp_all add: example_env_def)
  ultimately show ?thesis by (intro exI [of _ w1] exI [of _ r]) simp
qed

end
