(* ===== verification/Snapshot.thy ===== *)
theory Snapshot
  imports Account_Service Submit_Worker "HOL-Library.Multiset" "HOL-Library.List_Lexorder" "HOL-Library.Char_ord" "HOL-Library.Product_Lexorder"
begin

text \<open>
  The portfolio snapshot of a rebalancing: the tables of \<^verbatim>\<open>app/db/models/snapshot.py\<close>, the repository
  \<^verbatim>\<open>app/repository/portfolio_snapshot_repository.py\<close>, the service
  \<^verbatim>\<open>app/services/rebalance/portfolio_snapshot_service.py\<close> and the task \<^verbatim>\<open>app/worker/tasks_snapshot.py\<close>.
  Ids come from a stream of fresh ids; the columns \<open>created_at\<close> are left out.  The tables have the
  constraints the models declare: none on \<open>rebalance_id\<close>.
\<close>

section \<open>Tables\<close>

record portfolio_snapshot =
  ps_id :: uuid
  ps_snapshot_at :: timestamp
  ps_snapshot_type :: str
  ps_account_no :: str
  ps_account_product_code :: str
  ps_net_deposit :: "int option"
  ps_rebalance_id :: "uuid option"
  ps_cash_amount :: "int option"
  ps_trading_date :: "int option"

record snapshot_holding =
  sh_id :: uuid
  sh_snapshot_id :: uuid
  sh_stock_code :: str
  sh_stock_name :: str
  sh_holding_qty :: int
  sh_avg_buy_price :: decimal
  sh_current_price :: "decimal option"

record snapshots =
  sd_snapshots :: "portfolio_snapshot list"
  sd_holdings :: "snapshot_holding list"

section \<open>Repository\<close>

text \<open>\<open>scalar_one_or_none()\<close>.\<close>

definition scalar_one_or_none :: "'a list \<Rightarrow> 'a option result" where
  "scalar_one_or_none rows =
     (case rows of
        [] \<Rightarrow> Inr None
      | [r] \<Rightarrow> Inr (Some r)
      | _ \<Rightarrow> Inl (LibError ''MultipleResultsFound'' ''Multiple rows were found when one or none was required''))"

definition of_rebalance :: "str \<Rightarrow> snapshots \<Rightarrow> portfolio_snapshot list" where
  "of_rebalance rebalance_id db = filter (\<lambda>s. ps_rebalance_id s = Some rebalance_id) (sd_snapshots db)"

definition get_snapshot_id_by_rebalance :: "snapshots \<Rightarrow> str \<Rightarrow> uuid option result" where
  "get_snapshot_id_by_rebalance db rebalance_id = scalar_one_or_none (map ps_id (of_rebalance rebalance_id db))"

definition get_snapshots_by_period ::
  "snapshots \<Rightarrow> str \<Rightarrow> str \<Rightarrow> int \<Rightarrow> int \<Rightarrow> portfolio_snapshot list" where
  "get_snapshots_by_period db account_no account_product_code start_date end_date =
     sort_key (\<lambda>s. the (ps_trading_date s))
       (filter (\<lambda>s. ps_account_no s = account_no \<and> ps_account_product_code s = account_product_code
                  \<and> ps_snapshot_type s = ''REBALANCE''
                  \<and> (case ps_trading_date s of None \<Rightarrow> False | Some d \<Rightarrow> start_date \<le> d \<and> d \<le> end_date))
         (sd_snapshots db))"

definition get_holdings_by_snapshot_ids :: "snapshots \<Rightarrow> uuid list \<Rightarrow> snapshot_holding list" where
  "get_holdings_by_snapshot_ids db snapshot_ids =
     sort_key (\<lambda>h. (sh_snapshot_id h, sh_stock_code h))
       (filter (\<lambda>h. sh_snapshot_id h \<in> set snapshot_ids) (sd_holdings db))"

definition insert_snapshot :: "portfolio_snapshot \<Rightarrow> snapshot_holding list \<Rightarrow> snapshots \<Rightarrow> snapshots result" where
  "insert_snapshot snapshot holdings db =
     (if ps_id snapshot \<in> ps_id ` set (sd_snapshots db)
         \<or> \<not> distinct (map sh_id (sd_holdings db @ holdings))
      then Inl (LibError ''IntegrityError'' ''duplicate key value violates unique constraint'')
      else Inr (db\<lparr>sd_snapshots := sd_snapshots db @ [snapshot], sd_holdings := sd_holdings db @ holdings\<rparr>))"

definition get_snapshot_by_rebalance :: "snapshots \<Rightarrow> str \<Rightarrow> portfolio_snapshot option result" where
  "get_snapshot_by_rebalance db rebalance_id = scalar_one_or_none (of_rebalance rebalance_id db)"

definition get_snapshot_holdings :: "snapshots \<Rightarrow> uuid \<Rightarrow> snapshot_holding list" where
  "get_snapshot_holdings db snapshot_id =
     sort_key sh_stock_code (filter (\<lambda>h. sh_snapshot_id h = snapshot_id) (sd_holdings db))"

section \<open>The service\<close>

text \<open>\<open>Decimal(str(value).strip())\<close>, \<open>None\<close> when it is no number.\<close>

definition snapshot_decimal :: "str \<Rightarrow> decimal option" where
  "snapshot_decimal value = parse_decimal (strip value)"

text \<open>\<open>d or Decimal(0)\<close>.\<close>

definition or_zero :: "decimal option \<Rightarrow> decimal" where
  "or_zero d =
     (case d of None \<Rightarrow> Dec 0 0 | Some (Dec c x) \<Rightarrow> if c = 0 then Dec 0 0 else Dec c x | Some d' \<Rightarrow> d')"

text \<open>\<open>zfill(6)\<close>: zeros on the left, behind a sign.\<close>

definition zfill6 :: "str \<Rightarrow> str" where
  "zfill6 s =
     (let fill = replicate (6 - length s) (CHR ''0'')
      in case s of
           [] \<Rightarrow> fill
         | c # cs \<Rightarrow> if c = CHR ''+'' \<or> c = CHR ''-'' then c # fill @ cs else fill @ s)"

text \<open>The rows of the holdings, with the ids after the snapshot's own.\<close>

fun holding_rows :: "(nat \<Rightarrow> uuid) \<Rightarrow> nat \<Rightarrow> uuid \<Rightarrow> holding_read list \<Rightarrow> snapshot_holding list result" where
  "holding_rows uuid4 n sid [] = Inr []"
| "holding_rows uuid4 n sid (h # hs) =
     bind_result (py_int (hr_holding_qty h)) (\<lambda>q.
       bind_result (holding_rows uuid4 (n + 1) sid hs) (\<lambda>rest.
         Inr (\<lparr>sh_id = uuid4 n, sh_snapshot_id = sid, sh_stock_code = zfill6 (strip (hr_stock_code h)),
               sh_stock_name = hr_stock_name h, sh_holding_qty = q,
               sh_avg_buy_price = or_zero (snapshot_decimal (hr_avg_buy_price h)),
               sh_current_price = snapshot_decimal (hr_current_price h)\<rparr> # rest)))"

definition new_snapshot :: "worker_env \<Rightarrow> uuid \<Rightarrow> str \<Rightarrow> str \<Rightarrow> int \<Rightarrow> portfolio_snapshot" where
  "new_snapshot env sid rebalance_id snapshot_type cash =
     \<lparr>ps_id = sid, ps_snapshot_at = e_now env, ps_snapshot_type = snapshot_type,
      ps_account_no = s_account_no (e_settings env), ps_account_product_code = s_account_product_code (e_settings env),
      ps_net_deposit = None, ps_rebalance_id = Some rebalance_id, ps_cash_amount = Some cash,
      ps_trading_date = Some (kst_date (e_now env))\<rparr>"

text \<open>Steps 2 and 3: the account as rows; \<open>None\<close> when the broker never ends its pages.\<close>

definition build_snapshot ::
  "worker_env \<Rightarrow> (nat \<Rightarrow> uuid) \<Rightarrow> str \<Rightarrow> str \<Rightarrow> world \<Rightarrow>
   ((portfolio_snapshot \<times> snapshot_holding list) result \<times> world) option" where
  "build_snapshot env uuid4 rebalance_id snapshot_type w =
     (case get_holding_list env w of
        None \<Rightarrow> None
      | Some (Inl e, w1) \<Rightarrow> Some (Inl e, w1)
      | Some (Inr holdings_raw, w1) \<Rightarrow>
          (case get_account_summary env w1 of
             None \<Rightarrow> None
           | Some (Inl e, w2) \<Rightarrow> Some (Inl e, w2)
           | Some (Inr summary, w2) \<Rightarrow>
               Some (bind_result (py_int (as_settlement_cash_amount summary)) (\<lambda>cash.
                       bind_result (holding_rows uuid4 1 (uuid4 0) holdings_raw) (\<lambda>rows.
                         Inr (new_snapshot env (uuid4 0) rebalance_id snapshot_type cash, rows))), w2)))"

definition capture ::
  "worker_env \<Rightarrow> (nat \<Rightarrow> uuid) \<Rightarrow> str \<Rightarrow> str \<Rightarrow> world \<Rightarrow> snapshots \<Rightarrow> (uuid result \<times> world \<times> snapshots) option" where
  "capture env uuid4 rebalance_id snapshot_type w db =
     (case get_snapshot_id_by_rebalance db rebalance_id of
        Inl e \<Rightarrow> Some (Inl e, w, db)
      | Inr (Some existing) \<Rightarrow> Some (Inr existing, w, db)
      | Inr None \<Rightarrow>
          (case build_snapshot env uuid4 rebalance_id snapshot_type w of
             None \<Rightarrow> None
           | Some (Inl e, w1) \<Rightarrow> Some (Inl e, w1, db)
           | Some (Inr (snapshot, holdings), w1) \<Rightarrow>
               (case insert_snapshot snapshot holdings db of
                  Inl e \<Rightarrow> Some (Inl e, w1, db)
                | Inr db' \<Rightarrow> Some (Inr (ps_id snapshot), w1, db'))))"

section \<open>The task\<close>

text \<open>Every exception is rolled back and logged.\<close>

definition capture_rebalance_snapshot ::
  "worker_env \<Rightarrow> (nat \<Rightarrow> uuid) \<Rightarrow> str \<Rightarrow> world \<Rightarrow> snapshots \<Rightarrow> (world \<times> snapshots) option" where
  "capture_rebalance_snapshot env uuid4 rebalance_id w db =
     map_option snd (capture env uuid4 rebalance_id ''REBALANCE'' w db)"

section \<open>Reading a snapshot back\<close>

text \<open>\<open>get_rebalance_snapshot\<close> of \<^verbatim>\<open>app/services/rebalance/rebalance_query_service.py\<close>.\<close>

record snapshot_response =
  sp_snapshot_id :: uuid
  sp_snapshot_at :: timestamp
  sp_snapshot_type :: str
  sp_rebalance_id :: "uuid option"
  sp_cash_amount :: "int option"
  sp_holdings :: "(str \<times> str \<times> int \<times> decimal) list"

definition get_rebalance_snapshot :: "snapshots \<Rightarrow> str \<Rightarrow> snapshot_response option result" where
  "get_rebalance_snapshot db rebalance_id =
     bind_result (get_snapshot_by_rebalance db rebalance_id) (\<lambda>found.
       case found of
         None \<Rightarrow> Inr None
       | Some s \<Rightarrow> Inr (Some
           \<lparr>sp_snapshot_id = ps_id s, sp_snapshot_at = ps_snapshot_at s, sp_snapshot_type = ps_snapshot_type s,
            sp_rebalance_id = ps_rebalance_id s, sp_cash_amount = ps_cash_amount s,
            sp_holdings = map (\<lambda>h. (sh_stock_code h, sh_stock_name h, sh_holding_qty h, sh_avg_buy_price h))
              (get_snapshot_holdings db (ps_id s))\<rparr>))"

section \<open>Lemmas\<close>

lemma scalar_None [simp]: "scalar_one_or_none rows = Inr None \<longleftrightarrow> rows = []"
  by (auto simp: scalar_one_or_none_def split: list.split)

lemma scalar_nil [simp]: "scalar_one_or_none [] = Inr None"
  by simp

lemma scalar_one [simp]: "scalar_one_or_none [r] = Inr (Some r)"
  by (simp add: scalar_one_or_none_def)

lemma scalar_Some: "scalar_one_or_none rows = Inr (Some r) \<longleftrightarrow> rows = [r]"
  by (auto simp: scalar_one_or_none_def split: list.split)

text \<open>Every holding belongs to a snapshot of the table.\<close>

definition wf_snapshots :: "snapshots \<Rightarrow> bool" where
  "wf_snapshots db \<longleftrightarrow> sh_snapshot_id ` set (sd_holdings db) \<subseteq> ps_id ` set (sd_snapshots db)"

text \<open>A holding as the snapshot shows it.\<close>

definition captured_holding :: "holding_read \<Rightarrow> str \<times> str \<times> int \<times> decimal" where
  "captured_holding h =
     (zfill6 (strip (hr_stock_code h)), hr_stock_name h,
      (case py_int (hr_holding_qty h) of Inl _ \<Rightarrow> 0 | Inr q \<Rightarrow> q), or_zero (snapshot_decimal (hr_avg_buy_price h)))"

lemma holding_rows_are:
  "holding_rows uuid4 n sid hs = Inr rows \<Longrightarrow>
   map (\<lambda>h. (sh_stock_code h, sh_stock_name h, sh_holding_qty h, sh_avg_buy_price h)) rows = map captured_holding hs
   \<and> (\<forall>r \<in> set rows. sh_snapshot_id r = sid)"
  by (induction hs arbitrary: n rows) (auto simp: bind_result_Inr_iff captured_holding_def)

lemma new_snapshot_simps [simp]:
  "ps_id (new_snapshot env sid rid ty cash) = sid" "ps_rebalance_id (new_snapshot env sid rid ty cash) = Some rid"
  "ps_cash_amount (new_snapshot env sid rid ty cash) = Some cash"
  by (simp_all add: new_snapshot_def)

lemma build_snapshot_okD:
  assumes "build_snapshot env uuid4 rid ty w = Some (Inr (s, rows), w')"
  obtains hs w1 cash where "get_holding_list env w = Some (Inr hs, w1)" "s = new_snapshot env (uuid4 0) rid ty cash"
    "holding_rows uuid4 1 (uuid4 0) hs = Inr rows"
  using assms by (auto simp: build_snapshot_def bind_result_Inr_iff split: option.splits sum.splits prod.splits)

text \<open>What an insertion leaves.\<close>

lemma insert_snapshot_ok:
  assumes "insert_snapshot s rows db = Inr db'"
  shows "ps_id s \<notin> ps_id ` set (sd_snapshots db)" "sd_snapshots db' = sd_snapshots db @ [s]"
    "sd_holdings db' = sd_holdings db @ rows"
  using assms by (auto simp: insert_snapshot_def split: if_splits)

lemma capture_newD:
  assumes "capture env uuid4 rid ty w db = Some (Inr sid, w', db')" and "of_rebalance rid db = []"
  obtains s rows where "build_snapshot env uuid4 rid ty w = Some (Inr (s, rows), w')" "insert_snapshot s rows db = Inr db'"
    "sid = ps_id s"
  using assms
  by (auto simp: capture_def get_snapshot_id_by_rebalance_def scalar_Some split: option.splits sum.splits prod.splits)

lemma capture_oldD:
  assumes "capture env uuid4 rid ty w db = Some (Inr sid, w', db')" and "of_rebalance rid db \<noteq> []"
  shows "db' = db" "map ps_id (of_rebalance rid db) = [sid]"
proof -
  obtain x where x: "get_snapshot_id_by_rebalance db rid = Inr (Some x)"
    using assms by (cases "get_snapshot_id_by_rebalance db rid")
      (auto simp: capture_def get_snapshot_id_by_rebalance_def split: option.splits sum.splits)
  with assms(1) show "db' = db" "map ps_id (of_rebalance rid db) = [sid]"
    by (auto simp: capture_def get_snapshot_id_by_rebalance_def scalar_Some)
qed

text \<open>Two captures that both looked before either stored leave a rebalancing that can be read no more.\<close>

lemma racing_captures:
  assumes "insert_snapshot (new_snapshot env s1 rid ty c1) rows1 db = Inr db1"
    and "insert_snapshot (new_snapshot env' s2 rid ty' c2) rows2 db1 = Inr db2"
  shows "\<exists>e. capture env'' uuid4 rid ty'' w db2 = Some (Inl e, w, db2) \<and> get_rebalance_snapshot db2 rid = Inl e"
proof -
  have "\<exists>xs. of_rebalance rid db2 = xs @ [new_snapshot env s1 rid ty c1, new_snapshot env' s2 rid ty' c2]"
    using insert_snapshot_ok(2) [OF assms(1)] insert_snapshot_ok(2) [OF assms(2)] by (simp add: of_rebalance_def)
  then obtain a b xs where two: "of_rebalance rid db2 = a # b # xs"
    by (metis append_Cons append_Nil neq_Nil_conv)
  then show ?thesis
    by (simp add: capture_def get_snapshot_id_by_rebalance_def get_rebalance_snapshot_def get_snapshot_by_rebalance_def
        scalar_one_or_none_def)
qed

section \<open>Properties\<close>

text \<open>
  C6. A capture that succeeds leaves exactly one snapshot of its rebalancing, and reading it back shows
  the holdings of the account, one row each with six-digit code, quantity and price (unless it was
  captured before); capturing again, at any time and whatever the account, answers the same id and changes nothing.
\<close>

theorem snapshot_capture:
  assumes "wf_snapshots db" and "capture env uuid4 rid ty w db = Some (Inr sid, w', db')"
  shows "wf_snapshots db' \<and> map ps_id (of_rebalance rid db') = [sid]
    \<and> capture env2 uuid2 rid ty2 w2 db' = Some (Inr sid, w2, db')
    \<and> (of_rebalance rid db \<noteq> [] \<longrightarrow> db' = db)
    \<and> (of_rebalance rid db = [] \<longrightarrow>
        (\<exists>hs w1 sp. get_holding_list env w = Some (Inr hs, w1)
           \<and> get_rebalance_snapshot db' rid = Inr (Some sp) \<and> sp_snapshot_id sp = sid
           \<and> mset (sp_holdings sp) = mset (map captured_holding hs)))"
proof (cases "of_rebalance rid db = []")
  case False
  with capture_oldD [OF assms(2)] assms(1) show ?thesis
    by (simp add: capture_def get_snapshot_id_by_rebalance_def)
next
  case True
  from capture_newD [OF assms(2) True] obtain s rows
    where b: "build_snapshot env uuid4 rid ty w = Some (Inr (s, rows), w')" and i: "insert_snapshot s rows db = Inr db'"
      and sid: "sid = ps_id s" .
  from build_snapshot_okD [OF b] obtain hs w1 cash where hs: "get_holding_list env w = Some (Inr hs, w1)"
    and s: "s = new_snapshot env (uuid4 0) rid ty cash" and rows: "holding_rows uuid4 1 (uuid4 0) hs = Inr rows" .
  note ins = insert_snapshot_ok [OF i] and r = holding_rows_are [OF rows]
  have sid4: "sid = uuid4 0" by (simp add: sid s)
  have one: "of_rebalance rid db' = [s]" using True ins(2) by (simp add: of_rebalance_def s)
  have wf: "wf_snapshots db'" using assms(1) ins r sid4 sid unfolding wf_snapshots_def by auto
  have "sh_snapshot_id h \<noteq> sid" if "h \<in> set (sd_holdings db)" for h
    using assms(1) ins(1) sid imageI [OF that, of sh_snapshot_id] unfolding wf_snapshots_def by (metis subsetD)
  then have "filter (\<lambda>h. sh_snapshot_id h = sid) (sd_holdings db) = []" unfolding filter_empty_conv by blast
  then have "filter (\<lambda>h. sh_snapshot_id h = sid) (sd_holdings db') = rows"
    using r ins(3) sid4 by (simp add: filter_id_conv)
  then have hold: "get_snapshot_holdings db' sid = sort_key sh_stock_code rows"
    by (simp add: get_snapshot_holdings_def)
  let ?view = "\<lambda>h. (sh_stock_code h, sh_stock_name h, sh_holding_qty h, sh_avg_buy_price h)"
  obtain sp where sp: "get_rebalance_snapshot db' rid = Inr (Some sp)" "sp_snapshot_id sp = sid"
    "sp_holdings sp = map ?view (sort_key sh_stock_code rows)"
    using hold by (simp add: get_rebalance_snapshot_def get_snapshot_by_rebalance_def one sid)
  have "mset (sp_holdings sp) = mset (map ?view rows)"
    unfolding sp(3) mset_map mset_sort ..
  then have "mset (sp_holdings sp) = mset (map captured_holding hs)"
    using r by simp
  with sp hs have "\<exists>hs w1 sp. get_holding_list env w = Some (Inr hs, w1)
           \<and> get_rebalance_snapshot db' rid = Inr (Some sp) \<and> sp_snapshot_id sp = sid
           \<and> mset (sp_holdings sp) = mset (map captured_holding hs)" by blast
  then show ?thesis
    using wf one True by (simp add: sid capture_def get_snapshot_id_by_rebalance_def)
qed

section \<open>Witness\<close>

text \<open>An account with one holding and a summary.\<close>

definition summary_page :: "(str \<times> json) list" where
  "summary_page = AList.update ''output2'' (JList [JObj (map (\<lambda>f. (f, JStr ''5'')) balance_summary_fields)])
     (example_page '''' [example_row ''A''])"

definition snapshot_http :: http where
  "snapshot_http rq k = Response 200 (Some (JObj summary_page)) '''' ''''"

lemma snapshot_balance:
  "\<exists>more. get_balance snapshot_http True ''12345678'' ''01'' = Some (more, BalanceResponse summary_page)"
proof -
  have s: "serves snapshot_http (balance_request True ''12345678'' ''01'') 0 '''' '''' [summary_page]" by code_simp
  have "AList.update ''output1'' (JList (page_rows summary_page)) summary_page = summary_page" by code_simp
  then show ?thesis
    using balance_loop_serves [of snapshot_http "balance_request True ''12345678'' ''01''" "[]" "''''" "''''"
        "[summary_page]" "[]"] s
    by (auto simp: get_balance_def simp del: serves.simps)
qed

definition example_ids :: "nat \<Rightarrow> uuid" where "example_ids n = show_nat n"

definition no_snapshots :: snapshots where "no_snapshots = \<lparr>sd_snapshots = [], sd_holdings = []\<rparr>"

lemma example_capture:
  "\<exists>w' db'. capture (example_env snapshot_http) example_ids ''R'' ''REBALANCE'' (example_world False) no_snapshots
     = Some (Inr (example_ids 0), w', db')"
proof -
  have "case BalanceResponse summary_page of
      Inl _ \<Rightarrow> False
    | Inr b \<Rightarrow> is_ok (bind_result (summary_of b) (\<lambda>s. py_int (as_settlement_cash_amount s)))
        \<and> is_ok (holding_rows example_ids 1 (example_ids 0) (build_holding_list (b_output1 b)))
        \<and> length (b_output1 b) = 1" by code_simp
  then obtain b s q rows where b: "BalanceResponse summary_page = Inr b" and s: "summary_of b = Inr s"
    and q: "py_int (as_settlement_cash_amount s) = Inr q"
    and rows: "holding_rows example_ids 1 (example_ids 0) (build_holding_list (b_output1 b)) = Inr rows"
    and one: "length (b_output1 b) = 1"
    by (cases "BalanceResponse summary_page"; simp; cases "summary_of (projr (BalanceResponse summary_page))"; simp)
      (metis is_ok.elims(2))
  obtain more where more: "get_balance snapshot_http True ''12345678'' ''01'' = Some (more, BalanceResponse summary_page)"
    using snapshot_balance by blast
  have g: "on_balance f (example_env snapshot_http) (log_requests rqs (example_world False))
      = Some (f b, log_requests more (log_requests rqs (example_world False)))" for f :: "balance_response \<Rightarrow> 'b result" and rqs
    using more b by (simp add: on_balance_def get_account_balance_def obtain_after_log example_obtain) (simp add: example_env_def)
  note g0 = g [of _ "[]", unfolded log_nothing]
  have "length rows = 1"
    using arg_cong [OF conjunct1 [OF holding_rows_are [OF rows]], of length] one by (simp add: build_holding_list_def)
  then obtain r where "rows = [r]" by (auto simp: length_Suc_conv)
  then show ?thesis
    using s q rows
    by (simp add: capture_def get_snapshot_id_by_rebalance_def build_snapshot_def get_holding_list_def get_account_summary_def g g0
        no_snapshots_def of_rebalance_def insert_snapshot_def)
qed

theorem snapshot_capture_witness:
  "\<exists>db' sp. capture (example_env snapshot_http) example_ids ''R'' ''REBALANCE'' (example_world True) db'
       = Some (Inr (example_ids 0), example_world True, db')
     \<and> get_rebalance_snapshot db' ''R'' = Inr (Some sp) \<and> sp_snapshot_id sp = example_ids 0"
proof -
  have wf: "wf_snapshots no_snapshots" and none: "of_rebalance ''R'' no_snapshots = []"
    by (simp_all add: wf_snapshots_def no_snapshots_def of_rebalance_def)
  obtain w' db' where c: "capture (example_env snapshot_http) example_ids ''R'' ''REBALANCE'' (example_world False) no_snapshots
     = Some (Inr (example_ids 0), w', db')" using example_capture by blast
  note p = snapshot_capture [OF wf c, of "example_env snapshot_http" example_ids "''REBALANCE''" "example_world True"]
  from conjunct2 [OF conjunct2 [OF conjunct2 [OF conjunct2 [OF p]]]] none obtain sp
    where "get_rebalance_snapshot db' ''R'' = Inr (Some sp)" "sp_snapshot_id sp = example_ids 0" by blast
  with conjunct1 [OF conjunct2 [OF conjunct2 [OF p]]] show ?thesis by (intro exI conjI)
qed

end
