(* ===== verification/Rebalance_Query.thy ===== *)
theory Rebalance_Query
  imports Rebalance_Repository Py_Float
begin

text \<open>
  The queries on rebalancings, \<^verbatim>\<open>app/services/rebalance/rebalance_query_service.py\<close> with the schemas of
  \<^verbatim>\<open>app/schemas/rebalance/rebalance.py\<close>: the list, and the detail with its execution summary.  Times
  are whole seconds and amounts whole numbers, as in the tables; the orders come from the repository.
\<close>

section \<open>Numbers\<close>

text \<open>A division of \<open>Decimal\<close>s: 28 significant digits, ties to even.\<close>

definition ten_pow :: "int \<Rightarrow> rat" where
  "ten_pow e = (if 0 \<le> e then 10 ^ nat e else 1 / 10 ^ nat (- e))"

definition digit_count :: "int \<Rightarrow> int" where
  "digit_count n = int (length (show_nat (nat n)))"

definition decimal28_pos :: "rat \<Rightarrow> rat" where
  "decimal28_pos x =
     (let (a, b) = quotient_of x; k = digit_count a - digit_count b;
          e = (if ten_pow k \<le> x then k - 27 else k - 28)
      in of_int (round_half_even (x / ten_pow e)) * ten_pow e)"

definition decimal28 :: "rat \<Rightarrow> rat" where
  "decimal28 x = (if x = 0 then 0 else if 0 < x then decimal28_pos x else - decimal28_pos (- x))"

section \<open>The list\<close>

record rebalance_list_item =
  li_id :: uuid
  li_strategy_name :: str
  li_screener_name :: "str option"
  li_status :: rebalance_status
  li_buy_signal_count :: int
  li_buy_count :: int
  li_sell_count :: int
  li_executed_at :: timestamp
  li_completed_at :: "timestamp option"

definition list_item :: "rebalance \<Rightarrow> rebalance_list_item" where
  "list_item r =
     \<lparr>li_id = rb_id r, li_strategy_name = rb_strategy_name r, li_screener_name = rb_screener_name r,
      li_status = rb_status r, li_buy_signal_count = rb_buy_signal_count r, li_buy_count = rb_buy_count r,
      li_sell_count = rb_sell_count r, li_executed_at = rb_executed_at r, li_completed_at = rb_completed_at r\<rparr>"

definition get_rebalance_list :: "rebalances \<Rightarrow> nat \<Rightarrow> nat \<Rightarrow> nat \<times> rebalance_list_item list" where
  "get_rebalance_list db limit offset = (get_rebalance_count db, map list_item (get_rebalances db limit offset))"

section \<open>The detail\<close>

record rebalance_order_item =
  ri_id :: uuid
  ri_stock_code :: str
  ri_order_pos :: str
  ri_order_type :: str
  ri_order_qty :: int
  ri_filled_qty :: int
  ri_remaining_qty :: int
  ri_avg_fill_price :: "decimal option"
  ri_status :: order_status
  ri_submitted_at :: "timestamp option"
  ri_updated_at :: timestamp
  ri_fill_duration_seconds :: "rat option"

definition calc_fill_duration_seconds :: "order \<Rightarrow> rat option" where
  "calc_fill_duration_seconds order =
     (case o_submitted_at order of
        None \<Rightarrow> None
      | Some t \<Rightarrow> (let delta = o_updated_at order - t
                  in if delta < 0 then Some 0 else Some (py_round 2 (fl (of_int delta)))))"

definition build_order_item :: "order \<Rightarrow> rebalance_order_item" where
  "build_order_item order =
     \<lparr>ri_id = o_id order, ri_stock_code = o_stock_code order, ri_order_pos = o_order_pos order,
      ri_order_type = o_order_type order, ri_order_qty = o_order_qty order, ri_filled_qty = o_filled_qty order,
      ri_remaining_qty = o_remaining_qty order, ri_avg_fill_price = o_avg_fill_price order,
      ri_status = o_status order, ri_submitted_at = o_submitted_at order, ri_updated_at = o_updated_at order,
      ri_fill_duration_seconds = calc_fill_duration_seconds order\<rparr>"

record execution_summary =
  es_signal_count :: int
  es_filled_count :: int
  es_fail_rate :: rat
  es_available_cash_before :: "int option"
  es_estimated_cash_after :: "int option"
  es_cash_ratio :: "rat option"
  es_rebalance_duration_seconds :: "rat option"
  es_avg_fill_duration_seconds :: "rat option"

text \<open>\<open>cash_after / cash_before\<close> raises when there is no \<open>cash_after\<close>.\<close>

definition cash_ratio_of :: "int option \<Rightarrow> int option \<Rightarrow> rat option result" where
  "cash_ratio_of cash_before cash_after =
     (case cash_before of
        None \<Rightarrow> Inr None
      | Some b \<Rightarrow>
          if 0 < b then
            (case cash_after of
               None \<Rightarrow> Inl (TypeError ''unsupported operand type(s) for /'')
             | Some a \<Rightarrow> Inr (Some (py_round 4 (fl (decimal28 (of_int a / of_int b))))))
          else Inr None)"

definition fail_rate_of :: "int \<Rightarrow> int \<Rightarrow> rat" where
  "fail_rate_of achieved_count signal_count =
     (if 0 < signal_count then py_round 4 (fl (1 - fl (of_int achieved_count / of_int signal_count))) else 0)"

text \<open>\<open>round(sum(durations) / len(durations), 2)\<close>; sums of whole seconds are exact.\<close>

definition average_duration :: "rat list \<Rightarrow> rat option" where
  "average_duration durations =
     (if durations = [] then None
      else Some (py_round 2 (fl (fl (sum_list durations) / of_nat (length durations)))))"

definition build_execution_summary :: "rebalance \<Rightarrow> rebalance_order_item list \<Rightarrow> execution_summary result" where
  "build_execution_summary r order_items =
     bind_result (cash_ratio_of (rb_available_cash_before r) (rb_estimated_cash_after r)) (\<lambda>cash_ratio.
       Inr \<lparr>es_signal_count = rb_buy_signal_count r, es_filled_count = rb_buy_count r,
            es_fail_rate = fail_rate_of (rb_buy_count r + rb_hold_count r) (rb_buy_signal_count r),
            es_available_cash_before = rb_available_cash_before r,
            es_estimated_cash_after = rb_estimated_cash_after r,
            es_cash_ratio = cash_ratio,
            es_rebalance_duration_seconds =
              map_option (\<lambda>t. py_round 2 (fl (of_int (t - rb_executed_at r)))) (rb_completed_at r),
            es_avg_fill_duration_seconds =
              average_duration (List.map_filter ri_fill_duration_seconds order_items)\<rparr>)"

record rebalance_detail =
  rd_rebalance :: rebalance
  rd_execution_summary :: execution_summary
  rd_orders :: "rebalance_order_item list"

definition get_rebalance_detail :: "rebalances \<Rightarrow> orders \<Rightarrow> uuid \<Rightarrow> rebalance_detail option result" where
  "get_rebalance_detail rebalances db rebalance_id =
     (case get_rebalance_by_id rebalances rebalance_id of
        None \<Rightarrow> Inr None
      | Some r \<Rightarrow>
          (let order_items = map build_order_item (get_orders_by_rebalance_id db rebalance_id)
           in bind_result (build_execution_summary r order_items) (\<lambda>s.
                Inr (Some \<lparr>rd_rebalance = r, rd_execution_summary = s, rd_orders = order_items\<rparr>))))"

section \<open>What the summary shows\<close>

text \<open>The counts and the failure rate come from the plan: what the orders filled does not enter.\<close>

lemma summary_ignores_fills:
  assumes "build_execution_summary r items = Inr s" and "build_execution_summary r items' = Inr s'"
  shows "es_filled_count s = es_filled_count s' \<and> es_fail_rate s = es_fail_rate s' \<and> es_filled_count s = rb_buy_count r"
  using assms by (auto simp: build_execution_summary_def bind_result_Inr_iff)

text \<open>A duration is never negative.\<close>

lemma fill_duration_nonneg: "calc_fill_duration_seconds r = Some d \<Longrightarrow> 0 \<le> d"
  by (auto simp: calc_fill_duration_seconds_def Let_def intro!: py_round_nonneg binary64.nonneg
      split: option.splits if_splits)

end
