(* ===== verification/Pandas.thy ===== *)
theory Pandas
  imports Prelude Py_Float "HOL-Library.Multiset"
begin

text \<open>
  What the screening and signal code uses of pandas and numpy.  A number of a frame is a \<open>cell\<close>:
  a finite value, or \<open>None\<close> for NaN.  Divisions follow IEEE 754 (numpy raises nothing).  The
  order in which \<open>sort_values\<close> leaves equal keys is numpy's, so \<open>argsort\<close> is a parameter; the
  locale \<open>sorting\<close> states what its documentation promises.
\<close>

section \<open>Numbers\<close>

type_synonym cell = "rat option"

datatype pfloat = Num rat | PosInf | NegInf | NaN

text \<open>Division of two cells; the operands are floats when divided.\<close>

fun np_div :: "cell \<Rightarrow> cell \<Rightarrow> pfloat" where
  "np_div (Some a) (Some b) =
     (if b = 0 then (if a = 0 then NaN else if 0 < a then PosInf else NegInf) else Num (fl (fl a / fl b)))"
| "np_div _ _ = NaN"

text \<open>Comparisons: every comparison with NaN is false.\<close>

fun pf_less :: "pfloat \<Rightarrow> pfloat \<Rightarrow> bool" where
  "pf_less (Num a) (Num b) = (a < b)"
| "pf_less (Num a) PosInf = True"
| "pf_less NegInf (Num b) = True"
| "pf_less NegInf PosInf = True"
| "pf_less _ _ = False"

fun cell_le :: "cell \<Rightarrow> cell \<Rightarrow> bool" where
  "cell_le (Some a) (Some b) = (a \<le> b)"
| "cell_le _ _ = False"

fun cell_less :: "cell \<Rightarrow> cell \<Rightarrow> bool" where
  "cell_less (Some a) (Some b) = (a < b)"
| "cell_less _ _ = False"

text \<open>Truth value of a number: zero is false, NaN is true.\<close>

definition cell_true :: "cell \<Rightarrow> bool" where "cell_true x = (x \<noteq> Some 0)"

definition is_nan :: "pfloat \<Rightarrow> bool" where "is_nan x = (x = NaN)"

text \<open>\<open>float(x)\<close> where a finite number is expected; what is not finite is shown as zero.\<close>

fun finite_part :: "pfloat \<Rightarrow> rat" where
  "finite_part (Num a) = a"
| "finite_part _ = 0"

lemma is_nan_simps [simp]:
  "\<not> is_nan (Num a)" "\<not> is_nan PosInf" "\<not> is_nan NegInf" "is_nan NaN"
  by (simp_all add: is_nan_def)

lemma pf_less_irrefl [simp]: "\<not> pf_less x x"
  by (cases x) simp_all

lemma pf_less_trans: "pf_less x y \<Longrightarrow> pf_less y z \<Longrightarrow> pf_less x z"
  by (cases x; cases y; cases z) simp_all

lemma pf_less_linear: "\<not> is_nan x \<Longrightarrow> \<not> is_nan y \<Longrightarrow> pf_less x y \<or> x = y \<or> pf_less y x"
  by (cases x; cases y) auto

lemma pf_less_not_nan: "pf_less x y \<Longrightarrow> \<not> is_nan x \<and> \<not> is_nan y"
  by (cases x; cases y) simp_all

section \<open>Slices\<close>

text \<open>\<open>xs[i:]\<close>.\<close>

definition py_from :: "int \<Rightarrow> 'a list \<Rightarrow> 'a list" where
  "py_from i xs = drop (nat (if i < 0 then max 0 (int (length xs) + i) else i)) xs"

text \<open>\<open>df.head(n)\<close>; a negative \<open>n\<close> leaves the last rows out.\<close>

definition head_rows :: "int \<Rightarrow> 'a list \<Rightarrow> 'a list" where
  "head_rows n xs = take (nat (if n < 0 then int (length xs) + n else n)) xs"

lemma head_rows_length: "0 \<le> n \<Longrightarrow> length (head_rows n xs) \<le> nat n"
  by (simp add: head_rows_def)

lemma head_rows_subset: "set (head_rows n xs) \<subseteq> set xs"
  by (simp add: head_rows_def set_take_subset)

lemma py_from_length:
  "0 < n \<Longrightarrow> n \<le> int (length xs) \<Longrightarrow> int (length (py_from (- n) xs)) = n"
  by (simp add: py_from_def)

section \<open>Sorting\<close>

text \<open>
  \<open>sort_values\<close>: rows without a key come last in their order; a descending sort reverses the rows,
  sorts and reverses the result.
\<close>

definition sort_values :: "(rat list \<Rightarrow> nat list) \<Rightarrow> bool \<Rightarrow> ('a \<Rightarrow> cell) \<Rightarrow> 'a list \<Rightarrow> 'a list" where
  "sort_values argsort ascending key rows =
     (let good = filter (\<lambda>r. key r \<noteq> None) rows;
          g = (if ascending then good else rev good);
          s = map ((!) g) (argsort (map (the \<circ> key) g))
      in (if ascending then s else rev s) @ filter (\<lambda>r. key r = None) rows)"

locale sorting =
  fixes argsort :: "rat list \<Rightarrow> nat list"
  assumes permutation: "mset (argsort ks) = mset [0..<length ks]"
    and ordered: "sorted (map ((!) ks) (argsort ks))"
begin

lemma in_range: "i \<in> set (argsort ks) \<Longrightarrow> i < length ks"
  using permutation [of ks] by (metis atLeastLessThan_iff mset_eq_setD set_upt)

lemma picked_mset: "length g = length ks \<Longrightarrow> mset (map ((!) g) (argsort ks)) = mset g"
proof -
  assume l: "length g = length ks"
  have "mset (map ((!) g) (argsort ks)) = image_mset ((!) g) (mset [0..<length g])"
    by (simp add: l permutation)
  also have "\<dots> = mset (map ((!) g) [0..<length g])" by simp
  also have "\<dots> = mset g" by (simp add: map_nth)
  finally show ?thesis .
qed

lemma sort_values_mset: "mset (sort_values argsort asc key rows) = mset rows"
proof -
  have "mset (sort_values argsort asc key rows)
      = mset (filter (\<lambda>r. key r \<noteq> None) rows) + mset (filter (\<lambda>r. key r = None) rows)"
    by (simp add: sort_values_def Let_def picked_mset del: mset_map)
  also have "\<dots> = mset rows"
    using multiset_partition [of "mset rows" "\<lambda>r. key r \<noteq> None"] by simp
  finally show ?thesis .
qed

lemma sort_values_set [simp]: "set (sort_values argsort asc key rows) = set rows"
  using sort_values_mset [of asc key rows] by (metis set_mset_mset)

lemma sort_values_length [simp]: "length (sort_values argsort asc key rows) = length rows"
  using sort_values_mset [of asc key rows] by (metis size_mset)

lemma sort_values_keys:
  assumes "\<forall>r \<in> set rows. key r \<noteq> None"
  shows "sorted (map (the \<circ> key) (if asc then sort_values argsort asc key rows else rev (sort_values argsort asc key rows)))"
proof -
  define g where "g = (if asc then rows else rev rows)"
  define ks where "ks = map (the \<circ> key) g"
  have good: "filter (\<lambda>r. key r \<noteq> None) rows = rows" "filter (\<lambda>r. key r = None) rows = []"
    using assms by (auto simp: filter_id_conv filter_empty_conv)
  have s: "(if asc then sort_values argsort asc key rows else rev (sort_values argsort asc key rows))
      = map ((!) g) (argsort ks)"
    unfolding sort_values_def Let_def good g_def ks_def by simp
  have "map (the \<circ> key) (map ((!) g) (argsort ks)) = map ((!) ks) (argsort ks)"
    using in_range [of _ ks] by (simp add: ks_def)
  then show ?thesis unfolding s by (simp only: ordered)
qed

text \<open>What the first rows of a descending sort leave behind has no larger key.\<close>

lemma head_sorted_desc:
  assumes "\<forall>r \<in> set rows. key r \<noteq> None"
    and "x \<in> set (take n (sort_values argsort False key rows))"
    and "y \<in> set (drop n (sort_values argsort False key rows))"
  shows "the (key y) \<le> the (key x)"
proof -
  let ?s = "sort_values argsort False key rows"
  have "sorted (map (the \<circ> key) (rev ?s))" using sort_values_keys [OF assms(1), of False] by simp
  then have "sorted (map (the \<circ> key) (rev (drop n ?s) @ rev (take n ?s)))"
    by (metis append_take_drop_id rev_append)
  then show ?thesis using assms(2,3) by (auto simp: sorted_append)
qed

end

text \<open>A stable sort is one.\<close>

definition stable_argsort :: "rat list \<Rightarrow> nat list" where
  "stable_argsort ks = sort_key ((!) ks) [0..<length ks]"

interpretation stable: sorting stable_argsort
  by unfold_locales (simp_all add: stable_argsort_def)

section \<open>Ranks\<close>

text \<open>\<open>rank(ascending=False)\<close>: equal values share the mean of their positions.\<close>

definition rank_desc :: "pfloat list \<Rightarrow> pfloat \<Rightarrow> cell" where
  "rank_desc xs x =
     (if is_nan x then None
      else Some (of_nat (length (filter (pf_less x) xs)) + (of_nat (length (filter ((=) x) xs)) + 1) / 2))"

definition above :: "pfloat list \<Rightarrow> pfloat \<Rightarrow> nat" where "above xs x = length (filter (pf_less x) xs)"
definition level :: "pfloat list \<Rightarrow> pfloat \<Rightarrow> nat" where "level xs x = length (filter ((=) x) xs)"

lemma filter_mono_length: "(\<And>x. P x \<Longrightarrow> Q x) \<Longrightarrow> length (filter P xs) \<le> length (filter Q xs)"
  by (induction xs) (auto intro: le_SucI)

lemma at_least: "length (filter (\<lambda>z. pf_less x z \<or> x = z) xs) = above xs x + level xs x"
  by (induction xs) (auto simp: above_def level_def)

lemma level_pos: "x \<in> set xs \<Longrightarrow> 0 < level xs x"
  by (auto simp: level_def filter_empty_conv)

lemma level_distinct: "distinct xs \<Longrightarrow> x \<in> set xs \<Longrightarrow> level xs x = 1"
proof -
  assume "distinct xs" "x \<in> set xs"
  then have "{y. x = y} \<inter> set xs = {x}" by auto
  with distinct_length_filter [OF \<open>distinct xs\<close>, of "(=) x"] show ?thesis by (simp add: level_def)
qed

lemma rank_desc_Some: "rank_desc xs x = Some r \<longleftrightarrow> \<not> is_nan x \<and> r = of_nat (above xs x) + (of_nat (level xs x) + 1) / 2"
  by (auto simp: rank_desc_def above_def level_def)

lemma rank_antimono:
  assumes "pf_less x y" "rank_desc xs x = Some rx" "x \<in> set xs"
  shows "\<exists>ry. rank_desc xs y = Some ry \<and> ry < rx"
proof -
  have nan: "\<not> is_nan x" "\<not> is_nan y" using pf_less_not_nan [OF assms(1)] by simp_all
  have "above xs y + level xs y \<le> above xs x"
    unfolding at_least [symmetric] above_def [of xs x]
    by (rule filter_mono_length) (use assms(1) pf_less_trans in blast)
  then have "(of_nat (above xs y) + of_nat (level xs y) :: rat) \<le> of_nat (above xs x)"
    unfolding of_nat_add [symmetric] of_nat_le_iff .
  moreover have "(1 :: rat) \<le> of_nat (level xs x)" using level_pos [OF assms(3)] by (simp add: Suc_le_eq)
  moreover have "(0 :: rat) \<le> of_nat (level xs y)" by simp
  ultimately have "(of_nat (above xs y) + (of_nat (level xs y) + 1) / 2 :: rat) < of_nat (above xs x) + (of_nat (level xs x) + 1) / 2"
    by (simp add: field_simps)
  with nan assms(2) show ?thesis by (simp add: rank_desc_Some)
qed

lemma least_exists:
  "xs \<noteq> [] \<Longrightarrow> \<forall>x \<in> set xs. \<not> is_nan x \<Longrightarrow> \<exists>m \<in> set xs. \<forall>x \<in> set xs. pf_less m x \<or> m = x"
proof (induction xs)
  case (Cons x xs)
  show ?case
  proof (cases "xs = []")
    case False
    with Cons obtain m where m: "m \<in> set xs" "\<forall>x \<in> set xs. pf_less m x \<or> m = x" by auto
    have "\<not> is_nan x" "\<not> is_nan m" using Cons.prems(2) m(1) by simp_all
    then consider "pf_less x m" | "x = m" | "pf_less m x" using pf_less_linear by blast
    then show ?thesis
    proof cases
      case 1
      with m pf_less_trans [OF 1] have "\<forall>y \<in> set (x # xs). pf_less x y \<or> x = y" by auto
      then show ?thesis by (intro bexI [of _ x]) simp_all
    next
      case 2
      with m have "\<forall>y \<in> set (x # xs). pf_less x y \<or> x = y" by simp
      then show ?thesis by (intro bexI [of _ x]) simp_all
    next
      case 3
      with m have "\<forall>y \<in> set (x # xs). pf_less m y \<or> m = y" by simp
      with m(1) show ?thesis by (intro bexI [of _ m]) simp_all
    qed
  qed simp
qed simp

text \<open>How many values can have a rank of at most \<open>n\<close>: ties at the cut can exceed it.\<close>

lemma rank_count:
  fixes n :: nat
  defines "S \<equiv> \<lambda>xs. filter (\<lambda>x. cell_le (rank_desc xs x) (Some (of_nat n))) xs"
  shows "length (S xs) \<le> 2 * n - 1"
    and "(\<And>x. x \<in> set xs \<Longrightarrow> \<not> is_nan x \<Longrightarrow> level xs x = 1) \<Longrightarrow> length (S xs) \<le> n"
proof -
  have *: "length (S xs) \<le> 2 * n - 1 \<and> ((\<forall>x \<in> set xs. \<not> is_nan x \<longrightarrow> level xs x = 1) \<longrightarrow> length (S xs) \<le> n)"
  proof (cases "S xs = []")
    case False
    have nan: "\<forall>x \<in> set (S xs). \<not> is_nan x" by (auto simp: S_def rank_desc_def)
    from least_exists [OF False nan] obtain m where m: "m \<in> set (S xs)" "\<forall>x \<in> set (S xs). pf_less m x \<or> m = x" by blast
    have in_xs: "m \<in> set xs" and nm: "\<not> is_nan m" using m(1) nan by (auto simp: S_def)
    have "S xs = filter (\<lambda>x. pf_less m x \<or> m = x) (S xs)" using m(2) by (simp add: filter_id_conv)
    then have "length (S xs) = length (filter (\<lambda>x. pf_less m x \<or> m = x) (S xs))" by (rule arg_cong)
    also have "\<dots> \<le> length (filter (\<lambda>x. pf_less m x \<or> m = x) xs)"
      unfolding S_def filter_filter by (rule filter_mono_length) simp
    finally have len: "length (S xs) \<le> above xs m + level xs m" by (simp add: at_least)
    have "(of_nat (above xs m) + (of_nat (level xs m) + 1) / 2 :: rat) \<le> of_nat n"
      using m(1) nm by (simp add: S_def rank_desc_def above_def level_def)
    then have "(of_nat (2 * above xs m + level xs m + 1) :: rat) \<le> of_nat (2 * n)" by (simp add: field_simps)
    then have "2 * above xs m + level xs m + 1 \<le> 2 * n" unfolding of_nat_le_iff .
    with len level_pos [OF in_xs] in_xs nm show ?thesis by auto
  qed simp
  then show "length (S xs) \<le> 2 * n - 1" ..
  from * show "length (S xs) \<le> n" if "\<And>x. x \<in> set xs \<Longrightarrow> \<not> is_nan x \<Longrightarrow> level xs x = 1"
    using that by blast
qed

end
