(* ===== verification/Universe.thy ===== *)
theory Universe
  imports Pandas
begin

text \<open>
  The stock universe: \<^verbatim>\<open>app/strategy/universe/universe_filters.py\<close> with its blacklist, and the listings of
  \<^verbatim>\<open>app/market/provider/fdr_provider.py\<close>.  The listing itself (FinanceDataReader) is a parameter, from an
  optional date to its rows; a row has the columns the code reads, so the check of
  \<open>REQUIRED_COLUMNS\<close> always passes.
\<close>

section \<open>Listings\<close>

record listing =
  ls_code :: str
  ls_name :: str
  ls_market :: str
  ls_marcap :: cell
  ls_amount :: cell
  ls_change_ratio :: cell

type_synonym listing_source = "str option \<Rightarrow> listing list result"

definition get_stock_list_raw :: "listing_source \<Rightarrow> str option \<Rightarrow> listing list result" where
  "get_stock_list_raw fdr as_of_date = (if truthy as_of_date then fdr as_of_date else fdr None)"

text \<open>A call without the required parameter \<open>as_of_date\<close>.\<close>

definition get_stock_list_raw_unset :: "listing list result" where
  "get_stock_list_raw_unset =
     Inl (TypeError ''FDRMarketDataProvider.get_stock_list_raw() missing 1 required positional argument: as_of_date'')"

fun listing_column :: "str \<Rightarrow> (listing \<Rightarrow> cell) option" where
  "listing_column c =
     (if c = ''Marcap'' then Some ls_marcap
      else if c = ''Amount'' then Some ls_amount
      else if c = ''ChagesRatio'' then Some ls_change_ratio
      else None)"

definition get_top_stock_list ::
  "(rat list \<Rightarrow> nat list) \<Rightarrow> listing_source \<Rightarrow> int \<Rightarrow> str \<Rightarrow> bool \<Rightarrow> str option \<Rightarrow> listing list result" where
  "get_top_stock_list argsort fdr n sort_by ascending as_of_date =
     bind_result (if truthy as_of_date then fdr as_of_date else fdr None) (\<lambda>df.
       case listing_column sort_by of
         None \<Rightarrow> Inl (ValueError (''Invalid sort_by column: '' @ sort_by))
       | Some key \<Rightarrow> Inr (head_rows n (sort_values argsort ascending key df)))"

section \<open>Filters\<close>

definition DART_UNAVAILABLE_CODES :: "str list" where "DART_UNAVAILABLE_CODES = [''088980'']"

text \<open>The pattern \<open>^\d{6}$\<close>; its end matches before a final newline, too.\<close>

definition six_digits :: "str \<Rightarrow> bool" where
  "six_digits s = (6 \<le> length s \<and> list_all is_digit (take 6 s) \<and> drop 6 s \<in> {[], [CHR 0x0A]})"

definition apply_base_filters :: "listing list \<Rightarrow> bool \<Rightarrow> str list option \<Rightarrow> listing list" where
  "apply_base_filters df exclude_preferred markets =
     (let ms = (case markets of None \<Rightarrow> [''KOSPI'', ''KOSDAQ''] | Some ms \<Rightarrow> ms);
          d1 = filter (\<lambda>r. six_digits (ls_code r)) df;
          d2 = (if exclude_preferred then filter (\<lambda>r. last (ls_code r) = CHR ''0'') d1 else d1);
          d3 = filter (\<lambda>r. ls_market r \<in> set ms) d2
      in filter (\<lambda>r. ls_code r \<notin> set DART_UNAVAILABLE_CODES) d3)"

definition top_by_marcap :: "(rat list \<Rightarrow> nat list) \<Rightarrow> listing_source \<Rightarrow> int \<Rightarrow> listing list result" where
  "top_by_marcap argsort fdr n = get_top_stock_list argsort fdr n ''Marcap'' False None"

definition marcap_range ::
  "(rat list \<Rightarrow> nat list) \<Rightarrow> listing_source \<Rightarrow> rat \<Rightarrow> rat option \<Rightarrow> int \<Rightarrow> str option \<Rightarrow> listing list result" where
  "marcap_range argsort fdr min_cap max_cap n as_of_date =
     bind_result (get_stock_list_raw fdr as_of_date) (\<lambda>df.
       let d1 = filter (\<lambda>r. cell_le (Some min_cap) (ls_marcap r)) df;
           d2 = (case max_cap of
                   None \<Rightarrow> d1
                 | Some m \<Rightarrow> if m = 0 then d1 else filter (\<lambda>r. cell_le (ls_marcap r) (Some m)) d1)
       in Inr (head_rows n (sort_values argsort False ls_marcap d2)))"

definition top_by_amount :: "(rat list \<Rightarrow> nat list) \<Rightarrow> listing_source \<Rightarrow> int \<Rightarrow> listing list result" where
  "top_by_amount argsort fdr n = get_top_stock_list argsort fdr n ''Amount'' False None"

definition market_only :: "(rat list \<Rightarrow> nat list) \<Rightarrow> listing_source \<Rightarrow> str \<Rightarrow> int \<Rightarrow> listing list result" where
  "market_only argsort fdr market n =
     bind_result (get_top_stock_list argsort fdr n ''Marcap'' False None)
       (\<lambda>df. Inr (filter (\<lambda>r. ls_market r = market) df))"

definition by_change_ratio :: "(rat list \<Rightarrow> nat list) \<Rightarrow> int \<Rightarrow> bool \<Rightarrow> listing list result" where
  "by_change_ratio argsort n ascending =
     bind_result get_stock_list_raw_unset (\<lambda>df. Inr (head_rows n (sort_values argsort ascending ls_change_ratio df)))"

definition composite ::
  "(rat list \<Rightarrow> nat list) \<Rightarrow> str option \<Rightarrow> rat \<Rightarrow> str \<Rightarrow> bool \<Rightarrow> int \<Rightarrow> listing list result" where
  "composite argsort market min_marcap sort_by ascending n =
     bind_result get_stock_list_raw_unset (\<lambda>df.
       let d1 = (if truthy market then filter (\<lambda>r. Some (ls_market r) = market) df else df);
           d2 = filter (\<lambda>r. cell_le (Some min_marcap) (ls_marcap r)) d1
       in case listing_column sort_by of
            None \<Rightarrow> Inl (LibError ''KeyError'' sort_by)
          | Some key \<Rightarrow> Inr (head_rows n (sort_values argsort ascending key d2)))"

section \<open>Lemmas\<close>

text \<open>What the base filters let through.\<close>

definition tradable :: "listing \<Rightarrow> bool" where
  "tradable r \<longleftrightarrow> six_digits (ls_code r) \<and> last (ls_code r) = CHR ''0''
     \<and> ls_market r \<in> {''KOSPI'', ''KOSDAQ''} \<and> ls_code r \<notin> set DART_UNAVAILABLE_CODES"

lemma base_filters_exact: "apply_base_filters df True None = filter tradable df"
  unfolding apply_base_filters_def Let_def option.case if_True filter_filter
  by (rule filter_cong) (auto simp: tradable_def)

text \<open>Two of the builders can only raise.\<close>

lemma builders_that_raise:
  "\<exists>e. by_change_ratio argsort n ascending = Inl (TypeError e)"
  "\<exists>e. composite argsort market min_marcap sort_by ascending n = Inl (TypeError e)"
  by (simp_all add: by_change_ratio_def composite_def get_stock_list_raw_unset_def)

text \<open>
  The range builder answers at most \<open>n\<close> listings in the range, the largest ones: what it leaves out
  of the range is not larger.
\<close>

lemma marcap_range_largest:
  assumes "sorting argsort" and "0 \<le> n" and "get_stock_list_raw fdr as_of_date = Inr df"
    and "marcap_range argsort fdr min_cap (Some m) n as_of_date = Inr rows" and "m \<noteq> 0"
  defines "inside \<equiv> \<lambda>r. cell_le (Some min_cap) (ls_marcap r) \<and> cell_le (ls_marcap r) (Some m)"
  shows "length rows \<le> nat n" and "set rows \<subseteq> {r \<in> set df. inside r}"
    and "x \<in> set rows \<Longrightarrow> y \<in> set df \<Longrightarrow> inside y \<Longrightarrow> y \<notin> set rows \<Longrightarrow> the (ls_marcap y) \<le> the (ls_marcap x)"
proof -
  let ?d = "filter inside df"
  have "filter (\<lambda>r. cell_le (ls_marcap r) (Some m)) (filter (\<lambda>r. cell_le (Some min_cap) (ls_marcap r)) df) = ?d"
    by (simp add: inside_def conj_commute)
  then have rows: "rows = take (nat n) (sort_values argsort False ls_marcap ?d)"
    using assms(2-5) by (simp add: marcap_range_def head_rows_def)
  show "length rows \<le> nat n" by (simp add: rows)
  have all: "set (sort_values argsort False ls_marcap ?d) = set ?d" by (rule sorting.sort_values_set [OF assms(1)])
  then show "set rows \<subseteq> {r \<in> set df. inside r}" using set_take_subset [of "nat n"] unfolding rows by fastforce
  have some: "\<forall>r \<in> set ?d. ls_marcap r \<noteq> None"
    by (auto simp: inside_def elim: cell_le.elims)
  show "the (ls_marcap y) \<le> the (ls_marcap x)"
    if "x \<in> set rows" "y \<in> set df" "inside y" "y \<notin> set rows"
  proof (rule sorting.head_sorted_desc [OF assms(1) some])
    show "x \<in> set (take (nat n) (sort_values argsort False ls_marcap ?d))" using that rows by simp
    have "y \<in> set (take (nat n) (sort_values argsort False ls_marcap ?d) @ drop (nat n) (sort_values argsort False ls_marcap ?d))"
      unfolding append_take_drop_id all using that by simp
    then show "y \<in> set (drop (nat n) (sort_values argsort False ls_marcap ?d))" using that(4) unfolding rows set_append by blast
  qed
qed

section \<open>The universe of a past day\<close>

text \<open>
  \<open>marcap_range_at\<close>: the listing of today with its column \<open>Stocks\<close>, the market value of a stock
  being its first close from the day on, times the number of its shares.  \<open>get_ohlcv\<close> answers the column of
  closes, \<open>end_date_of\<close> the fifth business day after the day (pandas).  Both columns are whole numbers.
\<close>

type_synonym stock_source = "str option \<Rightarrow> (listing \<times> cell) list result"

definition listings_of :: "stock_source \<Rightarrow> listing_source" where
  "listings_of fdr d = bind_result (fdr d) (\<lambda>df. Inr (map fst df))"

fun cell_times :: "cell \<Rightarrow> cell \<Rightarrow> cell" where
  "cell_times (Some a) (Some b) = Some (a * b)"
| "cell_times _ _ = None"

definition close_prices_at ::
  "(str \<Rightarrow> str \<Rightarrow> str \<Rightarrow> cell list result) \<Rightarrow> str \<Rightarrow> str \<Rightarrow> str list \<Rightarrow> (str \<times> cell) list"
where
  "close_prices_at get_ohlcv as_of_date end_date codes =
     dict_of (concat (map (\<lambda>code. case get_ohlcv code as_of_date end_date of
                                    Inr (c # _) \<Rightarrow> [(code, c)]
                                  | _ \<Rightarrow> []) codes))"

definition historical_marcap :: "(str \<times> cell) list \<Rightarrow> listing \<times> cell \<Rightarrow> cell" where
  "historical_marcap close_prices x =
     cell_times (case dict_get close_prices (ls_code (fst x)) of None \<Rightarrow> None | Some c \<Rightarrow> c) (snd x)"

definition marcap_range_at ::
  "(rat list \<Rightarrow> nat list) \<Rightarrow> stock_source \<Rightarrow> (str \<Rightarrow> str \<Rightarrow> str \<Rightarrow> cell list result) \<Rightarrow> (str \<Rightarrow> str result) \<Rightarrow>
     rat \<Rightarrow> rat option \<Rightarrow> int \<Rightarrow> str option \<Rightarrow> listing list result"
where
  "marcap_range_at argsort fdr get_ohlcv end_date_of min_cap max_cap n as_of_date =
     (case as_of_date of
        None \<Rightarrow> marcap_range argsort (listings_of fdr) min_cap max_cap n None
      | Some day \<Rightarrow>
          bind_result (fdr None) (\<lambda>df_pool.
          bind_result (end_date_of day) (\<lambda>end_date.
            let close_prices = close_prices_at get_ohlcv day end_date (map (ls_code \<circ> fst) df_pool);
                cap = historical_marcap close_prices;
                d1 = filter (\<lambda>x. dict_get close_prices (ls_code (fst x)) \<noteq> None) df_pool;
                d2 = filter (\<lambda>x. cell_le (Some min_cap) (cap x)) d1;
                d3 = (case max_cap of
                        None \<Rightarrow> d2
                      | Some m \<Rightarrow> if m = 0 then d2 else filter (\<lambda>x. cell_le (cap x) (Some m)) d2)
            in Inr (map (\<lambda>x. (fst x)\<lparr>ls_marcap := cap x\<rparr>) (head_rows n (sort_values argsort False cap d3))))))"

text \<open>
  What the rows are: listed stocks with a price from the day on, their market value that price times
  the shares, in the range; at most \<open>n\<close> of them.
\<close>

lemma marcap_range_at_sound:
  assumes "sorting argsort" and "fdr None = Inr df" and "end_date_of day = Inr e" and "0 \<le> n" and "m \<noteq> 0"
    and "marcap_range_at argsort fdr get_ohlcv end_date_of min_cap (Some m) n (Some day) = Inr rows"
  shows "length rows \<le> nat n"
    and "\<forall>r \<in> set rows. \<exists>x \<in> set df. \<exists>cap close.
           r = (fst x)\<lparr>ls_marcap := Some cap\<rparr> \<and> min_cap \<le> cap \<and> cap \<le> m
           \<and> dict_get (close_prices_at get_ohlcv day e (map (ls_code \<circ> fst) df)) (ls_code r) = Some close
           \<and> cell_times close (snd x) = Some cap"
proof -
  let ?prices = "close_prices_at get_ohlcv day e (map (ls_code \<circ> fst) df)"
  let ?cap = "historical_marcap ?prices"
  let ?d = "filter (\<lambda>x. cell_le (?cap x) (Some m)) (filter (\<lambda>x. cell_le (Some min_cap) (?cap x))
              (filter (\<lambda>x. dict_get ?prices (ls_code (fst x)) \<noteq> None) df))"
  have rows: "rows = map (\<lambda>x. (fst x)\<lparr>ls_marcap := ?cap x\<rparr>) (head_rows n (sort_values argsort False ?cap ?d))"
    using assms(2-6) by (simp add: marcap_range_at_def Let_def)
  show "length rows \<le> nat n" using assms(4) by (simp add: rows head_rows_length)
  show "\<forall>r \<in> set rows. \<exists>x \<in> set df. \<exists>cap close.
           r = (fst x)\<lparr>ls_marcap := Some cap\<rparr> \<and> min_cap \<le> cap \<and> cap \<le> m
           \<and> dict_get ?prices (ls_code r) = Some close \<and> cell_times close (snd x) = Some cap"
  proof
    fix r
    assume "r \<in> set rows"
    then obtain x where x: "x \<in> set (head_rows n (sort_values argsort False ?cap ?d))" "r = (fst x)\<lparr>ls_marcap := ?cap x\<rparr>"
      by (auto simp: rows)
    from subsetD [OF head_rows_subset x(1)] have d: "x \<in> set ?d"
      unfolding sorting.sort_values_set [OF assms(1)] .
    then obtain cap where c: "?cap x = Some cap" "min_cap \<le> cap" "cap \<le> m"
      by (cases "?cap x") auto
    obtain close where "dict_get ?prices (ls_code (fst x)) = Some close" using d by auto
    moreover from this have "cell_times close (snd x) = Some cap" using c by (simp add: historical_marcap_def)
    ultimately show "\<exists>x \<in> set df. \<exists>cap close.
           r = (fst x)\<lparr>ls_marcap := Some cap\<rparr> \<and> min_cap \<le> cap \<and> cap \<le> m
           \<and> dict_get ?prices (ls_code r) = Some close \<and> cell_times close (snd x) = Some cap"
      by (rule_tac bexI [of _ x], intro exI [of _ cap] exI [of _ close] conjI) (use x(2) c d in simp_all)
  qed
qed

text \<open>Sorting commutes with a change of the rows that keeps their keys.\<close>

lemma sort_values_map:
  assumes "sorting argsort" and "\<And>x. key (g x) = key x"
  shows "sort_values argsort False key (map g rows) = map g (sort_values argsort False key rows)"
proof -
  define good where "good = rev (filter (\<lambda>r. key r \<noteq> None) rows)"
  define ks where "ks = map (the \<circ> key) good"
  have f: "filter (\<lambda>r. key r \<noteq> None) (map g rows) = map g (filter (\<lambda>r. key r \<noteq> None) rows)"
    "filter (\<lambda>r. key r = None) (map g rows) = map g (filter (\<lambda>r. key r = None) rows)"
    using assms(2) by (simp_all add: filter_map comp_def)
  have k: "map (the \<circ> key) (map g good) = ks" using assms(2) by (simp add: ks_def)
  have "map ((!) (map g good)) (argsort ks) = map g (map ((!) good) (argsort ks))"
    using sorting.in_range [OF assms(1), of _ ks] by (simp add: ks_def)
  then show ?thesis
    unfolding sort_values_def Let_def f rev_map if_False good_def [symmetric] k ks_def [symmetric]
    by (simp add: rev_map)
qed

text \<open>
  C30. The universe of a past day does not look at the present market values: whatever the
  column \<open>Marcap\<close> of today's listing holds, the same rows are answered in the same order.
\<close>

theorem past_universe_ignores_present_marcap:
  assumes "sorting argsort"
  shows "marcap_range_at argsort
           (\<lambda>d. bind_result (fdr d) (\<lambda>df. Inr (map (\<lambda>(r, stocks). (r\<lparr>ls_marcap := present r\<rparr>, stocks)) df)))
           get_ohlcv end_date_of min_cap max_cap n (Some day)
         = marcap_range_at argsort fdr get_ohlcv end_date_of min_cap max_cap n (Some day)"
proof (cases "fdr None")
  case (Inr df)
  define g :: "listing \<times> cell \<Rightarrow> listing \<times> cell" where "g = (\<lambda>(r, stocks). (r\<lparr>ls_marcap := present r\<rparr>, stocks))"
  have codes: "map (ls_code \<circ> fst) (map g df) = map (ls_code \<circ> fst) df"
    by (simp add: g_def case_prod_beta)
  have cap: "historical_marcap prices (g x) = historical_marcap prices x" for prices x
    by (simp add: historical_marcap_def g_def case_prod_beta)
  have f: "filter (\<lambda>x. P (historical_marcap prices x)) (map g xs) = map g (filter (\<lambda>x. P (historical_marcap prices x)) xs)"
    for P prices xs
    by (simp only: filter_map comp_def cap)
  note lo = f [where P = "\<lambda>c. cell_le (Some b) c" for b] and hi = f [where P = "\<lambda>c. cell_le c (Some b)" for b]
  have i: "(if b then map g xs else map g ys) = map g (if b then xs else ys)" for b xs ys by simp
  have f': "filter (\<lambda>x. dict_get prices (ls_code (fst x)) \<noteq> None) (map g xs)
      = map g (filter (\<lambda>x. dict_get prices (ls_code (fst x)) \<noteq> None) xs)" for prices :: "(str \<times> cell) list" and xs
    by (simp add: filter_map comp_def g_def case_prod_beta)
  have s: "sort_values argsort False (historical_marcap prices) (map g xs)
      = map g (sort_values argsort False (historical_marcap prices) xs)" for prices xs
    by (rule sort_values_map [where key = "historical_marcap prices" and g = g, OF assms cap])
  have h: "head_rows n (map g xs) = map g (head_rows n xs)" for xs
    by (simp add: head_rows_def take_map)
  have l: "map (\<lambda>x. (fst x)\<lparr>ls_marcap := historical_marcap prices x\<rparr>) (map g xs)
      = map (\<lambda>x. (fst x)\<lparr>ls_marcap := historical_marcap prices x\<rparr>) xs" for prices xs
    unfolding map_map comp_def cap by (simp add: g_def case_prod_beta)
  show ?thesis
    unfolding marcap_range_at_def Inr Let_def option.case bind_result_simps g_def [symmetric] codes f' lo
    by (cases max_cap) (simp_all only: option.case hi i s h l)
qed (simp add: marcap_range_at_def)

lemma past_universe_ignores_present_marcap_witness:
  "marcap_range_at stable_argsort
     (\<lambda>d. bind_result (Inr [(\<lparr>ls_code = ''000010'', ls_name = ''n'', ls_market = ''KOSPI'', ls_marcap = None,
                              ls_amount = None, ls_change_ratio = None\<rparr>, Some 3)])
            (\<lambda>df. Inr (map (\<lambda>(r, stocks). (r\<lparr>ls_marcap := Some 77\<rparr>, stocks)) df)))
     (\<lambda>_ _ _. Inr [Some 5]) Inr 0 None 10 (Some ''2025-01-02'')
   = marcap_range_at stable_argsort
       (\<lambda>d. Inr [(\<lparr>ls_code = ''000010'', ls_name = ''n'', ls_market = ''KOSPI'', ls_marcap = None,
                    ls_amount = None, ls_change_ratio = None\<rparr>, Some 3)])
       (\<lambda>_ _ _. Inr [Some 5]) Inr 0 None 10 (Some ''2025-01-02'')"
  by (rule past_universe_ignores_present_marcap) unfold_locales

end
