(* ===== verification/Dart.thy ===== *)
theory Dart
  imports Pandas Py_Number "HOL-Library.List_Lexorder" "HOL-Library.Char_ord"
begin

text \<open>
  Financial statements: the tables of \<^verbatim>\<open>app/db/models/dart_financial_statement.py\<close> and
  \<^verbatim>\<open>app/db/models/dart_unavailable.py\<close>, the repository
  \<^verbatim>\<open>app/repository/dart_financial_statement_repository.py\<close> and the provider
  \<^verbatim>\<open>app/market/provider/dart_provider.py\<close>.  The DART service is a parameter: its answer per stock, year,
  report, kind of statement (\<open>CFS\<close>, \<open>OFS\<close>) and part, its rows being those of that report.  Of a row the model keeps its key, the report and
  the two amounts that are read; amounts are whole numbers of won, as DART documents.  A query
  without \<open>ORDER BY\<close> answers in table order.
\<close>

section \<open>Tables\<close>

record fs_row =
  fs_rcept_no :: str
  fs_sj_div :: str
  fs_account_id :: str
  fs_reprt_code :: str
  fs_bsns_year :: str
  fs_stock_code :: str
  fs_thstrm_amount :: "int option"
  fs_frmtrm_amount :: "int option"

record dart_unavailable =
  un_stock_code :: str
  un_bsns_year :: str
  un_reprt_code :: str
  un_reason :: str
  un_checked_at :: timestamp

record dart_db =
  dd_statements :: "fs_row list"
  dd_unavailable :: "dart_unavailable list"

definition fs_key :: "fs_row \<Rightarrow> str \<times> str \<times> str" where
  "fs_key r = (fs_rcept_no r, fs_sj_div r, fs_account_id r)"

definition un_key :: "dart_unavailable \<Rightarrow> str \<times> str \<times> str" where
  "un_key u = (un_stock_code u, un_bsns_year u, un_reprt_code u)"

section \<open>Repository\<close>

definition find_by_stock_codes :: "dart_db \<Rightarrow> str list \<Rightarrow> str \<Rightarrow> str \<Rightarrow> fs_row list" where
  "find_by_stock_codes db stock_codes bsns_year reprt_code =
     filter (\<lambda>r. fs_stock_code r \<in> set stock_codes \<and> fs_bsns_year r = bsns_year \<and> fs_reprt_code r = reprt_code)
       (dd_statements db)"

definition find_existing_stock_codes :: "dart_db \<Rightarrow> str list \<Rightarrow> str \<Rightarrow> str \<Rightarrow> str set" where
  "find_existing_stock_codes db stock_codes bsns_year reprt_code =
     set (map fs_stock_code (find_by_stock_codes db stock_codes bsns_year reprt_code))"

text \<open>\<open>drop_duplicates(keep="last")\<close> on the primary key, then one INSERT.\<close>

fun drop_duplicates_last :: "('a \<Rightarrow> 'k) \<Rightarrow> 'a list \<Rightarrow> 'a list" where
  "drop_duplicates_last key [] = []"
| "drop_duplicates_last key (r # rs) =
     (if key r \<in> set (map key rs) then drop_duplicates_last key rs else r # drop_duplicates_last key rs)"

definition bulk_insert_financial_statements :: "dart_db \<Rightarrow> fs_row list \<Rightarrow> dart_db result" where
  "bulk_insert_financial_statements db df =
     (let records = drop_duplicates_last fs_key df
      in if df = [] then Inl (LibError ''KeyError'' ''rcept_no'')
         else if \<exists>r \<in> set records. fs_key r \<in> set (map fs_key (dd_statements db))
         then Inl (LibError ''IntegrityError'' ''duplicate key value violates unique constraint'')
         else Inr (db\<lparr>dd_statements := dd_statements db @ records\<rparr>))"

definition find_unavailable_codes :: "dart_db \<Rightarrow> str list \<Rightarrow> str \<Rightarrow> str \<Rightarrow> str set" where
  "find_unavailable_codes db stock_codes bsns_year reprt_code =
     set (map un_stock_code
       (filter (\<lambda>u. un_stock_code u \<in> set stock_codes \<and> un_bsns_year u = bsns_year \<and> un_reprt_code u = reprt_code)
         (dd_unavailable db)))"

text \<open>One \<open>INSERT ... ON CONFLICT DO UPDATE\<close>; PostgreSQL refuses to touch one row twice.\<close>

definition upsert_unavailable :: "dart_unavailable list \<Rightarrow> dart_unavailable \<Rightarrow> dart_unavailable list" where
  "upsert_unavailable us u =
     (if un_key u \<in> set (map un_key us)
      then map (\<lambda>v. if un_key v = un_key u then v\<lparr>un_reason := un_reason u, un_checked_at := un_checked_at u\<rparr> else v) us
      else us @ [u])"

definition mark_unavailable_bulk :: "timestamp \<Rightarrow> dart_db \<Rightarrow> (str \<times> str \<times> str \<times> str) list \<Rightarrow> dart_db result" where
  "mark_unavailable_bulk now db records =
     (let marks = map (\<lambda>(code, year, reprt, reason).
            \<lparr>un_stock_code = code, un_bsns_year = year, un_reprt_code = reprt, un_reason = reason, un_checked_at = now\<rparr>) records
      in if records = [] then Inr db
         else if \<not> distinct (map un_key marks)
         then Inl (LibError ''CardinalityViolationError'' ''ON CONFLICT DO UPDATE command cannot affect row a second time'')
         else Inr (db\<lparr>dd_unavailable := foldl upsert_unavailable (dd_unavailable db) marks\<rparr>))"

section \<open>The service\<close>

text \<open>A row of an answer has its amounts as text; an answer carries the status of DART.\<close>

record api_row =
  ar_rcept_no :: str
  ar_sj_div :: str
  ar_account_id :: str
  ar_thstrm_amount :: "str option"
  ar_frmtrm_amount :: "str option"

datatype dart_answer = DartFailure exn | DartAnswer str "api_row list"

record dart_env =
  de_now :: timestamp
  de_corp_codes :: "str \<Rightarrow> str option"
  de_service :: "str \<Rightarrow> str \<Rightarrow> str \<Rightarrow> str \<Rightarrow> str \<Rightarrow> dart_answer"

record dart_world =
  dw_db :: dart_db
  dw_requests :: "(str \<times> str \<times> str) list"

text \<open>An amount: the commas go, and what is no number becomes NaN.\<close>

definition parse_amount :: "str option \<Rightarrow> int option" where
  "parse_amount t =
     (case t of
        None \<Rightarrow> None
      | Some s \<Rightarrow> (case py_int (filter (\<lambda>c. c \<noteq> CHR '','') s) of Inl _ \<Rightarrow> None | Inr n \<Rightarrow> Some n))"

definition stored_row :: "str \<Rightarrow> str \<Rightarrow> str \<Rightarrow> api_row \<Rightarrow> fs_row" where
  "stored_row stock_code year report_code r =
     \<lparr>fs_rcept_no = ar_rcept_no r, fs_sj_div = ar_sj_div r, fs_account_id = ar_account_id r,
      fs_reprt_code = report_code, fs_bsns_year = year, fs_stock_code = stock_code,
      fs_thstrm_amount = parse_amount (ar_thstrm_amount r), fs_frmtrm_amount = parse_amount (ar_frmtrm_amount r)\<rparr>"

text \<open>The four parts, one request each; a part whose status is not \<open>000\<close> is left out.\<close>

fun request_parts ::
  "dart_env \<Rightarrow> str \<Rightarrow> str \<Rightarrow> str \<Rightarrow> str \<Rightarrow> str list \<Rightarrow> dart_world \<Rightarrow> api_row list list result \<times> dart_world" where
  "request_parts env corp year report_code fs_div [] w = (Inr [], w)"
| "request_parts env corp year report_code fs_div (sj_div # ds) w =
     (let w1 = w\<lparr>dw_requests := dw_requests w @ [(corp, fs_div, sj_div)]\<rparr>
      in case de_service env corp year report_code fs_div sj_div of
           DartFailure e \<Rightarrow> (Inl e, w1)
         | DartAnswer status rows \<Rightarrow>
             (case request_parts env corp year report_code fs_div ds w1 of
                (Inl e, w2) \<Rightarrow> (Inl e, w2)
              | (Inr frames, w2) \<Rightarrow> (Inr (if status = ''000'' then rows # frames else frames), w2)))"

definition RuntimeError :: "str \<Rightarrow> exn" where "RuntimeError t = LibError ''RuntimeError'' t"

definition is_runtime_error :: "exn \<Rightarrow> bool" where
  "is_runtime_error e = (case e of LibError c _ \<Rightarrow> c = ''RuntimeError'' | _ \<Rightarrow> False)"

definition get_financial_statements ::
  "dart_env \<Rightarrow> str \<Rightarrow> str \<Rightarrow> str \<Rightarrow> str \<Rightarrow> dart_world \<Rightarrow> fs_row list result \<times> dart_world" where
  "get_financial_statements env stock_code year report_code fs_div w =
     (case de_corp_codes env stock_code of
        None \<Rightarrow> (Inl (ValueError (''corp_code not found: '' @ stock_code)), w)
      | Some corp \<Rightarrow>
          (case request_parts env corp year report_code fs_div [''BS'', ''IS'', ''CF'', ''CIS''] w of
             (Inl e, w1) \<Rightarrow> (Inl e, w1)
           | (Inr frames, w1) \<Rightarrow>
               (if frames = [] then (Inl (RuntimeError (''no financial statements: '' @ stock_code)), w1)
                else (Inr (map (stored_row stock_code year report_code) (concat frames)), w1))))"

section \<open>Fetching and storing\<close>

definition fetch_and_store :: "dart_env \<Rightarrow> str \<Rightarrow> str \<Rightarrow> str \<Rightarrow> dart_world \<Rightarrow> fs_row list result \<times> dart_world" where
  "fetch_and_store env stock_code year reprt_code w =
     (let (res, w1) = (case get_financial_statements env stock_code year reprt_code ''CFS'' w of
                         (Inl e, w1) \<Rightarrow>
                           if is_runtime_error e then get_financial_statements env stock_code year reprt_code ''OFS'' w1
                           else (Inl e, w1)
                       | r \<Rightarrow> r)
      in case res of
           Inl e \<Rightarrow> (Inl e, w1)
         | Inr df \<Rightarrow>
             (case bulk_insert_financial_statements (dw_db w1) df of
                Inl e \<Rightarrow> (Inl e, w1)
              | Inr db \<Rightarrow> (Inr df, w1\<lparr>dw_db := db\<rparr>)))"

text \<open>The loop over the missing codes; what raises \<open>RuntimeError\<close> is remembered, other errors are logged.\<close>

fun fetch_missing :: "dart_env \<Rightarrow> str \<Rightarrow> str \<Rightarrow> str list \<Rightarrow> dart_world \<Rightarrow> (str \<times> str \<times> str \<times> str) list \<times> dart_world" where
  "fetch_missing env year reprt_code [] w = ([], w)"
| "fetch_missing env year reprt_code (code # codes) w =
     (let (res, w1) = fetch_and_store env code year reprt_code w;
          (rest, w2) = fetch_missing env year reprt_code codes w1
      in (case res of
            Inl e \<Rightarrow> if is_runtime_error e then ((code, year, reprt_code, ''no_data'') # rest, w2) else (rest, w2)
          | Inr _ \<Rightarrow> (rest, w2)))"

section \<open>Frames\<close>

text \<open>
  An amount in a frame: \<open>None\<close> when the whole column is empty; NaN where a value is missing in a
  column of floats; whole numbers stay exact when the column has them all.
\<close>

type_synonym amount = "cell option"

record frame_row =
  fr_sj_div :: str
  fr_account_id :: str
  fr_thstrm_amount :: amount
  fr_frmtrm_amount :: amount

definition column_amount :: "int option list \<Rightarrow> int option \<Rightarrow> amount" where
  "column_amount column x =
     (if list_all (\<lambda>c. c = None) column then None
      else Some (map_option (\<lambda>n. if list_all (\<lambda>c. c \<noteq> None) column then of_int n else fl (of_int n)) x))"

definition frame_of :: "fs_row list \<Rightarrow> fs_row \<Rightarrow> frame_row" where
  "frame_of rows r =
     \<lparr>fr_sj_div = fs_sj_div r, fr_account_id = fs_account_id r,
      fr_thstrm_amount = column_amount (map fs_thstrm_amount rows) (fs_thstrm_amount r),
      fr_frmtrm_amount = column_amount (map fs_frmtrm_amount rows) (fs_frmtrm_amount r)\<rparr>"

definition get_bulk_financial_statements :: "dart_db \<Rightarrow> str list \<Rightarrow> str \<Rightarrow> str \<Rightarrow> (str \<times> frame_row list) list" where
  "get_bulk_financial_statements db stock_codes year report_code =
     (let rows = find_by_stock_codes db stock_codes year report_code
      in map (\<lambda>code. (code, map (frame_of rows) (filter (\<lambda>r. fs_stock_code r = code) rows)))
           (sort (remdups (map fs_stock_code rows))))"

definition missing_codes :: "dart_db \<Rightarrow> str list \<Rightarrow> str \<Rightarrow> str \<Rightarrow> str list" where
  "missing_codes db stock_codes year reprt_code =
     filter (\<lambda>c. c \<notin> find_existing_stock_codes db stock_codes year reprt_code
               \<and> c \<notin> find_unavailable_codes db stock_codes year reprt_code) stock_codes"

definition fetch_and_store_bulk ::
  "dart_env \<Rightarrow> str list \<Rightarrow> str \<Rightarrow> str \<Rightarrow> dart_world \<Rightarrow> (str \<times> frame_row list) list result \<times> dart_world" where
  "fetch_and_store_bulk env stock_codes year reprt_code w =
     (let (unavailable_records, w1) = fetch_missing env year reprt_code (missing_codes (dw_db w) stock_codes year reprt_code) w
      in case mark_unavailable_bulk (de_now env) (dw_db w1) unavailable_records of
           Inl e \<Rightarrow> (Inl e, w1)
         | Inr db \<Rightarrow> (Inr (get_bulk_financial_statements db stock_codes year reprt_code), w1\<lparr>dw_db := db\<rparr>))"

section \<open>Lemmas\<close>

text \<open>Requests go to the companies of the codes asked for.\<close>

definition requests_of :: "dart_env \<Rightarrow> str list \<Rightarrow> (str \<times> str \<times> str) list \<Rightarrow> bool" where
  "requests_of env codes rs \<longleftrightarrow> (\<forall>r \<in> set rs. \<exists>c \<in> set codes. de_corp_codes env c = Some (fst r))"

lemma requests_of_append: "requests_of env codes rs \<Longrightarrow> requests_of env codes rs' \<Longrightarrow> requests_of env codes (rs @ rs')"
  by (auto simp: requests_of_def)

lemma request_parts_log:
  "\<exists>ds'. snd (request_parts env corp year reprt fs_div ds w)
     = w\<lparr>dw_requests := dw_requests w @ map (\<lambda>d. (corp, fs_div, d)) ds'\<rparr>"
proof (induction ds arbitrary: w)
  case Nil
  have "w = w\<lparr>dw_requests := dw_requests w @ map (\<lambda>d. (corp, fs_div, d)) []\<rparr>" by simp
  then show ?case unfolding request_parts.simps snd_conv by blast
next
  case (Cons d ds)
  let ?w1 = "w\<lparr>dw_requests := dw_requests w @ [(corp, fs_div, d)]\<rparr>"
  obtain ds' where ds': "snd (request_parts env corp year reprt fs_div ds ?w1)
      = ?w1\<lparr>dw_requests := dw_requests ?w1 @ map (\<lambda>d. (corp, fs_div, d)) ds'\<rparr>" using Cons by blast
  have "snd (request_parts env corp year reprt fs_div (d # ds) w)
      = w\<lparr>dw_requests := dw_requests w @ map (\<lambda>d. (corp, fs_div, d)) [d]\<rparr>
      \<or> snd (request_parts env corp year reprt fs_div (d # ds) w)
      = w\<lparr>dw_requests := dw_requests w @ map (\<lambda>d. (corp, fs_div, d)) (d # ds')\<rparr>"
    using ds' by (auto simp: Let_def split: dart_answer.split sum.split prod.split)
  then show ?case by blast
qed

lemma get_financial_statements_log:
  "\<exists>rs. snd (get_financial_statements env code year reprt fs_div w) = w\<lparr>dw_requests := dw_requests w @ rs\<rparr>
     \<and> requests_of env [code] rs"
proof (cases "de_corp_codes env code")
  case None
  then show ?thesis by (intro exI [of _ "[]"]) (simp add: get_financial_statements_def requests_of_def)
next
  case (Some corp)
  obtain ds' where "snd (request_parts env corp year reprt fs_div [''BS'', ''IS'', ''CF'', ''CIS''] w)
      = w\<lparr>dw_requests := dw_requests w @ map (\<lambda>d. (corp, fs_div, d)) ds'\<rparr>" using request_parts_log by blast
  moreover have "requests_of env [code] (map (\<lambda>d. (corp, fs_div, d)) ds')" using Some by (simp add: requests_of_def)
  ultimately show ?thesis
    using Some by (auto simp: get_financial_statements_def split: sum.split prod.split)
qed

lemma fetch_and_store_log:
  "\<exists>rs. dw_requests (snd (fetch_and_store env code year reprt w)) = dw_requests w @ rs \<and> requests_of env [code] rs
     \<and> dd_unavailable (dw_db (snd (fetch_and_store env code year reprt w))) = dd_unavailable (dw_db w)"
proof -
  obtain rs where 1: "snd (get_financial_statements env code year reprt ''CFS'' w) = w\<lparr>dw_requests := dw_requests w @ rs\<rparr>"
    "requests_of env [code] rs" using get_financial_statements_log by blast
  obtain rs' where 2: "snd (get_financial_statements env code year reprt ''OFS'' (w\<lparr>dw_requests := dw_requests w @ rs\<rparr>))
      = w\<lparr>dw_requests := dw_requests w @ rs @ rs'\<rparr>" "requests_of env [code] rs'"
    using get_financial_statements_log [of env code year reprt "''OFS''" "w\<lparr>dw_requests := dw_requests w @ rs\<rparr>"] by auto
  show ?thesis
    using 1 2 requests_of_append
    by (auto simp: fetch_and_store_def Let_def bulk_insert_financial_statements_def split: sum.splits prod.splits if_splits)
qed

lemma fetch_missing_log:
  "\<exists>rs. dw_requests (snd (fetch_missing env year reprt codes w)) = dw_requests w @ rs \<and> requests_of env codes rs
     \<and> dd_unavailable (dw_db (snd (fetch_missing env year reprt codes w))) = dd_unavailable (dw_db w)"
proof (induction codes arbitrary: w)
  case (Cons c cs)
  let ?w1 = "snd (fetch_and_store env c year reprt w)"
  obtain rs where 1: "dw_requests ?w1 = dw_requests w @ rs" "requests_of env [c] rs"
    "dd_unavailable (dw_db ?w1) = dd_unavailable (dw_db w)" using fetch_and_store_log by blast
  obtain rs' where 2: "dw_requests (snd (fetch_missing env year reprt cs ?w1)) = dw_requests ?w1 @ rs'"
    "requests_of env cs rs'" "dd_unavailable (dw_db (snd (fetch_missing env year reprt cs ?w1))) = dd_unavailable (dw_db ?w1)"
    using Cons by blast
  have "snd (fetch_missing env year reprt (c # cs) w) = snd (fetch_missing env year reprt cs ?w1)"
    by (simp add: case_prod_beta Let_def split: sum.split)
  moreover have "requests_of env (c # cs) (rs @ rs')" using 1(2) 2(2) by (auto simp: requests_of_def)
  ultimately show ?case using 1 2 by auto
qed (simp add: requests_of_def)

lemma upserted:
  "set (map un_key (foldl upsert_unavailable us vs)) = set (map un_key us) \<union> set (map un_key vs)"
proof (induction vs arbitrary: us)
  case (Cons v vs)
  have "set (map un_key (upsert_unavailable us v)) = insert (un_key v) (set (map un_key us))"
  proof (cases "un_key v \<in> set (map un_key us)")
    case True
    have "map un_key (map (\<lambda>u. if un_key u = un_key v then u\<lparr>un_reason := un_reason v, un_checked_at := un_checked_at v\<rparr> else u) us)
        = map un_key us"
      by (simp add: un_key_def)
    with True show ?thesis unfolding upsert_unavailable_def if_P [OF True] by (simp only: insert_absorb)
  qed (simp add: upsert_unavailable_def)
  with Cons show ?case by simp
qed simp

lemma find_unavailable_iff:
  "c \<in> find_unavailable_codes db codes year reprt
   \<longleftrightarrow> c \<in> set codes \<and> (c, year, reprt) \<in> set (map un_key (dd_unavailable db))"
  by (auto simp: find_unavailable_codes_def un_key_def image_iff)

lemma mark_all:
  assumes "distinct codes"
  shows "\<exists>us. mark_unavailable_bulk now db (map (\<lambda>c. (c, year, reprt, reason)) codes) = Inr (db\<lparr>dd_unavailable := us\<rparr>)
     \<and> set (map un_key us) = set (map un_key (dd_unavailable db)) \<union> (\<lambda>c. (c, year, reprt)) ` set codes"
proof (cases "codes = []")
  case True
  then show ?thesis by (intro exI [of _ "dd_unavailable db"]) (simp add: mark_unavailable_bulk_def)
next
  case False
  let ?marks = "map (\<lambda>c. \<lparr>un_stock_code = c, un_bsns_year = year, un_reprt_code = reprt, un_reason = reason, un_checked_at = now\<rparr>) codes"
  have keys: "map un_key ?marks = map (\<lambda>c. (c, year, reprt)) codes" by (simp add: un_key_def)
  have "distinct (map un_key ?marks)" unfolding keys using assms by (simp add: distinct_map inj_on_def)
  with False have "mark_unavailable_bulk now db (map (\<lambda>c. (c, year, reprt, reason)) codes)
      = Inr (db\<lparr>dd_unavailable := foldl upsert_unavailable (dd_unavailable db) ?marks\<rparr>)"
    by (simp add: mark_unavailable_bulk_def comp_def)
  moreover have "set (map un_key (foldl upsert_unavailable (dd_unavailable db) ?marks))
      = set (map un_key (dd_unavailable db)) \<union> (\<lambda>c. (c, year, reprt)) ` set codes"
    unfolding upserted keys by simp
  ultimately show ?thesis by blast
qed

text \<open>A service that refuses everything, whatever its reason.\<close>

definition refuses_all :: "dart_env \<Rightarrow> bool" where
  "refuses_all env \<longleftrightarrow> (\<forall>c y r f d. case de_service env c y r f d of DartFailure _ \<Rightarrow> False | DartAnswer s _ \<Rightarrow> s \<noteq> ''000'')"

lemma refused_parts:
  assumes "refuses_all env"
  shows "fst (request_parts env corp year reprt fs_div ds w) = Inr []"
proof (induction ds arbitrary: w)
  case (Cons d ds)
  have "\<exists>s rows. de_service env corp year reprt fs_div d = DartAnswer s rows \<and> s \<noteq> ''000''"
    using assms [unfolded refuses_all_def, rule_format, of corp year reprt fs_div d] by (cases "de_service env corp year reprt fs_div d") auto
  then obtain s rows where "de_service env corp year reprt fs_div d = DartAnswer s rows" "s \<noteq> ''000''" by blast
  with Cons [of "w\<lparr>dw_requests := dw_requests w @ [(corp, fs_div, d)]\<rparr>"] show ?case
    by (auto simp: Let_def split: sum.splits prod.splits)
qed simp

lemma refused_statements:
  assumes "refuses_all env" "de_corp_codes env code \<noteq> None"
  shows "\<exists>rs. get_financial_statements env code year reprt fs_div w
      = (Inl (RuntimeError (''no financial statements: '' @ code)), w\<lparr>dw_requests := dw_requests w @ rs\<rparr>)"
proof -
  obtain corp where c: "de_corp_codes env code = Some corp" using assms(2) by blast
  obtain ds' where "snd (request_parts env corp year reprt fs_div [''BS'', ''IS'', ''CF'', ''CIS''] w)
      = w\<lparr>dw_requests := dw_requests w @ map (\<lambda>d. (corp, fs_div, d)) ds'\<rparr>" using request_parts_log by blast
  with refused_parts [OF assms(1), of corp year reprt fs_div "[''BS'', ''IS'', ''CF'', ''CIS'']" w] c
  show ?thesis by (cases "request_parts env corp year reprt fs_div [''BS'', ''IS'', ''CF'', ''CIS''] w")
      (auto simp: get_financial_statements_def)
qed

lemma refused_fetch:
  assumes "refuses_all env" "de_corp_codes env code \<noteq> None"
  shows "\<exists>e rs. fetch_and_store env code year reprt w = (Inl e, w\<lparr>dw_requests := dw_requests w @ rs\<rparr>) \<and> is_runtime_error e"
proof -
  obtain rs where 1: "get_financial_statements env code year reprt ''CFS'' w
      = (Inl (RuntimeError (''no financial statements: '' @ code)), w\<lparr>dw_requests := dw_requests w @ rs\<rparr>)"
    using refused_statements [OF assms] by blast
  obtain rs' where 2: "get_financial_statements env code year reprt ''OFS'' (w\<lparr>dw_requests := dw_requests w @ rs\<rparr>)
      = (Inl (RuntimeError (''no financial statements: '' @ code)), w\<lparr>dw_requests := dw_requests w @ rs @ rs'\<rparr>)"
    using refused_statements [OF assms, of year reprt "''OFS''" "w\<lparr>dw_requests := dw_requests w @ rs\<rparr>"] by auto
  have "is_runtime_error (RuntimeError (''no financial statements: '' @ code))"
    by (simp add: is_runtime_error_def RuntimeError_def)
  with 1 2 show ?thesis by (auto simp: fetch_and_store_def)
qed

lemma refused_missing:
  assumes "refuses_all env" "\<forall>c \<in> set codes. de_corp_codes env c \<noteq> None"
  shows "\<exists>rs. fetch_missing env year reprt codes w
     = (map (\<lambda>c. (c, year, reprt, ''no_data'')) codes, w\<lparr>dw_requests := dw_requests w @ rs\<rparr>)"
  using assms(2)
proof (induction codes arbitrary: w)
  case Nil
  show ?case by (intro exI [of _ "[]"]) simp
next
  case (Cons c cs)
  obtain e rs where 1: "fetch_and_store env c year reprt w = (Inl e, w\<lparr>dw_requests := dw_requests w @ rs\<rparr>)" "is_runtime_error e"
    using refused_fetch [OF assms(1)] Cons.prems by (metis list.set_intros(1))
  obtain rs' where "fetch_missing env year reprt cs (w\<lparr>dw_requests := dw_requests w @ rs\<rparr>)
      = (map (\<lambda>c. (c, year, reprt, ''no_data'')) cs, w\<lparr>dw_requests := dw_requests w @ rs @ rs'\<rparr>)"
    using Cons.IH [of "w\<lparr>dw_requests := dw_requests w @ rs\<rparr>"] Cons.prems by auto
  with 1 show ?case by (intro exI [of _ "rs @ rs'"]) simp
qed

section \<open>Properties\<close>

text \<open>
  A bulk fetch asks DART only about companies of codes that are neither stored nor marked
  unavailable; in particular, when all codes are, it asks nothing and changes nothing.
\<close>

lemma fetch_bulk_requests_missing_only:
  "(\<exists>rs. dw_requests (snd (fetch_and_store_bulk env codes year reprt w)) = dw_requests w @ rs
      \<and> requests_of env (missing_codes (dw_db w) codes year reprt) rs)
   \<and> (set codes \<subseteq> find_existing_stock_codes (dw_db w) codes year reprt \<union> find_unavailable_codes (dw_db w) codes year reprt
      \<longrightarrow> fetch_and_store_bulk env codes year reprt w = (Inr (get_bulk_financial_statements (dw_db w) codes year reprt), w))"
proof (intro conjI impI)
  obtain rs where rs: "dw_requests (snd (fetch_missing env year reprt (missing_codes (dw_db w) codes year reprt) w)) = dw_requests w @ rs"
    "requests_of env (missing_codes (dw_db w) codes year reprt) rs" using fetch_missing_log by blast
  have "dw_requests (snd (fetch_and_store_bulk env codes year reprt w))
      = dw_requests (snd (fetch_missing env year reprt (missing_codes (dw_db w) codes year reprt) w))"
    by (simp add: fetch_and_store_bulk_def case_prod_beta Let_def split: sum.split)
  with rs show "\<exists>rs. dw_requests (snd (fetch_and_store_bulk env codes year reprt w)) = dw_requests w @ rs
      \<and> requests_of env (missing_codes (dw_db w) codes year reprt) rs" by metis
next
  assume "set codes \<subseteq> find_existing_stock_codes (dw_db w) codes year reprt \<union> find_unavailable_codes (dw_db w) codes year reprt"
  then have "missing_codes (dw_db w) codes year reprt = []" by (auto simp: missing_codes_def filter_empty_conv)
  then show "fetch_and_store_bulk env codes year reprt w = (Inr (get_bulk_financial_statements (dw_db w) codes year reprt), w)"
    by (simp add: fetch_and_store_bulk_def mark_unavailable_bulk_def)
qed

text \<open>
  C34. A refusal of DART is final, whatever its reason (an exhausted quota, maintenance): when every
  request is answered with a status other than \<open>000\<close>, every code without statements is marked
  unavailable, and no later run asks about any of them again, even when the service answers.
\<close>

theorem dart_refusal_is_final:
  assumes "distinct codes" and "\<forall>c \<in> set codes. de_corp_codes env c \<noteq> None" and "refuses_all env"
  shows "\<exists>w'. fetch_and_store_bulk env codes year reprt w = (Inr (get_bulk_financial_statements (dw_db w) codes year reprt), w')
     \<and> dd_statements (dw_db w') = dd_statements (dw_db w)
     \<and> (\<forall>env'. fetch_and_store_bulk env' codes year reprt w' = (Inr (get_bulk_financial_statements (dw_db w) codes year reprt), w'))"
proof -
  let ?missing = "missing_codes (dw_db w) codes year reprt"
  have m: "distinct ?missing" "\<forall>c \<in> set ?missing. de_corp_codes env c \<noteq> None"
    using assms(1,2) by (auto simp: missing_codes_def)
  obtain rs where f: "fetch_missing env year reprt ?missing w
      = (map (\<lambda>c. (c, year, reprt, ''no_data'')) ?missing, w\<lparr>dw_requests := dw_requests w @ rs\<rparr>)"
    using refused_missing [OF assms(3) m(2)] by blast
  obtain us where us: "mark_unavailable_bulk (de_now env) (dw_db w) (map (\<lambda>c. (c, year, reprt, ''no_data'')) ?missing)
      = Inr ((dw_db w)\<lparr>dd_unavailable := us\<rparr>)"
    "set (map un_key us) = set (map un_key (dd_unavailable (dw_db w))) \<union> (\<lambda>c. (c, year, reprt)) ` set ?missing"
    using mark_all [OF m(1)] by blast
  define w' where "w' = w\<lparr>dw_requests := dw_requests w @ rs, dw_db := (dw_db w)\<lparr>dd_unavailable := us\<rparr>\<rparr>"
  have same: "get_bulk_financial_statements (dw_db w') codes year reprt = get_bulk_financial_statements (dw_db w) codes year reprt"
    by (simp add: w'_def get_bulk_financial_statements_def find_by_stock_codes_def)
  have run: "fetch_and_store_bulk env codes year reprt w = (Inr (get_bulk_financial_statements (dw_db w) codes year reprt), w')"
    using f us(1) same by (simp add: fetch_and_store_bulk_def w'_def)
  have "missing_codes (dw_db w') codes year reprt = []"
    using us(2) by (auto simp: missing_codes_def filter_empty_conv find_unavailable_iff find_existing_stock_codes_def
        find_by_stock_codes_def w'_def)
  then have "fetch_and_store_bulk env' codes year reprt w' = (Inr (get_bulk_financial_statements (dw_db w) codes year reprt), w')" for env'
    using same by (simp add: fetch_and_store_bulk_def mark_unavailable_bulk_def)
  with run show ?thesis by (intro exI [of _ w']) (simp add: w'_def)
qed

text \<open>A service out of quota (status \<open>020\<close>).\<close>

definition exhausted_env :: dart_env where
  "exhausted_env = \<lparr>de_now = 0, de_corp_codes = (\<lambda>_. Some ''00126380''), de_service = (\<lambda>_ _ _ _ _. DartAnswer ''020'' [])\<rparr>"

definition empty_dart :: dart_world where
  "empty_dart = \<lparr>dw_db = \<lparr>dd_statements = [], dd_unavailable = []\<rparr>, dw_requests = []\<rparr>"

theorem dart_refusal_is_final_witness:
  "\<exists>w'. fetch_and_store_bulk exhausted_env [''005930''] ''2024'' ''11011'' empty_dart = (Inr [], w')
     \<and> (\<forall>env'. fetch_and_store_bulk env' [''005930''] ''2024'' ''11011'' w' = (Inr [], w'))"
proof -
  have "get_bulk_financial_statements (dw_db empty_dart) [''005930''] ''2024'' ''11011'' = []"
    by (simp add: empty_dart_def get_bulk_financial_statements_def find_by_stock_codes_def)
  moreover have "refuses_all exhausted_env" by (simp add: refuses_all_def exhausted_env_def)
  moreover have "\<forall>c \<in> set [''005930'']. de_corp_codes exhausted_env c \<noteq> None" by (simp add: exhausted_env_def)
  ultimately show ?thesis
    using dart_refusal_is_final [of "[''005930'']" exhausted_env "''2024''" "''11011''" empty_dart] by auto
qed

end
