(* ===== verification/Fscore.thy ===== *)
theory Fscore
  imports Dart Universe Py_Time
begin

text \<open>
  The F-score screener: \<^verbatim>\<open>app/strategy/screener/fscore.py\<close> over \<^verbatim>\<open>app/strategy/screener/base_screener.py\<close>.
  The nine criteria of a stock from its statements, the weighted score, and the screening of a
  universe.  Dates are day numbers; the universe builder is an argument, as in the code.
\<close>

section \<open>Configuration\<close>

definition DEFAULT_METRICS :: "(str \<times> str \<times> rat) list" where
  "DEFAULT_METRICS =
     [(''f_roa'', ''P'', 1), (''f_cfo'', ''P'', 1), (''f_delta_roa'', ''P'', 1), (''f_accrual'', ''P'', 1),
      (''f_delta_lever'', ''F'', 1), (''f_delta_liquid'', ''F'', 1), (''f_eq_offer'', ''F'', 1),
      (''f_delta_margin'', ''O'', 1), (''f_delta_turnover'', ''O'', 1)]"

record fscore_config =
  fc_threshold :: rat
  fc_enabled_categories :: "str list"
  fc_metric_config :: "(str \<times> str \<times> rat) list"

text \<open>\<open>FScore(threshold, enabled_categories, metric_weights)\<close>; an empty set counts as not given.\<close>

definition new_fscore :: "rat \<Rightarrow> str list option \<Rightarrow> (str \<times> rat) list option \<Rightarrow> fscore_config" where
  "new_fscore threshold enabled_categories metric_weights =
     \<lparr>fc_threshold = threshold,
      fc_enabled_categories = (case enabled_categories of Some (c # cs) \<Rightarrow> c # cs | _ \<Rightarrow> [''P'', ''F'', ''O'']),
      fc_metric_config =
        map (\<lambda>(name, category, weight).
               (name, category, case metric_weights of
                                  None \<Rightarrow> weight
                                | Some ws \<Rightarrow> (case map_of (rev ws) name of None \<Rightarrow> weight | Some v \<Rightarrow> v))) DEFAULT_METRICS\<rparr>"

definition is_metric_enabled :: "fscore_config \<Rightarrow> str \<Rightarrow> bool" where
  "is_metric_enabled cfg metric_name =
     (case map_of (fc_metric_config cfg) metric_name of
        None \<Rightarrow> False | Some (category, _) \<Rightarrow> category \<in> set (fc_enabled_categories cfg))"

definition get_metric_weight :: "fscore_config \<Rightarrow> str \<Rightarrow> rat" where
  "get_metric_weight cfg metric_name =
     (case map_of (fc_metric_config cfg) metric_name of None \<Rightarrow> 0 | Some (_, weight) \<Rightarrow> weight)"

section \<open>Reading statements\<close>

datatype term_column = Thstrm | Frmtrm

fun term_amount :: "term_column \<Rightarrow> frame_row \<Rightarrow> amount" where
  "term_amount Thstrm r = fr_thstrm_amount r"
| "term_amount Frmtrm r = fr_frmtrm_amount r"

text \<open>The first row of an account; the income statement falls back to the comprehensive one.\<close>

definition get_amount :: "frame_row list \<Rightarrow> str \<Rightarrow> str \<Rightarrow> term_column \<Rightarrow> amount" where
  "get_amount df_fs sj_div account_id col =
     (let rows = filter (\<lambda>r. fr_sj_div r = sj_div \<and> fr_account_id r = account_id) df_fs;
          rows' = (if rows = [] \<and> sj_div = ''IS''
                   then filter (\<lambda>r. fr_sj_div r = ''CIS'' \<and> fr_account_id r = account_id) df_fs else rows)
      in case rows' of [] \<Rightarrow> None | r # _ \<Rightarrow> term_amount col r)"

text \<open>\<open>a / b\<close> and \<open>a <= b\<close> of amounts: \<open>None\<close> is no number.\<close>

definition div_amount :: "amount \<Rightarrow> amount \<Rightarrow> pfloat result" where
  "div_amount a b =
     (case (a, b) of
        (Some x, Some y) \<Rightarrow> Inr (np_div x y)
      | _ \<Rightarrow> Inl (TypeError ''unsupported operand type(s) for /''))"

definition le_amount :: "amount \<Rightarrow> amount \<Rightarrow> bool result" where
  "le_amount a b =
     (case (a, b) of
        (Some x, Some y) \<Rightarrow> Inr (cell_le x y)
      | _ \<Rightarrow> Inl (TypeError ''<= not supported between these instances''))"

definition amount_true :: "amount \<Rightarrow> bool" where
  "amount_true a = (case a of None \<Rightarrow> False | Some x \<Rightarrow> cell_true x)"

text \<open>\<open>a / b if b else 0\<close>, and \<open>a / b\<close> when both are there and \<open>b\<close> is not 0.\<close>

definition ratio_if :: "amount \<Rightarrow> amount \<Rightarrow> pfloat result" where
  "ratio_if a b = (if amount_true b then div_amount a b else Inr (Num 0))"

definition ratio_given :: "amount \<Rightarrow> amount \<Rightarrow> pfloat" where
  "ratio_given a b =
     (case (a, b) of (Some x, Some y) \<Rightarrow> if y = Some 0 then Num 0 else np_div x y | _ \<Rightarrow> Num 0)"

section \<open>The score\<close>

record fscore_row =
  fq_code :: str
  fq_fscore :: rat
  fq_equity :: cell
  fq_raw :: "(str \<times> bool) list"
  fq_weighted :: "(str \<times> rat) list"

definition required_amounts :: "frame_row list \<Rightarrow> amount list" where
  "required_amounts df =
     [get_amount df ''BS'' ''ifrs-full_Assets'' Thstrm, get_amount df ''BS'' ''ifrs-full_Assets'' Frmtrm,
      get_amount df ''BS'' ''ifrs-full_Equity'' Thstrm, get_amount df ''BS'' ''ifrs-full_Equity'' Frmtrm,
      get_amount df ''IS'' ''ifrs-full_ProfitLoss'' Thstrm, get_amount df ''IS'' ''ifrs-full_ProfitLoss'' Frmtrm,
      get_amount df ''CF'' ''ifrs-full_CashFlowsFromUsedInOperatingActivities'' Thstrm]"

definition pf_positive :: "amount \<Rightarrow> bool" where
  "pf_positive a = (case a of Some (Some x) \<Rightarrow> 0 < x | _ \<Rightarrow> False)"

text \<open>The nine criteria.\<close>

definition raw_scores :: "frame_row list \<Rightarrow> (str \<times> bool) list result" where
  "raw_scores df =
     (let bs = get_amount df ''BS''; inc = get_amount df ''IS'';
          assets = bs ''ifrs-full_Assets''; current_assets = bs ''ifrs-full_CurrentAssets'';
          current_liab = bs ''ifrs-full_CurrentLiabilities''; liab = bs ''ifrs-full_Liabilities'';
          equity = bs ''ifrs-full_Equity''; capital = bs ''ifrs-full_IssuedCapital'';
          revenue = inc ''ifrs-full_Revenue''; gross = inc ''ifrs-full_GrossProfit''; net = inc ''ifrs-full_ProfitLoss'';
          cfo = get_amount df ''CF'' ''ifrs-full_CashFlowsFromUsedInOperatingActivities'' Thstrm
      in bind_result (div_amount (net Thstrm) (assets Thstrm)) (\<lambda>roa_cur.
         bind_result (div_amount (net Frmtrm) (assets Frmtrm)) (\<lambda>roa_prev.
         bind_result (div_amount cfo (assets Thstrm)) (\<lambda>cfo_ratio.
         bind_result (ratio_if (liab Thstrm) (equity Thstrm)) (\<lambda>leverage_cur.
         bind_result (ratio_if (liab Frmtrm) (equity Frmtrm)) (\<lambda>leverage_prev.
         bind_result (ratio_if (current_assets Thstrm) (current_liab Thstrm)) (\<lambda>current_cur.
         bind_result (ratio_if (current_assets Frmtrm) (current_liab Frmtrm)) (\<lambda>current_prev.
         bind_result (le_amount (capital Thstrm) (capital Frmtrm)) (\<lambda>no_offer.
           Inr [(''f_roa'', pf_less (Num 0) roa_cur),
                (''f_cfo'', pf_positive cfo),
                (''f_delta_roa'', pf_less roa_prev roa_cur),
                (''f_accrual'', pf_less roa_cur cfo_ratio),
                (''f_delta_lever'', pf_less leverage_cur leverage_prev),
                (''f_delta_liquid'', pf_less current_prev current_cur),
                (''f_eq_offer'', no_offer),
                (''f_delta_margin'',
                   pf_less (ratio_given (gross Frmtrm) (revenue Frmtrm)) (ratio_given (gross Thstrm) (revenue Thstrm))),
                (''f_delta_turnover'',
                   pf_less (ratio_given (revenue Frmtrm) (assets Frmtrm)) (ratio_given (revenue Thstrm) (assets Thstrm)))])))))))))"

definition weighted_scores :: "fscore_config \<Rightarrow> (str \<times> bool) list \<Rightarrow> (str \<times> rat) list" where
  "weighted_scores cfg raw =
     map (\<lambda>(name, hit). (name, if is_metric_enabled cfg name \<and> hit then get_metric_weight cfg name else 0)) raw"

definition float_sum :: "rat list \<Rightarrow> rat" where
  "float_sum xs = foldl (\<lambda>s x. fl (s + x)) 0 xs"

definition calculate_fscore :: "fscore_config \<Rightarrow> str \<Rightarrow> frame_row list \<Rightarrow> fscore_row result" where
  "calculate_fscore cfg code df_fs =
     (if None \<in> set (required_amounts df_fs) then Inl (ValueError ''required accounts missing'')
      else bind_result (raw_scores df_fs) (\<lambda>raw.
        let weighted = weighted_scores cfg raw
        in Inr \<lparr>fq_code = code, fq_fscore = float_sum (map snd weighted),
                fq_equity = (case get_amount df_fs ''BS'' ''ifrs-full_Equity'' Thstrm of None \<Rightarrow> None | Some x \<Rightarrow> x),
                fq_raw = raw, fq_weighted = weighted\<rparr>))"

section \<open>Screening\<close>

definition DISCLOSURE_MONTH :: int where "DISCLOSURE_MONTH = 4"

definition validate_lookahead :: "int \<Rightarrow> int option \<Rightarrow> int \<Rightarrow> unit result" where
  "validate_lookahead today as_of_date year =
     (let disclosure_date = day_of (year + 1) DISCLOSURE_MONTH 1;
          ref_date = (case as_of_date of None \<Rightarrow> today | Some d \<Rightarrow> d)
      in if ref_date < disclosure_date
         then Inl (ValueError ''the annual report of this year is not published yet'') else Inr ())"

record screened =
  sc_score :: fscore_row
  sc_name :: "str option"
  sc_marcap :: cell
  sc_pbr :: pfloat

text \<open>The left merge with the universe on the code.\<close>

definition merge_universe :: "listing list \<Rightarrow> fscore_row \<Rightarrow> screened list" where
  "merge_universe universe s =
     (case filter (\<lambda>u. ls_code u = fq_code s) universe of
        [] \<Rightarrow> [\<lparr>sc_score = s, sc_name = None, sc_marcap = None, sc_pbr = np_div None (fq_equity s)\<rparr>]
      | us \<Rightarrow> map (\<lambda>u. \<lparr>sc_score = s, sc_name = Some (ls_name u), sc_marcap = ls_marcap u,
                       sc_pbr = np_div (ls_marcap u) (fq_equity s)\<rparr>) us)"

definition scored :: "fscore_config \<Rightarrow> (str \<times> frame_row list) list \<Rightarrow> fscore_row list" where
  "scored cfg financial_data =
     List.map_filter (\<lambda>(code, df). case calculate_fscore cfg code df of Inl _ \<Rightarrow> None | Inr s \<Rightarrow> Some s) financial_data"

text \<open>A frame of no rows has no column \<open>fscore\<close>.\<close>

definition screen ::
  "fscore_config \<Rightarrow> dart_env \<Rightarrow> listing list result \<Rightarrow> int \<Rightarrow> int \<Rightarrow> int option \<Rightarrow> dart_world \<Rightarrow>
   screened list result \<times> dart_world" where
  "screen cfg env universe_builder today year as_of_date w =
     (case validate_lookahead today as_of_date year of
        Inl e \<Rightarrow> (Inl e, w)
      | Inr _ \<Rightarrow>
          (case universe_builder of
             Inl e \<Rightarrow> (Inl e, w)
           | Inr df \<Rightarrow>
               (let universe = apply_base_filters df True None
                in case fetch_and_store_bulk env (map ls_code universe) (show_int year) ''11011'' w of
                     (Inl e, w1) \<Rightarrow> (Inl e, w1)
                   | (Inr financial_data, w1) \<Rightarrow>
                       (let results = scored cfg financial_data
                        in if results = [] then (Inl (LibError ''KeyError'' ''fscore''), w1)
                           else (Inr (concat (map (merge_universe universe)
                                   (filter (\<lambda>s. fc_threshold cfg \<le> fq_fscore s) results))), w1)))))"

section \<open>Lemmas\<close>

lemma float_sum_ints:
  assumes "\<forall>x \<in> set xs. x = 0 \<or> x = 1" and "length xs < 2 ^ 52"
  shows "float_sum xs = of_nat (length (filter (\<lambda>x. x = 1) xs))"
  using assms
proof (induction xs rule: rev_induct)
  case (snoc x xs)
  have "float_sum xs = of_nat (length (filter (\<lambda>x. x = 1) xs))" using snoc by simp
  then have "float_sum (xs @ [x]) = fl (of_nat (length (filter (\<lambda>x. x = 1) xs)) + x)" by (simp add: float_sum_def)
  also have "of_nat (length (filter (\<lambda>x. x = 1) xs)) + x = of_int (int (length (filter (\<lambda>x. x = 1) (xs @ [x]))))"
    using snoc.prems(1) by auto
  also have "fl \<dots> = of_int (int (length (filter (\<lambda>x. x = 1) (xs @ [x]))))"
  proof (rule fl_of_int)
    have "int (length (filter (\<lambda>x. x = 1) (xs @ [x]))) \<le> int (length (xs @ [x]))"
      by (simp only: of_nat_le_iff length_filter_le)
    then show "\<bar>int (length (filter (\<lambda>x. x = 1) (xs @ [x])))\<bar> < 2 ^ 53" using snoc.prems(2) by simp
  qed
  finally show ?case by simp
qed (simp add: float_sum_def)

lemma raw_scores_names:
  "raw_scores df = Inr raw \<Longrightarrow> map fst raw = map fst DEFAULT_METRICS"
  by (auto simp: raw_scores_def bind_result_Inr_iff Let_def DEFAULT_METRICS_def)

lemma default_weights:
  assumes "name \<in> set (map fst DEFAULT_METRICS)"
  shows "is_metric_enabled (new_fscore t None None) name \<and> get_metric_weight (new_fscore t None None) name = 1"
  using assms
  by (auto simp: is_metric_enabled_def get_metric_weight_def new_fscore_def DEFAULT_METRICS_def)

lemma default_score:
  assumes "calculate_fscore (new_fscore t None None) code df = Inr s"
  shows "fq_fscore s = of_nat (length (filter snd (fq_raw s)))" and "length (fq_raw s) = 9" and "fq_code s = code"
proof -
  from assms obtain raw where raw: "raw_scores df = Inr raw" and s: "fq_raw s = raw" "fq_code s = code"
    "fq_fscore s = float_sum (map snd (weighted_scores (new_fscore t None None) raw))"
    by (auto simp: calculate_fscore_def bind_result_Inr_iff Let_def split: if_splits)
  note names = raw_scores_names [OF raw]
  have "length raw = length (map fst raw)" by simp
  also have "\<dots> = 9" by (simp add: names DEFAULT_METRICS_def)
  finally have len: "length raw = 9" .
  with s show "length (fq_raw s) = 9" "fq_code s = code" by simp_all
  have w: "map snd (weighted_scores (new_fscore t None None) raw) = map (\<lambda>p. if snd p then 1 else 0) raw"
  proof -
    have "fst p \<in> set (map fst DEFAULT_METRICS)" if "p \<in> set raw" for p
      unfolding names [symmetric] using that by simp
    with default_weights [of _ t] show ?thesis
      unfolding weighted_scores_def map_map by (intro map_cong) (auto simp: case_prod_beta)
  qed
  have "float_sum (map (\<lambda>p. if snd p then 1 else 0) raw) = of_nat (length (filter snd raw))"
    by (subst float_sum_ints) (auto simp: len filter_map comp_def)
  with s w show "fq_fscore s = of_nat (length (filter snd (fq_raw s)))" by simp
qed

lemma bulk_codes:
  assumes "(code, df) \<in> set (get_bulk_financial_statements db codes year reprt)"
  shows "code \<in> set codes"
  using assms by (auto simp: get_bulk_financial_statements_def find_by_stock_codes_def Let_def)

lemma fetched_codes:
  assumes "fetch_and_store_bulk env codes year reprt w = (Inr frames, w')"
  shows "frames = get_bulk_financial_statements (dw_db w') codes year reprt"
  using assms by (auto simp: fetch_and_store_bulk_def split: prod.splits sum.splits)

lemma scored_rows:
  "s \<in> set (scored cfg frames) \<longleftrightarrow> (\<exists>code df. (code, df) \<in> set frames \<and> calculate_fscore cfg code df = Inr s)"
  by (auto simp: scored_def map_filter_def split: sum.splits prod.splits) force+

lemma score_code: "calculate_fscore cfg code df = Inr s \<Longrightarrow> fq_code s = code"
  by (auto simp: calculate_fscore_def bind_result_Inr_iff Let_def split: if_splits)

lemma merged_rows:
  assumes "r \<in> set (merge_universe universe s)" and "u \<in> set universe" and "ls_code u = fq_code s"
  shows "sc_score r = s \<and> (\<exists>u \<in> set universe. ls_code u = fq_code s \<and> sc_name r = Some (ls_name u)
           \<and> sc_marcap r = ls_marcap u \<and> sc_pbr r = np_div (ls_marcap u) (fq_equity s))"
proof -
  have "filter (\<lambda>u. ls_code u = fq_code s) universe \<noteq> []" using assms(2,3) by (auto simp: filter_empty_conv)
  then obtain v vs where vs: "filter (\<lambda>u. ls_code u = fq_code s) universe = v # vs" by (meson neq_Nil_conv)
  then have "set (v # vs) = {u \<in> set universe. ls_code u = fq_code s}" by (metis set_filter)
  with assms(1) vs show ?thesis by (auto simp: merge_universe_def)
qed

section \<open>Properties\<close>

text \<open>
  C14. What the screener lets through: nothing before the annual report of the year is published; every
  row is a tradable listing of the universe (six digits ending in 0, on a main market, not
  blacklisted) with its name and price-to-book ratio, whose score, computed from its own stored
  statements, reaches the threshold; with the default configuration the score is the number of
  criteria met, at most nine.
\<close>

theorem screen_sound:
  assumes "screen cfg env (Inr df) today year as_of_date w = (Inr rows, w')" and "r \<in> set rows"
  shows "day_of (year + 1) 4 1 \<le> (case as_of_date of None \<Rightarrow> today | Some d \<Rightarrow> d)
    \<and> fc_threshold cfg \<le> fq_fscore (sc_score r)
    \<and> (\<exists>u \<in> set df. tradable u \<and> ls_code u = fq_code (sc_score r) \<and> sc_name r = Some (ls_name u)
         \<and> sc_pbr r = np_div (ls_marcap u) (fq_equity (sc_score r)))
    \<and> (\<exists>frame. (fq_code (sc_score r), frame)
           \<in> set (get_bulk_financial_statements (dw_db w') (map ls_code (filter tradable df)) (show_int year) ''11011'')
         \<and> calculate_fscore cfg (fq_code (sc_score r)) frame = Inr (sc_score r))
    \<and> (cfg = new_fscore t None None \<longrightarrow>
         fq_fscore (sc_score r) = of_nat (length (filter snd (fq_raw (sc_score r)))) \<and> fq_fscore (sc_score r) \<le> 9)"
proof -
  define universe where "universe = filter tradable df"
  obtain frames where look: "validate_lookahead today as_of_date year = Inr ()"
    and f: "fetch_and_store_bulk env (map ls_code universe) (show_int year) ''11011'' w = (Inr frames, w')"
    and rows: "rows = concat (map (merge_universe universe)
                 (filter (\<lambda>s. fc_threshold cfg \<le> fq_fscore s) (scored cfg frames)))"
    using assms(1)
    by (auto simp: screen_def universe_def base_filters_exact Let_def split: sum.splits prod.splits if_splits)
  from assms(2) rows obtain s where s: "s \<in> set (scored cfg frames)" "fc_threshold cfg \<le> fq_fscore s"
    and r: "r \<in> set (merge_universe universe s)" by auto
  from s(1) obtain frame where frame: "(fq_code s, frame) \<in> set frames" "calculate_fscore cfg (fq_code s) frame = Inr s"
    using score_code unfolding scored_rows by metis
  note fetched = fetched_codes [OF f]
  from frame(1) have "fq_code s \<in> set (map ls_code universe)" unfolding fetched by (rule bulk_codes)
  then obtain u where "u \<in> set universe" "ls_code u = fq_code s" by auto
  from merged_rows [OF r this] have m: "sc_score r = s" "\<exists>u \<in> set universe. ls_code u = fq_code s \<and> sc_name r = Some (ls_name u)
           \<and> sc_marcap r = ls_marcap u \<and> sc_pbr r = np_div (ls_marcap u) (fq_equity s)" by simp_all
  have "fq_fscore s = of_nat (length (filter snd (fq_raw s))) \<and> fq_fscore s \<le> 9" if "cfg = new_fscore t None None"
  proof -
    note d = default_score [OF frame(2) [unfolded that]]
    have "length (filter snd (fq_raw s)) \<le> 9" using d(2) length_filter_le [of snd "fq_raw s"] by simp
    then have "(of_nat (length (filter snd (fq_raw s))) :: rat) \<le> of_nat 9" unfolding of_nat_le_iff .
    with d(1) show ?thesis by simp
  qed
  moreover have "day_of (year + 1) 4 1 \<le> (case as_of_date of None \<Rightarrow> today | Some d \<Rightarrow> d)"
    using look by (simp add: validate_lookahead_def Let_def DISCLOSURE_MONTH_def split: if_splits)
  moreover have "\<exists>u \<in> set df. tradable u \<and> ls_code u = fq_code s \<and> sc_name r = Some (ls_name u)
         \<and> sc_pbr r = np_div (ls_marcap u) (fq_equity s)"
    using m(2) by (auto simp: universe_def)
  ultimately show ?thesis
    using s(2) frame unfolding m(1) universe_def [symmetric] fetched by blast
qed

text \<open>A universe of one listing whose statements are stored.\<close>

definition example_listing :: listing where
  "example_listing = \<lparr>ls_code = ''005930'', ls_name = ''A'', ls_market = ''KOSPI'', ls_marcap = Some 8,
     ls_amount = None, ls_change_ratio = None\<rparr>"

definition example_account :: "str \<Rightarrow> str \<Rightarrow> int \<Rightarrow> int \<Rightarrow> fs_row" where
  "example_account sj acc cur prev =
     \<lparr>fs_rcept_no = ''1'', fs_sj_div = sj, fs_account_id = acc, fs_reprt_code = ''11011'', fs_bsns_year = ''2024'',
      fs_stock_code = ''005930'', fs_thstrm_amount = Some cur, fs_frmtrm_amount = Some prev\<rparr>"

definition example_statements :: "fs_row list" where
  "example_statements =
     [example_account ''BS'' ''ifrs-full_Assets'' 4 4, example_account ''BS'' ''ifrs-full_Equity'' 2 2,
      example_account ''BS'' ''ifrs-full_Liabilities'' 2 4, example_account ''BS'' ''ifrs-full_IssuedCapital'' 1 1,
      example_account ''IS'' ''ifrs-full_ProfitLoss'' 1 0, example_account ''IS'' ''ifrs-full_Revenue'' 4 2,
      example_account ''CF'' ''ifrs-full_CashFlowsFromUsedInOperatingActivities'' 2 1]"

definition stored_dart :: dart_world where
  "stored_dart = \<lparr>dw_db = \<lparr>dd_statements = example_statements, dd_unavailable = []\<rparr>, dw_requests = []\<rparr>"

lemma example_score:
  "map_sum id (\<lambda>s. (fq_fscore s, fq_equity s))
     (calculate_fscore (new_fscore 7 None None) ''005930'' (map (frame_of example_statements) example_statements)) = Inr (7, Some 2)"
  by code_simp

lemma example_screen:
  "map_prod (map_sum id (map (\<lambda>r. (fq_fscore (sc_score r), sc_pbr r)))) dw_requests
     (screen (new_fscore 7 None None) exhausted_env (Inr [example_listing]) 20300 2024 None stored_dart) = (Inr [(7, Num 4)], [])"
  by code_simp

theorem screen_sound_witness:
  "\<exists>r w'. screen (new_fscore 7 None None) exhausted_env (Inr [example_listing]) 20300 2024 None stored_dart = (Inr [r], w')
     \<and> fq_fscore (sc_score r) = of_nat (length (filter snd (fq_raw (sc_score r)))) \<and> fq_fscore (sc_score r) = 7"
proof -
  obtain r w' where r: "screen (new_fscore 7 None None) exhausted_env (Inr [example_listing]) 20300 2024 None stored_dart = (Inr [r], w')"
    "fq_fscore (sc_score r) = 7"
    using example_screen
    by (cases "screen (new_fscore 7 None None) exhausted_env (Inr [example_listing]) 20300 2024 None stored_dart")
      (auto simp: map_sum_def split: sum.splits)
  from screen_sound [OF r(1), of r 7] r show ?thesis by auto
qed

end
