(* ===== verification/Momentum.thy ===== *)
theory Momentum
  imports Fscore Rebalance_Executor
begin

text \<open>
  The strategy that runs: the dual momentum signal of \<^verbatim>\<open>app/strategy/signals/momentum.py\<close>, the strategy of
  \<^verbatim>\<open>app/strategy/strategies/piotroski_momentum_strategy.py\<close> (screening, prices, signal, intents) and its
  factory \<open>get_default_strategy\<close> of \<^verbatim>\<open>app/api/router_strategy.py\<close>.  Prices come from FinanceDataReader, a
  parameter from a code and two days to the closes between them; its disk cache is left out.
\<close>

section \<open>Signal\<close>

datatype strategy_signal = SignalBUY | SignalSELL | SignalHOLD

record momentum_config =
  mc_lookback_days :: int
  mc_top_n :: int
  mc_abs_threshold :: rat

record signal_row =
  sg_code :: str
  sg_return :: pfloat
  sg_rank :: cell
  sg_signal :: strategy_signal

definition cell_minus :: "cell \<Rightarrow> cell \<Rightarrow> cell" where
  "cell_minus a b = (case (a, b) of (Some x, Some y) \<Rightarrow> Some (fl (x - y)) | _ \<Rightarrow> None)"

text \<open>The return over the look-back window; codes with too few closes are skipped.\<close>

definition lookback_return :: "int \<Rightarrow> cell list \<Rightarrow> pfloat option result" where
  "lookback_return lookback_days closes =
     (if int (length closes) < lookback_days then Inr None
      else (let recent = py_from (- lookback_days) closes
            in if recent = [] then Inl (LibError ''IndexError'' ''single positional indexer is out-of-bounds'')
               else Inr (Some (np_div (cell_minus (last recent) (hd recent)) (hd recent)))))"

fun lookback_returns :: "int \<Rightarrow> (str \<times> cell list) list \<Rightarrow> (str \<times> pfloat) list result" where
  "lookback_returns lookback_days [] = Inr []"
| "lookback_returns lookback_days ((code, closes) # data) =
     bind_result (lookback_return lookback_days closes) (\<lambda>ret.
       bind_result (lookback_returns lookback_days data) (\<lambda>rest.
         Inr (case ret of None \<Rightarrow> rest | Some r \<Rightarrow> (code, r) # rest)))"

definition signal_of :: "momentum_config \<Rightarrow> (str \<times> pfloat) list \<Rightarrow> str \<times> pfloat \<Rightarrow> signal_row" where
  "signal_of cfg returns x =
     (let rank = rank_desc (map snd returns) (snd x)
      in \<lparr>sg_code = fst x, sg_return = snd x, sg_rank = rank,
          sg_signal = (if cell_le rank (Some (of_int (mc_top_n cfg))) \<and> pf_less (Num (mc_abs_threshold cfg)) (snd x)
                       then SignalBUY else SignalSELL)\<rparr>)"

definition generate_signal ::
  "(rat list \<Rightarrow> nat list) \<Rightarrow> momentum_config \<Rightarrow> (str \<times> cell list) list \<Rightarrow> signal_row list result" where
  "generate_signal argsort cfg data =
     bind_result (lookback_returns (mc_lookback_days cfg) data) (\<lambda>returns.
       if returns = [] then Inr []
       else Inr (sort_values argsort True sg_rank (map (signal_of cfg returns) returns)))"

section \<open>The strategy\<close>

text \<open>\<open>day - BDay(n)\<close>: \<open>n\<close> weekdays back (1970-01-01 was a Thursday).\<close>

definition weekday :: "int \<Rightarrow> int" where "weekday d = (d + 3) mod 7"

definition prev_weekday :: "int \<Rightarrow> int" where
  "prev_weekday d = (if weekday d = 0 then d - 3 else if weekday d = 6 then d - 2 else d - 1)"

definition bday_minus :: "int \<Rightarrow> nat \<Rightarrow> int" where "bday_minus d n = (prev_weekday ^^ n) d"

type_synonym price_source = "str \<Rightarrow> int \<Rightarrow> int \<Rightarrow> cell list result"

definition load_ohlcv :: "momentum_config \<Rightarrow> price_source \<Rightarrow> int \<Rightarrow> str list \<Rightarrow> (str \<times> cell list) list" where
  "load_ohlcv cfg get_ohlcv today stock_codes =
     (let start = bday_minus today (nat (mc_lookback_days cfg + 30))
      in dict_of (List.map_filter (\<lambda>code. case get_ohlcv code start today of
                    Inl _ \<Rightarrow> None
                  | Inr closes \<Rightarrow> if closes = [] then None else Some (code, closes)) stock_codes))"

definition int_of_cell :: "cell \<Rightarrow> int result" where
  "int_of_cell x = (case x of None \<Rightarrow> Inl (ValueError ''cannot convert float NaN to integer'') | Some v \<Rightarrow> Inr (int_of_float v))"

definition price_of_code :: "(str \<times> cell list) list \<Rightarrow> str \<Rightarrow> int option result" where
  "price_of_code data code =
     (case map_of data code of
        None \<Rightarrow> Inr None
      | Some closes \<Rightarrow> if closes = [] then Inr None else bind_result (int_of_cell (last closes)) (\<lambda>p. Inr (Some p)))"

fun build_intents :: "nat \<Rightarrow> (str \<times> cell list) list \<Rightarrow> (str \<times> str) list \<Rightarrow> signal_row list \<Rightarrow> trade_intent list result" where
  "build_intents buy_count data name_map [] = Inr []"
| "build_intents buy_count data name_map (s # signals) =
     bind_result (price_of_code data (sg_code s)) (\<lambda>price.
       bind_result (int_of_cell (sg_rank s)) (\<lambda>rank.
         bind_result (build_intents buy_count data name_map signals) (\<lambda>rest.
           Inr (\<lparr>ti_stock_code = sg_code s,
                 ti_stock_name = (case map_of name_map (sg_code s) of None \<Rightarrow> sg_code s | Some n \<Rightarrow> n),
                 ti_side = SideBUY, ti_weight = Some (fl (1 / of_nat buy_count)), ti_quantity = None,
                 ti_price_hint = price, ti_reason = ''f_score>=threshold, momentum_rank='' @ show_int rank,
                 ti_metadata = [(''momentum_return'', finite_part (sg_return s)), (''momentum_rank'', of_int rank)]\<rparr> # rest))))"

definition build_trade_intents ::
  "(str \<times> cell list) list \<Rightarrow> (str \<times> str) list \<Rightarrow> signal_row list \<Rightarrow> trade_intent list result" where
  "build_trade_intents data name_map buy_signals = build_intents (length buy_signals) data name_map buy_signals"

record strategy_env =
  se_dart :: dart_env
  se_listing :: listing_source
  se_prices :: price_source
  se_argsort :: "rat list \<Rightarrow> nat list"
  se_today :: int

definition new_result :: "int \<Rightarrow> trade_intent list \<Rightarrow> strategy_result" where
  "new_result universe_count orders =
     \<lparr>sr_strategy_type = StrategyREBALANCE, sr_strategy_name = ''PiotroskiMomentumStrategy'', sr_orders = orders,
      sr_universe_count = Some universe_count, sr_screener_name = None, sr_strategy_params = None\<rparr>"

text \<open>What follows the screening: prices, signal, intents.\<close>

definition select_and_intend ::
  "momentum_config \<Rightarrow> strategy_env \<Rightarrow> screened list \<Rightarrow> strategy_result result" where
  "select_and_intend cfg env df_universe =
     (if df_universe = [] then Inr (new_result 0 [])
      else (let stock_codes = map (\<lambda>r. fq_code (sc_score r)) df_universe;
                name_map = dict_of (zip stock_codes (map (\<lambda>r. case sc_name r of None \<Rightarrow> ''nan'' | Some n \<Rightarrow> n) df_universe));
                data = load_ohlcv cfg (se_prices env) (se_today env) stock_codes
            in bind_result (generate_signal (se_argsort env) cfg data) (\<lambda>signal_df.
                 bind_result (build_trade_intents data name_map (filter (\<lambda>s. sg_signal s = SignalBUY) signal_df)) (\<lambda>orders.
                   Inr (new_result (int (length df_universe)) orders)))))"

definition piotroski_execute ::
  "fscore_config \<Rightarrow> listing list result \<Rightarrow> momentum_config \<Rightarrow> strategy_env \<Rightarrow> int \<Rightarrow> dart_world \<Rightarrow>
   strategy_result result \<times> dart_world" where
  "piotroski_execute fcfg universe_builder mcfg env year w =
     (case screen fcfg (se_dart env) universe_builder (se_today env) year None w of
        (Inl e, w1) \<Rightarrow> (Inl e, w1)
      | (Inr df_universe, w1) \<Rightarrow> (select_and_intend mcfg env df_universe, w1))"

section \<open>The default strategy\<close>

record strategy_settings =
  PM_FSCORE_THRESHOLD :: int
  PM_MIN_MARCAP :: rat
  PM_MAX_MARCAP :: rat
  PM_UNIVERSE_N :: int
  PM_LOOKBACK_DAYS :: int
  PM_TOP_N :: int
  PM_ABS_THRESHOLD :: rat

text \<open>The factory does not pass \<open>PM_ABS_THRESHOLD\<close>: the signal keeps its default of 0.\<close>

definition default_momentum :: "strategy_settings \<Rightarrow> momentum_config" where
  "default_momentum s = \<lparr>mc_lookback_days = PM_LOOKBACK_DAYS s, mc_top_n = PM_TOP_N s, mc_abs_threshold = 0\<rparr>"

definition get_default_strategy ::
  "strategy_settings \<Rightarrow> strategy_env \<Rightarrow> int \<Rightarrow> dart_world \<Rightarrow> strategy_result result \<times> dart_world" where
  "get_default_strategy s env =
     piotroski_execute (new_fscore (of_int (PM_FSCORE_THRESHOLD s)) None None)
       (marcap_range (se_argsort env) (se_listing env) (PM_MIN_MARCAP s) (Some (PM_MAX_MARCAP s)) (PM_UNIVERSE_N s) None)
       (default_momentum s) env"

section \<open>Lemmas\<close>

lemma lookback_returns_rows:
  assumes "lookback_returns L data = Inr returns"
  shows "(c, r) \<in> set returns \<longleftrightarrow> (\<exists>closes. (c, closes) \<in> set data \<and> lookback_return L closes = Inr (Some r))"
    and "subseq (map fst returns) (map fst data)"
proof -
  from assms have "((c, r) \<in> set returns \<longleftrightarrow> (\<exists>closes. (c, closes) \<in> set data \<and> lookback_return L closes = Inr (Some r)))
      \<and> subseq (map fst returns) (map fst data)"
    by (induction L data arbitrary: returns rule: lookback_returns.induct)
      (fastforce simp: bind_result_Inr_iff split: option.splits)+
  then show "(c, r) \<in> set returns \<longleftrightarrow> (\<exists>closes. (c, closes) \<in> set data \<and> lookback_return L closes = Inr (Some r))"
    "subseq (map fst returns) (map fst data)" by blast+
qed

lemma lookback_returns_codes:
  assumes "lookback_returns L data = Inr returns"
  shows "fst ` set returns = {c. \<exists>closes. (c, closes) \<in> set data \<and> L \<le> int (length closes)}"
  using assms
proof (induction L data arbitrary: returns rule: lookback_returns.induct)
  case (2 L code closes data)
  from "2.prems" obtain ret rest where r: "lookback_return L closes = Inr ret" "lookback_returns L data = Inr rest"
    "returns = (case ret of None \<Rightarrow> rest | Some r \<Rightarrow> (code, r) # rest)" by (auto simp: bind_result_Inr_iff)
  have "ret \<noteq> None \<longleftrightarrow> L \<le> int (length closes)"
    using r(1) by (auto simp: lookback_return_def Let_def split: if_splits)
  with "2.IH" [OF r(2)] r(3) show ?case by (cases ret) auto
qed simp

lemma signal_of_simps [simp]:
  "sg_code (signal_of cfg xs x) = fst x" "sg_return (signal_of cfg xs x) = snd x"
  "sg_rank (signal_of cfg xs x) = rank_desc (map snd xs) (snd x)"
  by (simp_all add: signal_of_def Let_def)

lemma signal_of_buy:
  "sg_signal (signal_of cfg xs x) = SignalBUY
   \<longleftrightarrow> cell_le (rank_desc (map snd xs) (snd x)) (Some (of_int (mc_top_n cfg))) \<and> pf_less (Num (mc_abs_threshold cfg)) (snd x)"
  by (simp add: signal_of_def Let_def)

lemma signals_sorted:
  assumes "sorting argsort" and "generate_signal argsort cfg data = Inr rows"
  obtains returns where "lookback_returns (mc_lookback_days cfg) data = Inr returns" "mset rows = mset (map (signal_of cfg returns) returns)"
proof -
  obtain returns where r: "lookback_returns (mc_lookback_days cfg) data = Inr returns"
    "(if returns = [] then Inr [] else Inr (sort_values argsort True sg_rank (map (signal_of cfg returns) returns)) :: signal_row list result) = Inr rows"
    using assms(2) by (auto simp: generate_signal_def bind_result_Inr_iff)
  have "mset rows = mset (map (signal_of cfg returns) returns)"
  proof (cases "returns = []")
    case False
    with r(2) have "rows = sort_values argsort True sg_rank (map (signal_of cfg returns) returns)" by simp
    then show ?thesis by (simp only: sorting.sort_values_mset [OF assms(1)])
  qed (use r(2) in simp)
  with that r(1) show thesis by blast
qed

lemma buys_counted:
  assumes "0 \<le> mc_top_n cfg"
  shows "length (filter (\<lambda>r. sg_signal r = SignalBUY) (map (signal_of cfg returns) returns))
    \<le> length (filter (\<lambda>x. cell_le (rank_desc (map snd returns) x) (Some (of_nat (nat (mc_top_n cfg))))) (map snd returns))"
  unfolding filter_map length_map using assms by (intro filter_mono_length) (simp add: signal_of_buy comp_def)

lemma buy_upward:
  assumes "sg_signal (signal_of cfg xs x) = SignalBUY" "pf_less (snd x) (snd y)" "x \<in> set xs"
  shows "sg_signal (signal_of cfg xs y) = SignalBUY"
proof -
  from assms(1) obtain rx where rx: "rank_desc (map snd xs) (snd x) = Some rx" "rx \<le> of_int (mc_top_n cfg)"
    "pf_less (Num (mc_abs_threshold cfg)) (snd x)"
    unfolding signal_of_buy by (cases "rank_desc (map snd xs) (snd x)") auto
  from rank_antimono [OF assms(2) rx(1)] assms(3) obtain ry where "rank_desc (map snd xs) (snd y) = Some ry" "ry < rx" by auto
  with rx pf_less_trans [OF rx(3) assms(2)] show ?thesis unfolding signal_of_buy by simp
qed

text \<open>The year the orchestrator infers always passes the look-ahead check of the screener.\<close>

lemma inferred_year_is_published:
  "validate_lookahead today None (infer_latest_available_fiscal_year today) = Inr ()"
proof -
  define y where "y = year_of today"
  have start: "days_before_year y \<le> today + 719162" unfolding y_def by (rule year_starts_before)
  have "day_of y 4 1 \<le> day_of y 4 15" by (simp add: day_of_def)
  moreover have "day_of (y - 1) 4 1 \<le> today"
    using start days_before_year_step [of y] days_before_month_april [of "y - 1"] unfolding day_of_def by linarith
  ultimately show ?thesis
    by (simp add: validate_lookahead_def infer_latest_available_fiscal_year_def Let_def y_def [symmetric] DISCLOSURE_MONTH_def)
qed

section \<open>Properties\<close>

text \<open>
  C13. The momentum signal: every stock with enough closes gets exactly one row, a purchase or a sale; a
  purchase has a return above the threshold, and every stock with a higher return is purchased, too;
  at most \<open>2 top_n - 1\<close> stocks are purchased, at most \<open>top_n\<close> when no two returns are equal (tied
  stocks share the mean of their ranks).
\<close>

theorem momentum_selection:
  assumes "sorting argsort" and "generate_signal argsort cfg data = Inr rows"
    and "distinct (map fst data)" and "0 \<le> mc_top_n cfg"
  shows "distinct (map sg_code rows)
    \<and> set (map sg_code rows) = {c. \<exists>closes. (c, closes) \<in> set data \<and> mc_lookback_days cfg \<le> int (length closes)}
    \<and> (\<forall>r \<in> set rows. sg_signal r = SignalSELL \<or> sg_signal r = SignalBUY \<and> pf_less (Num (mc_abs_threshold cfg)) (sg_return r))
    \<and> (\<forall>r \<in> set rows. \<forall>r' \<in> set rows. sg_signal r = SignalBUY \<longrightarrow> pf_less (sg_return r) (sg_return r') \<longrightarrow> sg_signal r' = SignalBUY)
    \<and> length (filter (\<lambda>r. sg_signal r = SignalBUY) rows) \<le> 2 * nat (mc_top_n cfg) - 1
    \<and> (distinct (map sg_return rows) \<longrightarrow> length (filter (\<lambda>r. sg_signal r = SignalBUY) rows) \<le> nat (mc_top_n cfg))"
proof -
  obtain returns where r: "lookback_returns (mc_lookback_days cfg) data = Inr returns"
    and m: "mset rows = mset (map (signal_of cfg returns) returns)" using signals_sorted [OF assms(1,2)] .
  have rows: "set rows = signal_of cfg returns ` set returns" using m by (metis set_map set_mset_mset)
  have codes: "mset (map sg_code rows) = mset (map fst returns)"
  proof -
    have "mset (map sg_code rows) = mset (map sg_code (map (signal_of cfg returns) returns))" by (metis m mset_map)
    also have "map sg_code (map (signal_of cfg returns) returns) = map fst returns" by simp
    finally show ?thesis .
  qed
  have rets: "mset (map sg_return rows) = mset (map snd returns)"
  proof -
    have "mset (map sg_return rows) = mset (map sg_return (map (signal_of cfg returns) returns))" by (metis m mset_map)
    also have "map sg_return (map (signal_of cfg returns) returns) = map snd returns" by simp
    finally show ?thesis .
  qed
  have "distinct (map fst returns)" 
    using lookback_returns_rows(2) [OF r] assms(3) by (auto simp: subseq_conv_nths intro: distinct_nthsI)
  then have 1: "distinct (map sg_code rows)" by (metis codes mset_eq_imp_distinct_iff)
  have 2: "set (map sg_code rows) = {c. \<exists>closes. (c, closes) \<in> set data \<and> mc_lookback_days cfg \<le> int (length closes)}"
    using mset_eq_setD [OF codes] lookback_returns_codes [OF r] by simp
  have 3: "\<forall>r \<in> set rows. sg_signal r = SignalSELL \<or> sg_signal r = SignalBUY \<and> pf_less (Num (mc_abs_threshold cfg)) (sg_return r)"
    unfolding rows by (auto simp: signal_of_def Let_def)
  have 4: "\<forall>r \<in> set rows. \<forall>r' \<in> set rows. sg_signal r = SignalBUY \<longrightarrow> pf_less (sg_return r) (sg_return r') \<longrightarrow> sg_signal r' = SignalBUY"
    unfolding rows using buy_upward [of cfg returns] by auto
  have len: "length (filter (\<lambda>r. sg_signal r = SignalBUY) rows)
      = length (filter (\<lambda>r. sg_signal r = SignalBUY) (map (signal_of cfg returns) returns))"
    by (metis m mset_filter size_mset)
  have 5: "length (filter (\<lambda>r. sg_signal r = SignalBUY) rows) \<le> 2 * nat (mc_top_n cfg) - 1"
    unfolding len using buys_counted [OF assms(4), of returns] rank_count(1) [of "map snd returns" "nat (mc_top_n cfg)"] by linarith
  have 6: "length (filter (\<lambda>r. sg_signal r = SignalBUY) rows) \<le> nat (mc_top_n cfg)" if "distinct (map sg_return rows)"
  proof -
    have "distinct (map snd returns)" using that by (metis rets mset_eq_imp_distinct_iff)
    then have "level (map snd returns) x = 1" if "x \<in> set (map snd returns)" for x
      using that by (rule level_distinct)
    then show ?thesis
      unfolding len using buys_counted [OF assms(4), of returns]
      by (rule order_trans [rotated, OF rank_count(2)]) simp_all
  qed
  from 1 2 3 4 5 6 show ?thesis by blast
qed

text \<open>Three stocks with equal returns and \<open>top_n = 2\<close>: all three share rank 2 and are purchased.\<close>

definition tied_data :: "(str \<times> cell list) list" where
  "tied_data = [(''A'', [Some 1, Some 2]), (''B'', [Some 2, Some 4]), (''C'', [Some 3, Some 6]), (''D'', [Some 5])]"

definition tied_config :: momentum_config where
  "tied_config = \<lparr>mc_lookback_days = 2, mc_top_n = 2, mc_abs_threshold = 0\<rparr>"

lemma tied_signal:
  "map_sum id (map (\<lambda>r. (sg_code r, sg_rank r, sg_signal r))) (generate_signal stable_argsort tied_config tied_data)
   = Inr [(''A'', Some 2, SignalBUY), (''B'', Some 2, SignalBUY), (''C'', Some 2, SignalBUY)]"
  by code_simp

theorem momentum_selection_witness:
  "\<exists>rows. generate_signal stable_argsort tied_config tied_data = Inr rows
     \<and> length (filter (\<lambda>r. sg_signal r = SignalBUY) rows) = 3
     \<and> length (filter (\<lambda>r. sg_signal r = SignalBUY) rows) \<le> 2 * nat (mc_top_n tied_config) - 1"
proof -
  obtain rows where r: "generate_signal stable_argsort tied_config tied_data = Inr rows"
    "map (\<lambda>r. (sg_code r, sg_rank r, sg_signal r)) rows
     = [(''A'', Some 2, SignalBUY), (''B'', Some 2, SignalBUY), (''C'', Some 2, SignalBUY)]"
    using tied_signal by (cases "generate_signal stable_argsort tied_config tied_data") auto
  have "length (filter (\<lambda>r. sg_signal r = SignalBUY) rows) = 3" using r(2) by auto
  moreover have "distinct (map fst tied_data)" "0 \<le> mc_top_n tied_config"
    by (simp_all add: tied_data_def tied_config_def)
  ultimately show ?thesis
    using r(1) momentum_selection [OF stable.sorting_axioms r(1)] by blast
qed

text \<open>A price service that gives no closes, by failing or by answering nothing.\<close>

definition prices_out :: "strategy_env \<Rightarrow> bool" where
  "prices_out env \<longleftrightarrow> (\<forall>code start. case se_prices env code start (se_today env) of Inl _ \<Rightarrow> True | Inr closes \<Rightarrow> closes = [])"

lemma no_prices_no_intents:
  assumes "prices_out env"
  shows "select_and_intend cfg env universe = Inr (new_result (int (length universe)) [])"
proof -
  have "load_ohlcv cfg (se_prices env) (se_today env) codes = []" for codes
  proof -
    have "(case se_prices env code start (se_today env) of Inl _ \<Rightarrow> None
        | Inr closes \<Rightarrow> if closes = [] then None else Some (code, closes)) = None" for code start
      using assms [unfolded prices_out_def, rule_format, of code start] by (auto split: sum.splits)
    then show ?thesis by (simp add: load_ohlcv_def dict_of_def List.map_filter_def)
  qed
  then show ?thesis
    by (simp add: select_and_intend_def generate_signal_def build_trade_intents_def)
qed

lemma no_target_sells_all:
  fixes ratio ti hs cash pm nm
  defines "R \<equiv> calculate ratio [] ti hs cash pm nm"
  shows "pr_buy_list R = []" and "pr_hold_list R = []" and "pd_stock_code ` set (pr_sell_list R) = h_stock_code ` set hs"
    and "\<forall>it \<in> set (pr_sell_list R). \<exists>h \<in> set hs. pd_stock_code it = h_stock_code h \<and> pd_order_qty it = h_quantity h"
proof -
  show "pr_buy_list R = []" using buy_list_codes [of ratio "[]" ti hs cash pm nm] by (simp add: R_def)
  show "pr_hold_list R = []" by (simp add: R_def calculate_lists)
  have c: "pd_stock_code (case_prod sell_item x) = fst x" for x by (cases x) simp
  show "pd_stock_code ` set (pr_sell_list R) = h_stock_code ` set hs"
    unfolding holding_map_keys(2) [symmetric] R_def calculate_lists by (force simp: c)
  have "\<exists>h \<in> set hs. k = h_stock_code h \<and> v = h" if "(k, v) \<in> set (holding_map hs)" for k v
  proof -
    have "map_of (holding_map hs) k = Some v"
      using that holding_map_keys(1) by simp
    then have "map_of (rev (map (\<lambda>h. (h_stock_code h, h)) hs)) k = Some v"
      by (simp add: holding_map_def dict_of_lookup)
    from map_of_SomeD [OF this] show ?thesis by auto
  qed
  then show "\<forall>it \<in> set (pr_sell_list R). \<exists>h \<in> set hs. pd_stock_code it = h_stock_code h \<and> pd_order_qty it = h_quantity h"
    unfolding R_def calculate_lists by fastforce
qed

text \<open>
  C15. What an outage of the price service does: the strategy swallows the failures and answers
  normally without intents, and the plan of the rebalancing then sells every stock held, in full,
  and buys nothing.
\<close>

theorem price_outage_liquidates:
  assumes "screen fcfg (se_dart env) builder (se_today env) year None dw = (Inr universe, dw')"
    and "prices_out env"
    and "get_holding_list wenv w = Some (Inr raw, w1)" and "current_holdings_of raw = Inr holdings"
    and "available_buy wenv w1 = (Inr cash, w2)"
  shows "\<exists>sr diff. piotroski_execute fcfg builder mcfg env year dw = (Inr sr, dw') \<and> sr_orders sr = []
     \<and> plan_rebalance wenv sr w = Some (Inr (diff, cash), w2) \<and> pr_buy_list diff = [] \<and> pr_hold_list diff = []
     \<and> pd_stock_code ` set (pr_sell_list diff) = h_stock_code ` set holdings
     \<and> (\<forall>it \<in> set (pr_sell_list diff). \<exists>h \<in> set holdings. pd_stock_code it = h_stock_code h \<and> pd_order_qty it = h_quantity h)"
proof -
  let ?sr = "new_result (int (length universe)) []"
  let ?diff = "calculate DEFAULT_CASH_BUFFER_RATIO [] (Some []) holdings cash (intent_prices []) (Some (intent_names []))"
  have run: "piotroski_execute fcfg builder mcfg env year dw = (Inr ?sr, dw')"
    using assms(1) no_prices_no_intents [OF assms(2), of mcfg universe] by (simp add: piotroski_execute_def)
  have "buy_intents ?sr = []" "sr_orders ?sr = []" by (simp_all add: buy_intents_def new_result_def)
  then have "plan_rebalance wenv ?sr w = Some (Inr (?diff, cash), w2)"
    using assms(3-5) by (simp add: plan_rebalance_def)
  with run \<open>sr_orders ?sr = []\<close> show ?thesis
    by (intro exI [of _ ?sr] exI [of _ ?diff] conjI no_target_sells_all) simp_all
qed

text \<open>One screened stock, one stock held.\<close>

definition outage_env :: strategy_env where
  "outage_env = \<lparr>se_dart = exhausted_env, se_listing = (\<lambda>_. Inr []), se_prices = (\<lambda>_ _ _. Inl (LibError ''HTTPError'' '''')),
     se_argsort = stable_argsort, se_today = 20300\<rparr>"

theorem price_outage_liquidates_witness:
  "\<exists>sr diff dw' w2. piotroski_execute (new_fscore 7 None None) (Inr [example_listing]) tied_config outage_env 2024 stored_dart = (Inr sr, dw')
     \<and> plan_rebalance (example_env example_account) sr (example_world False) = Some (Inr (diff, 1000), w2)
     \<and> pr_buy_list diff = [] \<and> pr_hold_list diff = []"
proof -
  obtain rows dw' where s: "screen (new_fscore 7 None None) (se_dart outage_env) (Inr [example_listing]) (se_today outage_env) 2024 None stored_dart = (Inr rows, dw')"
    using example_screen
    by (cases "screen (new_fscore 7 None None) exhausted_env (Inr [example_listing]) 20300 2024 None stored_dart")
      (auto simp: map_sum_def outage_env_def split: sum.splits)
  have out: "prices_out outage_env" by (simp add: prices_out_def outage_env_def)
  obtain raw rqs where raw: "get_holding_list (example_env example_account) (example_world False)
      = Some (Inr raw, log_requests rqs (example_world False))" "is_ok (current_holdings_of raw)"
    using example_holdings_read by blast
  obtain w2 where cash: "available_buy (example_env example_account) (log_requests rqs (example_world False)) = (Inr 1000, w2)"
    using example_cash_read by blast
  from raw(2) obtain holdings where "current_holdings_of raw = Inr holdings" by (cases "current_holdings_of raw") auto
  from price_outage_liquidates [OF s out raw(1) this cash, of tied_config] show ?thesis by blast
qed

end
