(* ===== verification/Metrics.thy ===== *)
theory Metrics
  imports Prelude Py_Float Pandas
begin

text \<open>
  The performance metrics \<^verbatim>\<open>app/strategy/metrics/core.py\<close>.  A series is a list of days with their values, a
  missing value being \<open>None\<close>; the checks of types in \<open>_validate_equity\<close> hold by typing.  The sums, means and
  deviations of numpy, its square root and the power of the C library are parameters
  (\<open>numerics\<close>), as their order of summation and their last bits are theirs.
\<close>

section \<open>Data\<close>

type_synonym series = "(int \<times> cell) list"

record numerics =
  nl_pow :: "rat \<Rightarrow> rat \<Rightarrow> rat result"
  nl_sum :: "rat list \<Rightarrow> rat"
  nl_mean :: "rat list \<Rightarrow> rat"
  nl_std :: "rat list \<Rightarrow> rat"
  nl_sqrt :: "rat \<Rightarrow> rat"

definition CALENDAR_DAYS_PER_YEAR :: int where "CALENDAR_DAYS_PER_YEAR = 365"
definition TRADING_DAYS_PER_YEAR :: int where "TRADING_DAYS_PER_YEAR = 252"

record drawdown_duration =
  dr_max_days :: int
  dr_current_days :: int
  dr_is_recovered :: bool

record win_metrics =
  wm_period_count :: nat
  wm_win_rate :: rat
  wm_avg_win :: rat
  wm_avg_loss :: rat
  wm_profit_factor :: "rat option"

record turnover_result =
  to_turnover_rate :: rat
  to_total_buy_value :: rat
  to_total_sell_value :: rat
  to_avg_nav :: rat

section \<open>Series\<close>

definition days_of :: "series \<Rightarrow> int list" where "days_of equity = map fst equity"
definition nav_of :: "series \<Rightarrow> rat list" where "nav_of equity = map (the \<circ> snd) equity"

definition validate_equity :: "series \<Rightarrow> unit result" where
  "validate_equity equity =
     (if equity = [] then Inl (ValueError ''equity is empty'')
      else if \<not> sorted (days_of equity) then Inl (ValueError ''equity.index must be ascending'')
      else if \<exists>x \<in> set equity. snd x = None then Inl (ValueError ''equity has missing values'')
      else if \<exists>x \<in> set equity. cell_le (snd x) (Some 0) then Inl (ValueError ''equity has values of 0 or less'')
      else Inr ())"

text \<open>\<open>pct_change().dropna()\<close>.\<close>

definition daily_returns :: "series \<Rightarrow> rat list" where
  "daily_returns equity =
     (let v = nav_of equity in map (\<lambda>(a, b). fl (fl (b / a) - 1)) (zip v (tl v)))"

definition span_days :: "series \<Rightarrow> int" where
  "span_days equity = last (days_of equity) - hd (days_of equity)"

section \<open>Returns\<close>

definition calc_total_return :: "series \<Rightarrow> rat result" where
  "calc_total_return equity =
     bind_result (validate_equity equity) (\<lambda>_.
       let v = nav_of equity in Inr (py_round 2 (fl (fl (fl (last v / hd v) - 1) * 100))))"

definition calc_cagr :: "numerics \<Rightarrow> series \<Rightarrow> rat result" where
  "calc_cagr nl equity =
     bind_result (validate_equity equity) (\<lambda>_.
       let days = span_days equity; v = nav_of equity
       in if days \<le> 0 then Inr 0
          else bind_result (nl_pow nl (fl (last v / hd v)) (fl (of_int CALENDAR_DAYS_PER_YEAR / of_int days))) (\<lambda>p.
                 Inr (py_round 2 (fl (fl (p - 1) * 100)))))"

definition calc_alpha :: "numerics \<Rightarrow> series \<Rightarrow> series \<Rightarrow> rat result" where
  "calc_alpha nl equity benchmark =
     bind_result (calc_cagr nl equity) (\<lambda>a. bind_result (calc_cagr nl benchmark) (\<lambda>b. Inr (fl (a - b))))"

section \<open>Risk\<close>

fun cummax_from :: "rat \<Rightarrow> rat list \<Rightarrow> rat list" where
  "cummax_from m [] = []"
| "cummax_from m (x # xs) = max m x # cummax_from (max m x) xs"

definition cummax :: "rat list \<Rightarrow> rat list" where
  "cummax xs = (case xs of [] \<Rightarrow> [] | x # _ \<Rightarrow> cummax_from x xs)"

definition calc_max_drawdown :: "series \<Rightarrow> rat result" where
  "calc_max_drawdown equity =
     bind_result (validate_equity equity) (\<lambda>_.
       let v = nav_of equity;
           drawdown = map (\<lambda>(e, m). fl (fl (e - m) / m)) (zip v (cummax v))
       in Inr (py_round 2 (fl (\<bar>Min (set drawdown)\<bar> * 100))))"

definition underwater :: "rat list \<Rightarrow> bool list" where
  "underwater v = map (\<lambda>(e, m). e < m) (zip v (cummax v))"

text \<open>The inner loop: the end of a run under water.\<close>

function skip_under :: "bool list \<Rightarrow> nat \<Rightarrow> nat" where
  "skip_under us pos = (if pos < length us \<and> us ! pos then skip_under us (pos + 1) else pos)"
  by auto
termination by (relation "measure (\<lambda>(us, pos). length us - pos)") auto

declare skip_under.simps [simp del]

lemma skip_under_in: "pos < length us \<Longrightarrow> us ! pos \<Longrightarrow> skip_under us pos = skip_under us (pos + 1)"
  by (subst skip_under.simps) simp

lemma skip_under_out: "\<not> (pos < length us \<and> us ! pos) \<Longrightarrow> skip_under us pos = pos"
  by (subst skip_under.simps) auto

lemma skip_under_ge: "pos \<le> skip_under us pos"
proof (induction us pos rule: skip_under.induct)
  case (1 us pos)
  then show ?case by (cases "pos < length us \<and> us ! pos") (auto simp: skip_under_in skip_under_out)
qed

lemma skip_under_gt: "pos < length us \<Longrightarrow> us ! pos \<Longrightarrow> pos < skip_under us pos"
  using skip_under_ge [of "pos + 1" us] by (simp add: skip_under_in)

text \<open>The outer loop.\<close>

definition close_run :: "bool list \<Rightarrow> int list \<Rightarrow> nat \<Rightarrow> nat \<Rightarrow> drawdown_duration \<Rightarrow> drawdown_duration" where
  "close_run us index segment_start pos st =
     (let peak_date = index ! (segment_start - 1);
          days = (if pos < length us then index ! pos else last index) - peak_date;
          st1 = (if pos < length us then st else st\<lparr>dr_current_days := days, dr_is_recovered := False\<rparr>)
      in st1\<lparr>dr_max_days := max (dr_max_days st1) days\<rparr>)"

function duration_loop :: "bool list \<Rightarrow> int list \<Rightarrow> nat \<Rightarrow> drawdown_duration \<Rightarrow> drawdown_duration" where
  "duration_loop us index pos st =
     (if pos < length us then
        (if \<not> us ! pos then duration_loop us index (pos + 1) st
         else duration_loop us index (skip_under us pos) (close_run us index pos (skip_under us pos) st))
      else st)"
  by auto
termination
  by (relation "measure (\<lambda>(us, index, pos, st). length us - pos)") (auto dest: skip_under_gt intro: diff_less_mono2)

declare duration_loop.simps [simp del]

definition calc_drawdown_duration :: "series \<Rightarrow> drawdown_duration result" where
  "calc_drawdown_duration equity =
     bind_result (validate_equity equity) (\<lambda>_.
       let st = \<lparr>dr_max_days = 0, dr_current_days = 0, dr_is_recovered = True\<rparr>
       in if length equity < 2 then Inr st
          else Inr (duration_loop (underwater (nav_of equity)) (days_of equity) 0 st))"

definition calc_volatility :: "numerics \<Rightarrow> series \<Rightarrow> rat result" where
  "calc_volatility nl equity =
     bind_result (validate_equity equity) (\<lambda>_.
       let returns = daily_returns equity
       in if length returns < 2 then Inr 0
          else Inr (fl (nl_std nl returns * nl_sqrt nl (of_int TRADING_DAYS_PER_YEAR))))"

definition calc_sharpe_ratio :: "numerics \<Rightarrow> series \<Rightarrow> rat \<Rightarrow> rat result" where
  "calc_sharpe_ratio nl equity risk_free_rate =
     bind_result (validate_equity equity) (\<lambda>_.
       let returns = daily_returns equity; sd = nl_std nl returns
       in if length returns < 2 then Inr 0
          else if sd = 0 then Inr 0
          else (let daily_rf = fl (risk_free_rate / of_int TRADING_DAYS_PER_YEAR);
                    excess = fl (nl_mean nl returns - daily_rf)
                in Inr (fl (fl (excess / sd) * nl_sqrt nl (of_int TRADING_DAYS_PER_YEAR)))))"

section \<open>Trades\<close>

text \<open>\<open>equity.asof(day)\<close>: the last value up to the day.\<close>

definition asof :: "series \<Rightarrow> int \<Rightarrow> cell" where
  "asof equity d =
     (case filter (\<lambda>x. fst x \<le> d) equity of [] \<Rightarrow> None | xs \<Rightarrow> snd (last xs))"

fun period_returns :: "series \<Rightarrow> int \<Rightarrow> int list \<Rightarrow> rat list" where
  "period_returns equity last_index [] = []"
| "period_returns equity last_index (p # ps) =
     (let end_point = (case ps of [] \<Rightarrow> last_index | q # _ \<Rightarrow> q);
          rest = period_returns equity last_index ps
      in case asof equity p of
           None \<Rightarrow> rest
         | Some start_value \<Rightarrow>
             if start_value \<le> 0 then rest
             else fl (fl (the (asof equity end_point) / start_value) - 1) # rest)"

definition calc_rebalance_period_returns :: "series \<Rightarrow> int list \<Rightarrow> rat list result" where
  "calc_rebalance_period_returns equity rebalance_dates =
     bind_result (validate_equity equity) (\<lambda>_.
       let last_index = last (days_of equity)
       in Inr (period_returns equity last_index
            (filter (\<lambda>p. p \<le> last_index) (sort (remdups rebalance_dates)))))"

definition calc_win_metrics :: "numerics \<Rightarrow> rat list \<Rightarrow> win_metrics" where
  "calc_win_metrics nl returns =
     (if returns = []
      then \<lparr>wm_period_count = 0, wm_win_rate = 0, wm_avg_win = 0, wm_avg_loss = 0, wm_profit_factor = None\<rparr>
      else (let wins = filter (\<lambda>x. 0 < x) returns; losses = filter (\<lambda>x. x < 0) returns;
                gross_profit = nl_sum nl wins; gross_loss = \<bar>nl_sum nl losses\<bar>;
                win_rate_pct = fl (fl (of_nat (length wins) / of_nat (length returns)) * 100);
                avg_win_pct = (if wins = [] then 0 else fl (nl_mean nl wins * 100));
                avg_loss_pct = (if losses = [] then 0 else fl (nl_mean nl losses * 100))
            in \<lparr>wm_period_count = length returns, wm_win_rate = py_round 2 win_rate_pct,
                wm_avg_win = py_round 2 avg_win_pct, wm_avg_loss = py_round 2 avg_loss_pct,
                wm_profit_factor = (if 0 < gross_loss \<and> 0 < gross_profit then Some (fl (gross_profit / gross_loss)) else None)\<rparr>))"

definition calc_turnover :: "numerics \<Rightarrow> series \<Rightarrow> rat \<Rightarrow> rat \<Rightarrow> bool \<Rightarrow> turnover_result result" where
  "calc_turnover nl equity total_buy_value total_sell_value use_min =
     bind_result (validate_equity equity) (\<lambda>_.
       let avg_nav = nl_mean nl (nav_of equity)
       in if avg_nav \<le> 0
          then Inr \<lparr>to_turnover_rate = 0, to_total_buy_value = total_buy_value, to_total_sell_value = total_sell_value, to_avg_nav = avg_nav\<rparr>
          else (let traded = (if use_min then min total_buy_value total_sell_value
                              else fl (fl (total_buy_value + total_sell_value) / 2));
                    days = (if span_days equity = 0 then 1 else span_days equity);
                    annualized = fl (fl (traded / avg_nav) * fl (of_int CALENDAR_DAYS_PER_YEAR / of_int days))
                in Inr \<lparr>to_turnover_rate = annualized, to_total_buy_value = total_buy_value,
                        to_total_sell_value = total_sell_value, to_avg_nav = avg_nav\<rparr>))"

definition calc_period_profit :: "series \<Rightarrow> rat result" where
  "calc_period_profit equity =
     bind_result (validate_equity equity) (\<lambda>_. let v = nav_of equity in Inr (fl (last v - hd v)))"

section \<open>Drawdown periods\<close>

text \<open>
  The periods under water as a set: from a day at the peak to the day of recovery, or to the end of the series.
\<close>

definition runs :: "bool list \<Rightarrow> nat \<Rightarrow> (nat \<times> nat) set" where
  "runs us pos =
     {(j, k). pos \<le> j + 1 \<and> j + 1 < k \<and> k \<le> length us \<and> \<not> us ! j \<and> (\<forall>i. j < i \<and> i < k \<longrightarrow> us ! i) \<and>
        (k < length us \<longrightarrow> \<not> us ! k)}"

definition run_days :: "bool list \<Rightarrow> int list \<Rightarrow> nat \<times> nat \<Rightarrow> int" where
  "run_days us index = (\<lambda>(j, k). (if k < length us then index ! k else last index) - index ! j)"

lemma finite_runs: "finite (runs us pos)"
  by (rule finite_subset [of _ "{..length us} \<times> {..length us}"]) (auto simp: runs_def)

lemma skip_under_le: "pos \<le> length us \<Longrightarrow> skip_under us pos \<le> length us"
proof (induction us pos rule: skip_under.induct)
  case (1 us pos)
  then show ?case by (cases "pos < length us \<and> us ! pos") (auto simp: skip_under_in skip_under_out)
qed

lemma skip_under_stops: "skip_under us pos < length us \<Longrightarrow> \<not> us ! skip_under us pos"
proof (induction us pos rule: skip_under.induct)
  case (1 us pos)
  then show ?case by (cases "pos < length us \<and> us ! pos") (auto simp: skip_under_in skip_under_out)
qed

lemma skip_under_all: "pos \<le> i \<Longrightarrow> i < skip_under us pos \<Longrightarrow> us ! i"
proof (induction us pos rule: skip_under.induct)
  case (1 us pos)
  then show ?case
    by (cases "pos < length us \<and> us ! pos"; cases "pos = i") (auto simp: skip_under_in skip_under_out)
qed

lemma runs_above:
  assumes "\<not> us ! pos"
  shows "runs us pos = runs us (pos + 1)"
proof -
  have "pos \<le> j" if "(j, k) \<in> runs us pos" for j k
    using that assms by (cases "pos = Suc j") (auto simp: runs_def)
  then show ?thesis by (auto simp: runs_def)
qed

lemma runs_under:
  assumes "0 < pos" "pos < length us" "us ! pos" "\<not> us ! (pos - 1)"
  shows "runs us pos = insert (pos - 1, skip_under us pos) (runs us (skip_under us pos))"
proof -
  let ?k = "skip_under us pos"
  have k: "pos < ?k" "?k \<le> length us" using assms skip_under_gt skip_under_le by auto
  have "(j, k) = (pos - 1, ?k) \<or> (j, k) \<in> runs us ?k" if r: "(j, k) \<in> runs us pos" for j k
  proof (cases "j = pos - 1")
    case True
    have "\<not> k < ?k" using r skip_under_all [of pos k us] k True assms(1) by (auto simp: runs_def)
    moreover have "\<not> ?k < k" using r skip_under_stops [of us pos] k True assms(1) by (auto simp: runs_def)
    ultimately show ?thesis using True by simp
  next
    case False
    then have "pos \<le> j" using r by (auto simp: runs_def)
    then have "\<not> j < ?k" using r skip_under_all [of pos j us] by (auto simp: runs_def)
    then show ?thesis using r by (auto simp: runs_def)
  qed
  moreover have "(pos - 1, ?k) \<in> runs us pos"
    using k assms skip_under_stops [of us pos] skip_under_all [of pos _ us] by (auto simp: runs_def)
  moreover have "runs us ?k \<subseteq> runs us pos" using k by (auto simp: runs_def)
  ultimately show ?thesis by auto
qed

text \<open>What the loop adds to the state.\<close>

definition add_runs :: "bool list \<Rightarrow> int list \<Rightarrow> (nat \<times> nat) set \<Rightarrow> drawdown_duration \<Rightarrow> drawdown_duration \<Rightarrow> bool" where
  "add_runs us index R st st' =
     (dr_max_days st' = Max (insert (dr_max_days st) (run_days us index ` R)) \<and>
      (dr_is_recovered st' \<longleftrightarrow> dr_is_recovered st \<and> (\<forall>j. (j, length us) \<notin> R)) \<and>
      (\<forall>j. (j, length us) \<in> R \<longrightarrow> dr_current_days st' = run_days us index (j, length us)) \<and>
      ((\<forall>j. (j, length us) \<notin> R) \<longrightarrow> dr_current_days st' = dr_current_days st))"

lemma Max_insert_max: "finite A \<Longrightarrow> Max (insert (max a b) A) = Max (insert a (insert (b::'a::linorder) A))"
  by (cases "A = {}") (simp_all add: ac_simps)

lemma add_runs_insert:
  assumes "add_runs us index R (close_run us index pos k st) st'" "finite R" "k \<le> length us"
    "k = length us \<longrightarrow> R = {}"
  shows "add_runs us index (insert (pos - 1, k) R) st st'"
proof (cases "k = length us")
  case True
  then show ?thesis using assms by (simp add: add_runs_def close_run_def Let_def run_days_def max.commute)
next
  case False
  let ?d = "run_days us index (pos - 1, k)"
  have st: "close_run us index pos k st = st\<lparr>dr_max_days := max (dr_max_days st) ?d\<rparr>"
    using False assms(3) by (simp add: close_run_def Let_def run_days_def)
  have "Max (insert (max (dr_max_days st) ?d) (run_days us index ` R))
      = Max (insert (dr_max_days st) (insert ?d (run_days us index ` R)))"
    using assms(2) by (intro Max_insert_max) simp
  then show ?thesis using assms(1) False unfolding add_runs_def st by (auto simp del: Max_insert)
qed

lemma duration_loop_runs:
  assumes "us \<noteq> []" "\<not> us ! 0" "pos = 0 \<or> \<not> us ! (pos - 1) \<or> length us \<le> pos \<or> \<not> us ! pos"
  shows "add_runs us index (runs us pos) st (duration_loop us index pos st)"
  using assms
proof (induction us index pos st rule: duration_loop.induct)
  case (1 us index pos st)
  consider "length us \<le> pos" | "pos < length us" "\<not> us ! pos" | "pos < length us" "us ! pos" by linarith
  then show ?case
  proof cases
    case 1
    then have "runs us pos = {}" by (auto simp: runs_def)
    with 1 show ?thesis by (simp add: add_runs_def duration_loop.simps [of us index pos st])
  next
    case 2
    then show ?thesis using "1.IH"(1) "1.prems" runs_above [OF 2(2)] by (simp add: duration_loop.simps [of us index pos st])
  next
    case 3
    let ?k = "skip_under us pos" and ?st = "close_run us index pos (skip_under us pos) st"
    have p: "0 < pos" using 3 "1.prems" by (cases pos) auto
    have k: "pos < ?k" "?k \<le> length us" using 3 skip_under_gt skip_under_le by auto
    have ih: "add_runs us index (runs us ?k) ?st (duration_loop us index ?k ?st)"
      using "1.IH"(2) 3 "1.prems" skip_under_stops [of us pos] by force
    have r: "runs us pos = insert (pos - 1, ?k) (runs us ?k)"
      using runs_under [OF p 3] "1.prems" 3 p by simp
    have last_run: "runs us (length us) = {}" by (auto simp: runs_def)
    have d: "duration_loop us index pos st = duration_loop us index ?k ?st"
      using 3 by (simp add: duration_loop.simps [of us index pos st])
    show ?thesis unfolding d r
      by (rule add_runs_insert [OF ih finite_runs k(2)]) (simp add: last_run)
  qed
qed

section \<open>Drawdown durations, by their definition\<close>

definition below_peak :: "series \<Rightarrow> nat \<Rightarrow> bool" where
  "below_peak equity i \<longleftrightarrow> (\<exists>j<i. nav_of equity ! i < nav_of equity ! j)"

definition drawdown_periods :: "series \<Rightarrow> (nat \<times> nat) set" where
  "drawdown_periods equity =
     {(j, k). j + 1 < k \<and> k \<le> length equity \<and> \<not> below_peak equity j \<and> (\<forall>i. j < i \<and> i < k \<longrightarrow> below_peak equity i) \<and>
        (k < length equity \<longrightarrow> \<not> below_peak equity k)}"

definition period_days :: "series \<Rightarrow> nat \<times> nat \<Rightarrow> int" where
  "period_days equity = (\<lambda>(j, k). days_of equity ! min k (length equity - 1) - days_of equity ! j)"

lemma cummax_from_nth: "i < length xs \<Longrightarrow> cummax_from m xs ! i = Max (insert m (set (take (Suc i) xs)))"
proof (induction xs arbitrary: m i)
  case (Cons x xs)
  show ?case
  proof (cases i)
    case (Suc n)
    then show ?thesis using Cons by (simp add: Max_insert_max del: Max_insert)
  qed simp
qed simp

lemma length_cummax_from [simp]: "length (cummax_from m xs) = length xs"
  by (induction xs arbitrary: m) auto

lemma length_cummax [simp]: "length (cummax xs) = length xs"
  by (cases xs) (simp_all add: cummax_def)

lemma cummax_nth: "i < length xs \<Longrightarrow> cummax xs ! i = Max (set (take (Suc i) xs))"
  by (cases xs) (simp_all only: cummax_def list.case cummax_from_nth, simp_all)

lemma length_underwater [simp]: "length (underwater v) = length v"
  by (simp add: underwater_def)

lemma underwater_nth: "i < length v \<Longrightarrow> underwater v ! i \<longleftrightarrow> (\<exists>j<i. v ! i < v ! j)"
proof -
  assume i: "i < length v"
  have "underwater v ! i \<longleftrightarrow> (\<exists>x \<in> set (take (Suc i) v). v ! i < x)"
    using i by (cases v) (simp_all only: underwater_def cummax_nth Max_gr_iff length_map length_zip nth_map nth_zip
        length_cummax, simp_all add: cummax_nth Max_gr_iff del: Max_insert)
  also have "\<dots> \<longleftrightarrow> (\<exists>j<Suc i. v ! i < v ! j)"
    using i by (auto simp: set_conv_nth)
  finally show ?thesis by (metis less_Suc_eq less_irrefl)
qed

lemma length_nav [simp]: "length (nav_of equity) = length equity" by (simp add: nav_of_def)
lemma length_days [simp]: "length (days_of equity) = length equity" by (simp add: days_of_def)

lemma under_below: "i < length equity \<Longrightarrow> underwater (nav_of equity) ! i \<longleftrightarrow> below_peak equity i"
  by (simp add: underwater_nth below_peak_def)

lemma runs_periods: "runs (underwater (nav_of equity)) 0 = drawdown_periods equity"
proof -
  have "(j, k) \<in> runs (underwater (nav_of equity)) 0 \<longleftrightarrow> (j, k) \<in> drawdown_periods equity" for j k
  proof (cases "j + 1 < k \<and> k \<le> length equity")
    case True
    then have "\<forall>i. j < i \<and> i < k \<longrightarrow> underwater (nav_of equity) ! i \<longleftrightarrow> below_peak equity i"
      by (auto simp: under_below)
    with True show ?thesis by (auto simp: runs_def drawdown_periods_def under_below)
  qed (auto simp: runs_def drawdown_periods_def)
  then show ?thesis by auto
qed

lemma run_days_period:
  "(j, k) \<in> drawdown_periods equity \<Longrightarrow> run_days (underwater (nav_of equity)) (days_of equity) (j, k) = period_days equity (j, k)"
  by (cases "k < length equity")
    (auto simp: run_days_def period_days_def drawdown_periods_def min_def last_conv_nth length_0_conv [symmetric]
      simp del: length_0_conv)

lemma open_period:
  assumes "0 < n" "n = length equity" "below_peak equity (n - 1)"
  shows "\<exists>j. (j, n) \<in> drawdown_periods equity"
proof -
  let ?P = "\<lambda>i. i < n \<and> \<not> below_peak equity i"
  have ex: "?P 0" using assms by (simp add: below_peak_def)
  define j where "j = (GREATEST i. ?P i)"
  have j: "?P j" unfolding j_def by (rule GreatestI_nat [of ?P 0 n]) (use ex in auto)
  have greatest: "i \<le> j" if "?P i" for i
    unfolding j_def by (rule Greatest_le_nat [of ?P i n]) (use that in auto)
  have "j \<noteq> n - 1" using j assms by auto
  then have "(j, n) \<in> drawdown_periods equity"
    using j greatest assms(2) by (auto simp: drawdown_periods_def) (metis leD)
  then show ?thesis by blast
qed

lemma closed_period: "(j, length equity) \<in> drawdown_periods equity \<Longrightarrow> below_peak equity (length equity - 1)"
  unfolding drawdown_periods_def by (clarsimp, drule spec [of _ "length equity - 1"]) auto

lemma validate_equityD:
  assumes "validate_equity equity = Inr ()"
  shows "equity \<noteq> []" "sorted (days_of equity)"
  using assms by (auto simp: validate_equity_def split: if_splits)

lemma period_days_bounds:
  assumes "validate_equity equity = Inr ()" "p \<in> drawdown_periods equity"
  shows "0 \<le> period_days equity p \<and> period_days equity p \<le> span_days equity"
proof -
  note v = validate_equityD [OF assms(1)]
  obtain j k where p: "p = (j, k)" "j + 1 < k" "k \<le> length equity"
    using assms(2) by (auto simp: drawdown_periods_def)
  have ne: "days_of equity \<noteq> []" using v(1) by (simp add: days_of_def)
  have "days_of equity ! j \<le> days_of equity ! min k (length equity - 1)"
    "days_of equity ! 0 \<le> days_of equity ! j"
    "days_of equity ! min k (length equity - 1) \<le> days_of equity ! (length equity - 1)"
    using p v by (auto intro!: sorted_nth_mono)
  then show ?thesis using ne by (simp add: p(1) period_days_def span_days_def hd_conv_nth last_conv_nth)
qed

lemma loop_on_equity:
  assumes "validate_equity equity = Inr ()"
  shows "add_runs (underwater (nav_of equity)) (days_of equity) (drawdown_periods equity) st
    (duration_loop (underwater (nav_of equity)) (days_of equity) 0 st)"
proof -
  have ne: "nav_of equity \<noteq> []" using validate_equityD(1) [OF assms] by (simp add: nav_of_def)
  have "underwater (nav_of equity) \<noteq> []"
    using ne length_underwater [of "nav_of equity"] by (metis length_0_conv)
  moreover have "\<not> underwater (nav_of equity) ! 0" using validate_equityD(1) [OF assms] by (simp add: underwater_nth)
  ultimately show ?thesis unfolding runs_periods [symmetric] by (intro duration_loop_runs) simp_all
qed

lemma no_periods: "length equity < 2 \<Longrightarrow> drawdown_periods equity = {}"
  by (auto simp: drawdown_periods_def)

lemma calc_drawdown_duration_loop:
  assumes "validate_equity equity = Inr ()"
  shows "\<exists>st. calc_drawdown_duration equity = Inr st \<and>
    add_runs (underwater (nav_of equity)) (days_of equity) (drawdown_periods equity)
      \<lparr>dr_max_days = 0, dr_current_days = 0, dr_is_recovered = True\<rparr> st"
  using loop_on_equity [OF assms] assms no_periods [of equity]
  by (cases "length equity < 2") (auto simp: calc_drawdown_duration_def add_runs_def Let_def)

lemma finite_periods: "finite (drawdown_periods equity)"
  using finite_runs [of "underwater (nav_of equity)" 0] by (simp add: runs_periods)

lemma run_days_periods:
  "run_days (underwater (nav_of equity)) (days_of equity) ` drawdown_periods equity
     = period_days equity ` drawdown_periods equity"
  by (rule image_cong) (auto simp: run_days_period)

lemma below_iff_open:
  assumes "equity \<noteq> []"
  shows "below_peak equity (length equity - 1) \<longleftrightarrow> (\<exists>j. (j, length equity) \<in> drawdown_periods equity)"
  using open_period [of "length equity" equity] closed_period assms by blast

text \<open>
  C22. The single pass over the series computes the drawdown durations as they are defined: the longest period from a
  peak to the recovery or to the end of the series, whether the last value is below an earlier one, and
  for an open period its days, which never exceed the longest nor the length of the series.
\<close>

theorem drawdown_duration_exact:
  assumes "validate_equity equity = Inr ()"
  shows "\<exists>st. calc_drawdown_duration equity = Inr st \<and>
    dr_max_days st = Max (insert 0 (period_days equity ` drawdown_periods equity)) \<and>
    (dr_is_recovered st \<longleftrightarrow> \<not> below_peak equity (length equity - 1)) \<and>
    (\<forall>j. (j, length equity) \<in> drawdown_periods equity \<longrightarrow> dr_current_days st = period_days equity (j, length equity)) \<and>
    (dr_is_recovered st \<longrightarrow> dr_current_days st = 0) \<and>
    0 \<le> dr_current_days st \<and> dr_current_days st \<le> dr_max_days st \<and> dr_max_days st \<le> span_days equity"
proof -
  let ?P = "drawdown_periods equity"
  have ne: "equity \<noteq> []" using validate_equityD(1) [OF assms] .
  obtain st where st: "calc_drawdown_duration equity = Inr st"
    and add: "dr_max_days st = Max (insert 0 (period_days equity ` ?P))"
      "dr_is_recovered st \<longleftrightarrow> (\<forall>j. (j, length equity) \<notin> ?P)"
      "\<forall>j. (j, length equity) \<in> ?P \<longrightarrow> dr_current_days st = period_days equity (j, length equity)"
      "(\<forall>j. (j, length equity) \<notin> ?P) \<longrightarrow> dr_current_days st = 0"
    using calc_drawdown_duration_loop [OF assms] by (auto simp: add_runs_def run_days_periods run_days_period)
  have fin: "finite (insert 0 (period_days equity ` ?P))" using finite_periods by simp
  have span: "0 \<le> span_days equity"
    using validate_equityD [OF assms] sorted_nth_mono [of "days_of equity" 0 "length equity - 1"]
    by (simp add: span_days_def hd_conv_nth last_conv_nth days_of_def)
  have cur: "dr_current_days st \<in> insert 0 (period_days equity ` ?P)"
    using add(3,4) by (cases "\<exists>j. (j, length equity) \<in> ?P") auto
  have "0 \<le> dr_current_days st" using cur period_days_bounds [OF assms] by auto
  moreover have "dr_current_days st \<le> dr_max_days st" unfolding add(1) by (rule Max_ge [OF fin cur])
  moreover have "dr_max_days st \<le> span_days equity"
    unfolding add(1) using fin span period_days_bounds [OF assms] by (subst Max_le_iff) auto
  ultimately show ?thesis using st add below_iff_open [OF ne] by auto
qed

definition sample_equity :: series where
  "sample_equity = [(1, Some 100), (2, Some 90), (4, Some 110), (6, Some 80), (9, Some 100)]"

theorem drawdown_duration_exact_witness:
  "\<exists>st. calc_drawdown_duration sample_equity = Inr st \<and>
     dr_max_days st = Max (insert 0 (period_days sample_equity ` drawdown_periods sample_equity)) \<and>
     dr_max_days st = 5 \<and> dr_current_days st = 5 \<and> \<not> dr_is_recovered st"
proof -
  have "validate_equity sample_equity = Inr ()" by code_simp
  note drawdown_duration_exact [OF this]
  moreover have "calc_drawdown_duration sample_equity = Inr \<lparr>dr_max_days = 5, dr_current_days = 5, dr_is_recovered = False\<rparr>"
    by code_simp
  ultimately show ?thesis by auto
qed

end
