(* ===== verification/Performance.thy ===== *)
theory Performance
  imports Metrics Snapshot Rebalance_Repository
begin

text \<open>
  The performance report: \<^verbatim>\<open>app/strategy/metrics/adapters.py\<close>, which rebuilds the daily net asset value of the
  account from the portfolio snapshots and the closing prices, and \<^verbatim>\<open>app/services/metrics/performance_service.py\<close>,
  which calls the metrics on it.  \<open>fdr.DataReader\<close> is a parameter: the rows of a code between two days, one row per
  day with its close.  The disk cache in front of it answers as it does.
\<close>

section \<open>Series and frames\<close>

type_synonym reader = "str \<Rightarrow> int \<Rightarrow> int \<Rightarrow> series result"

text \<open>A missing row or a missing value.\<close>

definition join_cell :: "cell option \<Rightarrow> cell" where
  "join_cell x = (case x of None \<Rightarrow> None | Some c \<Rightarrow> c)"

text \<open>\<open>series.reindex\<close> at a day: a day without a row has no value.\<close>

definition align :: "series \<Rightarrow> int \<Rightarrow> cell" where
  "align s d = join_cell (map_of s d)"

fun ffill_from :: "'a option \<Rightarrow> 'a option list \<Rightarrow> 'a option list" where
  "ffill_from prev [] = []"
| "ffill_from prev (x # xs) = (case x of None \<Rightarrow> prev # ffill_from prev xs | Some v \<Rightarrow> Some v # ffill_from (Some v) xs)"

definition ffill :: "'a option list \<Rightarrow> 'a option list" where "ffill = ffill_from None"

record close_frame =
  cf_index :: "int list"
  cf_columns :: "(str \<times> cell list) list"

section \<open>Adapters\<close>

record snapshot_view =
  sv_trading_date :: int
  sv_cash_amount :: rat
  sv_holdings :: "(str \<times> int) list"

definition normalize_stock_code :: "str \<Rightarrow> str" where
  "normalize_stock_code code = zfill6 (strip code)"

definition resolve_trading_date :: "portfolio_snapshot \<Rightarrow> int" where
  "resolve_trading_date s = (case ps_trading_date s of Some d \<Rightarrow> d | None \<Rightarrow> kst_date (ps_snapshot_at s))"

definition fetch_close_series :: "reader \<Rightarrow> str \<Rightarrow> int \<Rightarrow> int \<Rightarrow> series result" where
  "fetch_close_series get_ohlcv code start end' =
     bind_result (get_ohlcv code start end') (\<lambda>rows. Inr (sort_key fst rows))"

fun fetch_all :: "reader \<Rightarrow> str list \<Rightarrow> int \<Rightarrow> int \<Rightarrow> (str \<times> series) list result" where
  "fetch_all get_ohlcv [] start end' = Inr []"
| "fetch_all get_ohlcv (code # codes) start end' =
     bind_result (fetch_close_series get_ohlcv code start end') (\<lambda>s.
       if s = [] then Inl (ValueError (''no close prices from FDR. code='' @ code))
       else bind_result (fetch_all get_ohlcv codes start end') (\<lambda>rest. Inr ((code, s) # rest)))"

definition frame_index :: "(str \<times> series) list \<Rightarrow> int list" where
  "frame_index series_map = sort (remdups (concat (map (days_of \<circ> snd) series_map)))"

definition build_close_frame :: "reader \<Rightarrow> str list \<Rightarrow> int \<Rightarrow> int \<Rightarrow> close_frame result" where
  "build_close_frame get_ohlcv codes start end' =
     bind_result (fetch_all get_ohlcv codes start end') (\<lambda>series_map.
       let index = frame_index series_map
       in Inr \<lparr>cf_index = index,
               cf_columns = map (\<lambda>(c, s). (c, ffill (map (align s) index))) series_map\<rparr>)"

text \<open>A column of the snapshots, filled forward over their days and the trading days, then missing values 0.\<close>

definition filled_at :: "(int \<times> rat) list \<Rightarrow> int list \<Rightarrow> int \<Rightarrow> rat" where
  "filled_at column merged_index d =
     (case map_of (zip merged_index (ffill (map (map_of column) merged_index))) d of
        Some (Some q) \<Rightarrow> q
      | _ \<Rightarrow> 0)"

definition holding_qty :: "snapshot_view \<Rightarrow> str \<Rightarrow> int" where
  "holding_qty s code = (case map_of (sv_holdings s) code of None \<Rightarrow> 0 | Some q \<Rightarrow> q)"

definition assemble_equity :: "numerics \<Rightarrow> snapshot_view list \<Rightarrow> close_frame \<Rightarrow> int \<Rightarrow> series result" where
  "assemble_equity nl snapshots frame as_of_date =
     (if snapshots = [] then Inl (ValueError ''no snapshots'')
      else if cf_index frame = [] \<or> cf_columns frame = [] then Inl (ValueError ''no close prices'')
      else
        let ordered = sort_key sv_trading_date snapshots;
            first_date = sv_trading_date (hd ordered);
            trading_days = filter (\<lambda>d. first_date \<le> d \<and> d \<le> as_of_date) (cf_index frame);
            snapshot_index = map sv_trading_date ordered;
            merged_index = sort (remdups (snapshot_index @ trading_days));
            qty = (\<lambda>code d. filled_at (map (\<lambda>s. (sv_trading_date s, fl (of_int (holding_qty s code)))) ordered) merged_index d);
            cash = filled_at (map (\<lambda>s. (sv_trading_date s, sv_cash_amount s)) ordered) merged_index;
            close = (\<lambda>column d. join_cell (map_of (zip (cf_index frame) column) d));
            product = (\<lambda>(code, column) d. case close column d of None \<Rightarrow> 0 | Some p \<Rightarrow> fl (p * qty code d))
        in if trading_days = [] then Inl (ValueError ''no trading days'')
           else if \<not> distinct snapshot_index then Inl (ValueError ''cannot reindex on an axis with duplicate labels'')
           else Inr (map (\<lambda>d. (d, Some (fl (nl_sum nl (map (\<lambda>c. product c d) (cf_columns frame)) + cash d)))) trading_days))"

definition stored_holdings :: "snapshot_holding list \<Rightarrow> uuid \<Rightarrow> (str \<times> int) list" where
  "stored_holdings rows sid =
     dict_of (map (\<lambda>h. (normalize_stock_code (sh_stock_code h), sh_holding_qty h)) (filter (\<lambda>h. sh_snapshot_id h = sid) rows))"

definition view_of :: "snapshot_holding list \<Rightarrow> portfolio_snapshot \<Rightarrow> snapshot_view" where
  "view_of rows s =
     \<lparr>sv_trading_date = resolve_trading_date s,
      sv_cash_amount = fl (of_int (case ps_cash_amount s of None \<Rightarrow> 0 | Some c \<Rightarrow> c)),
      sv_holdings = stored_holdings rows (ps_id s)\<rparr>"

definition held_codes :: "snapshot_view list \<Rightarrow> str list" where
  "held_codes views = sort (remdups (concat (map (map fst \<circ> sv_holdings) views)))"

definition build_equity_series ::
  "numerics \<Rightarrow> reader \<Rightarrow> snapshots \<Rightarrow> str \<Rightarrow> str \<Rightarrow> int \<Rightarrow> int \<Rightarrow> series result" where
  "build_equity_series nl get_ohlcv db account_no account_product_code start_date as_of_date =
     (let found = get_snapshots_by_period db account_no account_product_code start_date as_of_date;
          views = map (view_of (get_holdings_by_snapshot_ids db (map ps_id found))) found;
          codes = held_codes views
      in if found = [] then Inl (ValueError (''no snapshots. account_no='' @ account_no))
         else if codes = [] then Inl (ValueError ''the snapshots hold no stock'')
         else bind_result (build_close_frame get_ohlcv codes (Min (set (map sv_trading_date views))) as_of_date) (\<lambda>frame.
                assemble_equity nl views frame as_of_date))"

definition build_benchmark_series :: "reader \<Rightarrow> int \<Rightarrow> int \<Rightarrow> str \<Rightarrow> series result" where
  "build_benchmark_series get_ohlcv start_date as_of_date benchmark_code =
     bind_result (fetch_close_series get_ohlcv benchmark_code start_date as_of_date) (\<lambda>s.
       if s = [] then Inl (ValueError (''no benchmark. code='' @ benchmark_code)) else Inr s)"

definition upper_char :: "char \<Rightarrow> char" where
  "upper_char c = (let n = (of_char c :: nat) in if 97 \<le> n \<and> n \<le> 122 then char_of (n - 32) else c)"

text \<open>\<open>float(price)\<close>; the column holds finite numbers.\<close>

fun float_of_decimal :: "decimal \<Rightarrow> rat" where
  "float_of_decimal (Dec c x) = fl (rat_of_decimal c x)"
| "float_of_decimal _ = 0"

fun sum_trades :: "(str \<times> int \<times> decimal option) list \<Rightarrow> rat \<Rightarrow> rat \<Rightarrow> rat \<times> rat" where
  "sum_trades [] total_buy total_sell = (total_buy, total_sell)"
| "sum_trades ((order_pos, filled_qty, avg_fill_price) # rows) total_buy total_sell =
     (if avg_fill_price = None \<or> filled_qty = 0 then sum_trades rows total_buy total_sell
      else (let amount = fl (float_of_decimal (the avg_fill_price) * fl (of_int filled_qty))
            in if map upper_char (strip order_pos) = ''BUY''
               then sum_trades rows (fl (total_buy + amount)) total_sell
               else sum_trades rows total_buy (fl (total_sell + amount))))"

definition load_trade_values :: "orders \<Rightarrow> str \<Rightarrow> str \<Rightarrow> int \<Rightarrow> int \<Rightarrow> rat \<times> rat" where
  "load_trade_values db account_no account_product_code start_date as_of_date =
     sum_trades (get_filled_orders_by_period db account_no account_product_code start_date as_of_date) 0 0"

section \<open>The report\<close>

record nav_point =
  np_date :: int
  np_nav :: rat
  np_benchmark :: cell

record performance_read =
  pr_start :: "int option"
  pr_end :: "int option"
  pr_days :: int
  pr_trading_days :: nat
  pr_rebalance_count :: nat
  pr_total_return :: cell
  pr_period_profit :: cell
  pr_cagr :: cell
  pr_benchmark_return :: cell
  pr_benchmark_kosdaq_return :: cell
  pr_alpha_vs_benchmark :: cell
  pr_excess_return :: cell
  pr_max_drawdown :: cell
  pr_mdd_max_days :: "int option"
  pr_mdd_current_days :: "int option"
  pr_is_recovered :: "bool option"
  pr_volatility :: cell
  pr_sharpe_ratio :: cell
  pr_period_count :: nat
  pr_win_rate :: cell
  pr_avg_win :: cell
  pr_avg_loss :: cell
  pr_profit_factor :: cell
  pr_turnover_rate :: cell
  pr_total_buy_value :: rat
  pr_total_sell_value :: rat
  pr_avg_nav :: cell
  pr_nav_series :: "nav_point list"

definition empty_performance :: performance_read where
  "empty_performance =
     \<lparr>pr_start = None, pr_end = None, pr_days = 0, pr_trading_days = 0, pr_rebalance_count = 0,
      pr_total_return = None, pr_period_profit = None, pr_cagr = None, pr_benchmark_return = None,
      pr_benchmark_kosdaq_return = None, pr_alpha_vs_benchmark = None, pr_excess_return = None,
      pr_max_drawdown = None, pr_mdd_max_days = None, pr_mdd_current_days = None, pr_is_recovered = None,
      pr_volatility = None, pr_sharpe_ratio = None,
      pr_period_count = 0, pr_win_rate = None, pr_avg_win = None, pr_avg_loss = None, pr_profit_factor = None,
      pr_turnover_rate = None, pr_total_buy_value = 0, pr_total_sell_value = 0, pr_avg_nav = None, pr_nav_series = []\<rparr>"

definition MIN_DAYS_FOR_ANNUALIZED :: int where "MIN_DAYS_FOR_ANNUALIZED = 90"
definition MIN_POINTS_FOR_RISK :: nat where "MIN_POINTS_FOR_RISK = 30"
definition MIN_REBALANCES_FOR_TURNOVER :: nat where "MIN_REBALANCES_FOR_TURNOVER = 2"

text \<open>\<open>except ValueError\<close>, with the subclasses the libraries raise; \<open>x if condition else None\<close>.\<close>

definition is_value_error :: "exn \<Rightarrow> bool" where
  "is_value_error e =
     (case e of
        ValueError _ \<Rightarrow> True
      | LibError c _ \<Rightarrow> c \<in> {''JSONDecodeError'', ''UnicodeDecodeError'', ''ParserError'', ''EmptyDataError'', ''OutOfBoundsDatetime''}
      | _ \<Rightarrow> False)"

definition or_none :: "'a result \<Rightarrow> 'a option result" where
  "or_none r = (case r of Inr x \<Rightarrow> Inr (Some x) | Inl e \<Rightarrow> if is_value_error e then Inr None else Inl e)"

definition only_if :: "bool \<Rightarrow> 'a result \<Rightarrow> 'a option result" where
  "only_if b r = (if b then bind_result r (\<lambda>x. Inr (Some x)) else Inr None)"

record perf_db =
  pf_snapshots :: snapshots
  pf_orders :: orders
  pf_rebalances :: rebalances

record perf_env =
  pv_account_no :: str
  pv_account_product_code :: str
  pv_get_ohlcv :: reader
  pv_numerics :: numerics

definition or_nothing :: "'a option \<Rightarrow> ('a \<Rightarrow> 'b result) \<Rightarrow> 'b option result" where
  "or_nothing x f = (case x of None \<Rightarrow> Inr None | Some a \<Rightarrow> bind_result (f a) (\<lambda>y. Inr (Some y)))"

text \<open>Sections 3 and 4 of \<open>get_performance\<close>: the calculation and the response.\<close>

definition report ::
  "numerics \<Rightarrow> series \<Rightarrow> int list \<Rightarrow> rat \<times> rat \<Rightarrow> series option \<Rightarrow> series option \<Rightarrow> performance_read result"
where
  "report nl equity rebalance_dates trades benchmark benchmark_kosdaq =
     (let period_days = span_days equity;
          has_annualized = MIN_DAYS_FOR_ANNUALIZED \<le> period_days;
          has_risk = MIN_POINTS_FOR_RISK \<le> length equity;
          (total_buy, total_sell) = trades
      in bind_result (calc_drawdown_duration equity) (\<lambda>dd_duration.
         bind_result (calc_rebalance_period_returns equity rebalance_dates) (\<lambda>returns.
         bind_result (only_if (MIN_REBALANCES_FOR_TURNOVER \<le> length rebalance_dates)
                        (calc_turnover nl equity total_buy total_sell True)) (\<lambda>turnover.
         bind_result (calc_total_return equity) (\<lambda>total_return.
         bind_result (or_nothing benchmark calc_total_return) (\<lambda>benchmark_return.
         bind_result (or_nothing benchmark_kosdaq calc_total_return) (\<lambda>benchmark_kosdaq_return.
         bind_result (calc_period_profit equity) (\<lambda>period_profit.
         bind_result (only_if has_annualized (calc_cagr nl equity)) (\<lambda>cagr.
         bind_result (if has_annualized then or_nothing benchmark (calc_alpha nl equity) else Inr None) (\<lambda>alpha.
         bind_result (calc_max_drawdown equity) (\<lambda>max_drawdown.
         bind_result (only_if has_risk (calc_volatility nl equity)) (\<lambda>volatility.
         bind_result (only_if has_risk (calc_sharpe_ratio nl equity 0)) (\<lambda>sharpe_ratio.
           let win = calc_win_metrics nl returns
           in Inr
             \<lparr>pr_start = Some (hd (days_of equity)), pr_end = Some (last (days_of equity)), pr_days = period_days,
              pr_trading_days = length equity, pr_rebalance_count = length rebalance_dates,
              pr_total_return = Some total_return, pr_period_profit = Some period_profit, pr_cagr = cagr,
              pr_benchmark_return = benchmark_return, pr_benchmark_kosdaq_return = benchmark_kosdaq_return,
              pr_alpha_vs_benchmark = alpha,
              pr_excess_return = map_option (\<lambda>b. fl (total_return - b)) benchmark_return,
              pr_max_drawdown = Some max_drawdown, pr_mdd_max_days = Some (dr_max_days dd_duration),
              pr_mdd_current_days = Some (dr_current_days dd_duration), pr_is_recovered = Some (dr_is_recovered dd_duration),
              pr_volatility = volatility, pr_sharpe_ratio = sharpe_ratio,
              pr_period_count = wm_period_count win, pr_win_rate = Some (wm_win_rate win), pr_avg_win = Some (wm_avg_win win),
              pr_avg_loss = Some (wm_avg_loss win), pr_profit_factor = wm_profit_factor win,
              pr_turnover_rate = map_option to_turnover_rate turnover, pr_total_buy_value = total_buy,
              pr_total_sell_value = total_sell, pr_avg_nav = map_option to_avg_nav turnover,
              pr_nav_series = map (\<lambda>(d, nav). \<lparr>np_date = d, np_nav = the nav,
                np_benchmark = (case benchmark of None \<Rightarrow> None | Some b \<Rightarrow> align b d)\<rparr>) equity\<rparr>)))))))))))))"

definition get_performance :: "perf_env \<Rightarrow> perf_db \<Rightarrow> int \<Rightarrow> int \<Rightarrow> int option \<Rightarrow> performance_read result" where
  "get_performance env db today start_date as_of_date =
     (let as_of = (case as_of_date of None \<Rightarrow> today | Some d \<Rightarrow> d);
          account_no = pv_account_no env; product_code = pv_account_product_code env
      in bind_result (or_none (build_equity_series (pv_numerics env) (pv_get_ohlcv env) (pf_snapshots db)
                                 account_no product_code start_date as_of)) (\<lambda>found.
           case found of
             None \<Rightarrow> Inr empty_performance
           | Some equity \<Rightarrow>
               if length equity < 2 then Inr empty_performance
               else
                 let rebalance_dates = get_completed_rebalance_dates (pf_rebalances db) start_date as_of;
                     trades = load_trade_values (pf_orders db) account_no product_code start_date as_of;
                     benchmark_start = hd (days_of equity)
                 in bind_result (or_none (build_benchmark_series (pv_get_ohlcv env) benchmark_start as_of ''KS11'')) (\<lambda>benchmark.
                    bind_result (or_none (build_benchmark_series (pv_get_ohlcv env) benchmark_start as_of ''KQ11'')) (\<lambda>benchmark_kosdaq.
                      report (pv_numerics env) equity rebalance_dates trades benchmark benchmark_kosdaq))))"

section \<open>Filling forward\<close>

definition latest :: "('k \<Rightarrow> 'a option) \<Rightarrow> 'a option \<Rightarrow> 'k list \<Rightarrow> 'a option" where
  "latest f = foldl (\<lambda>p x. case f x of None \<Rightarrow> p | Some v \<Rightarrow> Some v)"

lemma latest_simps [simp]:
  "latest f p [] = p"
  "latest f p (x # xs) = latest f (case f x of None \<Rightarrow> p | Some v \<Rightarrow> Some v) xs"
  by (simp_all add: latest_def)

lemma latest_none: "\<forall>x \<in> set xs. f x = None \<Longrightarrow> latest f p xs = p"
  by (induction xs) simp_all

lemma latest_some:
  assumes "sorted xs" "i \<in> set xs" "f i = Some v" "\<forall>j \<in> set xs. i < j \<longrightarrow> f j = None"
  shows "latest f p xs = Some v"
  using assms
proof (induction xs arbitrary: p)
  case (Cons x xs)
  show ?case
  proof (cases "i \<in> set xs")
    case False
    then have "i = x" "\<forall>j \<in> set xs. f j = None" using Cons.prems by (auto simp: order_le_less)
    then show ?thesis using Cons.prems(3) by (simp add: latest_none)
  qed (use Cons in simp)
qed simp

lemma latest_nothing: "latest f None xs = None \<longleftrightarrow> (\<forall>x \<in> set xs. f x = None)"
proof -
  have "latest f p xs = None \<longleftrightarrow> p = None \<and> (\<forall>x \<in> set xs. f x = None)" for p
    by (induction xs arbitrary: p) (auto split: option.splits)
  then show ?thesis by simp
qed

lemma latest_cases:
  assumes "sorted xs" "distinct xs" "latest f None xs = Some v"
  shows "\<exists>i \<in> set xs. f i = Some v \<and> (\<forall>j \<in> set xs. i < j \<longrightarrow> f j = None)"
  using assms
proof (induction xs rule: rev_induct)
  case (snoc x xs)
  have s: "sorted xs" "distinct xs" "\<forall>j \<in> set xs. j < x"
    using snoc.prems(1,2) by (auto simp: sorted_append less_le)
  have l: "latest f None (xs @ [x]) = (case f x of None \<Rightarrow> latest f None xs | Some v \<Rightarrow> Some v)"
    by (simp add: latest_def split: option.split)
  show ?case
  proof (cases "f x")
    case None
    then show ?thesis using snoc.IH [OF s(1,2)] snoc.prems(3) l by auto
  next
    case (Some w)
    then show ?thesis using snoc.prems(3) l s(3) by auto
  qed
qed simp

lemma ffill_from_lookup:
  assumes "sorted idx" "distinct idx" "d \<in> set idx"
  shows "map_of (zip idx (ffill_from p (map f idx))) d = Some (latest f p (filter (\<lambda>i. i \<le> d) idx))"
  using assms
proof (induction idx arbitrary: p)
  case (Cons x xs)
  show ?case
  proof (cases "d = x")
    case True
    then have "filter (\<lambda>i. i \<le> d) xs = []" using Cons.prems(1,2) by (auto simp: filter_empty_conv order_le_less)
    then show ?thesis using True by (simp split: option.splits)
  next
    case False
    then have "x \<le> d" using Cons.prems by auto
    then show ?thesis using False Cons by (auto split: option.splits)
  qed
qed simp

lemmas ffill_lookup = ffill_from_lookup [where p = None, folded ffill_def]

section \<open>What the series holds\<close>

text \<open>The last known close of a stock on a day, and the snapshot in force on it.\<close>

definition known_close :: "series \<Rightarrow> int \<Rightarrow> cell \<Rightarrow> bool" where
  "known_close rows d price =
     (case price of
        None \<Rightarrow> \<forall>(d', c) \<in> set rows. d' \<le> d \<longrightarrow> c = None
      | Some p \<Rightarrow> \<exists>d' \<le> d. (d', Some p) \<in> set rows \<and> (\<forall>(d'', c) \<in> set rows. d' < d'' \<and> d'' \<le> d \<longrightarrow> c = None))"

definition in_force :: "snapshot_view list \<Rightarrow> int \<Rightarrow> snapshot_view \<Rightarrow> bool" where
  "in_force views d s \<longleftrightarrow>
     s \<in> set views \<and> sv_trading_date s \<le> d \<and> (\<forall>s' \<in> set views. sv_trading_date s' \<le> d \<longrightarrow> sv_trading_date s' \<le> sv_trading_date s)"

definition one_row_per_day :: "reader \<Rightarrow> bool" where
  "one_row_per_day get_ohlcv \<longleftrightarrow> (\<forall>code a b rows. get_ohlcv code a b = Inr rows \<longrightarrow> distinct (days_of rows))"

definition nav_on :: "numerics \<Rightarrow> str list \<Rightarrow> (str \<Rightarrow> cell) \<Rightarrow> snapshot_view \<Rightarrow> rat" where
  "nav_on nl codes price s =
     fl (nl_sum nl (map (\<lambda>code. case price code of None \<Rightarrow> 0 | Some p \<Rightarrow> fl (p * fl (of_int (holding_qty s code)))) codes)
         + sv_cash_amount s)"

lemma align_row: "distinct (days_of rows) \<Longrightarrow> (d, c) \<in> set rows \<Longrightarrow> align rows d = c"
  by (simp add: align_def join_cell_def days_of_def)

lemma align_value: "align rows d = Some p \<Longrightarrow> (d, Some p) \<in> set rows"
  by (auto simp: align_def join_cell_def split: option.splits dest: map_of_SomeD)

lemma column_known:
  assumes "distinct (days_of rows)" "sorted index" "distinct index" "set (days_of rows) \<subseteq> set index" "d \<in> set index"
  shows "known_close rows d (join_cell (map_of (zip index (ffill (map (align rows) index))) d))"
proof -
  let ?upto = "filter (\<lambda>i. i \<le> d) index" and ?p = "latest (align rows) None (filter (\<lambda>i. i \<le> d) index)"
  have cell: "join_cell (map_of (zip index (ffill (map (align rows) index))) d) = ?p"
    using assms by (simp add: ffill_lookup join_cell_def)
  have upto: "i \<in> set ?upto" if "(i, c) \<in> set rows" "i \<le> d" for i c
    using that assms(4) by (force simp: days_of_def)
  show ?thesis
  proof (cases ?p)
    case None
    then have "\<forall>i \<in> set ?upto. align rows i = None" by (simp add: latest_nothing)
    then show ?thesis
      unfolding cell None known_close_def option.case using upto align_row [OF assms(1)] by blast
  next
    case (Some p)
    then obtain i where i: "i \<in> set ?upto" "align rows i = Some p" "\<forall>j \<in> set ?upto. i < j \<longrightarrow> align rows j = None"
      using latest_cases [of ?upto "align rows" p] assms by (auto simp: sorted_filter [where f = id, simplified])
    have "\<forall>(j, c) \<in> set rows. i < j \<and> j \<le> d \<longrightarrow> c = None"
      using i(3) upto align_row [OF assms(1)] by blast
    then show ?thesis
      unfolding cell Some known_close_def option.case using i align_value by auto
  qed
qed

lemma fetch_all_Inr:
  "fetch_all get_ohlcv codes a b = Inr ser \<Longrightarrow> map fst ser = codes \<and>
     (\<forall>(c, s) \<in> set ser. \<exists>rows. get_ohlcv c a b = Inr rows \<and> s = sort_key fst rows)"
  by (induction codes arbitrary: ser)
    (auto simp: bind_result_Inr_iff fetch_close_series_def split: if_splits)

lemma frame_index_props:
  "sorted (frame_index ser)" "distinct (frame_index ser)" "(c, s) \<in> set ser \<Longrightarrow> set (days_of s) \<subseteq> set (frame_index ser)"
  by (auto simp: frame_index_def)

lemma known_close_sort [simp]: "known_close (sort_key f rows) d = known_close rows d"
  by (rule ext) (simp add: known_close_def split: option.split)

lemma distinct_days_sort: "distinct (days_of rows) \<Longrightarrow> distinct (days_of (sort_key fst rows))"
  unfolding days_of_def by (simp add: distinct_map)

lemma frame_columns_known:
  assumes "build_close_frame get_ohlcv codes a b = Inr frame" "one_row_per_day get_ohlcv" "d \<in> set (cf_index frame)"
  shows "map fst (cf_columns frame) = codes \<and>
    (\<forall>(c, column) \<in> set (cf_columns frame). \<exists>rows. get_ohlcv c a b = Inr rows \<and>
       known_close rows d (join_cell (map_of (zip (cf_index frame) column) d)))"
proof -
  obtain ser where ser: "fetch_all get_ohlcv codes a b = Inr ser" and
    frame: "cf_index frame = frame_index ser"
      "cf_columns frame = map (\<lambda>(c, s). (c, ffill (map (align s) (frame_index ser)))) ser"
    using assms(1) by (auto simp: build_close_frame_def bind_result_Inr_iff Let_def)
  have "\<exists>rows. get_ohlcv c a b = Inr rows \<and>
      known_close rows d (join_cell (map_of (zip (frame_index ser) (ffill (map (align s) (frame_index ser)))) d))"
    if cs: "(c, s) \<in> set ser" for c s
  proof -
    obtain rows where rows: "get_ohlcv c a b = Inr rows" "s = sort_key fst rows"
      using fetch_all_Inr [OF ser] cs by auto
    have "distinct (days_of s)"
      using assms(2) rows distinct_days_sort by (auto simp: one_row_per_day_def)
    from column_known [OF this frame_index_props(1,2,3)] cs assms(3) frame(1) rows show ?thesis by auto
  qed
  then show ?thesis using fetch_all_Inr [OF ser] by (auto simp: frame split_def)
qed

lemma filled_at_in_force:
  assumes "distinct (map fst column)" "(i, q) \<in> set column" "i \<le> d" "\<forall>j \<in> fst ` set column. j \<le> d \<longrightarrow> j \<le> i"
    "sorted index" "distinct index" "d \<in> set index" "fst ` set column \<subseteq> set index"
  shows "filled_at column index d = q"
proof -
  have "i \<in> set index" using assms(2,8) by force
  then have "latest (map_of column) None (filter (\<lambda>i. i \<le> d) index) = Some q"
    using assms by (intro latest_some [where i = i])
      (auto simp: sorted_filter [where f = id, simplified] map_of_eq_None_iff dest!: leD)
  then show ?thesis using assms by (simp add: filled_at_def ffill_lookup)
qed

lemma in_force_exists:
  assumes "s \<in> set views" "sv_trading_date s \<le> d"
  shows "\<exists>s'. in_force views d s'"
proof -
  let ?S = "{s' \<in> set views. sv_trading_date s' \<le> d}"
  have "Max (sv_trading_date ` ?S) \<in> sv_trading_date ` ?S" using assms by (intro Max_in) auto
  then obtain s' where "s' \<in> ?S" "sv_trading_date s' = Max (sv_trading_date ` ?S)" by auto
  then show ?thesis by (intro exI [of _ s']) (auto simp: in_force_def intro!: Max_ge)
qed

lemma filled_snapshots:
  assumes "in_force views d s" "distinct (map sv_trading_date views)" "sorted index" "distinct index" "d \<in> set index"
    "sv_trading_date ` set views \<subseteq> set index"
  shows "filled_at (map (\<lambda>s. (sv_trading_date s, g s)) views) index d = g s"
  using assms by (intro filled_at_in_force [where i = "sv_trading_date s"])
    (auto simp: in_force_def image_image comp_def)

lemma in_force_sort [simp]: "in_force (sort_key f views) d = in_force views d"
  by (rule ext) (simp add: in_force_def)

lemma assemble_equity_day:
  assumes "assemble_equity nl views frame as_of = Inr equity" "(d, v) \<in> set equity"
  shows "\<exists>s. in_force views d s \<and> d \<in> set (cf_index frame) \<and>
    v = Some (fl (nl_sum nl (map (\<lambda>(c, column). case join_cell (map_of (zip (cf_index frame) column) d) of
                 None \<Rightarrow> 0 | Some p \<Rightarrow> fl (p * fl (of_int (holding_qty s c)))) (cf_columns frame)) + sv_cash_amount s))"
proof -
  let ?o = "sort_key sv_trading_date views"
  let ?days = "filter (\<lambda>d. sv_trading_date (hd ?o) \<le> d \<and> d \<le> as_of) (cf_index frame)"
  let ?m = "sort (remdups (map sv_trading_date ?o @ ?days))"
  note a = assms [unfolded assemble_equity_def Let_def]
  have ne: "views \<noteq> []" and dist: "distinct (map sv_trading_date ?o)" and d: "d \<in> set ?days"
    using a by (auto split: if_splits)
  have "hd ?o \<in> set views" using ne by (metis hd_in_set set_empty set_sort)
  then obtain s where s: "in_force views d s" using in_force_exists [of "hd ?o" views d] d by auto
  have f: "filled_at (map (\<lambda>s. (sv_trading_date s, g s)) ?o) ?m d = g s" for g :: "snapshot_view \<Rightarrow> rat"
    using s d by (intro filled_snapshots [OF _ dist]) auto
  have "v = Some (fl (nl_sum nl (map (\<lambda>(c, column). case join_cell (map_of (zip (cf_index frame) column) d) of
                 None \<Rightarrow> 0 | Some p \<Rightarrow> fl (p * fl (of_int (holding_qty s c)))) (cf_columns frame)) + sv_cash_amount s))"
    using a by (auto split: if_splits simp: f split_def cong: option.case_cong)
  then show ?thesis using s d by auto
qed

lemma nav_reconstruction:
  assumes "build_close_frame get_ohlcv codes start as_of = Inr frame"
    and "one_row_per_day get_ohlcv" and "distinct codes"
    and "assemble_equity nl views frame as_of = Inr equity"
    and "(d, v) \<in> set equity"
  shows "\<exists>s price. in_force views d s \<and>
    (\<forall>code \<in> set codes. \<exists>rows. get_ohlcv code start as_of = Inr rows \<and> known_close rows d (price code)) \<and>
    v = Some (nav_on nl codes price s)"
proof -
  let ?cell = "\<lambda>column. join_cell (map_of (zip (cf_index frame) column) d)"
  let ?price = "\<lambda>code. ?cell (the (map_of (cf_columns frame) code))"
  obtain s where s: "in_force views d s" "d \<in> set (cf_index frame)" and
    v: "v = Some (fl (nl_sum nl (map (\<lambda>(c, column). case ?cell column of
                 None \<Rightarrow> 0 | Some p \<Rightarrow> fl (p * fl (of_int (holding_qty s c)))) (cf_columns frame)) + sv_cash_amount s))"
    using assemble_equity_day [OF assms(4,5)] by blast
  note columns = frame_columns_known [OF assms(1,2) s(2)]
  have codes: "codes = map fst (cf_columns frame)" and dist: "distinct (map fst (cf_columns frame))"
    using columns assms(3) by auto
  have price: "?price c = ?cell column" if "(c, column) \<in> set (cf_columns frame)" for c column
    using that dist by simp
  have "\<forall>code \<in> set codes. \<exists>rows. get_ohlcv code start as_of = Inr rows \<and> known_close rows d (?price code)"
    unfolding codes using columns price by fastforce
  moreover have "v = Some (nav_on nl codes ?price s)"
    unfolding v nav_on_def codes using price
    by (auto simp: comp_def split: option.split intro!: arg_cong [where f = fl] arg_cong [where f = "nl_sum nl"])
  ultimately show ?thesis using s(1) by (intro exI [of _ s] exI [of _ ?price] conjI)
qed

section \<open>The net asset values of the report\<close>

lemma distinct_held_codes: "distinct (held_codes views)"
  by (simp add: held_codes_def)

lemma report_nav_series:
  assumes "report nl equity dates trades b k = Inr r" "pt \<in> set (pr_nav_series r)"
  shows "\<exists>v. (np_date pt, v) \<in> set equity \<and> np_nav pt = the v"
  using assms by (auto simp: report_def bind_result_Inr_iff Let_def split: prod.splits) blast

lemma or_none_Inr:
  "or_none r = Inr x \<longleftrightarrow> (\<exists>y. r = Inr y \<and> x = Some y) \<or> (\<exists>e. r = Inl e \<and> is_value_error e \<and> x = None)"
  by (auto simp: or_none_def split: sum.splits)

lemma get_performance_cases:
  assumes "get_performance env db today start_date (Some as_of) = Inr r"
  shows "r = empty_performance \<or>
    (\<exists>equity b k. build_equity_series (pv_numerics env) (pv_get_ohlcv env) (pf_snapshots db) (pv_account_no env)
        (pv_account_product_code env) start_date as_of = Inr equity \<and>
      2 \<le> length equity \<and> report (pv_numerics env) equity (get_completed_rebalance_dates (pf_rebalances db) start_date as_of)
        (load_trade_values (pf_orders db) (pv_account_no env) (pv_account_product_code env) start_date as_of) b k = Inr r)"
proof -
  note g = assms [unfolded get_performance_def Let_def option.case, THEN bind_result_Inr_iff [THEN iffD1]]
  then obtain found where found: "or_none (build_equity_series (pv_numerics env) (pv_get_ohlcv env) (pf_snapshots db)
      (pv_account_no env) (pv_account_product_code env) start_date as_of) = Inr found" by blast
  show ?thesis
  proof (cases found)
    case None
    then show ?thesis using g found by auto
  next
    case (Some equity)
    have "build_equity_series (pv_numerics env) (pv_get_ohlcv env) (pf_snapshots db)
      (pv_account_no env) (pv_account_product_code env) start_date as_of = Inr equity"
      using found Some by (auto simp: or_none_Inr)
    then show ?thesis using g found Some by (cases "length equity < 2") (auto simp: bind_result_Inr_iff)
  qed
qed

lemma get_performance_nav:
  assumes "get_performance env db today start_date (Some as_of) = Inr r" "pt \<in> set (pr_nav_series r)"
  shows "\<exists>equity v. build_equity_series (pv_numerics env) (pv_get_ohlcv env) (pf_snapshots db) (pv_account_no env)
      (pv_account_product_code env) start_date as_of = Inr equity \<and>
    (np_date pt, v) \<in> set equity \<and> np_nav pt = the v"
  using get_performance_cases [OF assms(1)]
proof
  assume "r = empty_performance"
  then show ?thesis using assms(2) by (simp add: empty_performance_def)
qed (use report_nav_series [OF _ assms(2)] in blast)

definition stored_views :: "snapshots \<Rightarrow> str \<Rightarrow> str \<Rightarrow> int \<Rightarrow> int \<Rightarrow> snapshot_view list" where
  "stored_views db account_no product_code start_date as_of =
     (let found = get_snapshots_by_period db account_no product_code start_date as_of
      in map (view_of (get_holdings_by_snapshot_ids db (map ps_id found))) found)"

text \<open>
  C21. Every net asset value of a report is the sum of the holdings of the stored snapshot in force on that day, each at
  its last known close, and of the cash of that snapshot; a stock without a close yet counts nothing.
\<close>

theorem performance_nav:
  assumes "get_performance env db today start_date (Some as_of) = Inr r" and "pt \<in> set (pr_nav_series r)"
    and "one_row_per_day (pv_get_ohlcv env)"
  shows "let views = stored_views (pf_snapshots db) (pv_account_no env) (pv_account_product_code env) start_date as_of;
             codes = held_codes views; first = Min (set (map sv_trading_date views))
         in \<exists>s price. in_force views (np_date pt) s \<and>
              (\<forall>code \<in> set codes. \<exists>rows. pv_get_ohlcv env code first as_of = Inr rows \<and>
                 known_close rows (np_date pt) (price code)) \<and>
              np_nav pt = nav_on (pv_numerics env) codes price s"
proof -
  define views where "views = stored_views (pf_snapshots db) (pv_account_no env) (pv_account_product_code env) start_date as_of"
  obtain equity v where e: "build_equity_series (pv_numerics env) (pv_get_ohlcv env) (pf_snapshots db) (pv_account_no env)
      (pv_account_product_code env) start_date as_of = Inr equity" "(np_date pt, v) \<in> set equity" "np_nav pt = the v"
    using get_performance_nav [OF assms(1,2)] by auto
  obtain frame where "build_close_frame (pv_get_ohlcv env) (held_codes views) (Min (set (map sv_trading_date views))) as_of = Inr frame"
    "assemble_equity (pv_numerics env) views frame as_of = Inr equity"
    using e(1) by (auto simp: build_equity_series_def views_def stored_views_def Let_def bind_result_Inr_iff split: if_splits)
  from nav_reconstruction [OF this(1) assms(3) distinct_held_codes this(2) e(2)] e(3)
  show ?thesis unfolding Let_def views_def [symmetric] by (metis option.sel)
qed


section \<open>Data that hides the report\<close>

lemma fetch_all_cases:
  "\<forall>code \<in> set codes. is_ok (get_ohlcv code a b) \<Longrightarrow>
     (\<exists>ser. fetch_all get_ohlcv codes a b = Inr ser) \<or> (\<exists>m. fetch_all get_ohlcv codes a b = Inl (ValueError m))"
proof (induction codes)
  case (Cons c cs)
  then obtain rows where "get_ohlcv c a b = Inr rows" by (auto elim: is_ok.elims)
  then show ?case using Cons by (auto simp: fetch_close_series_def)
qed simp

lemma assemble_duplicate_days:
  "\<not> distinct (map sv_trading_date views) \<Longrightarrow> \<exists>m. assemble_equity nl views frame as_of = Inl (ValueError m)"
proof -
  assume "\<not> distinct (map sv_trading_date views)"
  then have "\<not> distinct (map sv_trading_date (sort_key sv_trading_date views))"
    by (metis mset_map mset_sort mset_eq_imp_distinct_iff)
  then show ?thesis by (simp add: assemble_equity_def Let_def)
qed

text \<open>
  Two snapshots of the account on one trading day in the period make the report empty, as if there were no data,
  whatever the prices, the orders and the other snapshots are.
\<close>

lemma same_day_snapshots_hide_report:
  assumes "\<not> distinct (map sv_trading_date (stored_views (pf_snapshots db) (pv_account_no env)
      (pv_account_product_code env) start_date as_of))"
    and "\<forall>code a b. is_ok (pv_get_ohlcv env code a b)"
  shows "get_performance env db today start_date (Some as_of) = Inr empty_performance"
proof -
  let ?views = "stored_views (pf_snapshots db) (pv_account_no env) (pv_account_product_code env) start_date as_of"
  let ?build = "build_equity_series (pv_numerics env) (pv_get_ohlcv env) (pf_snapshots db) (pv_account_no env)
      (pv_account_product_code env) start_date as_of"
  have "\<exists>m. ?build = Inl (ValueError m)"
    using fetch_all_cases [of "held_codes ?views" "pv_get_ohlcv env" "Min (set (map sv_trading_date ?views))" as_of]
      assemble_duplicate_days [OF assms(1)] assms(2)
    by (auto simp: build_equity_series_def stored_views_def Let_def build_close_frame_def)
  then show ?thesis by (auto simp: get_performance_def or_none_def is_value_error_def)
qed

text \<open>The only exception of the metrics that come first is the \<open>ValueError\<close> of the validation.\<close>

definition fails :: "'a result \<Rightarrow> bool" where "fails r \<longleftrightarrow> (\<exists>m. r = Inl (ValueError m))"

lemma bind_fails: "is_ok r \<or> fails r \<Longrightarrow> (\<And>x. r = Inr x \<Longrightarrow> fails (f x)) \<Longrightarrow> fails (bind_result r f)"
  by (cases r) (auto simp: fails_def)

lemma validate_outcome: "is_ok (validate_equity equity) \<or> fails (validate_equity equity)"
  by (auto simp: validate_equity_def fails_def)

lemma validated_outcome:
  "(\<And>u. is_ok (f u)) \<Longrightarrow> is_ok (bind_result (validate_equity equity) f) \<or> fails (bind_result (validate_equity equity) f)"
  using validate_outcome [of equity] by (cases "validate_equity equity") (auto simp: fails_def)

lemma metric_outcomes:
  "is_ok (calc_drawdown_duration equity) \<or> fails (calc_drawdown_duration equity)"
  "is_ok (calc_rebalance_period_returns equity dates) \<or> fails (calc_rebalance_period_returns equity dates)"
  "is_ok (calc_turnover nl equity x y m) \<or> fails (calc_turnover nl equity x y m)"
  "is_ok (calc_total_return equity) \<or> fails (calc_total_return equity)"
  unfolding calc_drawdown_duration_def calc_rebalance_period_returns_def calc_turnover_def calc_total_return_def
  by (rule validated_outcome, simp add: Let_def)+

lemma only_if_outcome: "is_ok r \<or> fails r \<Longrightarrow> is_ok (only_if b r) \<or> fails (only_if b r)"
  by (cases r) (auto simp: only_if_def fails_def)

lemma or_nothing_outcome:
  assumes "\<And>x. is_ok (f x) \<or> fails (f x)"
  shows "is_ok (or_nothing v f) \<or> fails (or_nothing v f)"
proof (cases v)
  case (Some x)
  then show ?thesis using assms [of x] by (cases "f x") (auto simp: or_nothing_def fails_def)
qed (simp add: or_nothing_def)

lemma gap_fails: "None \<in> snd ` set s \<Longrightarrow> fails (calc_total_return s)"
  by (auto simp: calc_total_return_def validate_equity_def fails_def)

lemma report_gap_fails:
  assumes "None \<in> snd ` set kosdaq"
  shows "fails (report nl equity dates trades benchmark (Some kosdaq))"
proof -
  have "fails (or_nothing (Some kosdaq) calc_total_return)"
    using gap_fails [OF assms] by (auto simp: or_nothing_def fails_def)
  then show ?thesis
    unfolding report_def Let_def split_def
    by (intro bind_fails metric_outcomes only_if_outcome or_nothing_outcome) (auto simp: fails_def)
qed

text \<open>
  A missing close in the index of the second market, which the report only shows beside its own, makes the whole
  report fail with a \<open>ValueError\<close>.
\<close>

lemma index_gap_fails_report:
  assumes "build_equity_series (pv_numerics env) (pv_get_ohlcv env) (pf_snapshots db) (pv_account_no env)
      (pv_account_product_code env) start_date as_of = Inr equity" and "2 \<le> length equity"
    and "pv_get_ohlcv env ''KS11'' (hd (days_of equity)) as_of = Inr kospi"
    and "pv_get_ohlcv env ''KQ11'' (hd (days_of equity)) as_of = Inr kosdaq" and "None \<in> snd ` set kosdaq"
  shows "\<exists>m. get_performance env db today start_date (Some as_of) = Inl (ValueError m)"
proof -
  have gap: "None \<in> snd ` set (sort_key fst kosdaq)" using assms(5) by simp
  then have some: "sort_key fst kosdaq \<noteq> []" by (cases "sort_key fst kosdaq") auto
  have "fails (get_performance env db today start_date (Some as_of))"
    using assms(1-4) some report_gap_fails [OF gap]
    by (auto simp: get_performance_def Let_def or_none_def build_benchmark_series_def fetch_close_series_def is_value_error_def)
  then show ?thesis by (simp add: fails_def)
qed

section \<open>Examples\<close>

definition sample_numerics :: numerics where
  "sample_numerics = \<lparr>nl_pow = (\<lambda>a b. Inr a), nl_sum = sum_list, nl_mean = (\<lambda>xs. sum_list xs / of_nat (length xs)),
     nl_std = (\<lambda>xs. 0), nl_sqrt = (\<lambda>x. x)\<rparr>"

definition sample_snapshot :: "uuid \<Rightarrow> int \<Rightarrow> int \<Rightarrow> portfolio_snapshot" where
  "sample_snapshot sid d cash =
     \<lparr>ps_id = sid, ps_snapshot_at = 0, ps_snapshot_type = ''REBALANCE'', ps_account_no = ''12345678'',
      ps_account_product_code = ''01'', ps_net_deposit = None, ps_rebalance_id = Some sid, ps_cash_amount = Some cash,
      ps_trading_date = Some d\<rparr>"

definition sample_holding :: "uuid \<Rightarrow> uuid \<Rightarrow> str \<Rightarrow> int \<Rightarrow> snapshot_holding" where
  "sample_holding hid sid code qty =
     \<lparr>sh_id = hid, sh_snapshot_id = sid, sh_stock_code = code, sh_stock_name = '''', sh_holding_qty = qty,
      sh_avg_buy_price = Dec 1 0, sh_current_price = None\<rparr>"

definition sample_db :: "portfolio_snapshot list \<Rightarrow> perf_db" where
  "sample_db snapshots =
     \<lparr>pf_snapshots = \<lparr>sd_snapshots = snapshots,
        sd_holdings = [sample_holding ''h1'' ''s1'' ''5930'' 10, sample_holding ''h2'' ''s2'' ''5930'' 20]\<rparr>,
      pf_orders = [], pf_rebalances = []\<rparr>"

definition sample_reader :: "cell \<Rightarrow> reader" where
  "sample_reader kosdaq code a b =
     Inr (if code = ''005930'' then [(10, Some 100), (11, Some 110), (13, Some 90)]
          else if code = ''KQ11'' then [(10, Some 700), (11, kosdaq)] else [(10, Some 2500), (13, Some 2600)])"

definition sample_env :: "cell \<Rightarrow> perf_env" where
  "sample_env kosdaq =
     \<lparr>pv_account_no = ''12345678'', pv_account_product_code = ''01'', pv_get_ohlcv = sample_reader kosdaq,
      pv_numerics = sample_numerics\<rparr>"

definition two_days :: perf_db where "two_days = sample_db [sample_snapshot ''s1'' 10 500, sample_snapshot ''s2'' 12 300]"
definition one_day :: perf_db where "one_day = sample_db [sample_snapshot ''s1'' 12 500, sample_snapshot ''s2'' 12 300]"

lemma two_days_equity:
  "build_equity_series sample_numerics (sample_reader k) (pf_snapshots two_days) ''12345678'' ''01'' 1 20
     = Inr [(10, Some 1500), (11, Some 1600), (13, Some 2100)]"
  by code_simp

text \<open>Over a short period with valid series there is a report, with a point for every day.\<close>

lemma short_report:
  assumes "validate_equity equity = Inr ()" "validate_equity b = Inr ()" "validate_equity k = Inr ()"
    "span_days equity < 90" "length dates < 2"
  shows "\<exists>r. report nl equity dates trades (Some b) (Some k) = Inr r \<and> map np_nav (pr_nav_series r) = nav_of equity"
proof -
  have dd: "\<exists>x. calc_drawdown_duration equity = Inr x"
    using calc_drawdown_duration_loop [OF assms(1)] by blast
  then show ?thesis
    using assms
    by (auto simp: report_def Let_def split_def calc_rebalance_period_returns_def only_if_def or_nothing_def
        MIN_DAYS_FOR_ANNUALIZED_def MIN_POINTS_FOR_RISK_def MIN_REBALANCES_FOR_TURNOVER_def calc_total_return_def
        calc_period_profit_def calc_max_drawdown_def calc_volatility_def calc_sharpe_ratio_def nav_of_def)
qed

lemma two_days_report:
  "\<exists>r. get_performance (sample_env (Some 710)) two_days 20 1 (Some 20) = Inr r \<and>
     map np_nav (pr_nav_series r) = [1500, 1600, 2100]"
proof -
  let ?e = "[(10, Some 1500), (11, Some 1600), (13, Some 2100)] :: series"
  have f: "fetch_close_series (sample_reader (Some 710)) ''KS11'' 10 20 = Inr [(10, Some 2500), (13, Some 2600)]"
    "fetch_close_series (sample_reader (Some 710)) ''KQ11'' 10 20 = Inr [(10, Some 700), (11, Some 710)]"
    by code_simp+
  have v: "validate_equity ?e = Inr ()" "validate_equity [(10, Some 2500), (13, Some 2600)] = Inr ()"
    "validate_equity [(10, Some 700), (11, Some 710)] = Inr ()" "span_days ?e < 90"
    "get_completed_rebalance_dates (pf_rebalances two_days) 1 20 = []" "days_of ?e = [10, 11, 13]" "nav_of ?e = [1500, 1600, 2100]"
    by code_simp+
  show ?thesis
    using short_report [OF v(1-4), of "[]"] f v(5-7)
    by (simp add: get_performance_def Let_def sample_env_def two_days_equity or_none_def build_benchmark_series_def)
qed

theorem performance_nav_witness:
  "\<exists>r pt s price. get_performance (sample_env (Some 710)) two_days 20 1 (Some 20) = Inr r \<and> pt \<in> set (pr_nav_series r) \<and>
     in_force (stored_views (pf_snapshots two_days) ''12345678'' ''01'' 1 20) (np_date pt) s \<and>
     np_nav pt = nav_on sample_numerics [''005930''] price s"
proof -
  obtain r where r: "get_performance (sample_env (Some 710)) two_days 20 1 (Some 20) = Inr r"
      "map np_nav (pr_nav_series r) = [1500, 1600, 2100]" using two_days_report by (elim exE conjE) (rule that)
  then obtain pt where pt: "pt \<in> set (pr_nav_series r)" by (cases "pr_nav_series r") auto
  have one: "one_row_per_day (pv_get_ohlcv (sample_env (Some 710)))"
    by (simp add: one_row_per_day_def sample_env_def sample_reader_def days_of_def)
  have codes: "held_codes (stored_views (pf_snapshots two_days) ''12345678'' ''01'' 1 20) = [''005930'']" by code_simp
  have env: "pv_account_no (sample_env k) = ''12345678''" "pv_account_product_code (sample_env k) = ''01''"
    "pv_numerics (sample_env k) = sample_numerics" for k by (simp_all add: sample_env_def)
  obtain s price where "in_force (stored_views (pf_snapshots two_days) ''12345678'' ''01'' 1 20) (np_date pt) s"
    "np_nav pt = nav_on sample_numerics [''005930''] price s"
    using performance_nav [OF r(1) pt one, unfolded Let_def env codes] by (elim exE conjE) (rule that)
  then show ?thesis using r(1) pt by (intro exI conjI)
qed

end
