(* ===== verification/Swing.thy ===== *)
theory Swing
  imports Momentum Metrics
begin

text \<open>
  The swing strategy \<^verbatim>\<open>app/strategy/strategies/reversal_volume_strategy.py\<close>: the losers of the last days whose volume
  jumps.  \<open>fdr\<close> is the listing, \<open>get_ohlcv\<close> the daily rows of a code between two days, oldest first, with
  finite numbers.  The periods of the settings are not negative.  \<open>sort_values\<close> keeps the
  order numpy gives to equal keys (\<open>argsort\<close>), and means are those of numpy (\<open>numerics\<close>).
\<close>

section \<open>Data\<close>

record ohlcv_row =
  ow_date :: int
  ow_close :: rat
  ow_volume :: rat

type_synonym ohlcv_source = "str \<Rightarrow> int \<Rightarrow> int \<Rightarrow> ohlcv_row list result"
type_synonym stock_data = "(str \<times> ohlcv_row list) list"

record universe_row =
  uv_code :: str
  uv_name :: str
  uv_avg_amount :: cell

record candidate =
  cd_code :: str
  cd_name :: str
  cd_return :: pfloat
  cd_volume_ratio :: pfloat

record swing_position =
  sp_stock_code :: str
  sp_stock_name :: str
  sp_entry_price :: rat
  sp_quantity :: rat
  sp_entry_date :: int
  sp_holding_days :: int

record swing_trade_record =
  st_stock_code :: str
  st_stock_name :: str
  st_entry_date :: int
  st_exit_date :: int
  st_entry_price :: rat
  st_exit_price :: rat
  st_quantity :: rat
  st_return_pct :: rat
  st_holding_days :: int
  st_exit_reason :: str

datatype exit_reason = TAKE_PROFIT | STOP_LOSS | TIME_EXIT

fun exit_reason_value :: "exit_reason \<Rightarrow> str" where
  "exit_reason_value TAKE_PROFIT = ''take_profit''"
| "exit_reason_value STOP_LOSS = ''stop_loss''"
| "exit_reason_value TIME_EXIT = ''time_exit''"

record exit_decision =
  ed_should_exit :: bool
  ed_reason :: "exit_reason option"

section \<open>Parameters\<close>

record rv_params =
  rv_max_marcap :: rat
  rv_min_marcap :: rat
  rv_avg_amount_days :: nat
  rv_top_n_liquid :: int
  rv_reversal_days :: nat
  rv_reversal_pct :: rat
  rv_volume_avg_days :: nat
  rv_volume_spike_ratio :: rat
  rv_max_drawdown_pct :: rat
  rv_take_profit_pct :: rat
  rv_stop_loss_pct :: rat
  rv_max_holding_days :: int
  rv_max_positions :: int
  rv_market_filter_enabled :: bool
  rv_market_ma_days :: nat
  rv_cooldown_days :: int

text \<open>The arguments of the constructor, \<open>None\<close> for the setting.\<close>

record rv_args =
  ra_max_marcap :: "rat option"
  ra_min_marcap :: "rat option"
  ra_avg_amount_days :: "nat option"
  ra_top_n_liquid :: "int option"
  ra_reversal_days :: "nat option"
  ra_reversal_pct :: "rat option"
  ra_volume_avg_days :: "nat option"
  ra_volume_spike_ratio :: "rat option"
  ra_max_drawdown_pct :: "rat option"
  ra_take_profit_pct :: "rat option"
  ra_stop_loss_pct :: "rat option"
  ra_max_holding_days :: "int option"
  ra_max_positions :: "int option"
  ra_market_filter_enabled :: "bool option"
  ra_market_ma_days :: "nat option"
  ra_cooldown_days :: "int option"

definition given :: "'a option \<Rightarrow> 'a \<Rightarrow> 'a" where
  "given x d = (case x of None \<Rightarrow> d | Some v \<Rightarrow> v)"

definition new_reversal_volume :: "rv_params \<Rightarrow> rv_args \<Rightarrow> rv_params" where
  "new_reversal_volume s a =
     \<lparr>rv_max_marcap = given (ra_max_marcap a) (rv_max_marcap s),
      rv_min_marcap = given (ra_min_marcap a) (rv_min_marcap s),
      rv_avg_amount_days = given (ra_avg_amount_days a) (rv_avg_amount_days s),
      rv_top_n_liquid = given (ra_top_n_liquid a) (rv_top_n_liquid s),
      rv_reversal_days = given (ra_reversal_days a) (rv_reversal_days s),
      rv_reversal_pct = given (ra_reversal_pct a) (rv_reversal_pct s),
      rv_volume_avg_days = given (ra_volume_avg_days a) (rv_volume_avg_days s),
      rv_volume_spike_ratio = given (ra_volume_spike_ratio a) (rv_volume_spike_ratio s),
      rv_max_drawdown_pct = given (ra_max_drawdown_pct a) (rv_max_drawdown_pct s),
      rv_take_profit_pct = given (ra_take_profit_pct a) (rv_take_profit_pct s),
      rv_stop_loss_pct = given (ra_stop_loss_pct a) (rv_stop_loss_pct s),
      rv_max_holding_days = given (ra_max_holding_days a) (rv_max_holding_days s),
      rv_max_positions = given (ra_max_positions a) (rv_max_positions s),
      rv_market_filter_enabled = given (ra_market_filter_enabled a) (rv_market_filter_enabled s),
      rv_market_ma_days = given (ra_market_ma_days a) (rv_market_ma_days s),
      rv_cooldown_days = given (ra_cooldown_days a) (rv_cooldown_days s)\<rparr>"

section \<open>Liquidity\<close>

definition SPECIAL_ENTITY_CODES :: "str list" where "SPECIAL_ENTITY_CODES = [''088980'']"

text \<open>The last \<open>n\<close> rows; \<open>tail(0)\<close> is empty.\<close>

definition tail_rows :: "nat \<Rightarrow> 'a list \<Rightarrow> 'a list" where
  "tail_rows n xs = drop (length xs - n) xs"

definition mean_of :: "numerics \<Rightarrow> rat list \<Rightarrow> cell" where
  "mean_of nl xs = (if xs = [] then None else Some (nl_mean nl xs))"

definition avg_amount :: "numerics \<Rightarrow> nat \<Rightarrow> ohlcv_row list \<Rightarrow> cell" where
  "avg_amount nl days rows = mean_of nl (map (\<lambda>r. fl (ow_close r * ow_volume r)) (tail_rows days rows))"

definition liquid_listings :: "rv_params \<Rightarrow> listing list \<Rightarrow> listing list" where
  "liquid_listings p df =
     (let d1 = filter (\<lambda>r. cell_le (Some (rv_min_marcap p)) (ls_marcap r)) df;
          d2 = filter (\<lambda>r. cell_le (ls_marcap r) (Some (rv_max_marcap p))) d1;
          d3 = filter (\<lambda>r. six_digits (ls_code r)) d2;
          d4 = filter (\<lambda>r. last (ls_code r) = CHR ''0'') d3;
          d5 = filter (\<lambda>r. ls_market r \<in> {''KOSPI'', ''KOSDAQ'', ''KOSDAQ GLOBAL''}) d4
      in filter (\<lambda>r. ls_code r \<notin> set SPECIAL_ENTITY_CODES) d5)"

definition filter_liquidity ::
  "numerics \<Rightarrow> (rat list \<Rightarrow> nat list) \<Rightarrow> rv_params \<Rightarrow> listing_source \<Rightarrow> ohlcv_source \<Rightarrow> int \<Rightarrow> int \<Rightarrow> universe_row list result"
where
  "filter_liquidity nl argsort p fdr get_ohlcv start_date end_date =
     bind_result (get_stock_list_raw fdr None) (\<lambda>df.
       let rows = List.map_filter (\<lambda>r.
             case get_ohlcv (ls_code r) start_date end_date of
               Inl _ \<Rightarrow> None
             | Inr ohlcv \<Rightarrow>
                 if rv_avg_amount_days p \<le> length ohlcv
                 then Some \<lparr>uv_code = ls_code r, uv_name = ls_name r, uv_avg_amount = avg_amount nl (rv_avg_amount_days p) ohlcv\<rparr>
                 else None) (liquid_listings p df)
       in Inr (head_rows (rv_top_n_liquid p) (sort_values argsort False uv_avg_amount rows)))"

section \<open>Signals\<close>

text \<open>The return over \<open>k\<close> days and the volume against its mean before; \<open>None\<close> with too few rows.\<close>

fun minus_one :: "pfloat \<Rightarrow> pfloat" where
  "minus_one (Num a) = Num (fl (a - 1))"
| "minus_one x = x"

definition reversal_return :: "nat \<Rightarrow> ohlcv_row list \<Rightarrow> pfloat option" where
  "reversal_return k rows =
     (if length rows < k + 1 then None
      else Some (minus_one (np_div (Some (ow_close (last rows))) (Some (ow_close (rows ! (length rows - (k + 1))))))))"

definition volume_ratio :: "numerics \<Rightarrow> nat \<Rightarrow> ohlcv_row list \<Rightarrow> pfloat option" where
  "volume_ratio nl k rows =
     (if length rows < k + 1 then None
      else case mean_of nl (map ow_volume (butlast (tail_rows (k + 1) rows))) of
             None \<Rightarrow> None
           | Some avg \<Rightarrow> if 0 < avg then Some (np_div (Some (ow_volume (last rows))) (Some avg)) else None)"

text \<open>The key of a sort by a float; an infinity lies beyond every finite float.\<close>

fun float_key :: "pfloat \<Rightarrow> cell" where
  "float_key (Num a) = Some a"
| "float_key PosInf = Some (2 ^ 1024)"
| "float_key NegInf = Some (- (2 ^ 1024))"
| "float_key NaN = None"

definition cutoff_of :: "rv_params \<Rightarrow> nat \<Rightarrow> int" where
  "cutoff_of p n = max 1 (int_of_float (fl (of_nat n * rv_reversal_pct p)))"

definition with_return :: "universe_row \<Rightarrow> pfloat \<Rightarrow> candidate" where
  "with_return u r = \<lparr>cd_code = uv_code u, cd_name = uv_name u, cd_return = r, cd_volume_ratio = NaN\<rparr>"

definition try_rows :: "'a list result \<Rightarrow> ('a list \<Rightarrow> 'b option) \<Rightarrow> 'b option" where
  "try_rows r f = (case r of Inl _ \<Rightarrow> None | Inr rows \<Rightarrow> f rows)"

text \<open>A step answers \<open>None\<close> for \<open>pd.DataFrame()\<close>, which has no columns.\<close>

definition screen_reversal ::
  "(rat list \<Rightarrow> nat list) \<Rightarrow> rv_params \<Rightarrow> ohlcv_source \<Rightarrow> universe_row list \<Rightarrow> int \<Rightarrow> int \<Rightarrow> candidate list option" where
  "screen_reversal argsort p get_ohlcv df_universe start_date end_date =
     (let df = List.map_filter (\<lambda>u. map_option (with_return u)
                 (try_rows (get_ohlcv (uv_code u) start_date end_date) (reversal_return (rv_reversal_days p)))) df_universe;
          losers = filter (\<lambda>c. pf_less (cd_return c) (Num 0)) df
      in if df = [] then None
         else Some (head_rows (cutoff_of p (length losers)) (sort_values argsort True (float_key \<circ> cd_return) losers)))"

definition at_least_ratio :: "rv_params \<Rightarrow> candidate \<Rightarrow> bool" where
  "at_least_ratio p c \<longleftrightarrow> cd_volume_ratio c = Num (rv_volume_spike_ratio p) \<or> pf_less (Num (rv_volume_spike_ratio p)) (cd_volume_ratio c)"

definition check_volume_spike ::
  "numerics \<Rightarrow> rv_params \<Rightarrow> ohlcv_source \<Rightarrow> candidate list \<Rightarrow> int \<Rightarrow> int \<Rightarrow> candidate list option" where
  "check_volume_spike nl p get_ohlcv df_reversal start_date end_date =
     (let df = List.map_filter (\<lambda>c. map_option (\<lambda>v. c\<lparr>cd_volume_ratio := v\<rparr>)
                 (try_rows (get_ohlcv (cd_code c) start_date end_date) (volume_ratio nl (rv_volume_avg_days p)))) df_reversal
      in if df = [] then None else Some (filter (at_least_ratio p) df))"

definition apply_risk_cut :: "rv_params \<Rightarrow> candidate list \<Rightarrow> candidate list" where
  "apply_risk_cut p df = filter (\<lambda>c. pf_less (Num (rv_max_drawdown_pct p)) (cd_return c)) df"

definition scan_lookback :: "rv_params \<Rightarrow> nat" where
  "scan_lookback p = max (rv_reversal_days p) (max (rv_avg_amount_days p) (rv_volume_avg_days p)) + 10"

definition rows_or_none :: "'a list option \<Rightarrow> 'a list option" where
  "rows_or_none df = (if df = Some [] then None else df)"

definition scan ::
  "numerics \<Rightarrow> (rat list \<Rightarrow> nat list) \<Rightarrow> rv_params \<Rightarrow> listing_source \<Rightarrow> ohlcv_source \<Rightarrow> int \<Rightarrow> candidate list option result"
where
  "scan nl argsort p fdr get_ohlcv end_date =
     (let start_date = bday_minus end_date (scan_lookback p)
      in bind_result (filter_liquidity nl argsort p fdr get_ohlcv start_date end_date) (\<lambda>df_universe.
           Inr (Option.bind (rows_or_none (Some df_universe)) (\<lambda>df_universe.
             Option.bind (rows_or_none (screen_reversal argsort p get_ohlcv df_universe start_date end_date)) (\<lambda>df_reversal.
             Option.bind (rows_or_none (check_volume_spike nl p get_ohlcv df_reversal start_date end_date)) (\<lambda>df_volume.
               Some (sort_values argsort True (float_key \<circ> cd_return) (apply_risk_cut p df_volume))))))))"

text \<open>
  The live run.  \<open>candidates["Code"]\<close> on a frame without columns raises \<open>KeyError\<close>; the wording of the reason is
  left out.
\<close>

definition swing_intent :: "candidate \<Rightarrow> trade_intent" where
  "swing_intent c =
     \<lparr>ti_stock_code = cd_code c, ti_stock_name = cd_name c, ti_side = SideBUY, ti_weight = None, ti_quantity = None,
      ti_price_hint = None, ti_reason = ''Reversal / Volume spike'', ti_metadata = []\<rparr>"

definition swing_execute ::
  "numerics \<Rightarrow> (rat list \<Rightarrow> nat list) \<Rightarrow> rv_params \<Rightarrow> listing_source \<Rightarrow> ohlcv_source \<Rightarrow> int \<Rightarrow> str list \<Rightarrow> strategy_result result"
where
  "swing_execute nl argsort p fdr get_ohlcv end_date current_positions =
     bind_result (scan nl argsort p fdr get_ohlcv end_date) (\<lambda>candidates.
       case candidates of
         None \<Rightarrow> Inl (LibError ''KeyError'' ''Code'')
       | Some cs \<Rightarrow>
           let fresh = filter (\<lambda>c. cd_code c \<notin> set current_positions) cs;
               available_slots = rv_max_positions p - int (length current_positions);
               chosen = (if available_slots \<le> 0 then [] else head_rows available_slots fresh)
           in Inr \<lparr>sr_strategy_type = StrategyDIRECT_TRADE, sr_strategy_name = ''ReversalVolume'',
                   sr_orders = map swing_intent chosen, sr_universe_count = None, sr_screener_name = None,
                   sr_strategy_params = None\<rparr>)"

section \<open>Preloaded data\<close>

definition build_universe ::
  "numerics \<Rightarrow> (rat list \<Rightarrow> nat list) \<Rightarrow> rv_params \<Rightarrow> listing_source \<Rightarrow> ohlcv_source \<Rightarrow> (str \<times> str) list result \<Rightarrow> int \<Rightarrow> int \<Rightarrow>
   (universe_row list \<times> stock_data) result"
where
  "build_universe nl argsort p fdr get_ohlcv stock_names start end_date =
     (let data_start = bday_minus start (scan_lookback p)
      in bind_result (filter_liquidity nl argsort p fdr get_ohlcv data_start end_date) (\<lambda>df_universe.
         bind_result stock_names (\<lambda>name_map.
           let named = map (\<lambda>u. u\<lparr>uv_name := given (map_of name_map (uv_code u)) (uv_code u)\<rparr>) df_universe;
               preloaded = dict_of (List.map_filter (\<lambda>u.
                 case get_ohlcv (uv_code u) data_start end_date of
                   Inl _ \<Rightarrow> None
                 | Inr rows \<Rightarrow> if rows = [] then None else Some (uv_code u, rows)) named)
           in Inr (named, preloaded))))"

definition rows_upto :: "int \<Rightarrow> ohlcv_row list \<Rightarrow> ohlcv_row list" where
  "rows_upto d rows = filter (\<lambda>r. ow_date r \<le> d) rows"

definition scan_from_data ::
  "numerics \<Rightarrow> (rat list \<Rightarrow> nat list) \<Rightarrow> rv_params \<Rightarrow> int \<Rightarrow> universe_row list \<Rightarrow> stock_data \<Rightarrow> candidate list" where
  "scan_from_data nl argsort p scan_date df_universe preloaded_data =
     (let df = List.map_filter (\<lambda>u. case map_of preloaded_data (uv_code u) of
                 None \<Rightarrow> None
               | Some rows \<Rightarrow> map_option (with_return u) (reversal_return (rv_reversal_days p) (rows_upto scan_date rows))) df_universe;
          losers = filter (\<lambda>c. pf_less (cd_return c) (Num 0)) df;
          screened = head_rows (cutoff_of p (length losers)) (sort_values argsort True (float_key \<circ> cd_return) losers);
          spiked = List.map_filter (\<lambda>c. case map_of preloaded_data (cd_code c) of
                 None \<Rightarrow> None
               | Some rows \<Rightarrow> map_option (\<lambda>v. c\<lparr>cd_volume_ratio := v\<rparr>)
                   (volume_ratio nl (rv_volume_avg_days p) (rows_upto scan_date rows))) screened;
          df_volume = filter (at_least_ratio p) spiked
      in if df = [] \<or> losers = [] \<or> spiked = [] \<or> df_volume = [] then []
         else sort_values argsort True (float_key \<circ> cd_return) (apply_risk_cut p df_volume))"

section \<open>Decisions\<close>

definition is_bear_market :: "numerics \<Rightarrow> rv_params \<Rightarrow> int \<Rightarrow> ohlcv_row list option \<Rightarrow> bool" where
  "is_bear_market nl p d df_benchmark =
     (case df_benchmark of
        None \<Rightarrow> True
      | Some rows \<Rightarrow>
          if rows = [] then True
          else let df_slice = rows_upto d rows
               in if length df_slice < rv_market_ma_days p + 1 then True
                  else ow_close (last df_slice) < nl_mean nl (map ow_close (py_from (- int (rv_market_ma_days p)) df_slice)))"

definition close_on :: "stock_data \<Rightarrow> str \<Rightarrow> int \<Rightarrow> rat option" where
  "close_on data code d =
     (case map_of data code of
        None \<Rightarrow> None
      | Some rows \<Rightarrow> map_option ow_close (List.find (\<lambda>r. ow_date r = d) rows))"

definition should_exit :: "rv_params \<Rightarrow> swing_position \<Rightarrow> int \<Rightarrow> stock_data \<Rightarrow> exit_decision" where
  "should_exit p position d data =
     (case close_on data (sp_stock_code position) d of
        None \<Rightarrow> \<lparr>ed_should_exit = False, ed_reason = None\<rparr>
      | Some price \<Rightarrow>
          let ret = fl (fl (price - sp_entry_price position) / sp_entry_price position)
          in if rv_take_profit_pct p \<le> ret then \<lparr>ed_should_exit = True, ed_reason = Some TAKE_PROFIT\<rparr>
             else if ret \<le> rv_stop_loss_pct p then \<lparr>ed_should_exit = True, ed_reason = Some STOP_LOSS\<rparr>
             else if rv_max_holding_days p \<le> sp_holding_days position then \<lparr>ed_should_exit = True, ed_reason = Some TIME_EXIT\<rparr>
             else \<lparr>ed_should_exit = False, ed_reason = None\<rparr>)"

definition generate_entry_signals ::
  "numerics \<Rightarrow> (rat list \<Rightarrow> nat list) \<Rightarrow> rv_params \<Rightarrow> int \<Rightarrow> universe_row list \<Rightarrow> stock_data \<Rightarrow> swing_position list \<Rightarrow>
   swing_trade_record list \<Rightarrow> ohlcv_row list option \<Rightarrow> candidate list"
where
  "generate_entry_signals nl argsort p d df_universe preloaded_data current_positions recent_trade_history df_benchmark =
     (if rv_market_filter_enabled p \<and> \<not> is_bear_market nl p d df_benchmark then []
      else
        let candidates = scan_from_data nl argsort p d df_universe preloaded_data;
            held = set (map sp_stock_code current_positions);
            recent_exits = set (map st_stock_code (filter (\<lambda>t. d - st_exit_date t \<le> rv_cooldown_days p) recent_trade_history))
        in filter (\<lambda>c. cd_code c \<notin> held \<union> recent_exits) candidates)"

definition size_position :: "rat \<Rightarrow> rat \<Rightarrow> nat \<Rightarrow> rat" where
  "size_position available_cash total_equity num_new_entries =
     (if num_new_entries = 0 then 0 else fl (available_cash / of_nat num_new_entries))"

section \<open>Lemmas\<close>

lemma length_tail_rows [simp]: "length (tail_rows n xs) = min n (length xs)"
  by (simp add: tail_rows_def)

lemma tail_tail: "m \<le> n \<Longrightarrow> tail_rows m (tail_rows n xs) = tail_rows m xs"
  by (cases "n \<le> length xs") (simp_all add: tail_rows_def)

lemma last_tail: "0 < n \<Longrightarrow> xs \<noteq> [] \<Longrightarrow> last (tail_rows n xs) = last xs"
  by (simp add: tail_rows_def)

text \<open>The signals look at the last rows only.\<close>

lemma reversal_return_tail:
  assumes "k < n"
  shows "reversal_return k (tail_rows n rows) = reversal_return k rows"
proof (cases "length rows < k + 1")
  case False
  then have "rows \<noteq> []" by auto
  moreover have "tail_rows n rows ! (min n (length rows) - (k + 1)) = rows ! (length rows - (k + 1))"
    using False assms by (cases "n \<le> length rows") (simp_all add: tail_rows_def)
  ultimately show ?thesis using False assms by (simp add: reversal_return_def last_tail)
qed (use assms in \<open>simp add: reversal_return_def\<close>)

lemma volume_ratio_tail:
  assumes "k < n"
  shows "volume_ratio nl k (tail_rows n rows) = volume_ratio nl k rows"
proof (cases "length rows < k + 1")
  case False
  then have "rows \<noteq> []" by auto
  then have "last (tail_rows n rows) = last rows" using assms by (simp add: last_tail)
  moreover have "\<not> min n (length rows) < k + 1" using False assms by simp
  ultimately show ?thesis using False assms by (simp add: volume_ratio_def tail_tail split: option.split)
qed (use assms in \<open>simp add: volume_ratio_def\<close>)

lemma in_map_filter: "y \<in> set (List.map_filter f xs) \<longleftrightarrow> (\<exists>x \<in> set xs. f x = Some y)"
  by (induction xs) (auto split: option.splits)

lemma map_filter_cong: "(\<And>x. x \<in> set xs \<Longrightarrow> f x = g x) \<Longrightarrow> List.map_filter f xs = List.map_filter g xs"
  by (induction xs) (auto split: option.split)

lemma with_return_simps [simp]:
  "cd_code (with_return u r) = uv_code u" "cd_return (with_return u r) = r"
  by (simp_all add: with_return_def)

lemma in_head_sorted:
  assumes "sorting argsort" "c \<in> set (head_rows n (sort_values argsort asc key rows))"
  shows "c \<in> set rows"
  using subsetD [OF head_rows_subset assms(2)] by (simp add: sorting.sort_values_set [OF assms(1)])

section \<open>The live scan and the scan of the backtest\<close>

text \<open>The live rows of a code are the last ones, enough of them, of the rows loaded for the backtest.\<close>

definition sees_same :: "rv_params \<Rightarrow> ohlcv_source \<Rightarrow> int \<Rightarrow> int \<Rightarrow> stock_data \<Rightarrow> str \<Rightarrow> bool" where
  "sees_same p get_ohlcv start d preloaded code \<longleftrightarrow>
     (case map_of preloaded code of
        None \<Rightarrow> \<not> is_ok (get_ohlcv code start d)
      | Some rows \<Rightarrow> \<exists>n. max (rv_reversal_days p) (rv_volume_avg_days p) < n
          \<and> get_ohlcv code start d = Inr (tail_rows n (rows_upto d rows)))"

lemma sees_same_steps:
  assumes "sees_same p get_ohlcv start d preloaded code"
  shows "try_rows (get_ohlcv code start d) (reversal_return (rv_reversal_days p))
      = Option.bind (map_of preloaded code) (\<lambda>rows. reversal_return (rv_reversal_days p) (rows_upto d rows))"
    and "try_rows (get_ohlcv code start d) (volume_ratio nl (rv_volume_avg_days p))
      = Option.bind (map_of preloaded code) (\<lambda>rows. volume_ratio nl (rv_volume_avg_days p) (rows_upto d rows))"
  using assms
  by (auto simp: sees_same_def try_rows_def reversal_return_tail volume_ratio_tail split: option.splits sum.splits)

lemma map_option_bind: "(case x of None \<Rightarrow> None | Some r \<Rightarrow> map_option g (f r)) = map_option g (Option.bind x f)"
  by (cases x) simp_all

lemma apply_risk_cut_Nil [simp]: "apply_risk_cut p [] = []"
  by (simp add: apply_risk_cut_def)

text \<open>
  C25. On a day on which the price service answers the last rows of what a backtest has loaded, the live scan finds
  the candidates the backtest finds, in the same order.
\<close>

theorem live_scan_matches_backtest:
  assumes "sorting argsort"
    and "filter_liquidity nl argsort p fdr get_ohlcv (bday_minus d (scan_lookback p)) d = Inr df_universe"
    and "\<forall>u \<in> set df_universe. sees_same p get_ohlcv (bday_minus d (scan_lookback p)) d preloaded (uv_code u)"
  shows "\<exists>df. scan nl argsort p fdr get_ohlcv d = Inr df \<and> given df [] = scan_from_data nl argsort p d df_universe preloaded"
proof -
  define start where "start = bday_minus d (scan_lookback p)"
  define rdf where "rdf = List.map_filter (\<lambda>u. map_option (with_return u)
     (try_rows (get_ohlcv (uv_code u) start d) (reversal_return (rv_reversal_days p)))) df_universe"
  have rdf: "rdf = List.map_filter (\<lambda>u. case map_of preloaded (uv_code u) of None \<Rightarrow> None
      | Some rows \<Rightarrow> map_option (with_return u) (reversal_return (rv_reversal_days p) (rows_upto d rows))) df_universe"
    unfolding rdf_def map_option_bind using assms(3)
    by (intro map_filter_cong) (simp add: start_def sees_same_steps(1) [OF bspec [OF assms(3)]])
  define losers where "losers = filter (\<lambda>c. pf_less (cd_return c) (Num 0)) rdf"
  define top where "top = head_rows (cutoff_of p (length losers)) (sort_values argsort True (float_key \<circ> cd_return) losers)"
  have codes: "\<exists>u \<in> set df_universe. cd_code c = uv_code u" if "c \<in> set top" for c
  proof -
    have "c \<in> set losers" using that unfolding top_def by (rule in_head_sorted [OF assms(1)])
    then show ?thesis by (auto simp: losers_def rdf_def in_map_filter)
  qed
  have vol: "List.map_filter (\<lambda>c. map_option (\<lambda>v. c\<lparr>cd_volume_ratio := v\<rparr>)
       (try_rows (get_ohlcv (cd_code c) start d) (volume_ratio nl (rv_volume_avg_days p)))) top
     = List.map_filter (\<lambda>c. case map_of preloaded (cd_code c) of None \<Rightarrow> None
      | Some rows \<Rightarrow> map_option (\<lambda>v. c\<lparr>cd_volume_ratio := v\<rparr>) (volume_ratio nl (rv_volume_avg_days p) (rows_upto d rows))) top"
    unfolding map_option_bind
  proof (rule map_filter_cong)
    fix c
    assume "c \<in> set top"
    then obtain u where "u \<in> set df_universe" "cd_code c = uv_code u" using codes by blast
    then show "map_option (\<lambda>v. c\<lparr>cd_volume_ratio := v\<rparr>)
         (try_rows (get_ohlcv (cd_code c) start d) (volume_ratio nl (rv_volume_avg_days p)))
       = map_option (\<lambda>v. c\<lparr>cd_volume_ratio := v\<rparr>)
         (Option.bind (map_of preloaded (cd_code c)) (\<lambda>rows. volume_ratio nl (rv_volume_avg_days p) (rows_upto d rows)))"
      using sees_same_steps(2) [OF bspec [OF assms(3)], of u nl] by (simp add: start_def)
  qed
  define spiked where "spiked = List.map_filter (\<lambda>c. case map_of preloaded (cd_code c) of None \<Rightarrow> None
      | Some rows \<Rightarrow> map_option (\<lambda>v. c\<lparr>cd_volume_ratio := v\<rparr>) (volume_ratio nl (rv_volume_avg_days p) (rows_upto d rows))) top"
  have live: "scan nl argsort p fdr get_ohlcv d = Inr (Option.bind (rows_or_none (Some df_universe)) (\<lambda>_.
      Option.bind (rows_or_none (if rdf = [] then None else Some top)) (\<lambda>_.
      Option.bind (rows_or_none (if spiked = [] then None else Some (filter (at_least_ratio p) spiked))) (\<lambda>df_volume.
        Some (sort_values argsort True (float_key \<circ> cd_return) (apply_risk_cut p df_volume))))))"
    using assms(2) vol
    by (auto simp: scan_def screen_reversal_def check_volume_spike_def Let_def rows_or_none_def
        start_def [symmetric] rdf_def [symmetric] losers_def [symmetric] top_def [symmetric] spiked_def [symmetric])
  have test: "scan_from_data nl argsort p d df_universe preloaded =
      (if rdf = [] \<or> losers = [] \<or> spiked = [] \<or> filter (at_least_ratio p) spiked = [] then []
       else sort_values argsort True (float_key \<circ> cd_return) (apply_risk_cut p (filter (at_least_ratio p) spiked)))"
    by (simp add: scan_from_data_def Let_def rdf [symmetric] losers_def [symmetric] top_def [symmetric] spiked_def [symmetric])
  have "rdf = []" if "df_universe = []" using that by (simp add: rdf_def)
  moreover have "top = []" if "losers = []"
    using that head_rows_subset [of "cutoff_of p (length losers)" "sort_values argsort True (float_key \<circ> cd_return) losers"]
      sorting.sort_values_set [OF assms(1), of True "float_key \<circ> cd_return" losers] by (simp add: top_def)
  moreover have "spiked = []" if "top = []" using that by (simp add: spiked_def)
  ultimately show ?thesis unfolding live test by (auto simp: rows_or_none_def given_def)
qed

section \<open>Candidates\<close>

text \<open>What a candidate has to show on a day.\<close>

definition reversal_with_volume :: "numerics \<Rightarrow> rv_params \<Rightarrow> int \<Rightarrow> universe_row list \<Rightarrow> stock_data \<Rightarrow> candidate \<Rightarrow> bool" where
  "reversal_with_volume nl p d df_universe data c \<longleftrightarrow>
     (\<exists>u rows. u \<in> set df_universe \<and> cd_code c = uv_code u \<and> map_of data (uv_code u) = Some rows
       \<and> reversal_return (rv_reversal_days p) (rows_upto d rows) = Some (cd_return c)
       \<and> pf_less (Num (rv_max_drawdown_pct p)) (cd_return c) \<and> pf_less (cd_return c) (Num 0)
       \<and> volume_ratio nl (rv_volume_avg_days p) (rows_upto d rows) = Some (cd_volume_ratio c)
       \<and> at_least_ratio p c)"

lemma scan_from_data_sound:
  assumes "sorting argsort" "c \<in> set (scan_from_data nl argsort p d df_universe data)"
  shows "reversal_with_volume nl p d df_universe data c"
proof -
  define df where "df = List.map_filter (\<lambda>u. case map_of data (uv_code u) of None \<Rightarrow> None
      | Some rows \<Rightarrow> map_option (with_return u) (reversal_return (rv_reversal_days p) (rows_upto d rows))) df_universe"
  define losers where "losers = filter (\<lambda>c. pf_less (cd_return c) (Num 0)) df"
  define top where "top = head_rows (cutoff_of p (length losers)) (sort_values argsort True (float_key \<circ> cd_return) losers)"
  define spiked where "spiked = List.map_filter (\<lambda>c. case map_of data (cd_code c) of None \<Rightarrow> None
      | Some rows \<Rightarrow> map_option (\<lambda>v. c\<lparr>cd_volume_ratio := v\<rparr>) (volume_ratio nl (rv_volume_avg_days p) (rows_upto d rows))) top"
  have "c \<in> set (sort_values argsort True (float_key \<circ> cd_return) (apply_risk_cut p (filter (at_least_ratio p) spiked)))"
    using assms(2)
    by (simp add: scan_from_data_def Let_def df_def [symmetric] losers_def [symmetric] top_def [symmetric]
        spiked_def [symmetric] split: if_splits)
  then have c: "c \<in> set spiked" "at_least_ratio p c" "pf_less (Num (rv_max_drawdown_pct p)) (cd_return c)"
    by (simp_all add: sorting.sort_values_set [OF assms(1)] apply_risk_cut_def)
  then obtain b rows v where b: "b \<in> set top" "map_of data (cd_code b) = Some rows" "c = b\<lparr>cd_volume_ratio := v\<rparr>"
    "volume_ratio nl (rv_volume_avg_days p) (rows_upto d rows) = Some v"
    by (auto simp: spiked_def in_map_filter split: option.splits)
  have "b \<in> set losers" using b(1) unfolding top_def by (rule in_head_sorted [OF assms(1)])
  then obtain u where "u \<in> set df_universe" "cd_code b = uv_code u" "pf_less (cd_return b) (Num 0)"
    "reversal_return (rv_reversal_days p) (rows_upto d rows) = Some (cd_return b)"
    using b(2) by (auto simp: losers_def df_def in_map_filter split: option.splits)
  then show ?thesis using b c unfolding reversal_with_volume_def by (intro exI [of _ u] exI [of _ rows]) simp
qed

text \<open>The losers of a day.\<close>

definition day_return :: "rv_params \<Rightarrow> int \<Rightarrow> stock_data \<Rightarrow> str \<Rightarrow> pfloat option" where
  "day_return p d data code =
     Option.bind (map_of data code) (\<lambda>rows. reversal_return (rv_reversal_days p) (rows_upto d rows))"

definition day_losers :: "rv_params \<Rightarrow> int \<Rightarrow> universe_row list \<Rightarrow> stock_data \<Rightarrow> candidate list" where
  "day_losers p d df_universe data =
     filter (\<lambda>c. pf_less (cd_return c) (Num 0))
       (List.map_filter (\<lambda>u. map_option (with_return u) (day_return p d data (uv_code u))) df_universe)"

definition with_volume :: "numerics \<Rightarrow> rv_params \<Rightarrow> int \<Rightarrow> stock_data \<Rightarrow> candidate \<Rightarrow> candidate option" where
  "with_volume nl p d data c = map_option (\<lambda>v. c\<lparr>cd_volume_ratio := v\<rparr>)
     (Option.bind (map_of data (cd_code c)) (\<lambda>rows. volume_ratio nl (rv_volume_avg_days p) (rows_upto d rows)))"

lemma scan_from_data_cases:
  "scan_from_data nl argsort p d df_universe data = [] \<or>
   scan_from_data nl argsort p d df_universe data =
     sort_values argsort True (float_key \<circ> cd_return) (apply_risk_cut p (filter (at_least_ratio p)
       (List.map_filter (with_volume nl p d data)
         (head_rows (cutoff_of p (length (day_losers p d df_universe data)))
           (sort_values argsort True (float_key \<circ> cd_return) (day_losers p d df_universe data))))))"
  by (simp add: scan_from_data_def Let_def day_losers_def day_return_def with_volume_def [abs_def] map_option_bind)

lemma length_map_filter: "length (List.map_filter f xs) \<le> length xs"
  by (induction xs) (auto split: option.split)

lemma length_filter_map_filter:
  "length (filter P (List.map_filter f xs)) = length (filter (\<lambda>x. \<exists>y. f x = Some y \<and> P y) xs)"
  by (induction xs) (auto split: option.split)

text \<open>At most the given share of the losers, but at least one.\<close>

lemma scan_from_data_length:
  assumes "sorting argsort"
  shows "int (length (scan_from_data nl argsort p d df_universe data)) \<le> cutoff_of p
    (length (filter (\<lambda>u. \<exists>r. day_return p d data (uv_code u) = Some r \<and> pf_less r (Num 0)) df_universe))"
proof -
  define n where "n = cutoff_of p (length (day_losers p d df_universe data))"
  have pos: "0 \<le> n" by (simp add: n_def cutoff_of_def)
  have l: "length (day_losers p d df_universe data)
      = length (filter (\<lambda>u. \<exists>r. day_return p d data (uv_code u) = Some r \<and> pf_less r (Num 0)) df_universe)"
    unfolding day_losers_def length_filter_map_filter by (rule arg_cong [where f = length], rule filter_cong) auto
  have "int (length (scan_from_data nl argsort p d df_universe data)) \<le> n"
    using scan_from_data_cases [of nl argsort p d df_universe data]
  proof
    assume "scan_from_data nl argsort p d df_universe data = sort_values argsort True (float_key \<circ> cd_return)
      (apply_risk_cut p (filter (at_least_ratio p) (List.map_filter (with_volume nl p d data)
         (head_rows (cutoff_of p (length (day_losers p d df_universe data)))
           (sort_values argsort True (float_key \<circ> cd_return) (day_losers p d df_universe data))))))"
    then have "length (scan_from_data nl argsort p d df_universe data) \<le> nat n"
      unfolding n_def [symmetric]
      by (simp add: sorting.sort_values_length [OF assms] apply_risk_cut_def)
        (rule order_trans [OF length_filter_le] order_trans [OF length_map_filter] head_rows_length pos)+
    then show ?thesis using pos by simp
  qed (use pos in simp)
  then show ?thesis by (simp add: n_def l)
qed

lemma distinct_map_filter_list: "distinct (map h xs) \<Longrightarrow> distinct (map h (filter P xs))"
  by (induction xs) auto

lemma distinct_map_filter:
  assumes "distinct (map g xs)" "\<And>x y. f x = Some y \<Longrightarrow> h y = g x"
  shows "distinct (map h (List.map_filter f xs))"
  using assms(1)
proof (induction xs)
  case (Cons x xs)
  then show ?case using assms(2) by (auto simp: in_map_filter split: option.split)
qed simp

lemma distinct_sort_values:
  assumes "sorting argsort" "distinct (map h rows)"
  shows "distinct (map h (sort_values argsort asc key rows))"
  using assms sorting.sort_values_mset [OF assms(1), of asc key rows]
  by (metis mset_map mset_eq_imp_distinct_iff)

lemma distinct_head: "distinct (map h rows) \<Longrightarrow> distinct (map h (head_rows n rows))"
  by (simp add: head_rows_def take_map [symmetric])

lemma scan_from_data_distinct:
  assumes "sorting argsort" "distinct (map uv_code df_universe)"
  shows "distinct (map cd_code (scan_from_data nl argsort p d df_universe data))"
proof -
  have "distinct (map cd_code (day_losers p d df_universe data))"
    unfolding day_losers_def
    by (rule distinct_map_filter_list, rule distinct_map_filter [OF assms(2)]) auto
  then have "distinct (map cd_code (List.map_filter (with_volume nl p d data)
         (head_rows (cutoff_of p (length (day_losers p d df_universe data)))
           (sort_values argsort True (float_key \<circ> cd_return) (day_losers p d df_universe data)))))"
    by (intro distinct_map_filter [where g = cd_code] distinct_head distinct_sort_values [OF assms(1)])
      (auto simp: with_volume_def)
  then show ?thesis
    using scan_from_data_cases [of nl argsort p d df_universe data]
    by (auto simp: apply_risk_cut_def intro!: distinct_sort_values [OF assms(1)] distinct_map_filter_list)
qed

lemma cooled_down:
  "code \<notin> st_stock_code ` {t \<in> set recent. d - st_exit_date t \<le> rv_cooldown_days p} \<Longrightarrow> t \<in> set recent \<Longrightarrow>
     st_stock_code t = code \<Longrightarrow> rv_cooldown_days p < d - st_exit_date t"
  by (auto simp: image_iff not_le)

text \<open>
  Every entry the strategy proposes is a stock of the universe whose own closes and volumes up to that day show a
  loss within the bounds and a jump of the volume; it is neither held nor left within the cooldown, and the market is
  falling where that is asked.  The proposals are at most the given share of the losers, or one.
\<close>

lemma swing_entries_sound:
  assumes "sorting argsort"
  shows "(\<forall>c \<in> set (generate_entry_signals nl argsort p d df_universe data positions recent benchmark).
      reversal_with_volume nl p d df_universe data c \<and> cd_code c \<notin> sp_stock_code ` set positions \<and>
      (\<forall>t \<in> set recent. st_stock_code t = cd_code c \<longrightarrow> rv_cooldown_days p < d - st_exit_date t) \<and>
      (rv_market_filter_enabled p \<longrightarrow> is_bear_market nl p d benchmark)) \<and>
    int (length (generate_entry_signals nl argsort p d df_universe data positions recent benchmark)) \<le> cutoff_of p
      (length (filter (\<lambda>u. \<exists>r. day_return p d data (uv_code u) = Some r \<and> pf_less r (Num 0)) df_universe))"
proof -
  let ?n = "cutoff_of p (length (filter (\<lambda>u. \<exists>r. day_return p d data (uv_code u) = Some r \<and> pf_less r (Num 0)) df_universe))"
  let ?P = "\<lambda>c. cd_code c \<notin> sp_stock_code ` set positions \<union>
      st_stock_code ` {t \<in> set recent. d - st_exit_date t \<le> rv_cooldown_days p}"
  have "int (length (filter ?P (scan_from_data nl argsort p d df_universe data))) \<le> ?n"
    by (rule order_trans [OF of_nat_mono [OF length_filter_le] scan_from_data_length [OF assms]])
  moreover have "0 \<le> ?n" by (simp add: cutoff_of_def)
  ultimately show ?thesis
    using scan_from_data_sound [OF assms, of _ nl p d df_universe data] cooled_down [of _ recent d p]
    by (auto simp: generate_entry_signals_def Let_def)
qed

section \<open>Examples\<close>

definition swing_params :: rv_params where
  "swing_params =
     \<lparr>rv_max_marcap = 1000, rv_min_marcap = 10, rv_avg_amount_days = 1, rv_top_n_liquid = 5, rv_reversal_days = 1,
      rv_reversal_pct = 1, rv_volume_avg_days = 1, rv_volume_spike_ratio = 2, rv_max_drawdown_pct = -1/2,
      rv_take_profit_pct = 1/8, rv_stop_loss_pct = -1/8, rv_max_holding_days = 5, rv_max_positions = 2,
      rv_market_filter_enabled = False, rv_market_ma_days = 1, rv_cooldown_days = 3\<rparr>"

definition swing_rows :: "ohlcv_row list" where
  "swing_rows = [\<lparr>ow_date = 100, ow_close = 128, ow_volume = 10\<rparr>, \<lparr>ow_date = 101, ow_close = 96, ow_volume = 40\<rparr>]"

definition swing_source :: ohlcv_source where
  "swing_source code a b = Inr (tail_rows 2 (rows_upto b swing_rows))"

definition swing_listing :: listing_source where
  "swing_listing d = Inr [\<lparr>ls_code = ''000010'', ls_name = ''A'', ls_market = ''KOSPI'', ls_marcap = Some 100,
     ls_amount = Some 5, ls_change_ratio = None\<rparr>]"

definition swing_numerics :: numerics where
  "swing_numerics = \<lparr>nl_pow = (\<lambda>a b. Inr a), nl_sum = sum_list, nl_mean = hd, nl_std = (\<lambda>xs. 0), nl_sqrt = (\<lambda>x. x)\<rparr>"

definition swing_universe :: "universe_row list" where
  "swing_universe = [\<lparr>uv_code = ''000010'', uv_name = ''A'', uv_avg_amount = Some 3840\<rparr>]"

lemma swing_entry_exists:
  "map cd_code (generate_entry_signals swing_numerics stable_argsort swing_params 101 swing_universe [(''000010'', swing_rows)] [] [] None)
     = [''000010'']"
  by code_simp

lemma swing_liquidity:
  "filter_liquidity swing_numerics stable_argsort swing_params swing_listing swing_source a 101 = Inr swing_universe"
proof -
  have l: "liquid_listings swing_params (projr (swing_listing None)) = projr (swing_listing None)"
    "avg_amount swing_numerics (Suc 0) swing_rows = Some 3840"
    "head_rows 5 (sort_values stable_argsort False uv_avg_amount swing_universe) = swing_universe"
    "tail_rows 2 (rows_upto 101 swing_rows) = swing_rows" "Suc 0 \<le> length swing_rows" by code_simp+
  have p: "rv_avg_amount_days swing_params = 1" "rv_top_n_liquid swing_params = 5" by (simp_all add: swing_params_def)
  show ?thesis
    using l(1,3) by (simp add: filter_liquidity_def get_stock_list_raw_def swing_listing_def swing_source_def l(2,4,5) p
        swing_universe_def)
qed

theorem live_scan_matches_backtest_witness:
  "\<exists>df. scan swing_numerics stable_argsort swing_params swing_listing swing_source 101 = Inr df \<and>
     given df [] = scan_from_data swing_numerics stable_argsort swing_params 101 swing_universe [(''000010'', swing_rows)]"
proof (rule live_scan_matches_backtest [OF stable.sorting_axioms])
  show "filter_liquidity swing_numerics stable_argsort swing_params swing_listing swing_source
      (bday_minus 101 (scan_lookback swing_params)) 101 = Inr swing_universe" by (rule swing_liquidity)
  show "\<forall>u \<in> set swing_universe. sees_same swing_params swing_source (bday_minus 101 (scan_lookback swing_params)) 101
      [(''000010'', swing_rows)] (uv_code u)"
    by (auto simp: swing_universe_def sees_same_def swing_source_def swing_params_def intro!: exI [of _ 2])
qed

end
