(* ===== verification/Backtest.thy ===== *)
theory Backtest
  imports Swing
begin

text \<open>
  The backtests: \<^verbatim>\<open>app/strategy/backtest/backtest_executor.py\<close> and the older \<^verbatim>\<open>runner.py\<close>.  The executor keeps the cash, the
  positions and the trades; what to enter, when to leave and how much to spend is the strategy's
  (\<open>direct_strategy\<close>).  Closes are positive.
\<close>

section \<open>The strategy\<close>

record direct_strategy =
  ds_should_exit :: "swing_position \<Rightarrow> int \<Rightarrow> stock_data \<Rightarrow> exit_decision"
  ds_entry_signals :: "int \<Rightarrow> universe_row list \<Rightarrow> stock_data \<Rightarrow> swing_position list \<Rightarrow> swing_trade_record list \<Rightarrow>
    ohlcv_row list option \<Rightarrow> candidate list"
  ds_size_position :: "candidate \<Rightarrow> rat \<Rightarrow> rat \<Rightarrow> nat \<Rightarrow> rat"

definition reversal_volume :: "numerics \<Rightarrow> (rat list \<Rightarrow> nat list) \<Rightarrow> rv_params \<Rightarrow> direct_strategy" where
  "reversal_volume nl argsort p =
     \<lparr>ds_should_exit = should_exit p,
      ds_entry_signals = generate_entry_signals nl argsort p,
      ds_size_position = (\<lambda>signal. size_position)\<rparr>"

section \<open>State\<close>

record daily_record =
  dl_date :: int
  dl_equity :: rat
  dl_cash :: rat
  dl_holdings_value :: rat
  dl_num_holdings :: nat
  dl_num_signals :: nat
  dl_rebalance :: bool

text \<open>\<open>sm_candidates\<close> is the length of the local variable \<open>candidates\<close>, once it is bound.\<close>

record sim_state =
  sm_cash :: rat
  sm_positions :: "swing_position list"
  sm_trades :: "swing_trade_record list"
  sm_candidates :: "nat option"
  sm_records :: "daily_record list"

section \<open>Direct trades\<close>

definition TRADE_HISTORY_LOOKBACK_DAYS :: int where "TRADE_HISTORY_LOOKBACK_DAYS = 30"

definition history_lookback_days :: "rv_params \<Rightarrow> int" where
  "history_lookback_days s = max (rv_cooldown_days s * 2) TRADE_HISTORY_LOOKBACK_DAYS"

definition trade_of :: "swing_position \<Rightarrow> int \<Rightarrow> rat \<Rightarrow> exit_reason option \<Rightarrow> swing_trade_record" where
  "trade_of pos d price reason =
     \<lparr>st_stock_code = sp_stock_code pos, st_stock_name = sp_stock_name pos, st_entry_date = sp_entry_date pos,
      st_exit_date = d, st_entry_price = sp_entry_price pos, st_exit_price = price, st_quantity = sp_quantity pos,
      st_return_pct = fl (fl (price - sp_entry_price pos) / sp_entry_price pos), st_holding_days = sp_holding_days pos,
      st_exit_reason = (case reason of None \<Rightarrow> ''unknown'' | Some r \<Rightarrow> exit_reason_value r)\<rparr>"

text \<open>Step 1: what stays of the positions, the cash and the new trades.\<close>

fun check_exits ::
  "direct_strategy \<Rightarrow> stock_data \<Rightarrow> int \<Rightarrow> swing_position list \<Rightarrow> rat \<Rightarrow> swing_position list \<times> rat \<times> swing_trade_record list"
where
  "check_exits strat data d [] cash = ([], cash, [])"
| "check_exits strat data d (p # ps) cash =
     (let pos = p\<lparr>sp_holding_days := sp_holding_days p + 1\<rparr>;
          decision = ds_should_exit strat pos d data
      in if \<not> ed_should_exit decision then
           (let (kept, cash', trades) = check_exits strat data d ps cash in (pos # kept, cash', trades))
         else case close_on data (sp_stock_code pos) d of
           None \<Rightarrow> (let (kept, cash', trades) = check_exits strat data d ps cash in (p # kept, cash', trades))
         | Some price \<Rightarrow>
             (let (kept, cash', trades) = check_exits strat data d ps (fl (cash + fl (sp_quantity pos * price)))
              in (kept, cash', trade_of pos d price (ed_reason decision) # trades)))"

definition value_of_holdings :: "stock_data \<Rightarrow> int \<Rightarrow> swing_position list \<Rightarrow> rat" where
  "value_of_holdings data d positions =
     foldl (\<lambda>total pos. case close_on data (sp_stock_code pos) d of
              None \<Rightarrow> total | Some price \<Rightarrow> fl (total + fl (sp_quantity pos * price))) 0 positions"

text \<open>Step 2: the loop over the candidates.\<close>

fun enter ::
  "direct_strategy \<Rightarrow> stock_data \<Rightarrow> int \<Rightarrow> rat \<Rightarrow> nat \<Rightarrow> candidate list \<Rightarrow> swing_position list \<times> rat \<Rightarrow> swing_position list \<times> rat"
where
  "enter strat data d total_equity num_new [] (positions, cash) = (positions, cash)"
| "enter strat data d total_equity num_new (row # rows) (positions, cash) =
     (case close_on data (cd_code row) d of
        None \<Rightarrow> enter strat data d total_equity num_new rows (positions, cash)
      | Some price \<Rightarrow>
          let alloc = ds_size_position strat row cash total_equity num_new;
              qty = (if 0 < price then fl (alloc / price) else 0)
          in if 0 < qty \<and> alloc \<le> cash
             then enter strat data d total_equity num_new rows
                    (positions @ [\<lparr>sp_stock_code = cd_code row, sp_stock_name = cd_name row, sp_entry_price = price,
                                   sp_quantity = qty, sp_entry_date = d, sp_holding_days = 0\<rparr>],
                     fl (cash - fl (qty * price)))
             else enter strat data d total_equity num_new rows (positions, cash))"

definition trade_day ::
  "rv_params \<Rightarrow> direct_strategy \<Rightarrow> universe_row list \<Rightarrow> stock_data \<Rightarrow> ohlcv_row list option \<Rightarrow> int \<Rightarrow> sim_state \<Rightarrow> sim_state"
where
  "trade_day s strat df_universe data df_benchmark d st =
     (let (kept, cash, new_trades) = check_exits strat data d (sm_positions st) (sm_cash st);
          trades = sm_trades st @ new_trades;
          available_slots = rv_max_positions s - int (length kept);
          asked = 0 < available_slots \<and> df_universe \<noteq> [];
          recent = filter (\<lambda>t. d - st_exit_date t \<le> history_lookback_days s) trades;
          candidates = head_rows available_slots (ds_entry_signals strat d df_universe data kept recent df_benchmark);
          seen = (if asked then Some (length candidates) else sm_candidates st);
          (positions, cash') =
            (if asked \<and> candidates \<noteq> []
             then enter strat data d (fl (cash + value_of_holdings data d kept)) (length candidates) candidates (kept, cash)
             else (kept, cash));
          holdings_value = value_of_holdings data d positions
      in \<lparr>sm_cash = cash', sm_positions = positions, sm_trades = trades, sm_candidates = seen,
          sm_records = sm_records st @
            [\<lparr>dl_date = d, dl_equity = fl (cash' + holdings_value), dl_cash = cash', dl_holdings_value = holdings_value,
              dl_num_holdings = length positions, dl_num_signals = given seen 0, dl_rebalance = False\<rparr>]\<rparr>)"

definition trade_days ::
  "rv_params \<Rightarrow> direct_strategy \<Rightarrow> universe_row list \<Rightarrow> stock_data \<Rightarrow> ohlcv_row list option \<Rightarrow> int list \<Rightarrow> sim_state \<Rightarrow> sim_state"
where
  "trade_days s strat df_universe data df_benchmark dates st =
     foldl (\<lambda>st d. trade_day s strat df_universe data df_benchmark d st) st dates"

definition sim_start :: "rat \<Rightarrow> sim_state" where
  "sim_start initial_cash = \<lparr>sm_cash = initial_cash, sm_positions = [], sm_trades = [], sm_candidates = None, sm_records = []\<rparr>"

definition row_dates :: "ohlcv_row list \<Rightarrow> int list" where "row_dates rows = map ow_date rows"

text \<open>
  The trading days are those of the benchmark, or all days of the stocks; \<open>None\<close> is the empty frame without any data.
  The last log message reads \<open>records[-1]\<close>.
\<close>

definition run_direct_trade ::
  "rv_params \<Rightarrow> rat \<Rightarrow> direct_strategy \<Rightarrow> universe_row list \<Rightarrow> stock_data \<Rightarrow> ohlcv_row list option \<Rightarrow> sim_state option result"
where
  "run_direct_trade s initial_cash strat df_universe data df_benchmark =
     (if df_benchmark = None \<and> data = [] then Inr None
      else let all_dates = (case df_benchmark of
                 Some rows \<Rightarrow> sort (row_dates rows)
               | None \<Rightarrow> sort (remdups (concat (map (row_dates \<circ> snd) data))));
               st = trade_days s strat df_universe data df_benchmark all_dates (sim_start initial_cash)
           in if sm_records st = [] then Inl (LibError ''IndexError'' ''list index out of range'')
              else Inr (Some st))"

section \<open>The contract of a strategy\<close>

locale direct_trade =
  fixes strat :: direct_strategy and cooldown :: int
  assumes entries_distinct:
      "distinct (map uv_code u) \<Longrightarrow> distinct (map cd_code (ds_entry_signals strat d u data ps ts b))"
    and entries_fresh: "c \<in> set (ds_entry_signals strat d u data ps ts b) \<Longrightarrow> cd_code c \<notin> sp_stock_code ` set ps"
    and entries_cooled: "c \<in> set (ds_entry_signals strat d u data ps ts b) \<Longrightarrow> t \<in> set ts \<Longrightarrow>
      st_stock_code t = cd_code c \<Longrightarrow> cooldown < d - st_exit_date t"

section \<open>One day\<close>

text \<open>What a position and a trade look like.\<close>

definition position_ok :: "stock_data \<Rightarrow> swing_position \<Rightarrow> bool" where
  "position_ok data p \<longleftrightarrow> 0 < sp_entry_price p \<and> 0 < sp_quantity p \<and> 0 \<le> sp_holding_days p
     \<and> close_on data (sp_stock_code p) (sp_entry_date p) = Some (sp_entry_price p)"

definition trade_ok :: "stock_data \<Rightarrow> swing_trade_record \<Rightarrow> bool" where
  "trade_ok data t \<longleftrightarrow> 0 < st_entry_price t \<and> 0 < st_quantity t \<and> 1 \<le> st_holding_days t
     \<and> close_on data (st_stock_code t) (st_entry_date t) = Some (st_entry_price t)
     \<and> close_on data (st_stock_code t) (st_exit_date t) = Some (st_exit_price t)"

text \<open>A trade or a position after a trade of the same stock keeps the cooldown.\<close>

definition cooled_trades :: "int \<Rightarrow> swing_trade_record list \<Rightarrow> bool" where
  "cooled_trades n ts \<longleftrightarrow>
     sorted_wrt (\<lambda>t t'. st_stock_code t = st_stock_code t' \<longrightarrow> n < st_entry_date t' - st_exit_date t) ts"

definition cooled_positions :: "int \<Rightarrow> swing_trade_record list \<Rightarrow> swing_position list \<Rightarrow> bool" where
  "cooled_positions n ts ps \<longleftrightarrow>
     (\<forall>t \<in> set ts. \<forall>p \<in> set ps. st_stock_code t = sp_stock_code p \<longrightarrow> n < sp_entry_date p - st_exit_date t)"

text \<open>The exits: every position stays, possibly a day older, or becomes a trade.\<close>

definition stays :: "swing_position list \<Rightarrow> swing_position \<Rightarrow> bool" where
  "stays ps k \<longleftrightarrow> (\<exists>p \<in> set ps. k = p \<or> k = p\<lparr>sp_holding_days := sp_holding_days p + 1\<rparr>)"

definition closes :: "stock_data \<Rightarrow> int \<Rightarrow> swing_position list \<Rightarrow> swing_trade_record \<Rightarrow> bool" where
  "closes data d ps t \<longleftrightarrow> (\<exists>p \<in> set ps. \<exists>price reason. close_on data (sp_stock_code p) d = Some price
     \<and> t = trade_of (p\<lparr>sp_holding_days := sp_holding_days p + 1\<rparr>) d price reason)"

lemma check_exits_partition:
  "check_exits strat data d ps cash = (kept, cash', trades) \<Longrightarrow>
     (\<forall>k \<in> set kept. stays ps k) \<and> (\<forall>t \<in> set trades. closes data d ps t) \<and>
     mset (map sp_stock_code kept) + mset (map st_stock_code trades) = mset (map sp_stock_code ps)"
proof (induction ps arbitrary: cash kept cash' trades)
  case (Cons p ps)
  let ?p = "p\<lparr>sp_holding_days := sp_holding_days p + 1\<rparr>"
  have mono: "stays ps k \<Longrightarrow> stays (p # ps) k" "closes data d ps t \<Longrightarrow> closes data d (p # ps) t" for k t
    by (auto simp: stays_def closes_def)
  show ?case
  proof (cases "ed_should_exit (ds_should_exit strat ?p d data)")
    case False
    then obtain ks where "check_exits strat data d ps cash = (ks, cash', trades)" "kept = ?p # ks"
      using Cons.prems by (auto simp: Let_def split: prod.splits)
    then show ?thesis using Cons.IH mono by (auto simp: stays_def)
  next
    case True
    show ?thesis
    proof (cases "close_on data (sp_stock_code p) d")
      case None
      then obtain ks where "check_exits strat data d ps cash = (ks, cash', trades)" "kept = p # ks"
        using Cons.prems True by (auto simp: Let_def split: prod.splits)
      then show ?thesis using Cons.IH mono by (auto simp: stays_def)
    next
      case (Some price)
      then obtain ts cash1 where "check_exits strat data d ps cash1 = (kept, cash', ts)"
        "trades = trade_of ?p d price (ed_reason (ds_should_exit strat ?p d data)) # ts"
        using Cons.prems True by (auto simp: Let_def split: prod.splits)
      moreover have "closes data d (p # ps) (trade_of ?p d price r)" for r
        using Some by (auto simp: closes_def)
      ultimately show ?thesis using Cons.IH mono by (auto simp: trade_of_def)
    qed
  qed
qed simp

text \<open>The entries: new positions at the close of the day, for some of the candidates in order.\<close>

lemma enter_appends:
  "enter strat data d total_equity num_new rows (ps, cash) = (ps', cash') \<Longrightarrow>
     \<exists>new. ps' = ps @ new \<and> subseq (map sp_stock_code new) (map cd_code rows) \<and>
       (\<forall>p \<in> set new. position_ok data p \<and> sp_entry_date p = d)"
proof (induction rows arbitrary: ps cash)
  case (Cons row rows)
  show ?case
  proof (cases "close_on data (cd_code row) d")
    case None
    then have "enter strat data d total_equity num_new rows (ps, cash) = (ps', cash')" using Cons.prems by simp
    then show ?thesis using Cons.IH by (fastforce intro: subseq_Cons')
  next
    case (Some price)
    define alloc where "alloc = ds_size_position strat row cash total_equity num_new"
    define qty where "qty = (if 0 < price then fl (alloc / price) else 0)"
    show ?thesis
    proof (cases "0 < qty \<and> alloc \<le> cash")
      case False
      then have "enter strat data d total_equity num_new rows (ps, cash) = (ps', cash')"
        using Cons.prems Some by (auto simp: Let_def alloc_def [symmetric] qty_def [symmetric])
      then show ?thesis using Cons.IH by (fastforce intro: subseq_Cons')
    next
      case True
      define p where "p = \<lparr>sp_stock_code = cd_code row, sp_stock_name = cd_name row, sp_entry_price = price,
                           sp_quantity = qty, sp_entry_date = d, sp_holding_days = 0\<rparr>"
      have "enter strat data d total_equity num_new rows (ps @ [p], fl (cash - fl (qty * price))) = (ps', cash')"
        using Cons.prems Some True by (simp add: Let_def alloc_def [symmetric] qty_def [symmetric] p_def)
      from Cons.IH [OF this] obtain new where new: "ps' = (ps @ [p]) @ new"
        "subseq (map sp_stock_code new) (map cd_code rows)" "\<forall>p \<in> set new. position_ok data p \<and> sp_entry_date p = d" by blast
      have "position_ok data p" "sp_entry_date p = d"
        using True Some by (auto simp: p_def position_ok_def qty_def split: if_splits)
      then show ?thesis using new by (intro exI [of _ "p # new"]) (simp add: p_def)
    qed
  qed
qed simp

section \<open>The invariant\<close>

definition sim_ok :: "rv_params \<Rightarrow> int \<Rightarrow> stock_data \<Rightarrow> sim_state \<Rightarrow> bool" where
  "sim_ok s n data st \<longleftrightarrow>
     int (length (sm_positions st)) \<le> max 0 (rv_max_positions s) \<and> distinct (map sp_stock_code (sm_positions st)) \<and>
     (\<forall>p \<in> set (sm_positions st). position_ok data p) \<and> (\<forall>t \<in> set (sm_trades st). trade_ok data t) \<and>
     cooled_trades n (sm_trades st) \<and> cooled_positions n (sm_trades st) (sm_positions st)"

lemma stays_ok: "stays ps k \<Longrightarrow> \<forall>p \<in> set ps. position_ok data p \<Longrightarrow> position_ok data k"
  by (auto simp: stays_def position_ok_def)

lemma stays_same: "stays ps k \<Longrightarrow> \<exists>p \<in> set ps. sp_stock_code k = sp_stock_code p \<and> sp_entry_date k = sp_entry_date p"
  by (auto simp: stays_def)

lemma closes_ok: "closes data d ps t \<Longrightarrow> \<forall>p \<in> set ps. position_ok data p \<Longrightarrow> trade_ok data t"
  by (auto simp: closes_def position_ok_def trade_ok_def trade_of_def)

lemma closes_same: "closes data d ps t \<Longrightarrow> \<exists>p \<in> set ps. st_stock_code t = sp_stock_code p \<and> st_entry_date t = sp_entry_date p"
  by (auto simp: closes_def trade_of_def)

lemma distinct_sorted_wrt: "distinct (map f xs) \<Longrightarrow> sorted_wrt (\<lambda>a b. f a = f b \<longrightarrow> Q a b) xs"
  by (induction xs) auto

text \<open>The positions and trades after the exits of a day.\<close>

lemma exits_ok:
  assumes "check_exits strat data d (sm_positions st) (sm_cash st) = (kept, cash, new)" "sim_ok s n data st"
  shows "sim_ok s n data (st\<lparr>sm_cash := cash, sm_positions := kept, sm_trades := sm_trades st @ new\<rparr>)"
proof -
  note part = check_exits_partition [OF assms(1)]
  note ok = assms(2) [unfolded sim_ok_def]
  have codes: "distinct (map sp_stock_code kept @ map st_stock_code new)"
  proof -
    have "mset (map sp_stock_code kept @ map st_stock_code new) = mset (map sp_stock_code (sm_positions st))"
      using part by simp
    then show ?thesis using ok by (metis mset_eq_imp_distinct_iff)
  qed
  have len: "length kept \<le> length (sm_positions st)"
    using arg_cong [OF conjunct2 [OF conjunct2 [OF part]], of size] by simp
  have "cooled_trades n (sm_trades st @ new)"
    unfolding cooled_trades_def sorted_wrt_append
  proof (intro conjI ballI impI)
    show "sorted_wrt (\<lambda>t t'. st_stock_code t = st_stock_code t' \<longrightarrow> n < st_entry_date t' - st_exit_date t) new"
      using codes by (intro distinct_sorted_wrt) simp
    fix t t'
    assume t: "t \<in> set (sm_trades st)" "t' \<in> set new" "st_stock_code t = st_stock_code t'"
    then obtain p where "p \<in> set (sm_positions st)" "st_stock_code t' = sp_stock_code p" "st_entry_date t' = sp_entry_date p"
      using part closes_same by blast
    then show "n < st_entry_date t' - st_exit_date t" using ok t by (auto simp: cooled_positions_def)
  qed (use ok in \<open>simp add: cooled_trades_def\<close>)
  moreover have "cooled_positions n (sm_trades st @ new) kept"
    unfolding cooled_positions_def
  proof (intro ballI impI)
    fix t k
    assume t: "t \<in> set (sm_trades st @ new)" "k \<in> set kept" "st_stock_code t = sp_stock_code k"
    obtain p where "p \<in> set (sm_positions st)" "sp_stock_code k = sp_stock_code p" "sp_entry_date k = sp_entry_date p"
      using t(2) part stays_same by blast
    moreover have "t \<notin> set new" using codes t(2,3) by (auto simp: image_iff)
    ultimately show "n < sp_entry_date k - st_exit_date t" using ok t by (auto simp: cooled_positions_def)
  qed
  moreover have "\<forall>t \<in> set new. trade_ok data t" "\<forall>k \<in> set kept. position_ok data k"
    using part ok closes_ok stays_ok by blast+
  ultimately show ?thesis using ok len codes by (auto simp: sim_ok_def)
qed

lemma subseq_subset: "subseq xs ys \<Longrightarrow> set xs \<subseteq> set ys"
  by (induction rule: list_emb.induct) auto

lemma subseq_distinct: "subseq xs ys \<Longrightarrow> distinct ys \<Longrightarrow> distinct xs"
  by (induction rule: list_emb.induct) (auto dest: subseq_subset)

context direct_trade
begin

text \<open>The entries of a day: \<open>rows\<close> are the first of the proposals.\<close>

lemma entries_ok:
  assumes "sim_ok s cooldown data st" "distinct (map uv_code u)" "cooldown \<le> history_lookback_days s"
    and "rows = head_rows (rv_max_positions s - int (length (sm_positions st)))
      (ds_entry_signals strat d u data (sm_positions st)
        (filter (\<lambda>t. d - st_exit_date t \<le> history_lookback_days s) (sm_trades st)) b)"
    and "0 < rv_max_positions s - int (length (sm_positions st))"
    and "enter strat data d total_equity num_new rows (sm_positions st, cash) = (positions, cash')"
  shows "sim_ok s cooldown data (st\<lparr>sm_positions := positions, sm_cash := cash'\<rparr>)"
proof -
  let ?signals = "ds_entry_signals strat d u data (sm_positions st)
        (filter (\<lambda>t. d - st_exit_date t \<le> history_lookback_days s) (sm_trades st)) b"
  note ok = assms(1) [unfolded sim_ok_def]
  obtain new where new: "positions = sm_positions st @ new" "subseq (map sp_stock_code new) (map cd_code rows)"
    "\<forall>p \<in> set new. position_ok data p \<and> sp_entry_date p = d"
    using enter_appends [OF assms(6)] by blast
  have rows: "set rows \<subseteq> set ?signals" unfolding assms(4) by (rule head_rows_subset)
  have "distinct (map cd_code rows)"
    unfolding assms(4) by (intro distinct_head entries_distinct assms(2))
  then have dist: "distinct (map sp_stock_code new)" using subseq_distinct [OF new(2)] by simp
  have codes: "\<exists>c \<in> set ?signals. cd_code c = sp_stock_code p" if "p \<in> set new" for p
  proof -
    have "sp_stock_code p \<in> set (map cd_code rows)"
      using that subseq_subset [OF new(2)] by auto
    then show ?thesis using rows by auto
  qed
  have "length new \<le> length rows" using list_emb_length [OF new(2)] by simp
  also have "length rows \<le> nat (rv_max_positions s - int (length (sm_positions st)))"
    unfolding assms(4) by (rule head_rows_length) (use assms(5) in simp)
  finally have len: "int (length positions) \<le> max 0 (rv_max_positions s)" using new(1) assms(5) by simp
  have "sp_stock_code ` set new \<inter> sp_stock_code ` set (sm_positions st) = {}"
    using codes entries_fresh by fastforce
  then have "distinct (map sp_stock_code positions)" using new(1) dist ok by (simp add: Int_commute)
  moreover have "cooldown < d - st_exit_date t" if e: "t \<in> set (sm_trades st)" "p \<in> set new" "st_stock_code t = sp_stock_code p" for t p
  proof (cases "d - st_exit_date t \<le> history_lookback_days s")
    case True
    obtain c where c: "c \<in> set ?signals" "cd_code c = sp_stock_code p" using codes [OF e(2)] by blast
    show ?thesis by (rule entries_cooled [OF c(1)]) (use c(2) e True in auto)
  qed (use assms(3) in simp)
  then have "cooled_positions cooldown (sm_trades st) positions"
    using ok new(1,3) by (auto simp: cooled_positions_def)
  ultimately show ?thesis using ok len new(1,3) by (auto simp: sim_ok_def)
qed

lemma trade_day_ok:
  assumes "sim_ok s cooldown data st" "distinct (map uv_code u)" "cooldown \<le> history_lookback_days s"
  shows "sim_ok s cooldown data (trade_day s strat u data b d st)"
proof -
  obtain kept cash new where ex: "check_exits strat data d (sm_positions st) (sm_cash st) = (kept, cash, new)"
    using prod_cases3 by blast
  let ?st = "st\<lparr>sm_cash := cash, sm_positions := kept, sm_trades := sm_trades st @ new\<rparr>"
  have ok: "sim_ok s cooldown data ?st" by (rule exits_ok [OF ex assms(1)])
  define slots where "slots = rv_max_positions s - int (length kept)"
  define rows where "rows = head_rows slots (ds_entry_signals strat d u data kept
    (filter (\<lambda>t. d - st_exit_date t \<le> history_lookback_days s) (sm_trades st @ new)) b)"
  define asked where "asked \<longleftrightarrow> 0 < slots \<and> u \<noteq> []"
  obtain positions cash' where en: "(if asked \<and> rows \<noteq> [] then enter strat data d (fl (cash + value_of_holdings data d kept))
      (length rows) rows (kept, cash) else (kept, cash)) = (positions, cash')" using prod.exhaust by blast
  have "sim_ok s cooldown data (?st\<lparr>sm_positions := positions, sm_cash := cash'\<rparr>)"
  proof (cases "asked \<and> rows \<noteq> []")
    case True
    show ?thesis
      by (rule entries_ok [OF ok assms(2,3), where rows = rows and d = d and b = b and cash = cash])
        (use True en in \<open>auto simp: rows_def slots_def asked_def\<close>)
  qed (use en ok in \<open>auto simp: sim_ok_def\<close>)
  moreover have "sm_positions (trade_day s strat u data b d st) = positions"
    "sm_trades (trade_day s strat u data b d st) = sm_trades st @ new"
    using en by (simp_all only: trade_day_def ex Let_def prod.case slots_def [symmetric] rows_def [symmetric] asked_def [symmetric]
        sim_state.simps)
  ultimately show ?thesis by (simp add: sim_ok_def)
qed

lemma trade_days_ok:
  assumes "distinct (map uv_code u)" "cooldown \<le> history_lookback_days s"
  shows "sim_ok s cooldown data st \<Longrightarrow> sim_ok s cooldown data (trade_days s strat u data b ds st)"
  unfolding trade_days_def
  by (induction ds arbitrary: st) (simp_all add: trade_day_ok assms)

end

section \<open>The swing strategy\<close>

lemma reversal_volume_contract:
  assumes "sorting argsort" "n \<le> rv_cooldown_days p"
  shows "direct_trade (reversal_volume nl argsort p) n"
proof
  fix u d data ps ts b
  have "distinct (map uv_code u) \<Longrightarrow> distinct (map cd_code (scan_from_data nl argsort p d u data))"
    by (rule scan_from_data_distinct [OF assms(1)])
  then show "distinct (map uv_code u) \<Longrightarrow>
      distinct (map cd_code (ds_entry_signals (reversal_volume nl argsort p) d u data ps ts b))"
    by (auto simp: reversal_volume_def generate_entry_signals_def Let_def intro!: distinct_map_filter_list)
next
  fix c d u data ps ts b
  assume "c \<in> set (ds_entry_signals (reversal_volume nl argsort p) d u data ps ts b)"
  then show "cd_code c \<notin> sp_stock_code ` set ps"
    by (auto simp: reversal_volume_def generate_entry_signals_def Let_def split: if_splits)
next
  fix c d u data ps ts b t
  assume "c \<in> set (ds_entry_signals (reversal_volume nl argsort p) d u data ps ts b)" "t \<in> set ts"
    "st_stock_code t = cd_code c"
  then have "rv_cooldown_days p < d - st_exit_date t"
    using cooled_down [of "cd_code c" ts d p t]
    by (auto simp: reversal_volume_def generate_entry_signals_def Let_def split: if_splits)
  then show "n < d - st_exit_date t" using assms(2) by simp
qed

interpretation stable_reversal: direct_trade "reversal_volume nl stable_argsort p" "rv_cooldown_days p" for nl p
  by (rule reversal_volume_contract [OF stable.sorting_axioms order_refl])

lemma sim_start_ok: "sim_ok s n data (sim_start cash)"
  by (simp add: sim_ok_def sim_start_def cooled_trades_def cooled_positions_def)

lemma trade_day_records: "map dl_date (sm_records (trade_day s strat u data b d st)) = map dl_date (sm_records st) @ [d]"
  by (simp add: trade_day_def Let_def split: prod.split)

lemma trade_days_records:
  "map dl_date (sm_records (trade_days s strat u data b ds st)) = map dl_date (sm_records st) @ ds"
  unfolding trade_days_def by (induction ds arbitrary: st) (simp_all add: trade_day_records)

lemma swing_sim_ok:
  assumes "sorting argsort" "distinct (map uv_code u)"
  shows "sim_ok s (min (rv_cooldown_days p) (history_lookback_days s)) data
    (trade_days s (reversal_volume nl argsort p) u data b ds (sim_start cash))"
  by (rule direct_trade.trade_days_ok [OF reversal_volume_contract [OF assms(1)] assms(2)])
    (simp_all add: sim_start_ok)

text \<open>
  C23. After any number of days of a swing backtest there are at most \<open>RV_MAX_POSITIONS\<close> positions, of different stocks,
  each of a positive quantity bought at the close of its entry day; every trade was bought and sold at the closes of
  its days; there is one record per day.
\<close>

theorem backtest_state_well_formed:
  assumes "sorting argsort" and "distinct (map uv_code u)"
  shows "let st = trade_days s (reversal_volume nl argsort p) u data b ds (sim_start cash)
    in int (length (sm_positions st)) \<le> max 0 (rv_max_positions s) \<and> distinct (map sp_stock_code (sm_positions st)) \<and>
       (\<forall>p \<in> set (sm_positions st). position_ok data p) \<and> (\<forall>t \<in> set (sm_trades st). trade_ok data t) \<and>
       map dl_date (sm_records st) = ds"
  using swing_sim_ok [OF assms, of s p data nl b ds cash] trade_days_records [of s "reversal_volume nl argsort p" u data b ds]
  by (simp add: sim_ok_def Let_def sim_start_def)

text \<open>
  C24. No stock is bought again within the cooldown of its last sale, as far as the history reaches that the executor
  hands to the strategy.
\<close>

theorem backtest_respects_cooldown:
  assumes "sorting argsort" and "distinct (map uv_code u)"
  shows "let st = trade_days s (reversal_volume nl argsort p) u data b ds (sim_start cash);
             n = min (rv_cooldown_days p) (history_lookback_days s)
    in (\<forall>i j. i < j \<and> j < length (sm_trades st) \<and> st_stock_code (sm_trades st ! i) = st_stock_code (sm_trades st ! j) \<longrightarrow>
          n < st_entry_date (sm_trades st ! j) - st_exit_date (sm_trades st ! i)) \<and>
       (\<forall>t \<in> set (sm_trades st). \<forall>q \<in> set (sm_positions st). st_stock_code t = sp_stock_code q \<longrightarrow>
          n < sp_entry_date q - st_exit_date t)"
  using swing_sim_ok [OF assms, of s p data nl b ds cash]
  by (simp add: sim_ok_def Let_def cooled_trades_def cooled_positions_def sorted_wrt_iff_nth_less)

section \<open>An example\<close>

definition swing_data :: stock_data where "swing_data = [(''000010'', swing_rows)]"

lemma swing_example_entries:
  "generate_entry_signals swing_numerics stable_argsort swing_params 101 swing_universe swing_data [] [] None
     = [\<lparr>cd_code = ''000010'', cd_name = ''A'', cd_return = Num (-1/4), cd_volume_ratio = Num 4\<rparr>]"
  by code_simp

lemma swing_example_day:
  "map sp_stock_code (sm_positions (trade_days swing_params (reversal_volume swing_numerics stable_argsort swing_params)
     swing_universe swing_data None [101] (sim_start 96))) = [''000010'']"
proof -
  have c: "close_on swing_data ''000010'' 101 = Some 96" "fl 96 = 96" "fl (96 / 96) = 1" "fl 1 = 1" "rv_max_positions swing_params = 2"
    "swing_universe \<noteq> []" by code_simp+
  show ?thesis
    by (simp add: trade_days_def trade_day_def sim_start_def reversal_volume_def swing_example_entries head_rows_def
        c size_position_def Let_def)
qed

theorem backtest_state_well_formed_witness:
  "let st = trade_days swing_params (reversal_volume swing_numerics stable_argsort swing_params) swing_universe swing_data None
              [101] (sim_start 96)
   in map sp_stock_code (sm_positions st) = [''000010''] \<and> (\<forall>p \<in> set (sm_positions st). position_ok swing_data p)"
proof -
  have "distinct (map uv_code swing_universe)" by code_simp
  from backtest_state_well_formed [OF stable.sorting_axioms this] swing_example_day show ?thesis
    unfolding Let_def by blast
qed

theorem backtest_respects_cooldown_witness:
  "let st = trade_days swing_params (reversal_volume swing_numerics stable_argsort swing_params) swing_universe swing_data None
              [100, 101] (sim_start 96)
   in \<forall>t \<in> set (sm_trades st). \<forall>q \<in> set (sm_positions st). st_stock_code t = sp_stock_code q \<longrightarrow>
        3 < sp_entry_date q - st_exit_date t"
proof -
  have u: "distinct (map uv_code swing_universe)" and
    n: "min (rv_cooldown_days swing_params) (history_lookback_days swing_params) = 3" by code_simp+
  show ?thesis using backtest_respects_cooldown [OF stable.sorting_axioms u, where s = swing_params and p = swing_params]
    unfolding Let_def n by blast
qed

section \<open>Rebalancing backtests\<close>

text \<open>
  A strategy is its signals on the data up to a day; \<open>period_of\<close> is the period of a day under the interval
  (\<open>to_period\<close> of pandas).  All days traded are days of every stock.
\<close>

type_synonym signal_source = "stock_data \<Rightarrow> (str \<times> strategy_signal) list result"

record portfolio =
  pt_cash :: rat
  pt_positions :: "(str \<times> rat) list"

fun rebalance_dates_from :: "int list \<Rightarrow> (int \<Rightarrow> int) \<Rightarrow> int list \<Rightarrow> int list" where
  "rebalance_dates_from seen period_of [] = []"
| "rebalance_dates_from seen period_of (d # ds) =
     (if period_of d \<in> set seen then rebalance_dates_from seen period_of ds
      else d # rebalance_dates_from (period_of d # seen) period_of ds)"

definition get_rebalance_dates :: "(int \<Rightarrow> int) \<Rightarrow> int list \<Rightarrow> int list" where
  "get_rebalance_dates period_of dates = rebalance_dates_from [] period_of dates"

definition common_dates :: "stock_data \<Rightarrow> int list result" where
  "common_dates data =
     (case data of
        [] \<Rightarrow> Inl (TypeError ''unbound method set.intersection() needs an argument'')
      | (_, rows) # rest \<Rightarrow>
          Inr (sort (remdups (filter (\<lambda>d. \<forall>(_, rs) \<in> set rest. d \<in> set (row_dates rs)) (row_dates rows)))))"

definition sliced_data :: "stock_data \<Rightarrow> int \<Rightarrow> stock_data" where
  "sliced_data data d =
     map (\<lambda>(c, rows). (c, rows_upto d rows)) (filter (\<lambda>(c, rows). d \<in> set (row_dates rows)) data)"

definition buy_codes_of :: "(str \<times> strategy_signal) list \<Rightarrow> str list" where
  "buy_codes_of signals = map fst (filter (\<lambda>(c, s). s = SignalBUY) signals)"

text \<open>\<open>data[code].loc[date, "Close"]\<close>.\<close>

definition price_at :: "stock_data \<Rightarrow> str \<Rightarrow> int \<Rightarrow> rat result" where
  "price_at data code d =
     (case close_on data code d of None \<Rightarrow> Inl (LibError ''KeyError'' code) | Some price \<Rightarrow> Inr price)"

fun buy_equally :: "stock_data \<Rightarrow> int \<Rightarrow> rat \<Rightarrow> str list \<Rightarrow> (str \<times> rat) list \<Rightarrow> (str \<times> rat) list result" where
  "buy_equally data d alloc [] positions = Inr positions"
| "buy_equally data d alloc (code # codes) positions =
     bind_result (price_at data code d) (\<lambda>price.
       buy_equally data d alloc codes (AList.update code (fl (alloc / price)) positions))"

definition sell_all :: "stock_data \<Rightarrow> int \<Rightarrow> portfolio \<Rightarrow> rat" where
  "sell_all data d st =
     foldl (\<lambda>cash (code, qty). case close_on data code d of None \<Rightarrow> cash | Some price \<Rightarrow> fl (cash + fl (qty * price)))
       (pt_cash st) (pt_positions st)"

definition rebalance_on :: "signal_source \<Rightarrow> stock_data \<Rightarrow> int \<Rightarrow> portfolio \<Rightarrow> portfolio result" where
  "rebalance_on signals_of data d st =
     bind_result (signals_of (sliced_data data d)) (\<lambda>signals.
       let buy_codes = buy_codes_of signals; cash = sell_all data d st
       in if buy_codes = [] then Inr \<lparr>pt_cash = cash, pt_positions = []\<rparr>
          else bind_result (buy_equally data d (fl (cash / of_nat (length buy_codes))) buy_codes []) (\<lambda>positions.
                 Inr \<lparr>pt_cash = 0, pt_positions = positions\<rparr>))"

definition portfolio_value :: "stock_data \<Rightarrow> int \<Rightarrow> (str \<times> rat) list \<Rightarrow> rat" where
  "portfolio_value data d positions =
     foldl (\<lambda>total (code, qty). case close_on data code d of None \<Rightarrow> total | Some price \<Rightarrow> fl (total + fl (qty * price)))
       0 positions"

fun rebalance_days ::
  "signal_source \<Rightarrow> stock_data \<Rightarrow> int list \<Rightarrow> int list \<Rightarrow> portfolio \<Rightarrow> daily_record list result"
where
  "rebalance_days signals_of data rebalance_dates [] st = Inr []"
| "rebalance_days signals_of data rebalance_dates (d # ds) st =
     bind_result (if d \<in> set rebalance_dates then rebalance_on signals_of data d st else Inr st) (\<lambda>st1.
       let holdings_value = portfolio_value data d (pt_positions st1);
           record = \<lparr>dl_date = d, dl_equity = fl (pt_cash st1 + holdings_value), dl_cash = pt_cash st1,
                     dl_holdings_value = holdings_value, dl_num_holdings = length (pt_positions st1),
                     dl_num_signals = 0, dl_rebalance = d \<in> set rebalance_dates\<rparr>
       in bind_result (rebalance_days signals_of data rebalance_dates ds st1) (\<lambda>rest. Inr (record # rest)))"

definition run_rebalance :: "(int \<Rightarrow> int) \<Rightarrow> signal_source \<Rightarrow> rat \<Rightarrow> stock_data \<Rightarrow> daily_record list result" where
  "run_rebalance period_of signals_of initial_cash data =
     bind_result (common_dates data) (\<lambda>all_dates.
       if all_dates = [] then Inr []
       else rebalance_days signals_of data (get_rebalance_dates period_of all_dates) all_dates
              \<lparr>pt_cash = initial_cash, pt_positions = []\<rparr>)"

text \<open>The first trading day of every period, and only it.\<close>

lemma rebalance_dates_from_exact:
  assumes "sorted ds" "distinct ds" "mono period_of"
  shows "d \<in> set (rebalance_dates_from seen period_of ds) \<longleftrightarrow>
    d \<in> set ds \<and> period_of d \<notin> set seen \<and> (\<forall>d' \<in> set ds. period_of d' = period_of d \<longrightarrow> d \<le> d')"
  using assms(1,2)
proof (induction ds arbitrary: seen)
  case (Cons x xs)
  have x: "x < y" if "y \<in> set xs" for y using Cons.prems that by (auto simp: less_le)
  show ?case
  proof (cases "period_of x \<in> set seen")
    case True
    then show ?thesis using Cons x by auto
  next
    case False
    have "d \<in> set (rebalance_dates_from (period_of x # seen) period_of xs) \<longleftrightarrow>
      d \<in> set xs \<and> period_of d \<notin> set (period_of x # seen) \<and> (\<forall>d' \<in> set xs. period_of d' = period_of d \<longrightarrow> d \<le> d')"
      using Cons by simp
    then show ?thesis using False x by (auto simp: less_imp_le) (metis less_le_not_le)+
  qed
qed simp

section \<open>The older runner\<close>

text \<open>\<open>BacktestRunner.run\<close>, with its list of records as it grows.\<close>

fun runner_days ::
  "signal_source \<Rightarrow> stock_data \<Rightarrow> int list \<Rightarrow> int list \<Rightarrow> portfolio \<Rightarrow> daily_record list \<Rightarrow> daily_record list result"
where
  "runner_days signals_of data rebalance_dates [] st records = Inr records"
| "runner_days signals_of data rebalance_dates (d # ds) st records =
     (let is_rebalance = d \<in> set rebalance_dates;
          st' = (if is_rebalance
                 then bind_result (signals_of (sliced_data data d)) (\<lambda>signals.
                        let buy_codes = buy_codes_of signals; cash = sell_all data d st
                        in if buy_codes \<noteq> []
                           then bind_result (buy_equally data d (fl (cash / of_nat (length buy_codes))) buy_codes [])
                                  (\<lambda>positions. Inr \<lparr>pt_cash = 0, pt_positions = positions\<rparr>)
                           else Inr \<lparr>pt_cash = cash, pt_positions = []\<rparr>)
                 else Inr st)
      in bind_result st' (\<lambda>st'.
           let holdings_value = portfolio_value data d (pt_positions st')
           in runner_days signals_of data rebalance_dates ds st'
                (records @ [\<lparr>dl_date = d, dl_equity = fl (pt_cash st' + holdings_value), dl_cash = pt_cash st',
                             dl_holdings_value = holdings_value, dl_num_holdings = length (pt_positions st'),
                             dl_num_signals = 0, dl_rebalance = is_rebalance\<rparr>])))"

definition runner_run :: "(int \<Rightarrow> int) \<Rightarrow> signal_source \<Rightarrow> rat \<Rightarrow> stock_data \<Rightarrow> daily_record list result" where
  "runner_run period_of signals_of initial_cash data =
     bind_result (common_dates data) (\<lambda>all_dates.
       if all_dates = [] then Inr []
       else runner_days signals_of data (get_rebalance_dates period_of all_dates) all_dates
              \<lparr>pt_cash = initial_cash, pt_positions = []\<rparr> [])"

lemma runner_days_eq:
  "runner_days signals_of data rs ds st records =
     bind_result (rebalance_days signals_of data rs ds st) (\<lambda>rest. Inr (records @ rest))"
proof (induction ds arbitrary: st records)
  case (Cons d ds)
  let ?st = "if d \<in> set rs then rebalance_on signals_of data d st else Inr st"
  have st: "(if d \<in> set rs
      then bind_result (signals_of (sliced_data data d)) (\<lambda>signals.
             let buy_codes = buy_codes_of signals; cash = sell_all data d st
             in if buy_codes \<noteq> []
                then bind_result (buy_equally data d (fl (cash / of_nat (length buy_codes))) buy_codes [])
                       (\<lambda>positions. Inr \<lparr>pt_cash = 0, pt_positions = positions\<rparr>)
                else Inr \<lparr>pt_cash = cash, pt_positions = []\<rparr>)
      else Inr st) = ?st"
    by (auto simp: rebalance_on_def Let_def bind_result_def split: sum.split)
  show ?case
    unfolding runner_days.simps rebalance_days.simps Let_def st [unfolded Let_def]
    by (cases ?st) (simp_all add: Cons.IH bind_result_def split: sum.split)
qed simp

text \<open>The executor gives the results of the runner it replaces.\<close>

lemma runner_is_executor: "runner_run period_of signals_of cash data = run_rebalance period_of signals_of cash data"
  by (simp add: runner_run_def run_rebalance_def runner_days_eq bind_result_def split: sum.split)

end
