(* ===== verification/Backtest_Metrics.thy ===== *)
theory Backtest_Metrics
  imports Backtest
begin

text \<open>
  The metrics of a backtest, \<^verbatim>\<open>app/strategy/backtest/metrics.py\<close>, and the run as a whole,
  \<^verbatim>\<open>app/strategy/backtest/services.py\<close>.  A standard deviation of fewer than two values is NaN (\<open>None\<close>).
\<close>

section \<open>Data\<close>

record backtest_returns =
  br_total_return :: rat
  br_cagr :: rat
  br_benchmark_return :: rat
  br_alpha_vs_benchmark :: rat

record backtest_risk =
  bk_max_drawdown :: rat
  bk_volatility :: cell
  bk_sharpe_ratio :: cell

record rebalance_trades =
  rt_rebalance_count :: nat
  rt_win_rate :: rat
  rt_avg_win :: rat
  rt_avg_loss :: rat
  rt_profit_factor :: rat
  rt_avg_holding_count :: rat

record swing_trades =
  sw_trade_count :: nat
  sw_win_rate :: rat
  sw_avg_win :: rat
  sw_avg_loss :: rat
  sw_profit_factor :: rat
  sw_avg_holding_days :: rat
  sw_avg_holding_count :: rat
  sw_take_profit_pct :: rat
  sw_stop_loss_pct :: rat
  sw_time_exit_pct :: rat

record exposure_metrics =
  ex_avg_position_count :: rat
  ex_slot_utilization :: rat
  ex_max_concurrent_positions :: nat
  ex_days_with_positions_pct :: rat
  ex_avg_daily_signals :: rat

datatype trade_metrics = RebalanceTrades rebalance_trades | SwingTrades swing_trades

record backtest_metrics =
  bm_start :: int
  bm_end :: int
  bm_days :: int
  bm_returns :: backtest_returns
  bm_risk :: backtest_risk
  bm_trade :: trade_metrics
  bm_exposure :: "exposure_metrics option"

section \<open>Trades\<close>

definition percent :: "rat \<Rightarrow> rat" where "percent x = py_round 2 (fl (x * 100))"

definition share_of :: "('a \<Rightarrow> bool) \<Rightarrow> 'a list \<Rightarrow> rat" where
  "share_of P xs = fl (of_nat (length (filter P xs)) / of_nat (length xs))"

text \<open>Win rate, mean win, mean loss and the quotient of gains and losses; 0.0 without losses.\<close>

record win_summary =
  ws_win_rate :: rat
  ws_avg_win :: rat
  ws_avg_loss :: rat
  ws_profit_factor :: rat

definition summarize_returns :: "numerics \<Rightarrow> rat list \<Rightarrow> win_summary" where
  "summarize_returns nl returns =
     (let wins = filter (\<lambda>x. 0 < x) returns; losses = filter (\<lambda>x. x < 0) returns;
          gross_profit = (if wins = [] then 0 else nl_sum nl wins);
          gross_loss = (if losses = [] then 0 else \<bar>nl_sum nl losses\<bar>)
      in \<lparr>ws_win_rate = (if returns = [] then 0 else share_of (\<lambda>x. 0 < x) returns),
          ws_avg_win = (if wins = [] then 0 else nl_mean nl wins),
          ws_avg_loss = (if losses = [] then 0 else nl_mean nl losses),
          ws_profit_factor = (if 0 < gross_loss then fl (gross_profit / gross_loss) else 0)\<rparr>)"

definition mean_holdings :: "numerics \<Rightarrow> daily_record list \<Rightarrow> rat" where
  "mean_holdings nl df = nl_mean nl (map (\<lambda>r. of_nat (dl_num_holdings r)) df)"

fun interval_returns :: "rat \<Rightarrow> rat list \<Rightarrow> rat list" where
  "interval_returns final_equity [] = []"
| "interval_returns final_equity (start_eq # rest) =
     fl (fl ((case rest of [] \<Rightarrow> final_equity | e # _ \<Rightarrow> e) / start_eq) - 1) # interval_returns final_equity rest"

definition calc_rebalance_trade_metrics :: "numerics \<Rightarrow> daily_record list \<Rightarrow> rebalance_trades" where
  "calc_rebalance_trade_metrics nl df =
     (let points = map dl_equity (filter dl_rebalance df);
          w = summarize_returns nl (interval_returns (dl_equity (last df)) points)
      in \<lparr>rt_rebalance_count = length points, rt_win_rate = percent (ws_win_rate w), rt_avg_win = percent (ws_avg_win w),
          rt_avg_loss = percent (ws_avg_loss w), rt_profit_factor = py_round 2 (ws_profit_factor w),
          rt_avg_holding_count = py_round 2 (mean_holdings nl df)\<rparr>)"

definition reason_pct :: "str \<Rightarrow> swing_trade_record list \<Rightarrow> rat" where
  "reason_pct reason trades = fl (share_of (\<lambda>t. st_exit_reason t = reason) trades * 100)"

definition calc_swing_trade_metrics :: "numerics \<Rightarrow> daily_record list \<Rightarrow> swing_trade_record list \<Rightarrow> swing_trades" where
  "calc_swing_trade_metrics nl df trade_records =
     (if trade_records = []
      then \<lparr>sw_trade_count = 0, sw_win_rate = 0, sw_avg_win = 0, sw_avg_loss = 0, sw_profit_factor = 0,
            sw_avg_holding_days = 0, sw_avg_holding_count = mean_holdings nl df, sw_take_profit_pct = 0,
            sw_stop_loss_pct = 0, sw_time_exit_pct = 0\<rparr>
      else (let w = summarize_returns nl (map st_return_pct trade_records)
            in \<lparr>sw_trade_count = length trade_records, sw_win_rate = percent (ws_win_rate w),
                sw_avg_win = percent (ws_avg_win w), sw_avg_loss = percent (ws_avg_loss w),
                sw_profit_factor = py_round 2 (ws_profit_factor w),
                sw_avg_holding_days = py_round 2 (nl_mean nl (map (\<lambda>t. of_int (st_holding_days t)) trade_records)),
                sw_avg_holding_count = py_round 2 (mean_holdings nl df),
                sw_take_profit_pct = py_round 2 (reason_pct ''take_profit'' trade_records),
                sw_stop_loss_pct = py_round 2 (reason_pct ''stop_loss'' trade_records),
                sw_time_exit_pct = py_round 2 (reason_pct ''time_exit'' trade_records)\<rparr>))"

definition calc_exposure_metrics :: "numerics \<Rightarrow> daily_record list \<Rightarrow> int \<Rightarrow> exposure_metrics" where
  "calc_exposure_metrics nl df max_positions =
     (let avg_position_count = mean_holdings nl df
      in \<lparr>ex_avg_position_count = py_round 2 avg_position_count,
          ex_slot_utilization = py_round 2 (if 0 < max_positions then fl (fl (avg_position_count / of_int max_positions) * 100) else 0),
          ex_max_concurrent_positions = Max (set (map dl_num_holdings df)),
          ex_days_with_positions_pct = py_round 2 (fl (share_of (\<lambda>r. 0 < dl_num_holdings r) df * 100)),
          ex_avg_daily_signals = py_round 2 (nl_mean nl (map (\<lambda>r. of_nat (dl_num_signals r)) df))\<rparr>)"

section \<open>All metrics\<close>

definition std_of :: "numerics \<Rightarrow> rat list \<Rightarrow> cell" where
  "std_of nl xs = (if length xs < 2 then None else Some (nl_std nl xs))"

definition equity_returns :: "rat list \<Rightarrow> rat list" where
  "equity_returns v = map (\<lambda>(a, b). fl (fl (b / a) - 1)) (zip v (tl v))"

definition calculate_metrics ::
  "numerics \<Rightarrow> daily_record list \<Rightarrow> rat \<Rightarrow> swing_trade_record list option \<Rightarrow> int option \<Rightarrow> backtest_metrics result"
where
  "calculate_metrics nl df benchmark_return trade_records max_positions =
     (if df = [] then Inl (LibError ''KeyError'' ''equity'')
      else
        let equity = map dl_equity df; dates = map dl_date df;
            days = (if Max (set dates) - Min (set dates) = 0 then 1 else Max (set dates) - Min (set dates));
            total_return = fl (fl (last equity / hd equity) - 1);
            alpha_vs_benchmark = fl (total_return - benchmark_return);
            returns = equity_returns equity;
            drawdown = map (\<lambda>(e, m). fl (fl (e - m) / m)) (zip equity (cummax equity));
            volatility = (if returns = [] then Some 0
                          else map_option (\<lambda>sd. fl (sd * nl_sqrt nl 252)) (std_of nl returns));
            sharpe_ratio = (if returns = [] \<or> std_of nl returns = Some 0 then Some 0
                            else map_option (\<lambda>sd. fl (fl (nl_mean nl returns / sd) * nl_sqrt nl 252)) (std_of nl returns));
            trade = (case trade_records of
                       Some ts \<Rightarrow> SwingTrades (calc_swing_trade_metrics nl df ts)
                     | None \<Rightarrow> RebalanceTrades (calc_rebalance_trade_metrics nl df));
            exposure = (case (trade_records, max_positions) of
                          (Some _, Some m) \<Rightarrow> Some (calc_exposure_metrics nl df (if m = 0 then 5 else m))
                        | _ \<Rightarrow> None)
        in bind_result (nl_pow nl (fl (last equity / hd equity)) (fl (365 / of_int days))) (\<lambda>growth.
             Inr \<lparr>bm_start = Min (set dates), bm_end = Max (set dates), bm_days = days,
                  bm_returns = \<lparr>br_total_return = percent total_return, br_cagr = percent (fl (growth - 1)),
                                br_benchmark_return = percent benchmark_return,
                                br_alpha_vs_benchmark = percent alpha_vs_benchmark\<rparr>,
                  bm_risk = \<lparr>bk_max_drawdown = percent (Min (set drawdown)),
                             bk_volatility = map_option percent volatility,
                             bk_sharpe_ratio = map_option (py_round 2) sharpe_ratio\<rparr>,
                  bm_trade = trade, bm_exposure = exposure\<rparr>))"

section \<open>A run\<close>

datatype backtest_strategy = Rebalancing signal_source | Swing rv_params

record backtest_env =
  bt_numerics :: numerics
  bt_argsort :: "rat list \<Rightarrow> nat list"
  bt_listing :: listing_source
  bt_get_ohlcv :: ohlcv_source
  bt_stock_names :: "(str \<times> str) list result"
  bt_settings :: rv_params
  bt_period_of :: "int \<Rightarrow> int"

record backtest_output =
  bo_result :: "daily_record list"
  bo_metrics :: backtest_metrics
  bo_benchmark_df :: "ohlcv_row list"
  bo_trade_records :: "swing_trade_record list option"

fun load_ohlcv_data :: "ohlcv_source \<Rightarrow> str list \<Rightarrow> int \<Rightarrow> int \<Rightarrow> stock_data \<Rightarrow> stock_data result" where
  "load_ohlcv_data get_ohlcv [] data_start end_date data = Inr data"
| "load_ohlcv_data get_ohlcv (code # codes) data_start end_date data =
     bind_result (get_ohlcv code data_start end_date) (\<lambda>df.
       load_ohlcv_data get_ohlcv codes data_start end_date (if df = [] then data else AList.update code df data))"

text \<open>The benchmark frame; an empty one has no column \<open>Date\<close>.\<close>

definition benchmark_frame :: "ohlcv_source \<Rightarrow> str \<Rightarrow> int \<Rightarrow> int \<Rightarrow> ohlcv_row list result" where
  "benchmark_frame get_ohlcv code start end_date =
     bind_result (get_ohlcv code start end_date) (\<lambda>df. if df = [] then Inl (LibError ''KeyError'' ''Date'') else Inr df)"

definition benchmark_return_of :: "ohlcv_row list \<Rightarrow> rat" where
  "benchmark_return_of df = fl (fl (ow_close (last df) / ow_close (hd df)) - 1)"

text \<open>The empty frame of a run without days has no index of times to compare.\<close>

definition drop_warmup :: "int \<Rightarrow> int \<Rightarrow> daily_record list \<Rightarrow> daily_record list result" where
  "drop_warmup warmup_days start df =
     (if warmup_days \<le> 0 then Inr df
      else if df = [] then Inl (TypeError ''comparison of a RangeIndex with a Timestamp'')
      else Inr (filter (\<lambda>r. start \<le> dl_date r) df))"

definition run_backtest ::
  "backtest_env \<Rightarrow> backtest_strategy \<Rightarrow> str \<Rightarrow> int \<Rightarrow> int \<Rightarrow> rat \<Rightarrow> str list \<Rightarrow> int \<Rightarrow> backtest_output result"
where
  "run_backtest env strategy benchmark_code start end_date initial_cash stock_codes warmup_days =
     (case strategy of
        Rebalancing signals_of \<Rightarrow>
          if stock_codes = [] then Inl (ValueError ''a REBALANCE strategy needs stock_codes'')
          else bind_result (load_ohlcv_data (bt_get_ohlcv env) stock_codes (bday_minus start (nat warmup_days)) end_date []) (\<lambda>data.
               bind_result (benchmark_frame (bt_get_ohlcv env) benchmark_code start end_date) (\<lambda>benchmark_df.
               bind_result (run_rebalance (bt_period_of env) signals_of initial_cash data) (\<lambda>records.
               bind_result (drop_warmup warmup_days start records) (\<lambda>df.
                 bind_result (calculate_metrics (bt_numerics env) df (benchmark_return_of benchmark_df) None
                                   (Some (rv_max_positions (bt_settings env)))) (\<lambda>metrics.
                      Inr \<lparr>bo_result = df, bo_metrics = metrics, bo_benchmark_df = benchmark_df, bo_trade_records = None\<rparr>)))))
      | Swing p \<Rightarrow>
          bind_result (build_universe (bt_numerics env) (bt_argsort env) p (bt_listing env) (bt_get_ohlcv env)
                         (bt_stock_names env) start end_date) (\<lambda>(df_universe, data).
          bind_result (benchmark_frame (bt_get_ohlcv env) benchmark_code start end_date) (\<lambda>benchmark_df.
          bind_result (run_direct_trade (bt_settings env) initial_cash (reversal_volume (bt_numerics env) (bt_argsort env) p)
                         df_universe data (Some benchmark_df)) (\<lambda>st.
          bind_result (drop_warmup warmup_days start (case st of None \<Rightarrow> [] | Some s \<Rightarrow> sm_records s)) (\<lambda>df.
            let trades = (case st of None \<Rightarrow> [] | Some s \<Rightarrow> sm_trades s)
            in bind_result (calculate_metrics (bt_numerics env) df (benchmark_return_of benchmark_df) (Some trades)
                              (Some (rv_max_positions (bt_settings env)))) (\<lambda>metrics.
                 Inr \<lparr>bo_result = df, bo_metrics = metrics, bo_benchmark_df = benchmark_df, bo_trade_records = Some trades\<rparr>))))))"

end
