(* ===== verification/Realtime.thy ===== *)
theory Realtime
  imports Prelude Py_Number
begin

text \<open>
  Real-time prices (\<^verbatim>\<open>app/market/realtime/kis_realtime_client.py\<close>, \<^verbatim>\<open>app/schemas/kis/realtime.py\<close>,
  \<^verbatim>\<open>app/api/router_realtime.py\<close>): the client that keeps a WebSocket connection to the broker,
  subscribes stocks, answers the broker's pings, reads the price frames and connects again when
  the connection is lost.

  The environment is a script: a list of connection attempts, each with the outcome of
  fetching the approval key and of opening the socket, the calls other tasks make while the client
  is connecting, the number of messages the socket takes before a send raises, what arrives and what
  is called while the socket is open, how it ends, and the calls during the delay that follows.
  A run is over the script, so a loop without an end is a run that outlives every script.
  \<open>loads\<close> stands for \<open>json.loads\<close> (\<open>None\<close> is \<open>JSONDecodeError\<close>).  A Python set of codes is a
  list without repetition: the order in which the code walks through it is not specified.
  Calls of other tasks between two re-subscriptions of one attempt are left out.
\<close>

section \<open>The price frame\<close>

text \<open>The field names of the broker's documentation, and the fields of \<open>KisRealtimePrice\<close>.\<close>

definition KIS_REALTIME_PRICE_FIELDS :: "str list" where
  "KIS_REALTIME_PRICE_FIELDS =
     [''MKSC_SHRN_ISCD'', ''STCK_CNTG_HOUR'', ''STCK_PRPR'', ''PRDY_VRSS_SIGN'', ''PRDY_VRSS'',
      ''PRDY_CTRT'', ''WGHN_AVRG_STCK_PRC'', ''STCK_OPRC'', ''STCK_HGPR'', ''STCK_LWPR'',
      ''ASKP1'', ''BIDP1'', ''CNTG_VOL'', ''ACML_VOL'', ''ACML_TR_PBMN'', ''SELN_CNTG_CSNU'',
      ''SHNU_CNTG_CSNU'', ''NTBY_CNTG_CSNU'', ''CTTR'', ''SELN_CNTG_SMTN'', ''SHNU_CNTG_SMTN'',
      ''CCLD_DVSN'', ''SHNU_RATE'', ''PRDY_VOL_VRSS_ACML_VOL_RATE'', ''OPRC_HOUR'',
      ''OPRC_VRSS_PRPR_SIGN'', ''OPRC_VRSS_PRPR'', ''HGPR_HOUR'', ''HGPR_VRSS_PRPR_SIGN'',
      ''HGPR_VRSS_PRPR'', ''LWPR_HOUR'', ''LWPR_VRSS_PRPR_SIGN'', ''LWPR_VRSS_PRPR'',
      ''BSOP_DATE'', ''NEW_MKOP_CLS_CODE'', ''TRHT_YN'', ''ASKP_RSQN1'', ''BIDP_RSQN1'',
      ''TOTAL_ASKP_RSQN'', ''TOTAL_BIDP_RSQN'', ''VOL_TNRT'', ''PRDY_SMNS_HOUR_ACML_VOL'',
      ''PRDY_SMNS_HOUR_ACML_VOL_RATE'', ''HOUR_CLS_CODE'', ''MRKT_TRTM_CLS_CODE'',
      ''VI_STND_PRC'']"
definition price_fields :: "str list" where
  "price_fields =
     [''mksc_shrn_iscd'', ''stck_cntg_hour'', ''stck_prpr'', ''prdy_vrss_sign'', ''prdy_vrss'',
      ''prdy_ctrt'', ''wghn_avrg_stck_prc'', ''stck_oprc'', ''stck_hgpr'', ''stck_lwpr'',
      ''askp1'', ''bidp1'', ''cntg_vol'', ''acml_vol'', ''acml_tr_pbmn'', ''seln_cntg_csnu'',
      ''shnu_cntg_csnu'', ''ntby_cntg_csnu'', ''cttr'', ''seln_cntg_smtn'', ''shnu_cntg_smtn'',
      ''ccld_dvsn'', ''shnu_rate'', ''prdy_vol_vrss_acml_vol_rate'', ''oprc_hour'',
      ''oprc_vrss_prpr_sign'', ''oprc_vrss_prpr'', ''hgpr_hour'', ''hgpr_vrss_prpr_sign'',
      ''hgpr_vrss_prpr'', ''lwpr_hour'', ''lwpr_vrss_prpr_sign'', ''lwpr_vrss_prpr'',
      ''bsop_date'', ''new_mkop_cls_code'', ''trht_yn'', ''askp_rsqn1'', ''bidp_rsqn1'',
      ''total_askp_rsqn'', ''total_bidp_rsqn'', ''vol_tnrt'', ''prdy_smns_hour_acml_vol'',
      ''prdy_smns_hour_acml_vol_rate'', ''hour_cls_code'', ''mrkt_trtm_cls_code'',
      ''vi_stnd_prc'']"
text \<open>
  \<open>KisRealtimePrice\<close>: its fields with their texts.  \<open>from_fields\<close> zips the field names with the
  texts; pydantic refuses an object with a field missing, by a \<open>ValidationError\<close>, which is a \<open>ValueError\<close>.
\<close>

type_synonym kis_realtime_price = "(str \<times> str) list"

definition from_fields :: "str list \<Rightarrow> kis_realtime_price result" where
  "from_fields texts =
     (let field_map = zip price_fields texts
      in if list_all (\<lambda>f. dict_get field_map f \<noteq> None) price_fields then Inr field_map
         else Inl (ValueError ''Field required''))"

text \<open>\<open>text.split(d, n)\<close> and \<open>text.split(d)\<close> for a delimiter of one character.\<close>

fun split_max :: "nat \<Rightarrow> char \<Rightarrow> str \<Rightarrow> str list" where
  "split_max 0 d s = [s]"
| "split_max (Suc n) d s =
     (case dropWhile (\<lambda>c. c \<noteq> d) s of
        [] \<Rightarrow> [s]
      | _ # rest \<Rightarrow> takeWhile (\<lambda>c. c \<noteq> d) s # split_max n d rest)"

fun split_all :: "char \<Rightarrow> str \<Rightarrow> str list" where
  "split_all d [] = [[]]"
| "split_all d (c # cs) =
     (if c = d then [] # split_all d cs
      else case split_all d cs of [] \<Rightarrow> [[c]] | f # fs \<Rightarrow> (c # f) # fs)"

text \<open>The loop of \<open>_handle_realtime_data\<close> over the records of a frame, from record \<open>i\<close> on.\<close>

fun read_records :: "str list \<Rightarrow> nat \<Rightarrow> nat \<Rightarrow> kis_realtime_price result list" where
  "read_records all_fields i 0 = []"
| "read_records all_fields i (Suc n) =
     (let field_count = length KIS_REALTIME_PRICE_FIELDS;
          start = i * field_count;
          stop = start + field_count
      in if length all_fields < stop then []
         else from_fields (take (stop - start) (drop start all_fields))
                # read_records all_fields (Suc i) n)"

text \<open>
  \<open>_handle_realtime_data\<close>: what it reads from a frame, a record it cannot parse as its
  exception, which is logged.  The count is converted before the encryption flag is looked at, and
  nothing catches its \<open>ValueError\<close>.
\<close>

definition handle_realtime_data :: "str \<Rightarrow> kis_realtime_price result list result" where
  "handle_realtime_data raw =
     (let parts = split_max 3 (CHR ''|'') raw
      in if length parts < 4 then Inr []
         else bind_result (py_int (parts ! 2)) (\<lambda>count.
                if parts ! 0 = ''1'' then Inr []
                else Inr (read_records (split_all (CHR ''^'') (parts ! 3)) 0 (nat count))))"

section \<open>The client\<close>

text \<open>
  What arrives on the socket, what the client sends (a request, whose JSON text pydantic makes,
  or a text it echoes), and the calls of the API and of the shutdown.
\<close>

datatype ws_message = TextMessage str | BytesMessage

datatype outgoing = Request json | Echo str

datatype client_call = CallSubscribe str | CallUnsubscribe str | CallDisconnect

datatype ws_event = Received ws_message | Called client_call

record realtime_client =
  rc_connected :: bool               \<comment> \<open>\<open>_ws\<close> is not \<open>None\<close>\<close>
  rc_subscribed_codes :: "str list"
  rc_running :: bool
  rc_approval_key :: "str option"
  rc_sends_left :: nat               \<comment> \<open>messages the socket takes before it raises\<close>
  rc_sent :: "outgoing list"
  rc_prices :: "kis_realtime_price result list"
  rc_delays :: "int list"

definition new_client :: realtime_client where
  "new_client =
     \<lparr>rc_connected = False, rc_subscribed_codes = [], rc_running = False, rc_approval_key = None,
      rc_sends_left = 0, rc_sent = [], rc_prices = [], rc_delays = []\<rparr>"

definition PINGPONG_TR_ID :: str where "PINGPONG_TR_ID = ''PINGPONG''"
definition RECONNECT_DELAY_SECONDS :: int where "RECONNECT_DELAY_SECONDS = 3"
definition MAX_RECONNECT_ATTEMPTS :: nat where "MAX_RECONNECT_ATTEMPTS = 10"

definition DOMESTIC_STOCK_REALTIME_PRICE :: str where
  "DOMESTIC_STOCK_REALTIME_PRICE = ''H0STCNT0''"

text \<open>
  The address of the socket.  \<open>TRID\<close> is a plain \<open>Enum\<close>, whose \<open>format\<close> is the name of the class
  and of the member, not the member's value.
\<close>

definition ws_url :: "str \<Rightarrow> str" where
  "ws_url kis_ws_url = kis_ws_url @ ''/tryitout/'' @ ''TRID.DOMESTIC_STOCK_REALTIME_PRICE''"

text \<open>\<open>self._ws.send(...)\<close>.\<close>

definition ws_send :: "outgoing \<Rightarrow> realtime_client \<Rightarrow> unit result \<times> realtime_client" where
  "ws_send m c =
     (if \<not> rc_connected c
      then (Inl (AttributeError ''NoneType object has no attribute send''), c)
      else case rc_sends_left c of
             0 \<Rightarrow> (Inl (LibError ''ConnectionClosed'' ''no close frame received or sent''), c)
           | Suc k \<Rightarrow> (Inr (), c\<lparr>rc_sends_left := k, rc_sent := rc_sent c @ [m]\<rparr>))"

definition build_subscribe_message :: "str \<Rightarrow> str \<Rightarrow> str \<Rightarrow> str \<Rightarrow> json" where
  "build_subscribe_message approval_key tr_type tr_id tr_key =
     JObj
       [(''header'', JObj
          [(''approval_key'', JStr approval_key), (''custtype'', JStr ''P''),
           (''tr_type'', JStr tr_type), (''content-type'', JStr ''utf-8'')]),
        (''body'', JObj [(''input'', JObj [(''tr_id'', JStr tr_id), (''tr_key'', JStr tr_key)])])]"

text \<open>What \<open>subscribe\<close> and \<open>unsubscribe\<close> share: the guard, the message and the send.\<close>

definition send_request :: "str \<Rightarrow> str \<Rightarrow> realtime_client \<Rightarrow> unit result \<times> realtime_client" where
  "send_request tr_type stock_code c =
     (if \<not> rc_connected c \<or> \<not> truthy (rc_approval_key c)
      then (Inl (LibError ''RuntimeError'' ''WebSocket is not connected''), c)
      else ws_send (Request (build_subscribe_message (or_text (rc_approval_key c) '''') tr_type
                               DOMESTIC_STOCK_REALTIME_PRICE stock_code)) c)"

definition subscribe :: "str \<Rightarrow> realtime_client \<Rightarrow> unit result \<times> realtime_client" where
  "subscribe stock_code c =
     (case send_request ''1'' stock_code c of
        (Inl e, c') \<Rightarrow> (Inl e, c')
      | (Inr _, c') \<Rightarrow> (Inr (), c'\<lparr>rc_subscribed_codes := List.insert stock_code (rc_subscribed_codes c')\<rparr>))"

definition unsubscribe :: "str \<Rightarrow> realtime_client \<Rightarrow> unit result \<times> realtime_client" where
  "unsubscribe stock_code c =
     (case send_request ''2'' stock_code c of
        (Inl e, c') \<Rightarrow> (Inl e, c')
      | (Inr _, c') \<Rightarrow> (Inr (), c'\<lparr>rc_subscribed_codes := removeAll stock_code (rc_subscribed_codes c')\<rparr>))"

definition disconnect :: "realtime_client \<Rightarrow> realtime_client" where
  "disconnect c = c\<lparr>rc_running := False, rc_connected := False\<rparr>"

text \<open>A call of another task: its exception goes to its caller, an API route, not to the client.\<close>

fun call_result :: "client_call \<Rightarrow> realtime_client \<Rightarrow> unit result \<times> realtime_client" where
  "call_result (CallSubscribe code) c = subscribe code c"
| "call_result (CallUnsubscribe code) c = unsubscribe code c"
| "call_result CallDisconnect c = (Inr (), disconnect c)"

definition handle_call :: "client_call \<Rightarrow> realtime_client \<Rightarrow> realtime_client" where
  "handle_call k c = snd (call_result k c)"

definition handle_calls :: "client_call list \<Rightarrow> realtime_client \<Rightarrow> realtime_client" where
  "handle_calls = fold handle_call"

section \<open>Messages\<close>

text \<open>\<open>d.get(key, {})\<close>.\<close>

definition json_get_dict :: "json \<Rightarrow> str \<Rightarrow> json result" where
  "json_get_dict d key =
     bind_result (json_get d key) (\<lambda>x. Inr (case x of None \<Rightarrow> JObj [] | Some v \<Rightarrow> v))"

text \<open>The JSON branch of \<open>on_message\<close>.  The answer to a subscription is only logged.\<close>

definition subscription_answer :: "json \<Rightarrow> unit result" where
  "subscription_answer data =
     bind_result (json_get_dict data ''body'') (\<lambda>body.
     bind_result (json_get body ''rt_cd'') (\<lambda>rt_cd.
       if rt_cd = Some (JStr ''0'') \<or> rt_cd = Some (JStr ''1'')
       then bind_result (json_get_dict body ''output'') (\<lambda>output.
            bind_result (json_get output ''msg1'') (\<lambda>_. Inr ()))
       else Inr ()))"

definition message_tr_id :: "json \<Rightarrow> json option result" where
  "message_tr_id data =
     bind_result (json_get_dict data ''header'') (\<lambda>header. json_get header ''tr_id'')"

definition on_json :: "str \<Rightarrow> json \<Rightarrow> realtime_client \<Rightarrow> unit result \<times> realtime_client" where
  "on_json message data c =
     (case message_tr_id data of
        Inl e \<Rightarrow> (Inl e, c)
      | Inr tr_id \<Rightarrow>
          if tr_id = Some (JStr PINGPONG_TR_ID) then ws_send (Echo message) c
          else (subscription_answer data, c))"

definition on_message ::
  "(str \<Rightarrow> json option) \<Rightarrow> ws_message \<Rightarrow> realtime_client \<Rightarrow> unit result \<times> realtime_client"
where
  "on_message loads message c =
     (case message of
        BytesMessage \<Rightarrow> (Inr (), c)
      | TextMessage text \<Rightarrow>
          if take 1 text \<in> {''0'', ''1''} then
            (case handle_realtime_data text of
               Inl e \<Rightarrow> (Inl e, c)
             | Inr records \<Rightarrow> (Inr (), c\<lparr>rc_prices := rc_prices c @ records\<rparr>))
          else (case loads text of
                  None \<Rightarrow> (Inr (), c)
                | Some data \<Rightarrow> on_json text data c))"

section \<open>The main loop\<close>

record attempt =
  at_key :: "str result"             \<comment> \<open>\<open>_get_approval_key\<close>\<close>
  at_meanwhile :: "client_call list" \<comment> \<open>calls while it is connecting\<close>
  at_socket :: "unit result"         \<comment> \<open>\<open>websockets\<close>' \<open>connect\<close>\<close>
  at_sends :: nat
  at_events :: "ws_event list"
  at_end :: "exn option"             \<comment> \<open>\<open>None\<close>: closed normally, the loop over messages ends\<close>
  at_pause :: "client_call list"     \<comment> \<open>calls during the delay after it\<close>

text \<open>
  \<open>connect\<close>.  Calls made while the key is fetched or the socket opened see no socket: they differ in
  nothing but the key, which then does not matter, so they are all placed after the key.
\<close>

definition connect :: "attempt \<Rightarrow> realtime_client \<Rightarrow> unit result \<times> realtime_client" where
  "connect a c =
     (case at_key a of
        Inl e \<Rightarrow> (Inl e, handle_calls (at_meanwhile a) c)
      | Inr key \<Rightarrow>
          (let c1 = handle_calls (at_meanwhile a) (c\<lparr>rc_approval_key := Some key\<rparr>)
           in case at_socket a of
                Inl e \<Rightarrow> (Inl e, c1)
              | Inr _ \<Rightarrow> (Inr (), c1\<lparr>rc_connected := True, rc_sends_left := at_sends a\<rparr>)))"

text \<open>The codes subscribed before are subscribed again; the first exception ends it.\<close>

fun resubscribe :: "str list \<Rightarrow> realtime_client \<Rightarrow> unit result \<times> realtime_client" where
  "resubscribe [] c = (Inr (), c)"
| "resubscribe (code # codes) c =
     (case subscribe code c of (Inl e, c') \<Rightarrow> (Inl e, c') | (Inr _, c') \<Rightarrow> resubscribe codes c')"

text \<open>\<open>async for message in self._ws\<close>.\<close>

fun receive ::
  "(str \<Rightarrow> json option) \<Rightarrow> exn option \<Rightarrow> ws_event list \<Rightarrow> realtime_client \<Rightarrow> unit result \<times> realtime_client"
where
  "receive loads ending [] c = (case ending of None \<Rightarrow> Inr () | Some e \<Rightarrow> Inl e, c)"
| "receive loads ending (Received m # events) c =
     (case on_message loads m c of
        (Inl e, c') \<Rightarrow> (Inl e, c')
      | (Inr _, c') \<Rightarrow> receive loads ending events c')"
| "receive loads ending (Called k # events) c = receive loads ending events (handle_call k c)"

text \<open>
  The body of the loop's \<open>try\<close> statement, with its \<open>except\<close> (every exception is logged) and
  \<open>finally\<close>: the counter of reconnections, reset by a successful \<open>connect\<close>, and the client.
\<close>

definition attempt_once ::
  "(str \<Rightarrow> json option) \<Rightarrow> attempt \<Rightarrow> nat \<Rightarrow> realtime_client \<Rightarrow> nat \<times> realtime_client"
where
  "attempt_once loads a n c =
     (case connect a c of
        (Inl e, c1) \<Rightarrow> (n, c1\<lparr>rc_connected := False\<rparr>)
      | (Inr _, c1) \<Rightarrow>
          (case resubscribe (rc_subscribed_codes c1) c1 of
             (Inl e, c2) \<Rightarrow> (0, c2\<lparr>rc_connected := False\<rparr>)
           | (Inr _, c2) \<Rightarrow> (0, (snd (receive loads (at_end a) (at_events a) c2))\<lparr>rc_connected := False\<rparr>)))"

definition reconnect_delay :: "nat \<Rightarrow> int" where
  "reconnect_delay n = min (RECONNECT_DELAY_SECONDS * int n) 30"

text \<open>
  The loop with \<open>n\<close> reconnections behind it: \<open>Stopped\<close> when \<open>_running\<close> is false, \<open>GaveUp\<close> when there
  were too many reconnections, \<open>Live\<close> when it still runs at the end of the script.
\<close>

datatype client_end = Stopped | GaveUp | Live

fun run_client ::
  "(str \<Rightarrow> json option) \<Rightarrow> attempt list \<Rightarrow> nat \<Rightarrow> realtime_client \<Rightarrow> client_end \<times> realtime_client"
where
  "run_client loads [] n c = (if rc_running c then Live else Stopped, c)"
| "run_client loads (a # script) n c =
     (if \<not> rc_running c then (Stopped, c)
      else let (n1, c1) = attempt_once loads a n c;
               n2 = Suc n1
           in if \<not> rc_running c1 then (Stopped, c1)
              else if MAX_RECONNECT_ATTEMPTS < n2 then (GaveUp, c1)
              else run_client loads script n2
                     (handle_calls (at_pause a) (c1\<lparr>rc_delays := rc_delays c1 @ [reconnect_delay n2]\<rparr>)))"

definition start ::
  "(str \<Rightarrow> json option) \<Rightarrow> attempt list \<Rightarrow> realtime_client \<Rightarrow> client_end \<times> realtime_client"
where
  "start loads script c = run_client loads script 0 (c\<lparr>rc_running := True\<rparr>)"

section \<open>Frames: lemmas\<close>

lemma field_count [simp]: "length KIS_REALTIME_PRICE_FIELDS = 46" "length price_fields = 46"
  by (simp_all add: price_fields_def KIS_REALTIME_PRICE_FIELDS_def)

text \<open>\<open>d.join(texts)\<close>, which the splitting inverts.\<close>

fun join_with :: "char \<Rightarrow> str list \<Rightarrow> str" where
  "join_with d [] = []"
| "join_with d [f] = f"
| "join_with d (f # g # fs) = f @ d # join_with d (g # fs)"

lemma split_all_plain: "d \<notin> set f \<Longrightarrow> split_all d f = [f]"
  by (induction f) auto

lemma split_all_append: "d \<notin> set f \<Longrightarrow> split_all d (f @ d # s) = f # split_all d s"
  by (induction f) auto

lemma split_all_join:
  "fs \<noteq> [] \<Longrightarrow> \<forall>f \<in> set fs. d \<notin> set f \<Longrightarrow> split_all d (join_with d fs) = fs"
  by (induction d fs rule: join_with.induct) (auto simp: split_all_plain split_all_append)

lemma split_max_append: "d \<notin> set f \<Longrightarrow> split_max (Suc n) d (f @ d # s) = f # split_max n d s"
proof -
  assume "d \<notin> set f"
  then have "\<forall>x \<in> set f. x \<noteq> d" by blast
  then show ?thesis by simp
qed

lemma from_fields_complete:
  assumes "length texts = 46"
  shows "from_fields texts = Inr (zip price_fields texts)"
proof -
  have "dom (map_of (zip price_fields texts)) = set price_fields"
    using assms by simp
  then have "\<forall>f \<in> set price_fields. map_of (zip price_fields texts) f \<noteq> None" by blast
  then show ?thesis by (simp add: from_fields_def dict_get_def list_all_iff)
qed

lemma read_records_take:
  assumes "\<forall>r \<in> set recs. length r = 46" "length rest < 46" "length pre = 46 * i"
  shows "read_records (pre @ concat recs @ rest) i n = take n (map (\<lambda>r. Inr (zip price_fields r)) recs)"
  using assms
proof (induction n arbitrary: pre recs i)
  case (Suc n)
  show ?case
  proof (cases recs)
    case Nil
    with Suc.prems show ?thesis by simp
  next
    case (Cons r rs)
    with Suc.prems have r: "length r = 46" by simp
    have "read_records ((pre @ r) @ concat rs @ rest) (Suc i) n = take n (map (\<lambda>r. Inr (zip price_fields r)) rs)"
      using Suc.prems Cons by (intro Suc.IH) auto
    with r Suc.prems(3) Cons show ?thesis by (simp add: from_fields_complete)
  qed
qed simp

section \<open>Frames: property\<close>

text \<open>
  C29. A frame of records of 46 fields is read back as those records: the handler returns the
  first \<open>k\<close> records, each with its fields under their names and in their order, where \<open>k\<close>
  is the value of the count text (none for a count that is not positive, all of them for a count that
  is too large).
\<close>

theorem frame_roundtrip:
  assumes "\<forall>r \<in> set recs. length r = 46 \<and> (\<forall>f \<in> set r. CHR ''^'' \<notin> set f)"
    and "CHR ''|'' \<notin> set tr_id" "CHR ''|'' \<notin> set count" "py_int count = Inr k"
  shows "handle_realtime_data
           (''0|'' @ tr_id @ ''|'' @ count @ ''|'' @ join_with (CHR ''^'') (concat recs))
         = Inr (take (nat k) (map (\<lambda>r. Inr (zip price_fields r)) recs))"
proof -
  let ?data = "join_with (CHR ''^'') (concat recs)"
  have zero: "CHR ''|'' \<notin> set ''0''" by simp
  have "split_max 3 (CHR ''|'') (''0'' @ CHR ''|'' # tr_id @ CHR ''|'' # count @ CHR ''|'' # ?data)
        = [''0'', tr_id, count, ?data]"
    using assms(2,3) zero by (simp only: numeral_3_eq_3 split_max_append split_max.simps(1) not_False_eq_True)
  then have parts: "split_max 3 (CHR ''|'') (''0|'' @ tr_id @ ''|'' @ count @ ''|'' @ ?data)
        = [''0'', tr_id, count, ?data]" by simp
  have "read_records (split_all (CHR ''^'') ?data) 0 (nat k) = take (nat k) (map (\<lambda>r. Inr (zip price_fields r)) recs)"
  proof (cases "concat recs = []")
    case True
    with assms(1) have "recs = []" by (cases recs) auto
    then show ?thesis using read_records_take [of "[]" "[[]]" "[]" 0 "nat k"] by simp
  next
    case False
    with assms(1) have "split_all (CHR ''^'') ?data = concat recs" by (intro split_all_join) auto
    then show ?thesis using assms(1) read_records_take [of recs "[]" "[]" 0 "nat k"] by simp
  qed
  with parts assms(4) show ?thesis by (simp add: handle_realtime_data_def)
qed

lemma frame_roundtrip_witness:
  "\<exists>a b. a \<noteq> b \<and> handle_realtime_data
           (''0|'' @ ''H0STCNT0'' @ ''|'' @ ''002'' @ ''|'' @ join_with (CHR ''^'') (concat [a, b]))
         = Inr [Inr (zip price_fields a), Inr (zip price_fields b)]"
proof (intro exI conjI)
  let ?a = "''005930'' # replicate 45 ''1''" and ?b = "''000660'' # replicate 45 ''2''"
  show "?a \<noteq> ?b" by simp
  have "py_int ''002'' = Inr 2" by code_simp
  then show "handle_realtime_data
           (''0|'' @ ''H0STCNT0'' @ ''|'' @ ''002'' @ ''|'' @ join_with (CHR ''^'') (concat [?a, ?b]))
         = Inr [Inr (zip price_fields ?a), Inr (zip price_fields ?b)]"
    by (subst frame_roundtrip [where k = 2]) auto
qed

section \<open>The client: lemmas\<close>

lemma ws_send_keeps:
  "rc_running (snd (ws_send m c)) = rc_running c" "rc_connected (snd (ws_send m c)) = rc_connected c"
  "rc_subscribed_codes (snd (ws_send m c)) = rc_subscribed_codes c"
  "prefix (rc_sent c) (rc_sent (snd (ws_send m c)))"
  by (auto simp: ws_send_def split: nat.splits)

lemma request_keeps:
  "rc_running (snd (send_request t code c)) = rc_running c"
  "prefix (rc_sent c) (rc_sent (snd (send_request t code c)))"
  by (auto simp: send_request_def ws_send_keeps)

lemma subscribe_keeps:
  "rc_running (snd (subscribe code c)) = rc_running c"
  "prefix (rc_sent c) (rc_sent (snd (subscribe code c)))"
  using request_keeps [where t = "''1''" and code = code and c = c]
  by (auto simp: subscribe_def case_prod_beta split: prod.splits sum.splits)

lemma unsubscribe_keeps:
  "rc_running (snd (unsubscribe code c)) = rc_running c"
  "prefix (rc_sent c) (rc_sent (snd (unsubscribe code c)))"
  using request_keeps [where t = "''2''" and code = code and c = c]
  by (auto simp: unsubscribe_def case_prod_beta split: prod.splits sum.splits)

lemma handle_call_keeps:
  "k \<noteq> CallDisconnect \<Longrightarrow> rc_running (handle_call k c) = rc_running c"
  "prefix (rc_sent c) (rc_sent (handle_call k c))"
  by (cases k; simp add: handle_call_def subscribe_keeps unsubscribe_keeps disconnect_def)+

lemma handle_calls_running:
  "CallDisconnect \<notin> set ks \<Longrightarrow> rc_running (handle_calls ks c) = rc_running c"
proof (induction ks arbitrary: c)
  case (Cons k ks)
  then have "k \<noteq> CallDisconnect" "CallDisconnect \<notin> set ks" by auto
  with Cons.IH show ?case by (simp add: handle_calls_def handle_call_keeps(1))
qed (simp add: handle_calls_def)

lemma on_json_keeps:
  "rc_running (snd (on_json message data c)) = rc_running c"
  "prefix (rc_sent c) (rc_sent (snd (on_json message data c)))"
  by (cases "message_tr_id data"; simp add: on_json_def ws_send_keeps)+

lemma on_message_keeps:
  "rc_running (snd (on_message loads m c)) = rc_running c"
  "prefix (rc_sent c) (rc_sent (snd (on_message loads m c)))"
proof -
  have "rc_running (snd (on_message loads m c)) = rc_running c
        \<and> prefix (rc_sent c) (rc_sent (snd (on_message loads m c)))"
  proof (cases m)
    case (TextMessage msg)
    show ?thesis
    proof (cases "take 1 msg \<in> {''0'', ''1''}")
      case True
      then show ?thesis using TextMessage
        by (cases "handle_realtime_data msg") (simp_all add: on_message_def)
    next
      case False
      then show ?thesis using TextMessage
        by (cases "loads msg") (simp_all add: on_message_def on_json_keeps)
    qed
  qed (simp add: on_message_def)
  then show "rc_running (snd (on_message loads m c)) = rc_running c"
    "prefix (rc_sent c) (rc_sent (snd (on_message loads m c)))" by blast+
qed

lemma resubscribe_keeps:
  "rc_running (snd (resubscribe codes c)) = rc_running c"
proof (induction codes arbitrary: c)
  case (Cons code codes)
  obtain r c' where s: "subscribe code c = (r, c')" by (cases "subscribe code c")
  then have "rc_running c' = rc_running c" using subscribe_keeps(1) [of code c] by simp
  then show ?case using s Cons.IH [of c'] by (cases r) simp_all
qed simp

lemma receive_sent: "prefix (rc_sent c) (rc_sent (snd (receive loads ending events c)))"
proof (induction loads ending events c rule: receive.induct)
  case (2 loads ending m events c)
  obtain r c' where s: "on_message loads m c = (r, c')" by (cases "on_message loads m c")
  then have p: "prefix (rc_sent c) (rc_sent c')" using on_message_keeps(2) [of c loads m] by simp
  show ?case
  proof (cases r)
    case (Inr u)
    have "prefix (rc_sent c') (rc_sent (snd (receive loads ending events c')))"
      using 2 s Inr by simp
    with p show ?thesis using s Inr by (simp add: prefix_order.order_trans [OF p])
  qed (use s p in simp)
next
  case (3 loads ending k events c)
  then show ?case using prefix_order.order_trans [OF handle_call_keeps(2) [of c k]] by simp
qed simp

lemma receive_running:
  "Called CallDisconnect \<notin> set events \<Longrightarrow> rc_running (snd (receive loads ending events c)) = rc_running c"
proof (induction loads ending events c rule: receive.induct)
  case (2 loads ending m events c)
  obtain r c' where s: "on_message loads m c = (r, c')" by (cases "on_message loads m c")
  then have "rc_running c' = rc_running c" using on_message_keeps(1) [of loads m c] by simp
  then show ?case using 2 s by (cases r) simp_all
next
  case (3 loads ending k events c)
  then have "k \<noteq> CallDisconnect" by auto
  with 3 show ?case by (simp add: handle_call_keeps(1))
qed simp

text \<open>An attempt without a call of \<open>disconnect\<close>, and one that opens a connection.\<close>

definition undisturbed :: "attempt \<Rightarrow> bool" where
  "undisturbed a \<longleftrightarrow> CallDisconnect \<notin> set (at_meanwhile a) \<and> Called CallDisconnect \<notin> set (at_events a)
     \<and> CallDisconnect \<notin> set (at_pause a)"

definition opens :: "attempt \<Rightarrow> bool" where
  "opens a \<longleftrightarrow> is_ok (at_key a) \<and> is_ok (at_socket a)"

lemma connect_ok: "is_ok (fst (connect a c)) \<longleftrightarrow> opens a"
  by (cases "at_key a"; cases "at_socket a") (simp_all add: connect_def opens_def Let_def)

lemma connect_running: "undisturbed a \<Longrightarrow> rc_running (snd (connect a c)) = rc_running c"
  by (cases "at_key a"; cases "at_socket a")
    (simp_all add: connect_def undisturbed_def Let_def handle_calls_running)

lemma attempt_count: "fst (attempt_once loads a n c) = (if opens a then 0 else n)"
proof -
  obtain r c1 where k: "connect a c = (r, c1)" by (cases "connect a c")
  obtain r2 c2 where s: "resubscribe (rc_subscribed_codes c1) c1 = (r2, c2)"
    by (cases "resubscribe (rc_subscribed_codes c1) c1")
  show ?thesis using connect_ok [of a c] k s
    by (cases r; cases r2) (simp_all add: attempt_once_def)
qed

lemma attempt_running:
  assumes "undisturbed a"
  shows "rc_running (snd (attempt_once loads a n c)) = rc_running c"
proof -
  obtain r c1 where k: "connect a c = (r, c1)" by (cases "connect a c")
  obtain r2 c2 where s: "resubscribe (rc_subscribed_codes c1) c1 = (r2, c2)"
    by (cases "resubscribe (rc_subscribed_codes c1) c1")
  have "rc_running c1 = rc_running c" using connect_running [OF assms, of c] k by simp
  moreover have "rc_running c2 = rc_running c1"
    using resubscribe_keeps [of "rc_subscribed_codes c1" c1] s by simp
  ultimately show ?thesis using assms k s
    by (cases r; cases r2) (simp_all add: attempt_once_def undisturbed_def receive_running)
qed

text \<open>Whether the loop gives up, as a function of which attempts open a connection.\<close>

fun gives_up :: "bool list \<Rightarrow> nat \<Rightarrow> bool" where
  "gives_up [] n = False"
| "gives_up (ok # oks) n =
     (let n2 = Suc (if ok then 0 else n) in MAX_RECONNECT_ATTEMPTS < n2 \<or> gives_up oks n2)"

lemma run_client_end:
  assumes "list_all undisturbed script" "rc_running c"
  shows "fst (run_client loads script n c) = (if gives_up (map opens script) n then GaveUp else Live)"
  using assms
proof (induction script arbitrary: n c)
  case (Cons a script)
  obtain n1 c1 where e: "attempt_once loads a n c = (n1, c1)" by (cases "attempt_once loads a n c")
  have n1: "n1 = (if opens a then 0 else n)" using attempt_count [of loads a n c] e by simp
  have r: "rc_running c1" using attempt_running [of a loads n c] Cons.prems e by simp
  let ?c2 = "handle_calls (at_pause a) (c1\<lparr>rc_delays := rc_delays c1 @ [reconnect_delay (Suc n1)]\<rparr>)"
  have "rc_running ?c2" using Cons.prems r by (simp add: undisturbed_def handle_calls_running)
  then have "fst (run_client loads script (Suc n1) ?c2) = (if gives_up (map opens script) (Suc n1) then GaveUp else Live)"
    using Cons by simp
  then show ?case using Cons.prems e r n1 by (simp add: Let_def)
qed simp

text \<open>Ten failures in a row after attempt \<open>i\<close>, and all attempts up to the tenth reconnection failing.\<close>

definition failure_window :: "bool list \<Rightarrow> nat \<Rightarrow> bool" where
  "failure_window oks i \<longleftrightarrow> i + 10 < length oks \<and> (\<forall>j. i < j \<and> j \<le> i + 10 \<longrightarrow> \<not> oks ! j)"

definition leading_failures :: "nat \<Rightarrow> bool list \<Rightarrow> bool" where
  "leading_failures m oks \<longleftrightarrow> m < length oks \<and> (\<forall>j \<le> m. \<not> oks ! j)"

lemma leading_failures_simps:
  "leading_failures m [] = False" "leading_failures 0 (ok # oks) = (\<not> ok)"
  "leading_failures (Suc m) (ok # oks) = (\<not> ok \<and> leading_failures m oks)"
  by (auto simp: leading_failures_def less_Suc_eq_le [symmetric] All_less_Suc2)

lemma leading_failures_mono: "leading_failures m oks \<Longrightarrow> k \<le> m \<Longrightarrow> leading_failures k oks"
  by (simp add: leading_failures_def)

lemma failure_window_shift: "failure_window (ok # oks) (Suc i) = failure_window oks i"
proof -
  have "(\<forall>j. Suc i < j \<and> j \<le> Suc i + 10 \<longrightarrow> \<not> (ok # oks) ! j) \<longleftrightarrow> (\<forall>j. i < j \<and> j \<le> i + 10 \<longrightarrow> \<not> oks ! j)"
  proof safe
    fix j :: nat
    assume a: "\<forall>j. Suc i < j \<and> j \<le> Suc i + 10 \<longrightarrow> \<not> (ok # oks) ! j" and "i < j" "j \<le> i + 10" "oks ! j"
    then show False using a [rule_format, of "Suc j"] by simp
  next
    fix j :: nat
    assume a: "\<forall>j. i < j \<and> j \<le> i + 10 \<longrightarrow> \<not> oks ! j" and j: "Suc i < j" "j \<le> Suc i + 10" "(ok # oks) ! j"
    then show False using a [rule_format, of "j - 1"] by (cases j) auto
  qed
  then show ?thesis unfolding failure_window_def by (simp only: list.size add_Suc add_Suc_right add_0_right Suc_less_eq)
qed

lemma failure_window_0: "failure_window (ok # oks) 0 = leading_failures 9 oks"
proof -
  have "(\<forall>j. 0 < j \<and> j \<le> 0 + 10 \<longrightarrow> \<not> (ok # oks) ! j) \<longleftrightarrow> (\<forall>j \<le> 9. \<not> oks ! j)"
  proof safe
    fix j :: nat
    assume a: "\<forall>j. 0 < j \<and> j \<le> 0 + 10 \<longrightarrow> \<not> (ok # oks) ! j" and "j \<le> 9" "oks ! j"
    then show False using a [rule_format, of "Suc j"] by simp
  next
    fix j :: nat
    assume a: "\<forall>j \<le> 9. \<not> oks ! j" and j: "0 < j" "j \<le> 0 + 10" "(ok # oks) ! j"
    then show False using a [rule_format, of "j - 1"] by (cases j) auto
  qed
  then show ?thesis by (auto simp: failure_window_def leading_failures_def)
qed

lemma failure_window_Cons:
  "(\<exists>i. failure_window (ok # oks) i) \<longleftrightarrow> leading_failures 9 oks \<or> (\<exists>i. failure_window oks i)"
proof
  assume "\<exists>i. failure_window (ok # oks) i"
  then obtain i where "failure_window (ok # oks) i" ..
  then show "leading_failures 9 oks \<or> (\<exists>i. failure_window oks i)"
    by (cases i) (auto simp: failure_window_0 failure_window_shift)
next
  assume "leading_failures 9 oks \<or> (\<exists>i. failure_window oks i)"
  then show "\<exists>i. failure_window (ok # oks) i"
    using failure_window_0 failure_window_shift by (elim disjE exE) blast+
qed

lemma gives_up_iff:
  assumes "n \<le> 10"
  shows "gives_up oks n \<longleftrightarrow> leading_failures (10 - n) oks \<or> (\<exists>i. failure_window oks i)"
  using assms
proof (induction oks arbitrary: n)
  case Nil
  then show ?case by (simp add: leading_failures_simps failure_window_def)
next
  case (Cons ok oks)
  show ?case
  proof (cases ok)
    case True
    have "\<not> leading_failures (10 - n) (ok # oks)" using True by (cases "10 - n") (simp_all add: leading_failures_simps)
    then show ?thesis using True Cons.IH [of 1] failure_window_Cons [of ok oks]
      by (simp add: MAX_RECONNECT_ATTEMPTS_def)
  next
    case False
    show ?thesis
    proof (cases "n = 10")
      case True
      then show ?thesis using False by (simp add: MAX_RECONNECT_ATTEMPTS_def leading_failures_simps)
    next
      case less: False
      then have n: "Suc n \<le> 10" and m: "10 - n = Suc (10 - Suc n)" using Cons.prems by simp_all
      have "gives_up (ok # oks) n \<longleftrightarrow> leading_failures (10 - Suc n) oks \<or> (\<exists>i. failure_window oks i)"
        using False n Cons.IH [OF n] by (simp add: MAX_RECONNECT_ATTEMPTS_def Let_def)
      moreover have "leading_failures (10 - n) (ok # oks) \<longleftrightarrow> leading_failures (10 - Suc n) oks"
        using False m by (simp add: leading_failures_simps)
      moreover have "leading_failures 9 oks \<Longrightarrow> leading_failures (10 - Suc n) oks"
        by (erule leading_failures_mono) linarith
      ultimately show ?thesis using failure_window_Cons [of ok oks] by blast
    qed
  qed
qed

lemma gives_up_from_start: "gives_up oks 0 \<longleftrightarrow> (\<exists>i. failure_window oks i)"
proof (cases oks)
  case Nil
  then show ?thesis by (simp add: failure_window_def)
next
  case (Cons ok rest)
  have "leading_failures 10 (ok # rest) \<Longrightarrow> leading_failures 9 rest"
    using leading_failures_simps(3) [of 9 ok rest] by simp
  then show ?thesis using Cons gives_up_iff [of 0 oks] failure_window_Cons [of ok rest] by auto
qed

text \<open>The whole list of subscribed codes is sent again, in order, when the socket takes it.\<close>

lemma resubscribe_all:
  assumes "rc_connected c" "rc_approval_key c = Some key" "key \<noteq> []"
    and "length codes \<le> rc_sends_left c" "set codes \<subseteq> set (rc_subscribed_codes c)"
  shows "resubscribe codes c =
           (Inr (), c\<lparr>rc_sends_left := rc_sends_left c - length codes,
                      rc_sent := rc_sent c @ map (\<lambda>code. Request (build_subscribe_message key ''1''
                                                  DOMESTIC_STOCK_REALTIME_PRICE code)) codes\<rparr>)"
  using assms
proof (induction codes arbitrary: c)
  case (Cons code codes)
  then obtain k where k: "rc_sends_left c = Suc k" by (cases "rc_sends_left c") auto
  let ?m = "Request (build_subscribe_message key ''1'' DOMESTIC_STOCK_REALTIME_PRICE code)"
  let ?c = "c\<lparr>rc_sends_left := k, rc_sent := rc_sent c @ [?m]\<rparr>"
  have "subscribe code c = (Inr (), ?c)"
    using Cons.prems k by (simp add: subscribe_def send_request_def ws_send_def List.insert_def)
  then show ?case using Cons.prems k Cons.IH [of ?c] by simp
qed simp

section \<open>The client: properties\<close>

text \<open>
  C28. When the client gives up: over any script in which nobody calls \<open>disconnect\<close>, \<open>start\<close>
  ends by itself exactly when ten attempts in a row fail to open a connection after some attempt
  (the first one, or one that had opened it); otherwise it still runs at the end of the script.  So it
  never ends on connections that open and are lost at once.
\<close>

theorem client_gives_up_exactly:
  assumes "list_all undisturbed script"
  shows "fst (start loads script c) =
           (if \<exists>i. i + 10 < length script \<and> (\<forall>j. i < j \<and> j \<le> i + 10 \<longrightarrow> \<not> opens (script ! j))
            then GaveUp else Live)"
proof -
  have "gives_up (map opens script) 0 \<longleftrightarrow> (\<exists>i. failure_window (map opens script) i)"
    by (rule gives_up_from_start)
  also have "\<dots> \<longleftrightarrow> (\<exists>i. i + 10 < length script \<and> (\<forall>j. i < j \<and> j \<le> i + 10 \<longrightarrow> \<not> opens (script ! j)))"
    unfolding failure_window_def by (intro ex_cong1 conj_cong) auto
  finally show ?thesis
    using run_client_end [OF assms, of "c\<lparr>rc_running := True\<rparr>" loads 0] by (simp add: start_def)
qed

definition refused_attempt :: attempt where
  "refused_attempt =
     \<lparr>at_key = Inr ''K'', at_meanwhile = [], at_socket = Inl (LibError ''OSError'' ''refused''), at_sends = 0,
      at_events = [], at_end = None, at_pause = []\<rparr>"

definition short_connection :: attempt where
  "short_connection = refused_attempt\<lparr>at_socket := Inr ()\<rparr>"

lemma client_gives_up_exactly_witness:
  "fst (start (\<lambda>_. None) (short_connection # replicate 10 refused_attempt) new_client) = GaveUp"
proof -
  let ?script = "short_connection # replicate 10 refused_attempt"
  have u: "list_all undisturbed ?script"
    by (simp add: undisturbed_def refused_attempt_def short_connection_def list_all_iff)
  have "\<forall>j. 0 < j \<and> j \<le> 0 + 10 \<longrightarrow> \<not> opens (?script ! j)"
    by (auto simp: nth_Cons opens_def refused_attempt_def split: nat.splits)
  then have "0 + 10 < length ?script \<and> (\<forall>j. 0 < j \<and> j \<le> 0 + 10 \<longrightarrow> \<not> opens (?script ! j))" by simp
  then show ?thesis by (subst client_gives_up_exactly [OF u]) (simp only: if_P [OF exI])
qed

text \<open>
  Reconnection restores the subscriptions: an attempt that opens a connection with a
  key, over a socket that takes enough messages, first sends one subscription for every code
  subscribed before, in that order, before anything else; and the counter of reconnections starts again.
\<close>

lemma reconnection_restores_subscriptions:
  assumes "at_key a = Inr key" "key \<noteq> []" "at_socket a = Inr ()" "at_meanwhile a = []"
    and "length (rc_subscribed_codes c) \<le> at_sends a"
  shows "fst (attempt_once loads a n c) = 0
         \<and> (\<exists>rest. rc_sent (snd (attempt_once loads a n c)) =
              rc_sent c
              @ map (\<lambda>code. Request (build_subscribe_message key ''1'' DOMESTIC_STOCK_REALTIME_PRICE code))
                  (rc_subscribed_codes c)
              @ rest)"
proof -
  let ?codes = "rc_subscribed_codes c"
  let ?c1 = "c\<lparr>rc_approval_key := Some key, rc_connected := True, rc_sends_left := at_sends a\<rparr>"
  let ?requests = "map (\<lambda>code. Request (build_subscribe_message key ''1'' DOMESTIC_STOCK_REALTIME_PRICE code)) ?codes"
  let ?c2 = "?c1\<lparr>rc_sends_left := at_sends a - length ?codes, rc_sent := rc_sent c @ ?requests\<rparr>"
  have k: "connect a c = (Inr (), ?c1)"
    using assms by (simp add: connect_def handle_calls_def)
  have s: "resubscribe ?codes ?c1 = (Inr (), ?c2)"
    using assms resubscribe_all [of ?c1 key ?codes] by simp
  obtain rest where "rc_sent (snd (receive loads (at_end a) (at_events a) ?c2)) = (rc_sent c @ ?requests) @ rest"
    using receive_sent [of ?c2 loads "at_end a" "at_events a"] by (auto simp: prefix_def)
  then show ?thesis using k s by (simp add: attempt_once_def)
qed

end
