(* ===== verification/Websocket.thy ===== *)
theory Websocket
  imports Worker_World "HOL-Library.Sublist"
begin

text \<open>
  The WebSocket server (\<^verbatim>\<open>app/websocket/\<close>): the messages the workers publish
  (\<^verbatim>\<open>publisher.py\<close>, \<^verbatim>\<open>serializers.py\<close>), the manager of the connections (\<^verbatim>\<open>manager.py\<close>), the endpoint
  that serves a connection (\<^verbatim>\<open>order_ws.py\<close>) and the subscriber that relays what is published to the
  connections (\<^verbatim>\<open>subscriber.py\<close>).

  A connection is a number (every accepted socket is a new object).  The Python set of
  connections is a list without repetition.  Whether a send succeeds is part of the event it
  belongs to.  \<open>isoformat\<close> stands for the method of that name on the stored times, \<open>dumps\<close> and \<open>loads\<close> for the JSON
  library.  Handlers run interleaved with a broadcast between its snapshot of the connections and
  its clean-up: the events of a broadcast carry what happened meanwhile.
\<close>

section \<open>Messages\<close>

definition decimal_to_str :: "decimal option \<Rightarrow> json" where
  "decimal_to_str v = (case v of None \<Rightarrow> JNull | Some d \<Rightarrow> JStr (show_decimal d))"

definition text_or_null :: "str option \<Rightarrow> json" where
  "text_or_null v = (case v of None \<Rightarrow> JNull | Some s \<Rightarrow> JStr s)"

definition serialize_order_ws_payload :: "(timestamp \<Rightarrow> str) \<Rightarrow> order \<Rightarrow> json" where
  "serialize_order_ws_payload isoformat row =
     JObj
       [(''id'', JStr (o_id row)),
        (''account_no'', JStr (o_account_no row)),
        (''account_product_code'', JStr (o_account_product_code row)),
        (''market'', JStr (o_market row)),
        (''stock_code'', JStr (o_stock_code row)),
        (''order_pos'', JStr (o_order_pos row)),
        (''order_kind'', JStr (o_order_kind row)),
        (''order_type'', JStr (o_order_type row)),
        (''order_price'', decimal_to_str (o_order_price row)),
        (''order_qty'', JInt (o_order_qty row)),
        (''status'', JStr (status_value (o_status row))),
        (''requested_at'', JStr (isoformat (o_requested_at row))),
        (''submitted_at'', text_or_null (map_option isoformat (o_submitted_at row))),
        (''original_order_id'', text_or_null (o_original_order_id row)),
        (''original_broker_order_no'', text_or_null (o_original_broker_order_no row)),
        (''original_broker_org_no'', text_or_null (o_original_broker_org_no row)),
        (''broker_order_no'', text_or_null (o_broker_order_no row)),
        (''broker_org_no'', text_or_null (o_broker_org_no row)),
        (''rt_cd'', text_or_null (o_rt_cd row)),
        (''msg_cd'', text_or_null (o_msg_cd row)),
        (''msg1'', text_or_null (o_msg1 row)),
        (''filled_qty'', JInt (o_filled_qty row)),
        (''remaining_qty'', JInt (o_remaining_qty row)),
        (''avg_fill_price'', decimal_to_str (o_avg_fill_price row)),
        (''error_message'', text_or_null (o_error_message row)),
        (''created_at'', JStr (isoformat (o_created_at row))),
        (''updated_at'', JStr (isoformat (o_updated_at row)))]"

text \<open>A message with its type and data: what is published, and what is broadcast.\<close>

definition event_message :: "str \<Rightarrow> json \<Rightarrow> json" where
  "event_message event_type data = JObj [(''type'', JStr event_type), (''data'', data)]"

definition published_message :: "(timestamp \<Rightarrow> str) \<Rightarrow> order \<Rightarrow> json" where
  "published_message isoformat row = event_message ''order_updated'' (serialize_order_ws_payload isoformat row)"

text \<open>The texts on the Pub/Sub channel for the rows the workers have published (\<open>w_published\<close>).\<close>

definition channel_texts :: "(timestamp \<Rightarrow> str) \<Rightarrow> (json \<Rightarrow> str) \<Rightarrow> world \<Rightarrow> str list" where
  "channel_texts isoformat dumps w = map (\<lambda>row. dumps (published_message isoformat row)) (w_published w)"

section \<open>The connections\<close>

record ws_manager =
  wm_connections :: "nat list"
  wm_handlers :: "nat list"            \<comment> \<open>connections whose endpoint still runs\<close>
  wm_delivered :: "(nat \<times> json) list"

definition manager_connect :: "nat \<Rightarrow> ws_manager \<Rightarrow> ws_manager" where
  "manager_connect ws m = m\<lparr>wm_connections := List.insert ws (wm_connections m)\<rparr>"

definition manager_disconnect :: "nat \<Rightarrow> ws_manager \<Rightarrow> ws_manager" where
  "manager_disconnect ws m = m\<lparr>wm_connections := removeAll ws (wm_connections m)\<rparr>"

definition manager_send_json :: "nat \<Rightarrow> json \<Rightarrow> ws_manager \<Rightarrow> ws_manager" where
  "manager_send_json ws message m = m\<lparr>wm_delivered := wm_delivered m @ [(ws, message)]\<rparr>"

text \<open>
  What a client does: it opens a socket (whether \<open>accept\<close> and the first send succeed), or
  something arrives on its socket: a JSON message (a pong or any other, both ignored), nothing for 30 seconds,
  so a ping is sent (whether that succeeds), or an exception, the end of the connection included.
\<close>

datatype socket_event = Incoming json | Silence bool | Failure

datatype client_event = Opens nat bool bool | Arrives nat socket_event

text \<open>\<open>orders_websocket\<close>: up to its loop, one round of its loop, and its \<open>except\<close> clauses.\<close>

definition end_handler :: "nat \<Rightarrow> ws_manager \<Rightarrow> ws_manager" where
  "end_handler ws m = manager_disconnect ws (m\<lparr>wm_handlers := removeAll ws (wm_handlers m)\<rparr>)"

definition orders_websocket :: "nat \<Rightarrow> bool \<Rightarrow> bool \<Rightarrow> ws_manager \<Rightarrow> ws_manager" where
  "orders_websocket ws accepted greeted m =
     (if \<not> accepted then m
      else let m1 = manager_connect ws (m\<lparr>wm_handlers := List.insert ws (wm_handlers m)\<rparr>)
           in if greeted
              then manager_send_json ws
                     (JObj [(''type'', JStr ''connected''), (''message'', JStr ''orders websocket connected'')]) m1
              else end_handler ws m1)"

fun serve_event :: "nat \<Rightarrow> socket_event \<Rightarrow> ws_manager \<Rightarrow> ws_manager" where
  "serve_event ws (Incoming message) m = m"
| "serve_event ws (Silence sent) m =
     (if sent then manager_send_json ws (JObj [(''type'', JStr ''ping'')]) m else end_handler ws m)"
| "serve_event ws Failure m = end_handler ws m"

fun client_step :: "client_event \<Rightarrow> ws_manager \<Rightarrow> ws_manager" where
  "client_step (Opens ws accepted greeted) m =
     (if ws \<in> set (wm_handlers m) then m else orders_websocket ws accepted greeted m)"
| "client_step (Arrives ws e) m = (if ws \<in> set (wm_handlers m) then serve_event ws e m else m)"

text \<open>
  \<open>broadcast\<close>: the message goes to a snapshot of the connections; those whose send raises
  are discarded at the end.
\<close>

definition broadcast ::
  "(nat \<Rightarrow> bool) \<Rightarrow> client_event list \<Rightarrow> json \<Rightarrow> ws_manager \<Rightarrow> ws_manager"
where
  "broadcast alive meanwhile message m =
     (let connections = wm_connections m;
          dead_connections = filter (\<lambda>c. \<not> alive c) connections;
          m1 = fold (\<lambda>c. manager_send_json c message) (filter alive connections) m;
          m2 = fold client_step meanwhile m1
      in fold manager_disconnect dead_connections m2)"

definition broadcast_order_updated ::
  "(nat \<Rightarrow> bool) \<Rightarrow> client_event list \<Rightarrow> json \<Rightarrow> ws_manager \<Rightarrow> ws_manager"
where
  "broadcast_order_updated alive meanwhile order_data =
     broadcast alive meanwhile (event_message ''order_updated'' order_data)"

definition broadcast_order_created ::
  "(nat \<Rightarrow> bool) \<Rightarrow> client_event list \<Rightarrow> json \<Rightarrow> ws_manager \<Rightarrow> ws_manager"
where
  "broadcast_order_created alive meanwhile order_data =
     broadcast alive meanwhile (event_message ''order_created'' order_data)"

section \<open>The subscriber\<close>

text \<open>
  A message of the channel.  A text that is no JSON, a value that is no object and an unknown
  type are logged.
\<close>

definition relay ::
  "(str \<Rightarrow> json option) \<Rightarrow> (nat \<Rightarrow> bool) \<Rightarrow> client_event list \<Rightarrow> str \<Rightarrow> ws_manager \<Rightarrow> ws_manager"
where
  "relay loads alive meanwhile raw_data m =
     (case loads raw_data of
        None \<Rightarrow> fold client_step meanwhile m
      | Some payload \<Rightarrow>
          (case (json_get payload ''type'', json_get payload ''data'') of
             (Inr event_type, Inr event_data) \<Rightarrow>
               (let data = (case event_data of None \<Rightarrow> JNull | Some d \<Rightarrow> d)
                in if event_type = Some (JStr ''order_updated'') then broadcast_order_updated alive meanwhile data m
                   else if event_type = Some (JStr ''order_created'') then broadcast_order_created alive meanwhile data m
                   else fold client_step meanwhile m)
           | _ \<Rightarrow> fold client_step meanwhile m))"

text \<open>
  The server: rounds of the subscriber, each with its message, which sends succeed, and what
  the clients do until its end.
\<close>

record channel_round =
  cr_text :: str
  cr_alive :: "nat \<Rightarrow> bool"
  cr_meanwhile :: "client_event list"

definition subscriber_round :: "(str \<Rightarrow> json option) \<Rightarrow> channel_round \<Rightarrow> ws_manager \<Rightarrow> ws_manager" where
  "subscriber_round loads r = relay loads (cr_alive r) (cr_meanwhile r) (cr_text r)"

text \<open>
  A call of \<open>get_message\<close>: it brings a message, or none within its second, or it raises (a lost
  connection to Redis, or the cancellation at shutdown).  The call stands outside the inner \<open>try\<close>, so an
  exception ends the relay, and nothing starts it again; the clients stay connected and go on.
\<close>

datatype poll = Message channel_round | NoMessage "client_event list" | Broken "client_event list"

fun poll_events :: "poll \<Rightarrow> client_event list" where
  "poll_events (Message r) = cr_meanwhile r"
| "poll_events (NoMessage es) = es"
| "poll_events (Broken es) = es"

fun subscribe_order_events :: "(str \<Rightarrow> json option) \<Rightarrow> poll list \<Rightarrow> ws_manager \<Rightarrow> ws_manager" where
  "subscribe_order_events loads [] m = m"
| "subscribe_order_events loads (Message r # polls) m = subscribe_order_events loads polls (subscriber_round loads r m)"
| "subscribe_order_events loads (NoMessage es # polls) m = subscribe_order_events loads polls (fold client_step es m)"
| "subscribe_order_events loads (Broken es # polls) m = fold client_step (es @ concat (map poll_events polls)) m"

text \<open>The texts the relay receives before it ends.\<close>

fun received :: "poll list \<Rightarrow> str list" where
  "received [] = []"
| "received (Message r # polls) = cr_text r # received polls"
| "received (NoMessage es # polls) = received polls"
| "received (Broken es # polls) = []"

definition new_manager :: ws_manager where
  "new_manager = \<lparr>wm_connections = [], wm_handlers = [], wm_delivered = []\<rparr>"

section \<open>Lemmas\<close>

lemma send_all:
  "fold (\<lambda>c. manager_send_json c message) cs m = m\<lparr>wm_delivered := wm_delivered m @ map (\<lambda>c. (c, message)) cs\<rparr>"
  by (induction cs arbitrary: m) (simp_all add: manager_send_json_def)

lemma discard_all:
  "fold manager_disconnect cs m = m\<lparr>wm_connections := filter (\<lambda>c. c \<notin> set cs) (wm_connections m)\<rparr>"
proof (induction cs arbitrary: m)
  case (Cons c cs)
  have "filter (\<lambda>x. x \<notin> set cs) (removeAll c xs) = filter (\<lambda>x. x \<notin> set (c # cs)) xs" for xs
    by (induction xs) auto
  with Cons show ?case by (simp add: manager_disconnect_def)
qed simp

text \<open>
  The invariant of the manager: no connection is listed twice, and every listed one has its
  endpoint running.
\<close>

definition manager_ok :: "ws_manager \<Rightarrow> bool" where
  "manager_ok m \<longleftrightarrow> distinct (wm_connections m) \<and> set (wm_connections m) \<subseteq> set (wm_handlers m)"

lemma client_step_ok: "manager_ok m \<Longrightarrow> manager_ok (client_step e m)"
proof (cases e)
  case (Arrives ws se)
  assume "manager_ok m"
  with Arrives show ?thesis
    by (cases se) (auto simp: manager_ok_def end_handler_def manager_disconnect_def manager_send_json_def distinct_removeAll)
qed (auto simp: manager_ok_def orders_websocket_def end_handler_def manager_disconnect_def manager_connect_def
      manager_send_json_def Let_def distinct_removeAll)

lemma client_steps_ok: "manager_ok m \<Longrightarrow> manager_ok (fold client_step es m)"
  by (induction es arbitrary: m) (simp_all add: client_step_ok)

lemma broadcast_ok: "manager_ok m \<Longrightarrow> manager_ok (broadcast alive meanwhile message m)"
  using client_steps_ok [of "m\<lparr>wm_delivered := wm_delivered m @ map (\<lambda>c. (c, message)) (filter alive (wm_connections m))\<rparr>" meanwhile]
  by (auto simp: broadcast_def Let_def send_all discard_all manager_ok_def)

lemma relay_ok: "manager_ok m \<Longrightarrow> manager_ok (relay loads alive meanwhile raw m)"
  by (simp add: relay_def Let_def broadcast_order_updated_def broadcast_order_created_def broadcast_ok client_steps_ok
      split: option.split sum.split)

lemma subscriber_ok: "manager_ok m \<Longrightarrow> manager_ok (subscribe_order_events loads polls m)"
  by (induction loads polls m rule: subscribe_order_events.induct)
    (simp_all add: subscriber_round_def relay_ok client_steps_ok del: fold_append)

text \<open>The order updates a client has been sent, and the events that end its connection.\<close>

definition is_update :: "json \<Rightarrow> bool" where
  "is_update message = (json_get message ''type'' = Inr (Some (JStr ''order_updated'')))"

definition updates_to :: "nat \<Rightarrow> ws_manager \<Rightarrow> json list" where
  "updates_to ws m = filter is_update (map snd (filter (\<lambda>(c, _). c = ws) (wm_delivered m)))"

definition ends_connection :: "nat \<Rightarrow> client_event \<Rightarrow> bool" where
  "ends_connection ws e \<longleftrightarrow> e = Arrives ws Failure \<or> e = Arrives ws (Silence False)"

definition online :: "nat \<Rightarrow> ws_manager \<Rightarrow> bool" where
  "online ws m \<longleftrightarrow> ws \<in> set (wm_connections m) \<and> ws \<in> set (wm_handlers m)"

lemma client_step_online:
  assumes "online ws m" "\<not> ends_connection ws e"
  shows "online ws (client_step e m) \<and> updates_to ws (client_step e m) = updates_to ws m"
proof (cases e)
  case (Arrives c se)
  with assms show ?thesis
    by (cases se)
      (auto simp: online_def ends_connection_def updates_to_def is_update_def end_handler_def manager_disconnect_def
        manager_send_json_def dict_get_def)
next
  case (Opens c accepted greeted)
  with assms show ?thesis
    by (auto simp: online_def updates_to_def is_update_def orders_websocket_def end_handler_def manager_disconnect_def
        manager_connect_def manager_send_json_def dict_get_def Let_def)
qed

lemma client_steps_online:
  assumes "online ws m" "\<forall>e \<in> set es. \<not> ends_connection ws e"
  shows "online ws (fold client_step es m) \<and> updates_to ws (fold client_step es m) = updates_to ws m"
  using assms
proof (induction es arbitrary: m)
  case (Cons e es)
  then show ?case using client_step_online [of ws m e] by simp
qed simp

text \<open>A broadcast reaches an online client once, and keeps it online.\<close>

lemma filter_eq_distinct: "distinct xs \<Longrightarrow> x \<in> set xs \<Longrightarrow> filter (\<lambda>y. y = x) xs = [x]"
  by (induction xs) (auto simp: filter_empty_conv)

lemma broadcast_reaches:
  assumes m: "manager_ok m" "online ws m" "alive ws" and es: "\<forall>e \<in> set meanwhile. \<not> ends_connection ws e"
    and message: "is_update message"
  shows "online ws (broadcast alive meanwhile message m)
         \<and> updates_to ws (broadcast alive meanwhile message m) = updates_to ws m @ [message]"
proof -
  let ?to = "filter alive (wm_connections m)"
  let ?m1 = "m\<lparr>wm_delivered := wm_delivered m @ map (\<lambda>c. (c, message)) ?to\<rparr>"
  have "filter (\<lambda>c. c = ws) ?to = [ws]"
    using m by (intro filter_eq_distinct) (auto simp: manager_ok_def online_def)
  then have "filter (\<lambda>(c, _). c = ws) (map (\<lambda>c. (c, message)) ?to) = [(ws, message)]"
    by (simp add: filter_map comp_def)
  then have "updates_to ws ?m1 = updates_to ws m @ [message]"
    using message by (simp add: updates_to_def)
  moreover have "online ws ?m1" using m by (simp add: online_def)
  ultimately have "online ws (fold client_step meanwhile ?m1)
      \<and> updates_to ws (fold client_step meanwhile ?m1) = updates_to ws m @ [message]"
    using client_steps_online [OF _ es, of ?m1] by simp
  then show ?thesis using m(3)
    by (auto simp: broadcast_def Let_def send_all discard_all online_def updates_to_def)
qed

lemma relay_published:
  assumes "loads raw = Some (published_message isoformat row)"
  shows "relay loads alive meanwhile raw m = broadcast alive meanwhile (published_message isoformat row) m"
  using assms
  by (simp add: relay_def published_message_def event_message_def dict_get_def broadcast_order_updated_def)

lemma published_is_update: "is_update (published_message isoformat row)"
  by (simp add: is_update_def published_message_def event_message_def dict_get_def)

section \<open>Property\<close>

lemma subseq_of_map:
  assumes "subseq xs (map f ys)"
  obtains zs where "subseq zs ys" and "xs = map f zs"
proof -
  from assms obtain N where "xs = nths (map f ys) N" unfolding subseq_conv_nths by blast
  then have "xs = map f (nths ys N)" by (simp add: nths_map)
  moreover have "subseq (nths ys N) ys" unfolding subseq_conv_nths by blast
  ultimately show thesis using that by blast
qed

lemma relay_received:
  assumes "manager_ok m" and "online ws m"
    and "received polls = map (\<lambda>row. dumps (published_message isoformat row)) rows"
    and "\<forall>p \<in> set polls. \<forall>e \<in> set (poll_events p). \<not> ends_connection ws e"
    and "\<forall>r. Message r \<in> set polls \<longrightarrow> cr_alive r ws"
    and "\<forall>row \<in> set rows. loads (dumps (published_message isoformat row)) = Some (published_message isoformat row)"
  shows "updates_to ws (subscribe_order_events loads polls m) = updates_to ws m @ map (published_message isoformat) rows"
  using assms
proof (induction loads polls m arbitrary: rows rule: subscribe_order_events.induct)
  case (1 loads m)
  then show ?case by simp
next
  case (2 loads r polls m)
  then obtain row rest where rows: "rows = row # rest" by (cases rows) auto
  let ?m = "subscriber_round loads r m"
  have b: "?m = broadcast (cr_alive r) (cr_meanwhile r) (published_message isoformat row) m"
    using "2.prems" rows by (simp add: subscriber_round_def relay_published)
  have "manager_ok ?m" using "2.prems" by (simp add: b broadcast_ok)
  moreover have "online ws ?m \<and> updates_to ws ?m = updates_to ws m @ [published_message isoformat row]"
    unfolding b using "2.prems" by (intro broadcast_reaches) (auto simp: published_is_update)
  ultimately show ?case
    using "2.IH" [of rest] "2.prems" rows by simp
next
  case (3 loads es polls m)
  then show ?case using client_steps_online [of ws m es] client_steps_ok [of m es] by simp
next
  case (4 loads es polls m)
  then have "\<forall>e \<in> set (es @ concat (map poll_events polls)). \<not> ends_connection ws e" by auto
  with 4 client_steps_online [of ws m "es @ concat (map poll_events polls)"] show ?case by (simp del: fold_append)
qed

text \<open>
  C26. A client that stays connected is sent every order update the relay receives, once and in the
  order of publication, and no other: Pub/Sub delivers at most once, so the received texts are a
  subsequence of those of the rows the workers have published, and whatever other clients do
  meanwhile, what the client has been sent grows by exactly the serialized rows of that
  subsequence, which is all of them when nothing is lost.  Nothing is received after an exception of
  \<open>get_message\<close>, which ends the relay.  The last hypothesis is the round trip of the JSON library on
  these messages.
\<close>

theorem connected_client_sees_received_updates:
  assumes "manager_ok m" "online ws m"
    and "subseq (received polls) (channel_texts isoformat dumps w)"
    and "\<forall>p \<in> set polls. \<forall>e \<in> set (poll_events p). \<not> ends_connection ws e"
    and "\<forall>r. Message r \<in> set polls \<longrightarrow> cr_alive r ws"
    and "\<forall>row \<in> set (w_published w).
           loads (dumps (published_message isoformat row)) = Some (published_message isoformat row)"
  shows "\<exists>rows. subseq rows (w_published w)
    \<and> received polls = map (\<lambda>row. dumps (published_message isoformat row)) rows
    \<and> (length (received polls) = length (w_published w) \<longrightarrow> rows = w_published w)
    \<and> updates_to ws (subscribe_order_events loads polls m)
        = updates_to ws m @ map (published_message isoformat) rows"
proof -
  obtain rows where rows: "subseq rows (w_published w)"
    "received polls = map (\<lambda>row. dumps (published_message isoformat row)) rows"
    using subseq_of_map [OF assms(3) [unfolded channel_texts_def]] by blast
  obtain N where "rows = nths (w_published w) N" using rows(1) unfolding subseq_conv_nths ..
  then have "set rows \<subseteq> set (w_published w)" by (simp add: set_nths_subset)
  then have "\<forall>row \<in> set rows. loads (dumps (published_message isoformat row)) = Some (published_message isoformat row)"
    using assms(6) by blast
  from relay_received [OF assms(1,2) rows(2) assms(4,5) this] rows subseq_same_length [OF rows(1)]
  show ?thesis by (intro exI [of _ rows]) simp
qed

definition two_clients :: ws_manager where
  "two_clients = client_step (Opens 2 True True) (client_step (Opens 1 True True) new_manager)"

definition published_example :: world where
  "published_example =
     \<lparr>w_db = [], w_redis = Map.empty, w_token_requests = [], w_posts = [], w_queue = [],
      w_published = [new_order 5 ''a'', new_order 6 ''b''], w_alerts = []\<rparr>"

text \<open>Of two published rows the relay receives the first; then its connection to Redis breaks.\<close>

theorem connected_client_sees_received_updates_witness:
  "updates_to 1
     (subscribe_order_events (\<lambda>t. Some (published_message (\<lambda>_. ''t'') (if t = ''a'' then new_order 5 ''a'' else new_order 6 ''b'')))
        [NoMessage [Arrives 2 (Silence True)],
         Message \<lparr>cr_text = ''a'', cr_alive = (\<lambda>c. c = 1), cr_meanwhile = [Arrives 2 Failure, Opens 3 True True]\<rparr>,
         Broken []]
        two_clients)
   = [published_message (\<lambda>_. ''t'') (new_order 5 ''a'')]"
proof -
  let ?loads = "\<lambda>t. Some (published_message (\<lambda>_. ''t'') (if t = ''a'' then new_order 5 ''a'' else new_order 6 ''b''))"
  let ?polls = "[NoMessage [Arrives 2 (Silence True)],
         Message \<lparr>cr_text = ''a'', cr_alive = (\<lambda>c. c = 1), cr_meanwhile = [Arrives 2 Failure, Opens 3 True True]\<rparr>,
         Broken []]"
  let ?iso = "\<lambda>_ :: int. ''t''"
  let ?dumps = "\<lambda>j. if j = published_message ?iso (new_order 5 ''a'') then ''a'' else ''b''"
  have ok: "manager_ok two_clients" "online 1 two_clients"
    by (simp_all add: two_clients_def new_manager_def manager_ok_def online_def orders_websocket_def
        manager_connect_def manager_send_json_def Let_def)
  have none: "updates_to 1 two_clients = []" by code_simp
  have ne: "published_message ?iso (new_order 6 ''b'') \<noteq> published_message ?iso (new_order 5 ''a'')"
    by (simp add: published_message_def event_message_def serialize_order_ws_payload_def new_order_def)
  have texts: "channel_texts ?iso ?dumps published_example = [''a'', ''b'']"
    using ne by (simp add: channel_texts_def published_example_def)
  have sub: "subseq (received ?polls) (channel_texts ?iso ?dumps published_example)"
    unfolding texts by simp
  have quiet: "\<forall>p \<in> set ?polls. \<forall>e \<in> set (poll_events p). \<not> ends_connection 1 e" by (simp add: ends_connection_def)
  have alive: "\<forall>r. Message r \<in> set ?polls \<longrightarrow> cr_alive r 1" by simp
  have loads: "\<forall>row \<in> set (w_published published_example).
      ?loads (?dumps (published_message ?iso row)) = Some (published_message ?iso row)"
    using ne by (simp add: published_example_def)
  from connected_client_sees_received_updates [OF ok sub quiet alive loads] obtain rows where rows:
    "subseq rows (w_published published_example)"
    "received ?polls = map (\<lambda>row. ?dumps (published_message ?iso row)) rows"
    "updates_to 1 (subscribe_order_events ?loads ?polls two_clients)
       = updates_to 1 two_clients @ map (published_message ?iso) rows" by blast
  from rows(2) obtain row where one: "rows = [row]" "?dumps (published_message ?iso row) = ''a''"
    by (cases rows) auto
  then have "published_message ?iso row = published_message ?iso (new_order 5 ''a'')" by (simp split: if_splits)
  with rows(3) one(1) none show ?thesis by simp
qed

end
