(* ===== verification/Discord.thy ===== *)
theory Discord
  imports Rebalance_Executor
begin

text \<open>
  The Discord alerts (\<^verbatim>\<open>app/utils/discord.py\<close>): the card of a finished rebalancing, of a failed
  order and of the state of the system, and the call of the webhook.

  Lengths and paddings count code points, so the texts built here are lists of code points
  (\<open>utext\<close>), \<open>decode\<close> reads the UTF-8 bytes of the other theories, and the Korean literals are
  written as numbers with their meaning beside them.  \<open>post\<close> stands for \<open>httpx\<close>: the
  status of the response, or an exception; on a response of status 429 the code reads a JSON body for its log, and
  a failure to do so is caught and answered like any other.
\<close>

section \<open>Text\<close>

type_synonym utext = "nat list"

function (sequential) decode :: "str \<Rightarrow> utext" where
  "decode [] = []"
| "decode (c # cs) =
     (let n = (of_char c :: nat);
          (first, more) = (if n < 128 then (n, 0) else if n < 224 then (n mod 32, 1)
                           else if n < 240 then (n mod 16, 2) else (n mod 8, 3))
      in foldl (\<lambda>a d. a * 64 + of_char d mod 64) first (take more cs) # decode (drop more cs))"
  by pat_completeness auto
termination by (relation "measure length") (auto simp: less_Suc_eq_le)

definition uint_text :: "int \<Rightarrow> utext" where
  "uint_text i = decode (show_int i)"

definition spaces :: "nat \<Rightarrow> utext" where
  "spaces n = replicate n 32"

text \<open>\<open>{text:>w}\<close> and \<open>{text:<w}\<close>.\<close>

definition right_in :: "nat \<Rightarrow> utext \<Rightarrow> utext" where
  "right_in w t = spaces (w - length t) @ t"

definition left_in :: "nat \<Rightarrow> utext \<Rightarrow> utext" where
  "left_in w t = t @ spaces (w - length t)"

text \<open>\<open>{n:,}\<close>: a comma before every three digits from the right.\<close>

fun group_digits :: "str \<Rightarrow> str" where
  "group_digits [] = []"
| "group_digits (d # ds) =
     d # (if ds \<noteq> [] \<and> length ds mod 3 = 0 then CHR '','' # group_digits ds else group_digits ds)"

definition with_commas :: "int \<Rightarrow> utext" where
  "with_commas i = decode ((if i < 0 then ''-'' else '''') @ group_digits (show_nat (nat \<bar>i\<bar>)))"

text \<open>\<open>{x:.1f}\<close> of a float that does not round to zero: the exact value, rounded half to even.\<close>

definition one_decimal :: "rat \<Rightarrow> utext" where
  "one_decimal x =
     (let t = round_half_even (\<bar>x\<bar> * 10)
      in decode ((if x < 0 then ''-'' else '''') @ show_int (t div 10) @ ''.'' @ show_int (t mod 10)))"

definition truncate_text :: "nat \<Rightarrow> utext \<Rightarrow> utext" where
  "truncate_text max_len t = (if length t \<le> max_len then t else take (max_len - 3) t @ decode ''...'')"

text \<open>Hangul syllables and CJK ideographs take two columns.\<close>

definition is_wide :: "nat \<Rightarrow> bool" where
  "is_wide ch = (44032 \<le> ch \<and> ch \<le> 55203 \<or> 19968 \<le> ch \<and> ch \<le> 40959)"

definition display_width :: "utext \<Rightarrow> nat" where
  "display_width t = sum_list (map (\<lambda>ch. if is_wide ch then 2 else 1) t)"

definition pad :: "utext \<Rightarrow> nat \<Rightarrow> utext" where
  "pad t width = t @ spaces (width - display_width t)"

definition format_amount :: "int \<Rightarrow> utext" where
  "format_amount v =
     (if 10000 \<le> \<bar>v\<bar> then one_decimal (fl (of_int v / 10000)) @ [47564] else with_commas v)"

text \<open>\<open>sep.join(parts)\<close>.\<close>

fun join_texts :: "utext \<Rightarrow> utext list \<Rightarrow> utext" where
  "join_texts sep [] = []"
| "join_texts sep [t] = t"
| "join_texts sep (t # u # ts) = t @ sep @ join_texts sep (u # ts)"

section \<open>Cards and the webhook\<close>

datatype embed_color = SUCCESS | WARNING | ERROR | INFO

fun color_value :: "embed_color \<Rightarrow> int" where
  "color_value SUCCESS = 3066993"
| "color_value WARNING = 16776960"
| "color_value ERROR = 15158332"
| "color_value INFO = 3447003"

record embed_field =
  ef_name :: utext
  ef_value :: utext
  ef_inline :: bool

record embed =
  em_title :: utext
  em_description :: "utext option"
  em_color :: int
  em_fields :: "embed_field list"
  em_footer :: utext
  em_timestamp :: utext

text \<open>
  \<open>_send_webhook\<close>: whether the message was accepted, and the requests made.  The result is a
  value on every path.
\<close>

definition send_webhook ::
  "(str \<Rightarrow> embed \<Rightarrow> int result) \<Rightarrow> str \<Rightarrow> embed \<Rightarrow> bool \<times> (str \<times> embed) list"
where
  "send_webhook post webhook_url e =
     (if webhook_url = '''' then (False, [])
      else (case post webhook_url e of
              Inl _ \<Rightarrow> False
            | Inr status_code \<Rightarrow> status_code = 204,
            [(webhook_url, e)]))"

text \<open>
  \<open>_send_webhook_sync\<close>: inside a running event loop the call is only scheduled, and the answer is
  true whatever becomes of it.
\<close>

datatype delivery = Scheduled str embed | Done bool "(str \<times> embed) list"

definition send_webhook_sync ::
  "bool \<Rightarrow> (str \<Rightarrow> embed \<Rightarrow> int result) \<Rightarrow> str \<Rightarrow> embed \<Rightarrow> bool \<times> delivery"
where
  "send_webhook_sync loop_running post webhook_url e =
     (if loop_running then (True, Scheduled webhook_url e)
      else let (ok, posts) = send_webhook post webhook_url e in (ok, Done ok posts))"

section \<open>The card of a rebalancing\<close>

definition timed_out :: "fill_result option \<Rightarrow> bool" where
  "timed_out r = (case r of None \<Rightarrow> False | Some fr \<Rightarrow> fr_timed_out fr)"

definition alert_class :: "rebalance_result \<Rightarrow> embed_color \<times> utext" where
  "alert_class res =
     (if \<not> rr_success res \<and> rr_error_message res \<noteq> ''''
      then (ERROR, [10060, 32, 47532, 48184, 47088, 49905, 32, 49892, 54056])  \<comment> \<open>rebalancing failed\<close>
      else if (case rr_order_result res of
                 None \<Rightarrow> False
               | Some r \<Rightarrow> timed_out (og_sell_fill_result r) \<or> timed_out (og_buy_fill_result r))
      then (WARNING, [9888, 65039, 32, 47532, 48184, 47088, 49905, 32, 50756, 47308, 32, 40, 51068, 48512, 32, 53440, 51076, 50500, 50883, 41])  \<comment> \<open>rebalancing done (part timed out)\<close>
      else if rr_dry_run res
      then (INFO, [128269, 32, 47532, 48184, 47088, 49905, 32, 68, 82, 89, 32, 82, 85, 78])  \<comment> \<open>rebalancing DRY RUN\<close>
      else (SUCCESS, [9989, 32, 47532, 48184, 47088, 49905, 32, 50756, 47308]))  \<comment> \<open>rebalancing done\<close>"

definition rule_line :: utext where
  "rule_line = replicate 35 9472 @ [10]"

text \<open>A table of items: name, quantity and amount of each, and the sums.\<close>

definition table_row :: "(position_diff_item \<Rightarrow> int) \<Rightarrow> position_diff_item \<Rightarrow> utext" where
  "table_row amount item =
     pad (decode (pd_stock_name item)) 10 @ spaces 1
     @ right_in 4 (uint_text (pd_order_qty item)) @ [51452] @ spaces 1  \<comment> \<open>shares\<close>
     @ right_in 9 (format_amount (amount item)) @ [10]"

definition trade_table :: "(position_diff_item \<Rightarrow> int) \<Rightarrow> position_diff_item list \<Rightarrow> int \<Rightarrow> utext" where
  "trade_table amount items total_value =
     decode ''```''
     @ left_in 10 [51333, 47785] @ spaces 1 @ right_in 5 [49688, 47049] @ spaces 1 @ right_in 10 [44552, 50529] @ [10]  \<comment> \<open>stock, quantity, amount\<close>
     @ rule_line
     @ concat (map (table_row amount) items)
     @ rule_line
     @ left_in 10 [54633, 44228] @ spaces 1  \<comment> \<open>sum\<close>
     @ right_in 4 (uint_text (int (length items))) @ [44148] @ spaces 1  \<comment> \<open>cases\<close>
     @ right_in 9 (format_amount total_value) @ [10]
     @ decode ''```''"

definition diff_parts :: "position_diff_result \<Rightarrow> utext list" where
  "diff_parts diff =
     (if pr_sell_list diff = [] then []
      else [[], [42, 42, 128308, 32, 47588, 46020, 42, 42], trade_table pd_current_value (pr_sell_list diff) (pr_total_sell_value diff)])  \<comment> \<open>sell\<close>
     @ (if pr_buy_list diff = [] then []
        else [[42, 42, 128994, 32, 47588, 49688, 42, 42], trade_table pd_target_value (pr_buy_list diff) (pr_total_buy_value diff)])  \<comment> \<open>buy\<close>
     @ (if pr_hold_list diff = [] then []
        else [[42, 42, 9898, 32, 50976, 51648, 42, 42, 32, 40] @ uint_text (int (length (pr_hold_list diff))) @ [51333, 47785, 41, 58, 32]  \<comment> \<open>hold (n stocks):\<close>
              @ join_texts (decode '', '') (map (\<lambda>i. decode (pd_stock_name i)) (pr_hold_list diff))])"

definition alert_description :: "rebalance_result \<Rightarrow> utext" where
  "alert_description res =
     join_texts [10]
       ((decode ''`'' @ take 8 (decode (rr_rebalance_id res)) @ [96, 32, 183, 32]
         @ (if rr_dry_run res then decode ''DRY RUN'' else [49892, 51204])  \<comment> \<open>live\<close>
         @ [32, 183, 32, 50976, 45768, 48260, 49828, 32, 42, 42] @ uint_text (rr_universe_count res) @ [42, 42, 51333, 47785, 32, 8594, 32, 49884, 44536, 45328, 32, 42, 42]  \<comment> \<open>universe n stocks, signals\<close>
         @ uint_text (int (rr_signal_buy_count res)) @ [42, 42, 51333, 47785])
        # (case rr_diff_result res of None \<Rightarrow> [] | Some diff \<Rightarrow> diff_parts diff))"

definition fill_status :: "fill_result \<Rightarrow> utext" where
  "fill_status fr =
     uint_text (int (fr_filled_orders fr)) @ decode ''/'' @ uint_text (int (fr_total_orders fr)) @ [44148, 32]
     @ (if fr_timed_out fr then [9200] else [9989])"

definition fill_fields :: "order_generation_result \<Rightarrow> embed_field list" where
  "fill_fields r =
     (case og_sell_fill_result r of
        None \<Rightarrow> []
      | Some fr \<Rightarrow> [\<lparr>ef_name = [47588, 46020, 32, 52404, 44208],  \<comment> \<open>sells filled\<close>
                     ef_value = fill_status fr @ [10] @ with_commas (fr_total_filled_amount fr) @ [50896], ef_inline = True\<rparr>])
     @ (case og_buy_fill_result r of
          None \<Rightarrow> []
        | Some fr \<Rightarrow> [\<lparr>ef_name = [47588, 49688, 32, 52404, 44208], ef_value = fill_status fr, ef_inline = True\<rparr>])"  \<comment> \<open>buys filled\<close>

definition alert_fields :: "rebalance_result \<Rightarrow> embed_field list" where
  "alert_fields res =
     (case rr_order_result res of
        None \<Rightarrow> []
      | Some r \<Rightarrow> if rr_dry_run res then [] else fill_fields r)
     @ (case rr_diff_result res of
          None \<Rightarrow> []
        | Some diff \<Rightarrow>
            [\<lparr>ef_name = [50696, 49688, 44552, 32, 48320, 46041],  \<comment> \<open>change of the cash\<close>
              ef_value = with_commas (pr_available_cash diff) @ [50896] @ [10] @ [8594, 32]
                         @ with_commas (pr_estimated_cash_after diff) @ [50896],
              ef_inline = True\<rparr>])
     @ (if rr_error_message res = '''' then []
        else [\<lparr>ef_name = [10060, 32, 50724, 47448],  \<comment> \<open>error\<close>
               ef_value = decode ''```'' @ decode (rr_error_message res) @ decode ''```'', ef_inline = False\<rparr>])"

definition rebalance_embed :: "utext \<Rightarrow> rebalance_result \<Rightarrow> embed" where
  "rebalance_embed now res =
     \<lparr>em_title = snd (alert_class res),
      em_description = Some (truncate_text 4096 (alert_description res)),
      em_color = color_value (fst (alert_class res)),
      em_fields = alert_fields res,
      em_footer = decode ''rebalance_id: '' @ take 8 (decode (rr_rebalance_id res)),
      em_timestamp = now\<rparr>"

definition send_rebalance_card ::
  "(str \<Rightarrow> embed \<Rightarrow> int result) \<Rightarrow> str \<Rightarrow> utext \<Rightarrow> rebalance_result \<Rightarrow> bool \<times> (str \<times> embed) list"
where
  "send_rebalance_card post webhook_url now res = send_webhook post webhook_url (rebalance_embed now res)"

section \<open>The cards of a failed order and of the system\<close>

definition order_error_fields ::
  "str \<Rightarrow> str \<Rightarrow> str \<Rightarrow> str \<Rightarrow> str \<Rightarrow> (str \<times> str) list option \<Rightarrow> embed_field list"
where
  "order_error_fields stock_code stock_name order_id order_action error_message ctx =
     [\<lparr>ef_name = [51333, 47785], ef_value = decode ''`'' @ decode stock_code @ decode ''` '' @ decode stock_name, ef_inline = True\<rparr>,  \<comment> \<open>stock\<close>
      \<lparr>ef_name = [51452, 47928], ef_value = decode (if order_action = '''' then ''N/A'' else order_action), ef_inline = True\<rparr>,  \<comment> \<open>order\<close>
      \<lparr>ef_name = decode ''order_id'', ef_value = decode ''`'' @ take 8 (decode order_id) @ decode ''`'', ef_inline = True\<rparr>]
     @ (if error_message = '''' then []
        else [\<lparr>ef_name = [50640, 47084, 32, 47700, 49884, 51648],  \<comment> \<open>error message\<close>
               ef_value = decode ''```'' @ take 1000 (decode error_message) @ decode ''```'', ef_inline = False\<rparr>])
     @ (case ctx of
          None \<Rightarrow> []
        | Some kvs \<Rightarrow>
            if kvs = [] then []
            else [\<lparr>ef_name = [49345, 49464, 32, 51221, 48372],  \<comment> \<open>details\<close>
                   ef_value = take 1024 (join_texts [10]
                     (map (\<lambda>(k, v). decode ''**'' @ decode k @ decode '':** '' @ decode v) kvs)),
                   ef_inline = False\<rparr>])"

definition order_error_embed ::
  "utext \<Rightarrow> str \<Rightarrow> str \<Rightarrow> str \<Rightarrow> str \<Rightarrow> str \<Rightarrow> (str \<times> str) list option \<Rightarrow> embed"
where
  "order_error_embed now stock_code stock_name order_id order_action error_message ctx =
     \<lparr>em_title = [128680, 32, 51452, 47928, 32, 49892, 54056], em_description = None,  \<comment> \<open>order failed\<close>
      em_color = color_value ERROR,
      em_fields = order_error_fields stock_code stock_name order_id order_action error_message ctx,
      em_footer = decode ''Autotrading Error'', em_timestamp = now\<rparr>"

definition send_order_error_alert ::
  "(str \<Rightarrow> embed \<Rightarrow> int result) \<Rightarrow> str \<Rightarrow> utext \<Rightarrow> str \<Rightarrow> str \<Rightarrow> str \<Rightarrow> str \<Rightarrow> str
     \<Rightarrow> (str \<times> str) list option \<Rightarrow> bool \<times> (str \<times> embed) list"
where
  "send_order_error_alert post webhook_url now stock_code stock_name order_id order_action error_message ctx =
     send_webhook post webhook_url
       (order_error_embed now stock_code stock_name order_id order_action error_message ctx)"

definition send_order_error_alert_sync ::
  "bool \<Rightarrow> (str \<Rightarrow> embed \<Rightarrow> int result) \<Rightarrow> str \<Rightarrow> utext \<Rightarrow> str \<Rightarrow> str \<Rightarrow> str \<Rightarrow> str \<Rightarrow> str
     \<Rightarrow> (str \<times> str) list option \<Rightarrow> bool \<times> delivery"
where
  "send_order_error_alert_sync loop_running post webhook_url now stock_code stock_name order_id order_action
       error_message ctx =
     send_webhook_sync loop_running post webhook_url
       (order_error_embed now stock_code stock_name order_id order_action error_message ctx)"

definition health_embed :: "utext \<Rightarrow> utext \<Rightarrow> utext \<Rightarrow> bool \<Rightarrow> embed" where
  "health_embed now title message is_healthy =
     \<lparr>em_title = (if is_healthy then [9989] else [128680]) @ spaces 1 @ title,
      em_description = Some message,
      em_color = color_value (if is_healthy then SUCCESS else ERROR),
      em_fields = [], em_footer = decode ''Autotrading Health'', em_timestamp = now\<rparr>"

definition send_health_alert ::
  "(str \<Rightarrow> embed \<Rightarrow> int result) \<Rightarrow> str \<Rightarrow> utext \<Rightarrow> utext \<Rightarrow> utext \<Rightarrow> bool \<Rightarrow> bool \<times> (str \<times> embed) list"
where
  "send_health_alert post webhook_url now title message is_healthy =
     send_webhook post webhook_url (health_embed now title message is_healthy)"

section \<open>Lemmas\<close>

lemma decode_ascii: "\<forall>c \<in> set s. (of_char c :: nat) < 128 \<Longrightarrow> decode s = map of_char s"
  by (induction s) simp_all

lemma decode_length: "length (decode s) \<le> length s"
proof (induction s rule: decode.induct)
  case (2 c cs)
  have le: "length (decode (drop k cs)) \<le> length cs" if "length (decode (drop k cs)) \<le> length (drop k cs)" for k
    using that by simp
  show ?case
    using 2 by (auto simp: Let_def intro!: le)
qed simp

text \<open>Truncated texts fit, and begin as the whole text does.\<close>

lemma truncate_text_fits: "3 \<le> max_len \<Longrightarrow> length (truncate_text max_len t) \<le> max_len"
  by (auto simp: truncate_text_def)

lemma truncate_text_prefix: "take (max_len - 3) (truncate_text max_len t) = take (max_len - 3) t"
  by (auto simp: truncate_text_def)

lemma pad_width: "display_width (pad t w) = max w (display_width t)"
proof -
  have "display_width (spaces n) = n" for n
    by (simp add: display_width_def spaces_def is_wide_def map_replicate_const sum_list_replicate)
  then show ?thesis by (simp add: pad_def display_width_def)
qed

lemma right_in_length: "length (right_in w t) = max w (length t)"
  by (simp add: right_in_def spaces_def)

text \<open>The commas change no digit, and stand before groups of three.\<close>

lemma group_digits_digits: "list_all is_digit ds \<Longrightarrow> filter is_digit (group_digits ds) = ds"
  by (induction ds) (auto simp: is_digit_def Let_def)

lemma group_digits_length: "length (group_digits ds) = length ds + (length ds - 1) div 3"
proof (induction ds)
  case (Cons d ds)
  show ?case
  proof (cases "ds = []")
    case False
    then obtain n where n: "length ds = Suc n" by (cases ds) auto
    have "Suc n div 3 = (if Suc n mod 3 = 0 then Suc (n div 3) else n div 3)"
      by (simp add: div_Suc mod_Suc)
    then show ?thesis using Cons False n by simp
  qed simp
qed simp

section \<open>Properties\<close>

text \<open>
  The card of a failed order is within the limits of Discord (1024 code points in the value of a field, 25
  fields), however long the error message and the context are, as long as the name of the stock and the action are.
\<close>

lemma order_error_card_fits:
  assumes "length stock_code + length stock_name \<le> 1021" "length order_action \<le> 1024"
  shows "\<forall>f \<in> set (em_fields (order_error_embed now stock_code stock_name oid order_action error_message ctx)).
           length (ef_value f) \<le> 1024"
    and "length (em_fields (order_error_embed now stock_code stock_name oid order_action error_message ctx)) \<le> 5"
proof -
  have ticks: "length (decode ''```'') = 3" "length (decode ''`'') = 1" "length (decode ''` '') = 2" "length (decode ''N/A'') = 3"
    by (simp_all add: decode_ascii)
  show "\<forall>f \<in> set (em_fields (order_error_embed now stock_code stock_name oid order_action error_message ctx)).
           length (ef_value f) \<le> 1024"
    using assms decode_length [of stock_code] decode_length [of stock_name] decode_length [of order_action]
    by (auto simp: order_error_embed_def order_error_fields_def ticks split: option.splits)
  show "length (em_fields (order_error_embed now stock_code stock_name oid order_action error_message ctx)) \<le> 5"
    by (simp add: order_error_embed_def order_error_fields_def split: option.splits)
qed

text \<open>
  The description of a rebalancing card always fits; the error message of the card is not
  cut, so a long one makes a field that Discord refuses.
\<close>

lemma rebalance_description_fits:
  "\<exists>d. em_description (rebalance_embed now res) = Some d \<and> length d \<le> 4096"
  by (simp add: rebalance_embed_def truncate_text_fits)

lemma rebalance_error_not_cut:
  assumes "1018 < length (decode (rr_error_message res))"
  shows "\<exists>f \<in> set (em_fields (rebalance_embed now res)). 1024 < length (ef_value f)"
  using assms by (auto simp: rebalance_embed_def alert_fields_def decode_ascii)

text \<open>A failure whose exception has no text is announced as a success.\<close>

lemma unnamed_failure_announced_as_success:
  assumes "\<not> rr_success res" "rr_error_message res = ''''" "rr_order_result res = None" "\<not> rr_dry_run res"
  shows "em_color (rebalance_embed now res) = color_value SUCCESS"
  using assms by (simp add: rebalance_embed_def alert_class_def)

text \<open>So it is with a rebalancing whose account inquiry fails with such an exception.\<close>

lemma unnamed_inquiry_failure_announced_as_success:
  assumes "plan_rebalance (ge_worker env) sr (rw_world w) = Some (Inl e, w1)" and "exn_str e = ''''"
  shows "\<exists>res w'. submit_rebalance g env sr False w = Some (res, w') \<and> \<not> rr_success res
           \<and> rw_rebalance_alerts w' = rw_rebalance_alerts w @ [res]
           \<and> em_color (rebalance_embed now res) = color_value SUCCESS"
  using assms unnamed_failure_announced_as_success
  by (simp add: submit_rebalance_def Let_def send_rebalance_alert_def new_rebalance_result_def)

text \<open>Inside an event loop the caller is told that the alert was sent, whatever the webhook would answer.\<close>

lemma scheduled_alert_claims_success: "fst (send_webhook_sync True post webhook_url e)"
  by (simp add: send_webhook_sync_def)

end
