(* ===== verification/Summaries.thy ===== *)
theory Summaries
  imports Discord
begin

text \<open>
  The summaries of a plan, of the orders made from it and of a whole run
  (\<^verbatim>\<open>app/schemas/strategy/trading.py\<close>), as texts of code points like the alerts.  \<open>executed_at\<close>
  is the time of the run as text, \<open>show_rank\<close> the text of a momentum rank, whose Python type depends on the
  strategy.
\<close>

section \<open>Plan, orders and run\<close>

definition heavy_line :: utext where
  "heavy_line = replicate 60 61"

text \<open>\<open>{n:,.0f}\<close> of an integer: converted to a float first.\<close>

definition amount_text :: "int \<Rightarrow> utext" where
  "amount_text n = with_commas \<lfloor>fl (of_int n)\<rfloor>"

text \<open>\<open>{x:.1%}\<close>.\<close>

definition percent_text :: "rat \<Rightarrow> utext" where
  "percent_text x = one_decimal (fl (x * 100)) @ decode ''%''"

definition stock_label :: "str \<Rightarrow> str \<Rightarrow> utext" where
  "stock_label code name = decode code @ spaces 1 @ decode name @ decode '': ''"

definition trade_line :: "position_diff_item \<Rightarrow> utext" where
  "trade_line item =
     spaces 3 @ stock_label (pd_stock_code item) (pd_stock_name item)
     @ uint_text (pd_order_qty item) @ [51452, 32, 215, 32] @ with_commas (pd_current_price item) @ [50896, 32, 61, 32]
     @ amount_text (pd_order_value item) @ [50896]"

definition position_diff_summary :: "(rat \<Rightarrow> str) \<Rightarrow> position_diff_result \<Rightarrow> utext" where
  "position_diff_summary show_rank diff =
     join_texts [10]
       ([heavy_line, [128202, 32, 47532, 48184, 47088, 49905, 32, 44228, 54925, 32, 50836, 50557], heavy_line,
         [9745, 65039, 32, 54788, 51116, 32, 48372, 50976, 58, 32] @ uint_text (int (pr_current_count diff)) @ [51333, 47785, 32, 47, 32, 47785, 54364, 58, 32] @ uint_text (int (pr_target_count diff)) @ [51333, 47785],
         [128184, 32, 50696, 49688, 44552, 58, 32] @ amount_text (pr_available_cash diff) @ [50896],
         [],
         [128308, 32, 47588, 46020, 32, 40] @ uint_text (int (length (pr_sell_list diff))) @ [51333, 47785, 41, 58, 32] @ amount_text (pr_total_sell_value diff) @ [50896]]
        @ map trade_line (pr_sell_list diff)
        @ [[10] @ [128994, 32, 47588, 49688, 32, 40] @ uint_text (int (length (pr_buy_list diff))) @ [51333, 47785, 41, 58, 32] @ amount_text (pr_total_buy_value diff) @ [50896]]
        @ map (\<lambda>item. trade_line item @ [32, 40, 49688, 51061, 47456, 58, 32] @ percent_text (pd_momentum_return item) @ [44, 32, 49692, 50948, 58, 32]
                 @ decode (show_rank (pd_momentum_rank item)) @ decode '')'') (pr_buy_list diff)
        @ [[10] @ [9898, 32, 50976, 51648, 32, 40] @ uint_text (int (length (pr_hold_list diff))) @ [51333, 47785, 41]]
        @ map (\<lambda>item. spaces 3 @ stock_label (pd_stock_code item) (pd_stock_name item)
                 @ uint_text (pd_current_qty item) @ [51452, 32, 40, 54217, 44032, 58, 32] @ amount_text (pd_current_value item) @ [50896, 41]) (pr_hold_list diff)
        @ [[10] @ [128176, 32, 47532, 48184, 47088, 49905, 32, 54980, 32, 50696, 49345, 32, 51092, 50668, 32, 54788, 44552, 58, 32] @ amount_text (pr_estimated_cash_after diff) @ [50896], heavy_line])"

definition total_orders :: "order_generation_result \<Rightarrow> nat" where
  "total_orders r = length (og_sell_orders r) + length (og_buy_orders r)"

definition order_line :: "utext \<Rightarrow> order_request \<Rightarrow> utext" where
  "order_line action q =
     spaces 3 @ decode ''['' @ take 8 (decode (q_order_id q)) @ decode ''] ''
     @ stock_label (q_stock_code q) (q_stock_name q) @ uint_text (q_quantity q) @ action"

definition filled_text :: "fill_result \<Rightarrow> utext" where
  "filled_text fr =
     [32, 32, 32, 8594, 32, 52404, 44208, 58, 32] @ uint_text (int (fr_filled_orders fr)) @ decode ''/'' @ uint_text (int (fr_total_orders fr)) @ [44148]"

definition timeout_text :: "fill_result \<Rightarrow> utext" where
  "timeout_text fr = (if fr_timed_out fr then [32, 40, 53440, 51076, 50500, 50883, 41] else [])"

definition order_generation_summary :: "order_generation_result \<Rightarrow> utext" where
  "order_generation_summary r =
     join_texts [10]
       ([heavy_line, [128203, 32, 51452, 47928, 32, 49373, 49457, 32, 44208, 44284, 32, 40, 114, 101, 98, 97, 108, 97, 110, 99, 101, 95, 105, 100, 58, 32] @ decode (og_rebalance_id r) @ decode '')'', heavy_line,
         [47588, 46020, 32, 51452, 47928, 58, 32] @ uint_text (int (length (og_sell_orders r))) @ [44148]]
        @ map (order_line [51452, 32, 47588, 46020]) (og_sell_orders r)
        @ (case og_sell_fill_result r of
             None \<Rightarrow> []
           | Some fr \<Rightarrow> [filled_text fr @ [44, 32, 52404, 44208, 44552, 50529, 58, 32] @ with_commas (fr_total_filled_amount fr) @ [50896] @ timeout_text fr])
        @ [[47588, 49688, 32, 51452, 47928, 58, 32] @ uint_text (int (length (og_buy_orders r))) @ [44148]]
        @ map (order_line [51452, 32, 47588, 49688]) (og_buy_orders r)
        @ (case og_buy_fill_result r of None \<Rightarrow> [] | Some fr \<Rightarrow> [filled_text fr @ timeout_text fr])
        @ (if og_skipped r = [] then []
           else ([44148, 45320, 46848, 58, 32] @ uint_text (int (length (og_skipped r))) @ [44148])
                # map (\<lambda>(code, reason). spaces 3 @ decode code @ decode '': '' @ decode reason) (og_skipped r))
        @ [heavy_line])"

definition rebalance_summary :: "(rat \<Rightarrow> str) \<Rightarrow> str \<Rightarrow> rebalance_result \<Rightarrow> utext" where
  "rebalance_summary show_rank executed_at res =
     join_texts [10]
       ([heavy_line, [128640, 32, 47532, 48184, 47088, 49905, 32, 49892, 54665, 32, 44208, 44284], [32, 32, 32, 49892, 54665, 32, 49884, 44033, 58, 32] @ decode executed_at, decode ''   rebalance_id: '' @ decode (rr_rebalance_id res),
         [32, 32, 32, 47784, 46300, 58, 32] @ (if rr_dry_run res then [68, 82, 89, 32, 82, 85, 78, 32, 40, 44160, 51613, 47564, 41] else [49892, 51204, 32, 51452, 47928]),
         heavy_line,
         [128204, 32, 50976, 45768, 48260, 49828, 58, 32] @ uint_text (rr_universe_count res) @ [51333, 47785, 32, 53685, 44284],
         [128204, 32, 66, 85, 89, 32, 49884, 44536, 45328, 58, 32] @ uint_text (int (rr_signal_buy_count res)) @ [51333, 47785]]
        @ (case rr_diff_result res of None \<Rightarrow> [] | Some diff \<Rightarrow> [[], position_diff_summary show_rank diff])
        @ (case rr_order_result res of None \<Rightarrow> [] | Some r \<Rightarrow> [[], order_generation_summary r])
        @ (if rr_error_message res = '''' then [] else [[10] @ [10060, 32, 50724, 47448, 58, 32] @ decode (rr_error_message res)]))"

end
