(* ===== verification/Query_Api.thy ===== *)
theory Query_Api
  imports Summaries Rebalance_Query Performance Order_Api
begin

text \<open>
  The endpoints that read, and the one that starts a rebalancing by hand: \<^verbatim>\<open>app/api/router_strategy.py\<close>,
  \<^verbatim>\<open>app/api/router_order_query.py\<close>, \<^verbatim>\<open>app/api/router_metrics.py\<close>; the names of the stocks
  (\<open>_load_corp_maps\<close> of \<^verbatim>\<open>app/market/provider/dart_provider.py\<close>) and the order as it is answered
  (\<^verbatim>\<open>app/schemas/kis/order.py\<close>).

  The DART archive is a parameter, its entries the texts of the three elements that are read.  FastAPI's answer to an argument out of its bounds is \<open>HTTPException 422\<close>.
\<close>

section \<open>Rebalancings\<close>

record strategy_run_response =
  rs_strategy_name :: str
  rs_strategy_type :: strategy_type
  rs_success :: bool
  rs_dry_run :: bool
  rs_error_message :: str
  rs_summary :: utext
  rs_rebalance_id :: str
  rs_universe_count :: int
  rs_signal_buy_count :: nat

definition api_run_rebalance ::
  "(rat \<Rightarrow> str) \<Rightarrow> str \<Rightarrow> gen_env \<Rightarrow> strategy_type \<Rightarrow> (int \<Rightarrow> strategy_result result) \<Rightarrow> int option \<Rightarrow> bool
     \<Rightarrow> rworld \<Rightarrow> (strategy_run_response answer \<times> rworld) option"
where
  "api_run_rebalance show_rank executed_at env stype strategy year dry_run w =
     map_option
       (\<lambda>(r, w'). (case r of
          Inl e \<Rightarrow> Inl (Raised e)
        | Inr (sr, res) \<Rightarrow> Inr
            \<lparr>rs_strategy_name = sr_strategy_name sr, rs_strategy_type = sr_strategy_type sr,
             rs_success = rr_success res, rs_dry_run = rr_dry_run res, rs_error_message = rr_error_message res,
             rs_summary = rebalance_summary show_rank executed_at res,
             rs_rebalance_id = rr_rebalance_id res, rs_universe_count = rr_universe_count res,
             rs_signal_buy_count = rr_signal_buy_count res\<rparr>, w'))
       (orchestrate env stype strategy year dry_run w)"

definition api_rebalance_history :: "rebalances \<Rightarrow> int \<Rightarrow> int \<Rightarrow> (nat \<times> rebalance_list_item list) answer" where
  "api_rebalance_history db limit offset =
     (if limit < 1 \<or> 100 < limit \<or> offset < 0 then Inl (HTTPException 422 ''limit or offset out of range'')
      else Inr (get_rebalance_list db (nat limit) (nat offset)))"

text \<open>An absent row is an answer 404, an exception of the service a server error.\<close>

definition or_404 :: "str \<Rightarrow> 'a option result \<Rightarrow> 'a answer" where
  "or_404 detail r =
     (case r of
        Inl e \<Rightarrow> Inl (Raised e)
      | Inr None \<Rightarrow> Inl (HTTPException 404 detail)
      | Inr (Some x) \<Rightarrow> Inr x)"

definition api_rebalance_detail :: "rebalances \<Rightarrow> orders \<Rightarrow> uuid \<Rightarrow> rebalance_detail answer" where
  "api_rebalance_detail rebalances db rebalance_id =
     or_404 ''the rebalance is not found'' (get_rebalance_detail rebalances db rebalance_id)"

definition api_rebalance_snapshot :: "snapshots \<Rightarrow> str \<Rightarrow> snapshot_response answer" where
  "api_rebalance_snapshot db rebalance_id =
     or_404 ''the snapshot of the rebalance is not found'' (get_rebalance_snapshot db rebalance_id)"

section \<open>Orders\<close>

text \<open>\<open>corp.findtext(name, "").strip()\<close> of the entries; a repeated code keeps its last name.\<close>

record corp_entry =
  ce_stock_code :: "str option"
  ce_corp_code :: "str option"
  ce_corp_name :: "str option"

definition element_text :: "str option \<Rightarrow> str" where
  "element_text x = strip (or_text x '''')"

definition load_corp_maps :: "corp_entry list \<Rightarrow> (str \<times> str) list \<times> (str \<times> str) list" where
  "load_corp_maps entries =
     (let listed = filter (\<lambda>e. element_text (ce_stock_code e) \<noteq> []) entries
      in (dict_of (map (\<lambda>e. (element_text (ce_stock_code e), element_text (ce_corp_code e))) listed),
          dict_of (map (\<lambda>e. (element_text (ce_stock_code e), element_text (ce_corp_name e))) listed)))"

definition load_stock_name_map :: "corp_entry list result \<Rightarrow> (str \<times> str) list result" where
  "load_stock_name_map archive = bind_result archive (\<lambda>entries. Inr (snd (load_corp_maps entries)))"

text \<open>
  The validator of the two payload columns, and the check of its result against \<open>dict | None\<close>.
\<close>

definition parse_json_fields :: "(str \<Rightarrow> json option) \<Rightarrow> json option \<Rightarrow> json option" where
  "parse_json_fields loads v =
     (case v of
        Some (JObj d) \<Rightarrow> Some (JObj d)
      | Some (JStr s) \<Rightarrow> loads s
      | _ \<Rightarrow> None)"

definition dict_or_none :: "json option \<Rightarrow> json option result" where
  "dict_or_none v =
     (case v of
        None \<Rightarrow> Inr None
      | Some JNull \<Rightarrow> Inr None
      | Some (JObj d) \<Rightarrow> Inr (Some (JObj d))
      | _ \<Rightarrow> Inl (ValueError ''Input should be a valid dictionary''))"

text \<open>\<open>OrderRead\<close>: the row, with its payloads read and the name of the stock beside it.\<close>

record order_read =
  or_order :: order
  or_stock_name :: str

definition order_read_of :: "(str \<Rightarrow> json option) \<Rightarrow> order \<Rightarrow> order_read result" where
  "order_read_of loads row =
     bind_result (dict_or_none (parse_json_fields loads (o_request_payload row))) (\<lambda>request.
     bind_result (dict_or_none (parse_json_fields loads (o_submit_response_payload row))) (\<lambda>response.
       Inr \<lparr>or_order = row\<lparr>o_request_payload := request, o_submit_response_payload := response\<rparr>,
            or_stock_name = ''''\<rparr>))"

fun order_reads :: "(str \<Rightarrow> json option) \<Rightarrow> orders \<Rightarrow> order_read list result" where
  "order_reads loads [] = Inr []"
| "order_reads loads (row # rows) =
     bind_result (order_read_of loads row) (\<lambda>x. bind_result (order_reads loads rows) (\<lambda>xs. Inr (x # xs)))"

definition with_stock_name :: "(str \<times> str) list \<Rightarrow> order_read \<Rightarrow> order_read" where
  "with_stock_name name_map x =
     x\<lparr>or_stock_name := or_text (dict_get name_map (o_stock_code (or_order x))) ''''\<rparr>"

definition get_order_list ::
  "(str \<Rightarrow> json option) \<Rightarrow> corp_entry list result \<Rightarrow> orders \<Rightarrow> order_read list result"
where
  "get_order_list loads archive db =
     bind_result (load_stock_name_map archive) (\<lambda>name_map.
     bind_result (order_reads loads (get_all_orders db)) (\<lambda>reads. Inr (map (with_stock_name name_map) reads)))"

definition get_order_list_by_stock_code ::
  "(str \<Rightarrow> json option) \<Rightarrow> orders \<Rightarrow> str \<Rightarrow> order_read list result"
where
  "get_order_list_by_stock_code loads db stock_code = order_reads loads (get_orders_by_symbol db stock_code)"

text \<open>The status is any text of the path; rows with it exist only if it is the text of a status.\<close>

definition get_order_list_by_status ::
  "(str \<Rightarrow> json option) \<Rightarrow> orders \<Rightarrow> str \<Rightarrow> order_read list result"
where
  "get_order_list_by_status loads db status =
     order_reads loads
       (case List.find (\<lambda>s. status_value s = status) all_statuses of
          None \<Rightarrow> []
        | Some s \<Rightarrow> get_orders_by_status db s)"

definition get_order_list_by_order_action ::
  "(str \<Rightarrow> json option) \<Rightarrow> orders \<Rightarrow> str \<Rightarrow> order_read list result"
where
  "get_order_list_by_order_action loads db order_action = order_reads loads (get_orders_by_order_action db order_action)"

section \<open>Performance\<close>

definition api_performance ::
  "perf_env \<Rightarrow> perf_db \<Rightarrow> int \<Rightarrow> int option \<Rightarrow> int option \<Rightarrow> performance_read result"
where
  "api_performance env db today start_date as_of_date =
     (case start_date of
        Some d \<Rightarrow> get_performance env db today d as_of_date
      | None \<Rightarrow>
          (let rebalance_dates = get_completed_rebalance_dates (pf_rebalances db) (day_of 1 1 1)
                                   (case as_of_date of None \<Rightarrow> today | Some d \<Rightarrow> d)
           in if rebalance_dates = [] then Inr empty_performance
              else get_performance env db today (Min (set rebalance_dates)) as_of_date))"

section \<open>Lemmas\<close>

lemma dry_run_places_nothing:
  assumes "submit_rebalance g env sr True w = Some (res, w')"
    and "ge_uuid env 0 \<notin> rb_id ` set (rw_rebalances w)"
  shows "inquires_only (rw_world w) (rw_world w') \<and> rw_rebalances w' = rw_rebalances w"
proof -
  obtain r w1 where p: "plan_rebalance (ge_worker env) sr (rw_world w) = Some (r, w1)"
    using assms(1) by (cases "plan_rebalance (ge_worker env) sr (rw_world w)") (auto simp: submit_rebalance_def Let_def)
  note reads = plan_inquires [OF p]
  show ?thesis
  proof (cases r)
    case (Inl e)
    then show ?thesis using assms p reads
      by (auto simp: submit_rebalance_def Let_def send_rebalance_alert_def mark_failed_absent)
  next
    case (Inr dc)
    then show ?thesis using assms(1) p reads by (cases dc) (auto simp: submit_rebalance_def Let_def)
  qed
qed

text \<open>The order list needs DART: when the archive cannot be read, no list is answered.\<close>

lemma order_list_needs_dart: "get_order_list loads (Inl e) db = Inl e"
  by (simp add: get_order_list_def load_stock_name_map_def)

text \<open>The list answers every row of the table once, the newest first.\<close>

lemma order_reads_rows:
  "order_reads loads rows = Inr xs \<Longrightarrow>
     map (\<lambda>x. o_id (or_order x)) xs = map o_id rows \<and> map (\<lambda>x. o_status (or_order x)) xs = map o_status rows"
proof (induction rows arbitrary: xs)
  case (Cons row rows)
  then obtain x ys where x: "order_read_of loads row = Inr x" "order_reads loads rows = Inr ys" "xs = x # ys"
    by (auto simp: bind_result_Inr_iff)
  have "o_id (or_order x) = o_id row \<and> o_status (or_order x) = o_status row"
    using x(1) by (auto simp: order_read_of_def bind_result_Inr_iff)
  with Cons.IH [OF x(2)] x(3) show ?case by simp
qed simp

lemma order_list_complete:
  assumes "get_order_list loads archive db = Inr xs"
  shows "map (\<lambda>x. o_id (or_order x)) xs = map o_id (get_all_orders db)"
proof -
  obtain name_map reads where r: "order_reads loads (get_all_orders db) = Inr reads"
    "xs = map (with_stock_name name_map) reads"
    using assms by (auto simp: get_order_list_def bind_result_Inr_iff)
  then have "map (\<lambda>x. o_id (or_order x)) xs = map (\<lambda>x. o_id (or_order x)) reads"
    by (simp add: with_stock_name_def)
  with order_reads_rows [OF r(1)] show ?thesis by simp
qed

section \<open>Property\<close>

text \<open>
  C27. A rebalancing started by hand as a dry run, the default, places nothing: whatever its outcome,
  the orders table, the queue of the workers, the published updates and the table of rebalancings are as
  before (its id being new), and the requests the account service sends the broker are inquiries
  (\<open>GET\<close>), never an order.  (A token may be requested as well.)
\<close>

theorem dry_run_request_places_nothing:
  assumes "api_run_rebalance show_rank executed_at env stype strategy year True w = Some (ans, w')"
    and "ge_uuid env 0 \<notin> rb_id ` set (rw_rebalances w)"
  shows "w_db (rw_world w') = w_db (rw_world w) \<and> w_queue (rw_world w') = w_queue (rw_world w)
         \<and> w_published (rw_world w') = w_published (rw_world w) \<and> rw_rebalances w' = rw_rebalances w
         \<and> (\<exists>rqs. w_posts (rw_world w') = w_posts (rw_world w) @ rqs \<and> (\<forall>rq \<in> set rqs. rq_method rq = ''GET''))"
proof -
  obtain r where o: "orchestrate env stype strategy year True w = Some (r, w')"
    using assms(1) by (auto simp: api_run_rebalance_def)
  define y where "y = (case year of None \<Rightarrow> infer_latest_available_fiscal_year (kst_date (e_now (ge_worker env))) | Some y \<Rightarrow> y)"
  have "inquires_only (rw_world w) (rw_world w') \<and> rw_rebalances w' = rw_rebalances w"
  proof (cases "w' = w")
    case False
    then obtain g sr res where "submit_rebalance g env sr True w = Some (res, w')"
      using o by (auto simp: orchestrate_def y_def [symmetric] Let_def split: sum.splits)
    with dry_run_places_nothing assms(2) show ?thesis by blast
  qed simp
  then show ?thesis by (simp add: inquires_only_def)
qed

theorem dry_run_request_places_nothing_witness:
  "\<exists>ans w'. api_run_rebalance (\<lambda>_. ''1'') ''t'' (example_gen_env example_account) StrategyREBALANCE
       (\<lambda>_. Inr example_strategy) (Some 2025) True (example_rworld False) = Some (ans, w')
     \<and> w_db (rw_world w') = w_db (rw_world (example_rworld False)) \<and> rw_rebalances w' = []"
proof -
  let ?env = "example_gen_env example_account" and ?w = "example_rworld False"
  obtain diff w2 where p: "plan_rebalance (example_env example_account) example_strategy (example_world False)
      = Some (Inr (diff, 1000), w2)" using example_plan by blast
  then obtain g where "get_executor StrategyREBALANCE (e_settings (ge_worker ?env)) = Inr g"
    "\<exists>x. submit_rebalance g ?env example_strategy True ?w = Some x"
    by (auto simp: get_executor_def submit_rebalance_def example_gen_env_def example_rworld_def Let_def)
  then have "\<exists>ans w'. api_run_rebalance (\<lambda>_. ''1'') ''t'' ?env StrategyREBALANCE (\<lambda>_. Inr example_strategy) (Some 2025) True ?w
      = Some (ans, w')"
    by (auto simp: api_run_rebalance_def orchestrate_def)
  then obtain ans w' where a: "api_run_rebalance (\<lambda>_. ''1'') ''t'' ?env StrategyREBALANCE (\<lambda>_. Inr example_strategy)
      (Some 2025) True ?w = Some (ans, w')"
    by (elim exE)
  have "ge_uuid ?env 0 \<notin> rb_id ` set (rw_rebalances ?w)" by (simp add: example_rworld_def)
  from dry_run_request_places_nothing [OF a this] a show ?thesis
    by (intro exI [of _ ans] exI [of _ w']) (simp add: example_rworld_def)
qed

end
