(* ===== verification/Filters.thy ===== *)
theory Filters
  imports Momentum
begin

text \<open>
  Filters and signals beside the default strategy: the valuation filter
  (\<^verbatim>\<open>app/strategy/filter/valuation_filter.py\<close>), the crossing of two moving averages
  (\<^verbatim>\<open>app/strategy/signals/ma_cross.py\<close>) and the check of a price frame (\<^verbatim>\<open>app/strategy/runtime/guards.py\<close>).
  The rolling mean is pandas' (\<open>rolling_mean window closes\<close>, one cell per row).
\<close>

section \<open>The valuation filter\<close>

text \<open>\<open>metric\<close> is the column of the rows the filter looks at; its log takes nothing from the rows.\<close>

definition valuation_filter :: "(rat list \<Rightarrow> nat list) \<Rightarrow> int \<Rightarrow> ('a \<Rightarrow> cell) \<Rightarrow> 'a list \<Rightarrow> 'a list" where
  "valuation_filter argsort top_n metric df_screened =
     (let df_valid = filter (\<lambda>r. cell_less (Some 0) (metric r)) df_screened
      in head_rows top_n (sort_values argsort True metric df_valid))"

lemma valuation_filter_positive:
  assumes "sorting argsort" and "0 \<le> top_n"
  shows "length (valuation_filter argsort top_n metric rows) \<le> nat top_n"
    and "r \<in> set (valuation_filter argsort top_n metric rows) \<Longrightarrow> r \<in> set rows \<and> (\<exists>x. metric r = Some x \<and> 0 < x)"
proof -
  show "length (valuation_filter argsort top_n metric rows) \<le> nat top_n"
    using assms(2) by (simp add: valuation_filter_def head_rows_length)
  assume "r \<in> set (valuation_filter argsort top_n metric rows)"
  then have "r \<in> set (filter (\<lambda>r. cell_less (Some 0) (metric r)) rows)"
    using subsetD [OF head_rows_subset] sorting.sort_values_set [OF assms(1)]
    by (fastforce simp: valuation_filter_def)
  then show "r \<in> set rows \<and> (\<exists>x. metric r = Some x \<and> 0 < x)" by (cases "metric r") auto
qed

section \<open>Crossing averages\<close>

text \<open>\<open>shift(1)\<close>: the values one row later, the first row without one.\<close>

definition shift_one :: "cell list \<Rightarrow> cell list" where
  "shift_one xs = (if xs = [] then [] else None # butlast xs)"

text \<open>The sell mark is written after the buy mark.\<close>

definition cross_signal :: "cell \<Rightarrow> cell \<Rightarrow> cell \<Rightarrow> cell \<Rightarrow> strategy_signal" where
  "cross_signal short_before long_before short long =
     (if cell_le long_before short_before \<and> cell_less short long then SignalSELL
      else if cell_le short_before long_before \<and> cell_less long short then SignalBUY
      else SignalHOLD)"

definition ma_cross_signal :: "(nat \<Rightarrow> cell list \<Rightarrow> cell list) \<Rightarrow> nat \<Rightarrow> nat \<Rightarrow> cell list \<Rightarrow> strategy_signal list" where
  "ma_cross_signal rolling_mean short_window long_window closes =
     (let ma_short = rolling_mean short_window closes;
          ma_long = rolling_mean long_window closes
      in map (\<lambda>(sb, lb, s, l). cross_signal sb lb s l)
           (zip (shift_one ma_short) (zip (shift_one ma_long) (zip ma_short ma_long))))"

text \<open>A row is never marked both ways, and the first row, with nothing before it, is held.\<close>

lemma cross_signal_exclusive:
  "\<not> (cell_le lb sb \<and> cell_less s l \<and> cell_le sb lb \<and> cell_less l s)"
  by (cases s; cases l) auto

lemma first_row_held: "cross_signal None lb s l = SignalHOLD"
  by (cases lb) (simp_all add: cross_signal_def)

section \<open>The check of a price frame\<close>

fun missing_column :: "str list \<Rightarrow> str list \<Rightarrow> str option" where
  "missing_column columns [] = None"
| "missing_column columns (c # required) =
     (if c \<notin> set columns then Some c else missing_column columns required)"

definition validate_ohlcv :: "str list \<Rightarrow> 'a list \<Rightarrow> unit result" where
  "validate_ohlcv columns rows =
     (case missing_column columns [''Open'', ''High'', ''Low'', ''Close'', ''Volume''] of
        Some c \<Rightarrow> Inl (ValueError (''Missing column: '' @ c))
      | None \<Rightarrow> if rows = [] then Inl (ValueError ''Empty OHLCV data'') else Inr ())"

lemma missing_column_none: "missing_column columns required = None \<longleftrightarrow> set required \<subseteq> set columns"
  by (induction required) auto

lemma validate_ohlcv_accepts:
  "is_ok (validate_ohlcv columns rows)
     \<longleftrightarrow> {''Open'', ''High'', ''Low'', ''Close'', ''Volume''} \<subseteq> set columns \<and> rows \<noteq> []"
proof -
  let ?required = "[''Open'', ''High'', ''Low'', ''Close'', ''Volume'']"
  have "is_ok (validate_ohlcv columns rows) \<longleftrightarrow> missing_column columns ?required = None \<and> rows \<noteq> []"
    by (simp add: validate_ohlcv_def del: missing_column.simps split: option.split)
  then show ?thesis unfolding missing_column_none by simp
qed

end
