(* ===== verification/Market_Summary.thy ===== *)
theory Market_Summary
  imports Pandas Py_Time
begin

text \<open>
  The market summary (\<^verbatim>\<open>app/services/market/market_service.py\<close>, \<^verbatim>\<open>app/api/router_market.py\<close>).  The provider
  is a parameter: the frame of an index as its rows, a day with the columns by name.  \<open>show_cell\<close> is
  the text numpy gives a number.
\<close>

type_synonym index_row = "int \<times> (str \<times> cell) list"

type_synonym index_provider = "str \<Rightarrow> str \<Rightarrow> str \<Rightarrow> index_row list result"

datatype market_index_code = KOSPI | KOSDAQ | KOSPI200

fun index_code_name :: "market_index_code \<Rightarrow> str" where
  "index_code_name KOSPI = ''KOSPI''"
| "index_code_name KOSDAQ = ''KOSDAQ''"
| "index_code_name KOSPI200 = ''KOSPI200''"

fun index_code_value :: "market_index_code \<Rightarrow> str" where
  "index_code_value KOSPI = ''KS11''"
| "index_code_value KOSDAQ = ''KQ11''"
| "index_code_value KOSPI200 = ''KS200''"

definition SUMMARY_INDEX_CODES :: "market_index_code list" where
  "SUMMARY_INDEX_CODES = [KOSPI, KOSDAQ]"

definition DEFAULT_INDEX_PERIOD_DAYS :: int where "DEFAULT_INDEX_PERIOD_DAYS = 14"

text \<open>\<open>strftime("%Y-%m-%d")\<close> of a day, for the four-digit years.\<close>

definition day_text :: "int \<Rightarrow> str" where
  "day_text d = (let (y, m, dd) = civil_of d in show_int y @ ''-'' @ pad2 m @ ''-'' @ pad2 dd)"

definition resolve_period :: "int \<Rightarrow> str option \<Rightarrow> str option \<Rightarrow> int \<Rightarrow> str \<times> str" where
  "resolve_period today start stop default_days =
     ((case start of None \<Rightarrow> day_text (today - default_days) | Some s \<Rightarrow> s),
      (case stop of None \<Rightarrow> day_text today | Some s \<Rightarrow> s))"

record index_ohlcv =
  ix_base_date :: str
  ix_open_price :: str
  ix_high_price :: str
  ix_low_price :: str
  ix_close_price :: str
  ix_up_down :: str
  ix_change_amount :: str
  ix_change_rate :: str
  ix_volume :: str
  ix_trade_amount :: str
  ix_market_cap :: str

definition column_of :: "(str \<times> cell) list \<Rightarrow> str \<Rightarrow> cell result" where
  "column_of row c = (case dict_get row c of None \<Rightarrow> Inl (LibError ''KeyError'' c) | Some v \<Rightarrow> Inr v)"

text \<open>The columns are read in the order of the code; the change is shown in per cent, to two digits.\<close>

definition build_index_ohlcv :: "(cell \<Rightarrow> str) \<Rightarrow> index_row \<Rightarrow> index_ohlcv result" where
  "build_index_ohlcv show_cell r =
     bind_result (column_of (snd r) ''Open'') (\<lambda>o1. bind_result (column_of (snd r) ''High'') (\<lambda>h.
     bind_result (column_of (snd r) ''Low'') (\<lambda>l. bind_result (column_of (snd r) ''Close'') (\<lambda>c.
     bind_result (column_of (snd r) ''UpDown'') (\<lambda>u. bind_result (column_of (snd r) ''Comp'') (\<lambda>d.
     bind_result (column_of (snd r) ''Change'') (\<lambda>x. bind_result (column_of (snd r) ''Volume'') (\<lambda>v.
     bind_result (column_of (snd r) ''Amount'') (\<lambda>a. bind_result (column_of (snd r) ''MarCap'') (\<lambda>m.
       Inr \<lparr>ix_base_date = day_text (fst r), ix_open_price = show_cell o1, ix_high_price = show_cell h,
            ix_low_price = show_cell l, ix_close_price = show_cell c, ix_up_down = show_cell u,
            ix_change_amount = show_cell d, ix_change_rate = show_cell (map_option (\<lambda>y. py_round 2 (fl (y * 100))) x),
            ix_volume = show_cell v, ix_trade_amount = show_cell a, ix_market_cap = show_cell m\<rparr>))))))))))"

record market_index =
  mi_name :: str
  mi_base_date :: str
  mi_close_price :: str
  mi_change_amount :: str
  mi_change_rate :: str

definition build_market_index :: "market_index_code \<Rightarrow> index_ohlcv \<Rightarrow> market_index" where
  "build_market_index code x =
     \<lparr>mi_name = index_code_name code, mi_base_date = ix_base_date x, mi_close_price = ix_close_price x,
      mi_change_amount = ix_change_amount x, mi_change_rate = ix_change_rate x\<rparr>"

text \<open>The last row of the frame, in the order of the provider.\<close>

definition get_index_ohlcv ::
  "(cell \<Rightarrow> str) \<Rightarrow> index_provider \<Rightarrow> int \<Rightarrow> str \<Rightarrow> str option \<Rightarrow> str option \<Rightarrow> index_ohlcv result"
where
  "get_index_ohlcv show_cell get_ohlcv today index_code start stop =
     (let (s, e) = resolve_period today start stop DEFAULT_INDEX_PERIOD_DAYS
      in bind_result (get_ohlcv index_code s e) (\<lambda>df.
           if df = [] then Inl (ValueError (''no OHLCV data of the index '' @ index_code))
           else build_index_ohlcv show_cell (last df)))"

definition try_get_index_ohlcv :: "(cell \<Rightarrow> str) \<Rightarrow> index_provider \<Rightarrow> int \<Rightarrow> market_index_code \<Rightarrow> index_ohlcv option" where
  "try_get_index_ohlcv show_cell get_ohlcv today code =
     (case get_index_ohlcv show_cell get_ohlcv today (index_code_value code) None None of
        Inl _ \<Rightarrow> None
      | Inr x \<Rightarrow> Some x)"

definition get_market_summary :: "(cell \<Rightarrow> str) \<Rightarrow> index_provider \<Rightarrow> int \<Rightarrow> market_index list" where
  "get_market_summary show_cell get_ohlcv today =
     concat (map (\<lambda>code. case try_get_index_ohlcv show_cell get_ohlcv today code of
                           None \<Rightarrow> []
                         | Some x \<Rightarrow> [build_market_index code x]) SUMMARY_INDEX_CODES)"

section \<open>Lemmas\<close>

text \<open>
  The failure of one index leaves the other: the summary holds an index exactly when its own
  inquiry succeeds, whatever becomes of the others.
\<close>

lemma summary_index_independent:
  "(\<exists>x \<in> set (get_market_summary show_cell get_ohlcv today). mi_name x = index_code_name code)
     \<longleftrightarrow> code \<in> set SUMMARY_INDEX_CODES \<and> is_ok (get_index_ohlcv show_cell get_ohlcv today (index_code_value code) None None)"
proof -
  have i: "index_code_name a = index_code_name b \<longleftrightarrow> a = b" for a b
    by (cases a; cases b) simp_all
  have t: "try_get_index_ohlcv show_cell get_ohlcv today c \<noteq> None
      \<longleftrightarrow> is_ok (get_index_ohlcv show_cell get_ohlcv today (index_code_value c) None None)" for c
    by (cases "get_index_ohlcv show_cell get_ohlcv today (index_code_value c) None None")
      (simp_all add: try_get_index_ohlcv_def)
  have m: "x \<in> set (get_market_summary show_cell get_ohlcv today) \<longleftrightarrow>
      (\<exists>c \<in> set SUMMARY_INDEX_CODES. \<exists>y. try_get_index_ohlcv show_cell get_ohlcv today c = Some y \<and> x = build_market_index c y)" for x
    unfolding get_market_summary_def set_concat set_map UN_iff bex_simps(7)
    by (intro bex_cong refl) (rename_tac c, case_tac "try_get_index_ohlcv show_cell get_ohlcv today c", simp_all)
  have n: "mi_name (build_market_index c y) = index_code_name c" for c y
    by (simp add: build_market_index_def)
  have "(\<exists>x \<in> set (get_market_summary show_cell get_ohlcv today). mi_name x = index_code_name code)
      \<longleftrightarrow> code \<in> set SUMMARY_INDEX_CODES \<and> try_get_index_ohlcv show_cell get_ohlcv today code \<noteq> None"
    unfolding Bex_def m using n i by (auto; metis)
  then show ?thesis using t by simp
qed

lemma summary_length: "length (get_market_summary show_cell get_ohlcv today) \<le> 2"
  by (simp add: get_market_summary_def SUMMARY_INDEX_CODES_def split: option.splits)

end
