(* ===== verification/Spec2Isabelle.thy ===== *)
theory Spec2Isabelle
  imports Prelude Order_State Py_Number Py_Float Py_Time Order_Repository Redis_Lock Kis_Order Auth_Service
    Trade_Service Worker_World Submit_Worker Track_Worker Position_Diff Kis_Account Account_Service
    Order_Generator Rebalance_Repository Market_Calendar Rebalance_Executor Tasks_Rebalance Recovery Pipeline
    Order_Api Snapshot Rebalance_Query Pandas Universe Dart Fscore Momentum Metrics Performance Swing Backtest Backtest_Metrics
    Realtime Websocket Discord Summaries Query_Api Filters Market_Summary
begin

text \<open>
  A model of the autotrading system under \<^verbatim>\<open>src/app\<close>: a strategy selects stocks, a rebalancing turns the
  selection into orders, workers submit the orders to the KIS broker and track them, snapshots and
  queries report on the result.  Every definition is translated from the Python source; the parts a
  definition models are named in the text of its theory.

  \<^bold>\<open>The program and its parts.\<close>  A rebalancing starts from the API (\<^verbatim>\<open>api/router_strategy.py\<close>) or from the
  Celery beat (\<^verbatim>\<open>worker/tasks_rebalance.py\<close>), which has gates: the kill switch, a Redis lock, the market calendar
  and window, one run per month.  The orchestrator runs the strategy (\<^verbatim>\<open>strategy/strategies\<close>: F-score screening over
  DART statements, momentum signal over daily closes) and the executor (\<^verbatim>\<open>strategy/runtime\<close>), which reads the
  account, computes the position difference and, unless dry, runs the order generator: sales first,
  a wait for their fills, purchases within the cash that is there, a wait, cancellation of what is left.
  An order is a row of \<open>orders\<close> and a message on a queue.  Worker 1 (\<^verbatim>\<open>worker/tasks_order.py\<close>) claims and submits it
  through the trade service and the broker client; worker 2 (\<^verbatim>\<open>worker/tasks_order_status.py\<close>) polls the broker until
  the order ends and then queues the portfolio snapshot.  Orders also enter through the API
  (\<^verbatim>\<open>api/router_order.py\<close>).  At a start of the workers the recovery (\<^verbatim>\<open>worker/recovery.py\<close>) queues what is unfinished.
  Every change of an order is published and relayed to the connected clients (\<^verbatim>\<open>websocket\<close>); results and failures
  are announced on Discord (\<^verbatim>\<open>utils/discord.py\<close>); the report (\<^verbatim>\<open>services/metrics\<close>) rebuilds the value of the account
  from its snapshots.  Beside this run the client of the broker's real-time prices (\<^verbatim>\<open>market/realtime\<close>) and,
  off line, the backtests (\<^verbatim>\<open>strategy/backtest\<close>), for which the swing strategy is written.

  \<^bold>\<open>Theories.\<close>
  \<^item> \<open>Prelude\<close>, \<open>Py_Number\<close>, \<open>Py_Float\<close>, \<open>Py_Time\<close>, \<open>Pandas\<close>: texts, JSON, exceptions as values; \<open>int\<close> and
    \<open>Decimal\<close> of texts; binary64 floats as rationals with rounding (locale \<open>rounding\<close>); dates; frames, ranks
    and sorting (locale \<open>sorting\<close>, what numpy promises of a sort).
  \<^item> \<open>Order_State\<close> (\<^verbatim>\<open>core/enums.py\<close>, \<^verbatim>\<open>domain/order_state.py\<close>): statuses, the transition table, histories.
  \<^item> \<open>Order_Repository\<close> (\<^verbatim>\<open>repository/order_repository.py\<close>): the table as a list of rows, each statement a
    function; conditional updates, the lost-update guard.
  \<^item> \<open>Redis_Lock\<close> (\<^verbatim>\<open>utils/distributed_lock.py\<close>, \<^verbatim>\<open>services/safety\<close>): Redis keys with expiry, the lock (locales \<open>mutex\<close>
    and \<open>redis_flag\<close>), the kill switch.
  \<^item> \<open>Kis_Order\<close>, \<open>Kis_Account\<close>, \<open>Auth_Service\<close>, \<open>Trade_Service\<close>, \<open>Account_Service\<close> (\<^verbatim>\<open>broker/kis\<close>, \<^verbatim>\<open>services/kis\<close>): requests,
    retries, answers, tokens, validation, paging.
  \<^item> \<open>Worker_World\<close>, \<open>Submit_Worker\<close>, \<open>Track_Worker\<close>: the world both workers act on and their handlers, phase by
    phase.  \<open>Pipeline\<close>: any number of workers interleaving these phases with redelivery, crashes,
    recovery and new orders, as a step relation.
  \<^item> \<open>Position_Diff\<close>, \<open>Order_Generator\<close>, \<open>Rebalance_Repository\<close>, \<open>Market_Calendar\<close>, \<open>Rebalance_Executor\<close>,
    \<open>Tasks_Rebalance\<close>, \<open>Recovery\<close>: the rebalancing and what surrounds it.
  \<^item> \<open>Universe\<close>, \<open>Dart\<close>, \<open>Fscore\<close>, \<open>Momentum\<close>: the selection of stocks, up to the default strategy.
    The universe of a past day, for backtests, is in \<open>Universe\<close>.
  \<^item> \<open>Order_Api\<close>, \<open>Snapshot\<close>, \<open>Rebalance_Query\<close>, \<open>Query_Api\<close>: the intake of orders, the portfolio snapshots, the
    queries and their endpoints, the start of a rebalancing by hand.
  \<^item> \<open>Metrics\<close>, \<open>Performance\<close> (\<^verbatim>\<open>strategy/metrics\<close>, \<^verbatim>\<open>services/metrics\<close>): returns, drawdowns, ratios, turnover; the
    series of net asset values from snapshots and closes, and the report.
  \<^item> \<open>Swing\<close>, \<open>Backtest\<close>, \<open>Backtest_Metrics\<close> (\<^verbatim>\<open>strategy/strategies/reversal_volume_strategy.py\<close>,
    \<^verbatim>\<open>strategy/backtest\<close>): the scan for reversals, live and over loaded data, exits and sizes; the two loops of the
    executor, day by day, and the older runner; the metrics and the run as a whole.
  \<^item> \<open>Realtime\<close> (\<^verbatim>\<open>market/realtime\<close>): frames, subscriptions, messages and the loop that reconnects, over a script of
    what the environment does.  \<open>Websocket\<close> (\<^verbatim>\<open>websocket\<close>): messages, connections, the relay.
  \<^item> \<open>Discord\<close>, \<open>Summaries\<close> (\<^verbatim>\<open>utils/discord.py\<close>, \<^verbatim>\<open>schemas/strategy/trading.py\<close>): cards and summaries as lists of code
    points, and what becomes of a webhook.  \<open>Filters\<close>, \<open>Market_Summary\<close>: filters and signals beside the default strategy, the
    summary of the indices.

  \<^bold>\<open>State.\<close>  A row of a table is a record with the columns of its model, a table a list of rows in the order
  of insertion; Redis is a map from keys to values with an expiry; the Celery queue, the requests the order
  and account services send the broker, the token requests and the published rows are logs in \<open>world\<close>, so that a
  statement about requests or messages is one about lists.  A handler takes the world and returns it with a result, \<open>Inl\<close> an exception or \<open>Inr\<close>
  a value; each phase is one transaction of the code.

  \<^bold>\<open>Parameters and hypotheses.\<close>  The network is a function from a request and its number to an outcome;
  SHA-256, QuantLib, \<open>uuid4\<close> (a stream of ids), FinanceDataReader, DART and the sort of numpy are arguments.  Where a
  property needs a law of them it is a hypothesis of the property (ids not used before, \<open>sorting\<close>), and its
  witness instantiates it.  Handlers run at one time \<open>e_now\<close>; waits let other processes act through an
  argument.

  \<^bold>\<open>What is shown.\<close>  For orders: under any interleaving no order is submitted again once a submission of it was
  answered with success (one call may post more than once: \<open>cash_loop\<close> repeats a request whose answer was
  lost), statuses along the state machine
  only, one transition per update, refinement of an abstract life cycle, the exact effect of each handler on success, and what it does
  on each failure.  For money: purchases stay within budget and cash although they are computed in floats.
  For the selection: what screening and signal let through, and how many; the universe of a past day does not look
  at present market values.  For the report: each value is the cash and the holdings of the snapshot in force at the last
  closes, and a drawdown lasts as long as it should.  For the backtests: the state stays well formed, cooldowns are kept, and the live
  scan agrees with the one over loaded data.  For the infrastructure: mutual exclusion,
  tokens, paging, recovery, termination of waits; when the price client gives up; price frames are read back as
  they were built; a client that stays connected is sent every update the relay receives, once and in order.  Several properties state what the code does where
  that is not what it means to do; the text of the property says so.

  \<^bold>\<open>Bounds.\<close>  HTTP requests are tried three times (the code's constant); a chain of tracking runs that starts from the task a
  submission or a recovery queues has at most 43 runs; a wait for fills takes at most 38 looks at the table, the one that decides
  after the timeout and that of the cancellation included; all three are proved.  The paging loop of the balance may never end: it is a partial function into \<open>option\<close>, with
  a property for the case that it ends and a lemma for one where it does not.  The loop of the price client is
  run over a finite script of connection attempts: a loop without an end outlives every script.

  \<^bold>\<open>Not modelled.\<close>  Log lines, and the wording of errors; pydantic schemas beyond the fields read; the plots of the
  backtests (pure output of a library); the downloads and disk caches of market data;
  the codes of \<^verbatim>\<open>broker/kis/enums.py\<close> that no request uses; settings, sessions and process start-up.
\<close>

section \<open>Properties across components\<close>

text \<open>
  C20. What a dry run of an order endpoint leads to: the order is stored and not queued, but the next
  start of a worker recovers it like any other pending order and queues it for submission.
\<close>

theorem dry_run_order_is_recovered:
  assumes "endpoint \<in> {api_buy env oid code q ty price, api_sell env oid code q ty price,
                       api_cancel env oid k q, api_revise env oid k q ty price}"
    and "endpoint True w = (Inr a, w1)" and "\<not> locked RECOVERY_LOCK_KEY now (w_redis w1)"
  shows "w_queue w1 = w_queue w
    \<and> (\<exists>w2. recover_all_orders now rf w1 = (Inr (), w2) \<and> ProcessOrder oid 0 \<in> set (w_queue w2))"
proof -
  from order_intake.effect [OF every_intake [OF assms(1)], where dry_run = True and w = w] assms(2)
  obtain r where r: "wf_intake oid q r" "w_db w1 = w_db w @ [r]" "w_queue w1 = w_queue w" by auto
  then have "r \<in> set (get_recoverable_submit_orders (w_db w1))" "o_id r = oid"
    by (simp_all add: get_recoverable_submit_orders_def wf_intake_def)
  then have "ProcessOrder oid 0 \<in> set (recovery_tasks (w_db w1))" by (auto simp: recovery_tasks_def)
  with recovery_run [OF assms(3), of rf] r(3) show ?thesis by auto
qed

text \<open>A dry run of a purchase of seven shares.\<close>

theorem dry_run_order_is_recovered_witness:
  "\<exists>(w1::world) w2. w_queue w1 = [] \<and> recover_all_orders 9 False w1 = (Inr (), w2) \<and> ProcessOrder ''o2'' 0 \<in> set (w_queue w2)"
proof -
  let ?env = "example_env (\<lambda>_ _. NetworkError '''')"
  let ?buy = "api_buy ?env ''o2'' ''005930'' 7 MARKET (Dec 0 0)"
  have "validate_order_request ''005930'' 7 MARKET (Dec 0 0) = Inr ()"
    by (simp add: validate_order_request_def validate_price_def isdigit_def is_digit_def)
  then have "\<exists>a w1. ?buy True working_world = (Inr a, w1) \<and> w_redis w1 = w_redis working_world"
    by (simp add: api_buy_def accept_order_def create_order_def intake_order_def new_order_def working_world_def
        working_order_def example_order_def Let_def step_simps)
  then obtain a w1 where w1: "?buy True working_world = (Inr a, w1)" "w_redis w1 = w_redis working_world" by blast
  have "\<not> locked RECOVERY_LOCK_KEY 9 (w_redis w1)"
    by (simp add: w1(2) working_world_def example_world_def locked_def redis_get_def RECOVERY_LOCK_KEY_def TOKEN_CACHE_KEY_def KILL_SWITCH_KEY_def)
  from dry_run_order_is_recovered [where endpoint = ?buy and env = ?env and oid = "''o2''" and code = "''005930''" and q = 7
      and ty = MARKET and price = "Dec 0 0", OF _ w1(1) this, of undefined False]
  show ?thesis by (auto simp: working_world_def example_world_def)
qed

end
